(* ===== verification/Farm_Prelude.thy ===== *)
theory Farm_Prelude
  imports Main "HOL-Library.Char_ord" "HOL-Library.List_Lexorder" "HOL-Library.Product_Lexorder"
begin

text \<open>
  Shared vocabulary of the development: results with errors as values, transactions over an
  explicit state, tables as lists of rows with the three access patterns the SQL of the program
  uses (filter, conditional update, first row of an ordering), and the few operations on byte
  strings that the Go code calls (\<open>strings.TrimSpace\<close>, \<open>strings.ToLower\<close>, prefixes,
  the identifier pattern).  A Go string is a byte sequence, so it is a HOL \<open>string\<close> whose
  characters are bytes.
\<close>

named_theorems table_simps \<open>rewriting of table accesses\<close>
named_theorems result_intros \<open>introduction rules for successful computations\<close>

section \<open>Time\<close>

text \<open>
  A point in time is an integer number of nanoseconds since the Go zero time, so that
  \<open>time.Time.IsZero\<close> is equality with 0; a \<open>time.Duration\<close> is an integer number of
  nanoseconds.  Values are unbounded.
\<close>

type_synonym timestamp = int
type_synonym duration = int

definition second :: duration where
  "second = 1000000000"

definition is_zero_time :: "timestamp \<Rightarrow> bool" where
  "is_zero_time t \<longleftrightarrow> t = 0"

text \<open>Go integer division by a positive divisor: the quotient of the magnitude keeps the sign.\<close>

definition trunc_div :: "int \<Rightarrow> int \<Rightarrow> int" where
  "trunc_div n d = (if n < 0 then - (- n div d) else n div d)"

lemma trunc_div_nonneg [simp]: "0 \<le> n \<Longrightarrow> trunc_div n d = n div d"
  by (simp add: trunc_div_def)

lemma second_pos [simp]: "0 < second"
  by (simp add: second_def)

text \<open>
  Whole seconds of a duration never exceed it: the sweeps pass durations to SQL in whole seconds
  and compare exact durations in Go.
\<close>

lemma whole_seconds_le: "0 \<le> d \<Longrightarrow> trunc_div d second * second \<le> d"
  by (simp add: second_def)

section \<open>Results and transactions\<close>

type_synonym ('e, 'a) result = "'e + 'a"

fun result_bind :: "('e, 'a) result \<Rightarrow> ('a \<Rightarrow> ('e, 'b) result) \<Rightarrow> ('e, 'b) result" where
  "result_bind (Inl e) f = Inl e"
| "result_bind (Inr a) f = f a"

lemma result_bind_Inr_iff [simp]:
  "result_bind m f = Inr b \<longleftrightarrow> (\<exists>a. m = Inr a \<and> f a = Inr b)"
  by (cases m) auto

lemma result_bind_Inl_iff:
  "result_bind m f = Inl e \<longleftrightarrow> m = Inl e \<or> (\<exists>a. m = Inr a \<and> f a = Inl e)"
  by (cases m) auto

lemma result_bind_cong [fundef_cong]:
  "m = m' \<Longrightarrow> (\<And>a. m' = Inr a \<Longrightarrow> f a = f' a) \<Longrightarrow> result_bind m f = result_bind m' f'"
  by (cases m') auto

text \<open>
  A statement of a transaction takes the database and returns an error, or a value and the new
  database.  \<open>tx_bind\<close> runs statements in sequence and stops at the first error, as the
  \<open>if err != nil { return err }\<close> chains of the Go code do.
\<close>

type_synonym ('s, 'e, 'a) tx = "'s \<Rightarrow> ('e, 'a \<times> 's) result"

definition tx_return :: "'a \<Rightarrow> ('s, 'e, 'a) tx" where
  "tx_return a s = Inr (a, s)"

definition tx_fail :: "'e \<Rightarrow> ('s, 'e, 'a) tx" where
  "tx_fail e s = Inl e"

definition tx_bind :: "('s, 'e, 'a) tx \<Rightarrow> ('a \<Rightarrow> ('s, 'e, 'b) tx) \<Rightarrow> ('s, 'e, 'b) tx" where
  "tx_bind m f s = (case m s of Inl e \<Rightarrow> Inl e | Inr (a, s') \<Rightarrow> f a s')"

definition tx_guard :: "bool \<Rightarrow> 'e \<Rightarrow> ('s, 'e, unit) tx" where
  "tx_guard b e s = (if b then Inr ((), s) else Inl e)"

definition tx_lift :: "('e, 'a) result \<Rightarrow> ('s, 'e, 'a) tx" where
  "tx_lift r s = (case r of Inl e \<Rightarrow> Inl e | Inr a \<Rightarrow> Inr (a, s))"

definition tx_read :: "('s \<Rightarrow> ('e, 'a) result) \<Rightarrow> ('s, 'e, 'a) tx" where
  "tx_read q s = (case q s of Inl e \<Rightarrow> Inl e | Inr a \<Rightarrow> Inr (a, s))"

text \<open>
  Running a transaction to its end: an error rolls every statement back.
\<close>

definition run_tx :: "('s, 'e, 'a) tx \<Rightarrow> 's \<Rightarrow> ('e, 'a) result \<times> 's" where
  "run_tx m s = (case m s of Inl e \<Rightarrow> (Inl e, s) | Inr (a, s') \<Rightarrow> (Inr a, s'))"

lemma tx_return_Inr [simp]: "tx_return a s = Inr (b, s') \<longleftrightarrow> b = a \<and> s' = s"
  by (auto simp: tx_return_def)

lemma tx_fail_Inr [simp]: "tx_fail e s \<noteq> Inr r"
  by (simp add: tx_fail_def)

lemma tx_guard_Inr [simp]: "tx_guard b e s = Inr (u, s') \<longleftrightarrow> b \<and> s' = s"
  by (auto simp: tx_guard_def)

lemma tx_guard_bind [simp]:
  "tx_bind (tx_guard b e) f s = (if b then f () s else Inl e)"
  by (simp add: tx_bind_def tx_guard_def)

lemma tx_lift_Inr [simp]: "tx_lift r s = Inr (a, s') \<longleftrightarrow> r = Inr a \<and> s' = s"
  by (cases r) (auto simp: tx_lift_def)

lemma tx_read_Inr [simp]: "tx_read q s = Inr (a, s') \<longleftrightarrow> q s = Inr a \<and> s' = s"
  by (cases "q s") (auto simp: tx_read_def)

lemma tx_bind_Inr [simp]:
  "tx_bind m f s = Inr (b, s') \<longleftrightarrow> (\<exists>a t. m s = Inr (a, t) \<and> f a t = Inr (b, s'))"
  by (auto simp: tx_bind_def split: sum.splits prod.splits)

lemma tx_bind_InrE:
  assumes "tx_bind m f s = Inr r"
  obtains a t where "m s = Inr (a, t)" and "f a t = Inr r"
  using assms by (auto simp: tx_bind_def split: sum.splits prod.splits)

lemma run_tx_Inl [simp]: "run_tx m s = (Inl e, s') \<longleftrightarrow> m s = Inl e \<and> s' = s"
  by (auto simp: run_tx_def split: sum.splits prod.splits)

lemma run_tx_Inr [simp]: "run_tx m s = (Inr a, s') \<longleftrightarrow> m s = Inr (a, s')"
  by (auto simp: run_tx_def split: sum.splits prod.splits)

lemma run_tx_cases:
  obtains e where "run_tx m s = (Inl e, s)"
  | a s' where "m s = Inr (a, s')" and "run_tx m s = (Inr a, s')"
  by (cases "m s") (auto simp: run_tx_def)

section \<open>Tables\<close>

text \<open>
  A table is the list of its rows.  \<open>update_where P f t\<close> is
  \<open>UPDATE t SET f WHERE P\<close>; the rows an update touched are \<open>map f (filter P t)\<close>, and
  \<open>RowsAffected\<close> is their number.  \<open>first_by k P t\<close> is
  \<open>SELECT ... WHERE P ORDER BY k LIMIT 1\<close>.
\<close>

definition update_where :: "('r \<Rightarrow> bool) \<Rightarrow> ('r \<Rightarrow> 'r) \<Rightarrow> 'r list \<Rightarrow> 'r list" where
  "update_where P f t = map (\<lambda>r. if P r then f r else r) t"

definition first_by :: "('r \<Rightarrow> 'k::linorder) \<Rightarrow> ('r \<Rightarrow> bool) \<Rightarrow> 'r list \<Rightarrow> 'r option" where
  "first_by k P t = (case sort_key k (filter P t) of [] \<Rightarrow> None | r # _ \<Rightarrow> Some r)"

definition find_row :: "('r \<Rightarrow> bool) \<Rightarrow> 'r list \<Rightarrow> 'r option" where
  "find_row P t = List.find P t"

lemma find_row_None [simp, table_simps]: "find_row P t = None \<longleftrightarrow> (\<forall>r\<in>set t. \<not> P r)"
  by (auto simp: find_row_def find_None_iff)

lemma find_row_SomeD: "find_row P t = Some r \<Longrightarrow> r \<in> set t \<and> P r"
  by (auto simp: find_row_def find_Some_iff)

lemma find_row_Nil [simp]: "find_row P [] = None"
  by simp

lemma find_row_Cons [simp, table_simps]:
  "find_row P (r # t) = (if P r then Some r else find_row P t)"
  by (simp add: find_row_def)

lemma set_update_where [table_simps]:
  "set (update_where P f t) = {r \<in> set t. \<not> P r} \<union> f ` {r \<in> set t. P r}"
  by (auto simp: update_where_def)

lemma update_where_Nil [simp, table_simps]: "update_where P f [] = []"
  by (simp add: update_where_def)

lemma update_where_Cons [simp, table_simps]:
  "update_where P f (r # t) = (if P r then f r else r) # update_where P f t"
  by (simp add: update_where_def)

lemma update_where_append [simp, table_simps]:
  "update_where P f (t @ u) = update_where P f t @ update_where P f u"
  by (simp add: update_where_def)

lemma length_update_where [simp]: "length (update_where P f t) = length t"
  by (simp add: update_where_def)

lemma map_update_where:
  assumes "\<And>r. g (f r) = g r"
  shows "map g (update_where P f t) = map g t"
  using assms by (simp add: update_where_def)

lemma update_where_none: "(\<And>r. r \<in> set t \<Longrightarrow> \<not> P r) \<Longrightarrow> update_where P f t = t"
  by (simp add: update_where_def map_idI)

lemma first_by_None [simp, table_simps]: "first_by k P t = None \<longleftrightarrow> (\<forall>r\<in>set t. \<not> P r)"
proof -
  have "sort_key k (filter P t) = [] \<longleftrightarrow> filter P t = []"
    by (metis length_0_conv length_sort)
  then show ?thesis
    by (auto simp: first_by_def filter_empty_conv split: list.splits)
qed

lemma first_by_SomeD:
  assumes "first_by k P t = Some r"
  shows "r \<in> set t \<and> P r \<and> (\<forall>x\<in>set t. P x \<longrightarrow> k r \<le> k x)"
proof -
  from assms obtain xs where s: "sort_key k (filter P t) = r # xs"
    by (auto simp: first_by_def split: list.splits)
  have "set (r # xs) = {x \<in> set t. P x}"
    using arg_cong [OF s, of set] by simp
  moreover have "sorted (map k (r # xs))"
    using sorted_sort_key [of k "filter P t"] s by simp
  ultimately show ?thesis by auto
qed

lemma first_by_mem: "first_by k P t = Some r \<Longrightarrow> r \<in> set t"
  and first_by_sat: "first_by k P t = Some r \<Longrightarrow> P r"
  and first_by_least: "first_by k P t = Some r \<Longrightarrow> x \<in> set t \<Longrightarrow> P x \<Longrightarrow> k r \<le> k x"
  by (auto dest: first_by_SomeD)

text \<open>A column with unique values identifies its row.\<close>

lemma distinct_map_same:
  "distinct (map f t) \<Longrightarrow> x \<in> set t \<Longrightarrow> y \<in> set t \<Longrightarrow> f x = f y \<Longrightarrow> x = y"
  by (auto simp: distinct_map inj_on_def)

lemma find_row_unique:
  assumes "distinct (map f t)" and "r \<in> set t"
  shows "find_row (\<lambda>x. f x = f r) t = Some r"
proof (cases "find_row (\<lambda>x. f x = f r) t")
  case None
  with assms(2) show ?thesis by auto
next
  case (Some x)
  with find_row_SomeD [OF Some] distinct_map_same [OF assms(1)] assms(2) show ?thesis by auto
qed

lemma filter_key_single:
  assumes "distinct (map f t)" and "r \<in> set t" and "P r"
  shows "filter (\<lambda>x. f x = f r \<and> P x) t = [r]"
  using assms
proof (induction t)
  case (Cons a t)
  then show ?case
  proof (cases "a = r")
    case True
    with Cons.prems have "\<forall>x\<in>set t. f x \<noteq> f r" by (auto simp: image_iff)
    then have "filter (\<lambda>x. f x = f r \<and> P x) t = []" by (auto simp: filter_empty_conv)
    with True Cons.prems show ?thesis by simp
  next
    case False
    with Cons.prems have "f a \<noteq> f r" and "r \<in> set t" by (auto dest: distinct_map_same)
    with Cons show ?thesis by simp
  qed
qed simp

lemma length_filter_le_one:
  assumes "distinct (map f t)"
  shows "length (filter (\<lambda>x. f x = a \<and> P x) t) \<le> 1"
proof (cases "\<exists>r\<in>set t. f r = a \<and> P r")
  case True
  then obtain r where "r \<in> set t" "f r = a" "P r" by auto
  with filter_key_single [OF assms, of r P] show ?thesis by auto
next
  case False
  then have "filter (\<lambda>x. f x = a \<and> P x) t = []" by (auto simp: filter_empty_conv)
  then show ?thesis by simp
qed

lemma length_filter_eq_one:
  assumes "length (filter P t) = 1"
  obtains r where "filter P t = [r]" and "r \<in> set t" and "P r"
proof -
  from assms obtain r where r: "filter P t = [r]" by (cases "filter P t") auto
  then have "r \<in> set (filter P t)" by simp
  then have "r \<in> set t" and "P r" by simp_all
  with r show ?thesis by (rule that)
qed

lemma map_filter_ConsD:
  assumes "c # cs = map f (filter P t)"
  obtains x where "x \<in> set t" and "P x" and "c = f x"
proof -
  from assms obtain x xs where x: "filter P t = x # xs" and c: "c = f x" by (auto simp: Cons_eq_map_conv)
  have "x \<in> set (filter P t)" by (simp only: x list.set_intros)
  then have "x \<in> set t" and "P x" by simp_all
  with c show ?thesis using that by blast
qed

text \<open>An update whose condition fixes the key replaces one row.\<close>

lemma set_update_single:
  assumes "distinct (map key t)" and "r \<in> set t" and "P r" and "\<And>x. P x \<Longrightarrow> key x = key r"
  shows "set (update_where P f t) = insert (f r) (set t - {r})"
proof -
  have one: "P x \<longleftrightarrow> x = r" if "x \<in> set t" for x
    using distinct_map_same [OF assms(1) that assms(2)] assms(3) assms(4) [of x] by blast
  have "{x \<in> set t. P x} = {r}" "{x \<in> set t. \<not> P x} = set t - {r}"
    using one assms(2) by blast+
  then show ?thesis by (simp add: set_update_where)
qed

lemma filter_update_single:
  assumes "distinct (map key t)" and "r \<in> set t" and "P r" and "\<And>x. P x \<Longrightarrow> key x = key r"
  shows "filter P t = [r]"
proof -
  have "(key x = key r \<and> P x) = P x" for x using assms(4) [of x] by blast
  then show ?thesis using filter_key_single [of key t r P, OF assms(1-3)] by simp
qed

section \<open>Byte strings\<close>

definition byte :: "char \<Rightarrow> nat" where
  "byte c = of_char c"

text \<open>
  The length of the white-space rune a UTF-8 string starts with, 0 when there is none: the ASCII
  spaces, U+0085, U+00A0, U+1680, U+2000 to U+200A, U+2028, U+2029, U+202F, U+205F, U+3000.
\<close>

fun space_prefix :: "string \<Rightarrow> nat" where
  "space_prefix (a # rest) =
     (if byte a \<in> {9, 10, 11, 12, 13, 32} then 1
      else case rest of
        [] \<Rightarrow> 0
      | b # rest' \<Rightarrow>
          if byte a = 194 then (if byte b \<in> {133, 160} then 2 else 0)
          else case rest' of
            [] \<Rightarrow> 0
          | c # _ \<Rightarrow>
              if (byte a = 225 \<and> byte b = 154 \<and> byte c = 128) \<or>
                 (byte a = 226 \<and> byte b = 128 \<and> (128 \<le> byte c \<and> byte c \<le> 138 \<or> byte c \<in> {168, 169, 175})) \<or>
                 (byte a = 226 \<and> byte b = 129 \<and> byte c = 159) \<or>
                 (byte a = 227 \<and> byte b = 128 \<and> byte c = 128)
              then 3 else 0)"
| "space_prefix [] = 0"

text \<open>The same for the last rune of a string, given reversed.\<close>

definition space_suffix :: "string \<Rightarrow> nat" where
  "space_suffix r =
     (if space_prefix (rev (take 1 r)) = 1 then 1
      else if space_prefix (rev (take 2 r)) = 2 then 2
      else if space_prefix (rev (take 3 r)) = 3 then 3 else 0)"

function trim_left :: "string \<Rightarrow> string" where
  "trim_left s = (if space_prefix s = 0 \<or> s = [] then s else trim_left (drop (space_prefix s) s))"
  by pat_completeness auto
termination
  by (relation "measure length") auto

function trim_right_rev :: "string \<Rightarrow> string" where
  "trim_right_rev r =
     (if space_suffix r = 0 \<or> r = [] then r else trim_right_rev (drop (space_suffix r) r))"
  by pat_completeness auto
termination
  by (relation "measure length") auto

declare trim_left.simps [simp del] trim_right_rev.simps [simp del]

definition TrimSpace :: "string \<Rightarrow> string" where
  "TrimSpace s = rev (trim_right_rev (rev (trim_left s)))"

definition lower_char :: "char \<Rightarrow> char" where
  "lower_char c = (if 65 \<le> byte c \<and> byte c \<le> 90 then char_of (byte c + 32) else c)"

text \<open>On the bits of the character, for evaluation.\<close>

lemma digit7_byte: "digit7 c \<longleftrightarrow> 128 \<le> byte c"
  by (cases c) (simp add: byte_def of_char_def)

lemma lower_char_code [code]:
  "lower_char (Char b0 b1 b2 b3 b4 b5 b6 b7) =
     Char b0 b1 b2 b3 b4
       (b5 \<or> (b6 \<and> \<not> b7 \<and> (b0 \<or> b1 \<or> b2 \<or> b3 \<or> b4) \<and> \<not> (b4 \<and> b3 \<and> (b2 \<or> b1 \<and> b0)))) b6 b7"
  by (cases b0; cases b1; cases b2; cases b3; cases b4; cases b5; cases b6; cases b7)
    (simp_all add: lower_char_def byte_def of_char_def char_of_def bit_nat_def)

text \<open>\<open>strings.ToLower\<close> on the ASCII range.\<close>

definition ToLower :: "string \<Rightarrow> string" where
  "ToLower s = map lower_char s"

fun has_prefix :: "string \<Rightarrow> string \<Rightarrow> bool" where
  "has_prefix s [] = True"
| "has_prefix [] (c # p) = False"
| "has_prefix (d # s) (c # p) = (d = c \<and> has_prefix s p)"

lemma has_prefix_iff: "has_prefix s p \<longleftrightarrow> (\<exists>t. s = p @ t)"
  by (induction s p rule: has_prefix.induct) auto

fun contains_string :: "string \<Rightarrow> string \<Rightarrow> bool" where
  "contains_string [] p = (p = [])"
| "contains_string (c # s) p = (has_prefix (c # s) p \<or> contains_string s p)"

lemma contains_string_iff: "contains_string s p \<longleftrightarrow> (\<exists>a b. s = a @ p @ b)"
proof (induction s)
  case (Cons c s)
  have "(\<exists>a b. c # s = a @ p @ b) \<longleftrightarrow> (\<exists>b. c # s = p @ b) \<or> (\<exists>a b. s = a @ p @ b)"
    by (metis (no_types, opaque_lifting) append_Cons append_Nil list.exhaust list.inject)
  with Cons show ?case by (simp add: has_prefix_iff)
qed auto

lemma trim_left_nospace: "space_prefix s = 0 \<Longrightarrow> trim_left s = s"
  by (simp add: trim_left.simps)

lemma trim_right_rev_nospace: "space_suffix r = 0 \<Longrightarrow> trim_right_rev r = r"
  by (simp add: trim_right_rev.simps)

lemma trim_left_prefix_free: "space_prefix (trim_left s) = 0"
proof (induction s rule: trim_left.induct)
  case (1 s)
  show ?case
  proof (cases "space_prefix s = 0 \<or> s = []")
    case True
    then show ?thesis by (auto simp: trim_left.simps [of s])
  next
    case False
    with "1" show ?thesis by (simp add: trim_left.simps [of s])
  qed
qed

lemma TrimSpace_Nil [simp]: "TrimSpace [] = []"
  by (simp add: TrimSpace_def trim_left.simps trim_right_rev.simps)

section \<open>Identifiers\<close>

definition is_word_byte :: "char \<Rightarrow> bool" where
  "is_word_byte c \<longleftrightarrow>
     (65 \<le> byte c \<and> byte c \<le> 90) \<or> (97 \<le> byte c \<and> byte c \<le> 122) \<or>
     (48 \<le> byte c \<and> byte c \<le> 57) \<or> byte c = 95"

text \<open>The pattern \<^verbatim>\<open>^[A-Za-z0-9_-]{16,64}$\<close>.\<close>

definition identifierPattern :: "string \<Rightarrow> bool" where
  "identifierPattern s \<longleftrightarrow>
     16 \<le> length s \<and> length s \<le> 64 \<and> list_all (\<lambda>c. is_word_byte c \<or> byte c = 45) s"

lemma identifierPattern_nonempty [simp]: "\<not> identifierPattern []"
  by (simp add: identifierPattern_def)

section \<open>Invariants of step relations\<close>

text \<open>What one step keeps, every run keeps.\<close>

locale step_invariant =
  fixes step :: "'s \<Rightarrow> 's \<Rightarrow> bool" and ok :: "'s \<Rightarrow> bool"
  assumes ok_step: "step s s' \<Longrightarrow> ok s \<Longrightarrow> ok s'"
begin

lemma ok_steps: "step\<^sup>*\<^sup>* s s' \<Longrightarrow> ok s \<Longrightarrow> ok s'"
  by (induction rule: rtranclp_induct) (auto intro: ok_step)

end

end
