(* ===== verification/Domain_Machine.thy ===== *)
theory Domain_Machine
  imports Farm_Prelude
begin

text \<open>
  The package \<open>internal/domain\<close>: the generic state machine of \<open>state_machine.go\<close>, the status
  types of devices, hosts, pools, images, reservations, sessions and host commands with their
  transition tables, and the device aggregate with its health.

  A Go status type is a string type with named constants.  Its model is a datatype with one
  constructor per constant and one constructor, carrying the text, for every other string; the
  conversion \<open>string(status)\<close> is the function \<open>..._string\<close>.  A transition table is the Go map:
  \<open>None\<close> is a key that is not in the map.
\<close>

section \<open>The generic machine\<close>

record transition_error =
  te_Resource :: string
  te_ID :: string
  te_Field :: string
  te_From :: string
  te_To :: string

datatype domain_error =
    ErrInvalidID string
  | ErrInvalidStatus string
  | ErrInvalidTransition transition_error
  | ErrReasonRequired
  | ErrTimeRequired
  | ErrDeviceNotHealthy

record transition_event =
  ev_Resource :: string
  ev_ID :: string
  ev_Field :: string
  ev_From :: string
  ev_To :: string
  ev_Reason :: string
  ev_At :: timestamp
  ev_Accepted :: bool
  ev_ErrorCode :: string

text \<open>
  \<open>sm_string\<close> is the conversion to a Go string that the constraint \<open>S ~string\<close> provides.
\<close>

record 's state_machine =
  sm_resource :: string
  sm_id :: string
  sm_field :: string
  sm_status :: 's
  sm_valid :: "'s \<Rightarrow> bool"
  sm_transitions :: "'s \<Rightarrow> 's list option"
  sm_string :: "'s \<Rightarrow> string"
  sm_events :: "transition_event list"

definition newStateMachine ::
  "string \<Rightarrow> string \<Rightarrow> string \<Rightarrow> 's \<Rightarrow> ('s \<Rightarrow> bool) \<Rightarrow> ('s \<Rightarrow> 's list option) \<Rightarrow> ('s \<Rightarrow> string)
   \<Rightarrow> (domain_error, 's state_machine) result" where
  "newStateMachine resource ident field status valid transitions str =
     (if \<not> identifierPattern ident then Inl (ErrInvalidID ident)
      else if \<not> valid status then Inl (ErrInvalidStatus (str status))
      else Inr \<lparr>sm_resource = resource, sm_id = ident, sm_field = field, sm_status = status,
                sm_valid = valid, sm_transitions = transitions, sm_string = str, sm_events = []\<rparr>)"

definition recordRejected :: "'s \<Rightarrow> string \<Rightarrow> timestamp \<Rightarrow> string \<Rightarrow> 's state_machine \<Rightarrow> 's state_machine" where
  "recordRejected to reason at code m =
     m\<lparr>sm_events := sm_events m @
        [\<lparr>ev_Resource = sm_resource m, ev_ID = sm_id m, ev_Field = sm_field m,
          ev_From = sm_string m (sm_status m), ev_To = sm_string m to,
          ev_Reason = TrimSpace reason, ev_At = at, ev_Accepted = False, ev_ErrorCode = code\<rparr>]\<rparr>"

text \<open>The map lookup \<open>transitions[status][to]\<close>; a missing outer key reads as an empty set.\<close>

definition allows :: "('s \<Rightarrow> 's list option) \<Rightarrow> 's \<Rightarrow> 's \<Rightarrow> bool" where
  "allows tr from to \<longleftrightarrow> (case tr from of None \<Rightarrow> False | Some ts \<Rightarrow> to \<in> set ts)"

text \<open>
  \<open>transition\<close> mutates the machine and returns an error or nil: the model returns both.
\<close>

definition transition ::
  "'s \<Rightarrow> string \<Rightarrow> timestamp \<Rightarrow> 's state_machine \<Rightarrow> domain_error option \<times> 's state_machine" where
  "transition to reason at m =
     (if \<not> sm_valid m to then (Some (ErrInvalidStatus (sm_string m to)), m)
      else if TrimSpace reason = [] then (Some ErrReasonRequired, m)
      else if is_zero_time at then (Some ErrTimeRequired, m)
      else if \<not> allows (sm_transitions m) (sm_status m) to then
        (Some (ErrInvalidTransition
           \<lparr>te_Resource = sm_resource m, te_ID = sm_id m, te_Field = sm_field m,
            te_From = sm_string m (sm_status m), te_To = sm_string m to\<rparr>),
         recordRejected to reason at ''INVALID_STATE_TRANSITION'' m)
      else (None,
        m\<lparr>sm_status := to,
          sm_events := sm_events m @
            [\<lparr>ev_Resource = sm_resource m, ev_ID = sm_id m, ev_Field = sm_field m,
              ev_From = sm_string m (sm_status m), ev_To = sm_string m to,
              ev_Reason = TrimSpace reason, ev_At = at, ev_Accepted = True,
              ev_ErrorCode = []\<rparr>]\<rparr>))"

definition clearEvents :: "'s state_machine \<Rightarrow> 's state_machine" where
  "clearEvents m = m\<lparr>sm_events := []\<rparr>"

text \<open>A sequence of \<open>transition\<close> calls on one machine, errors ignored by the caller.\<close>

fun run_transitions :: "('s \<times> string \<times> timestamp) list \<Rightarrow> 's state_machine \<Rightarrow> 's state_machine" where
  "run_transitions [] m = m"
| "run_transitions ((to, reason, at) # cs) m = run_transitions cs (snd (transition to reason at m))"

text \<open>
  What an event log promises: replayed from the status it starts at, every event was recorded in
  the status the log had reached, and accepted events move it.
\<close>

fun event_path :: "string \<Rightarrow> transition_event list \<Rightarrow> string \<Rightarrow> bool" where
  "event_path s [] t = (s = t)"
| "event_path s (e # es) t =
     (ev_From e = s \<and> (if ev_Accepted e then event_path (ev_To e) es t else event_path s es t))"

lemma event_path_snoc:
  "event_path s (es @ [e]) t \<longleftrightarrow>
     event_path s es (ev_From e) \<and> t = (if ev_Accepted e then ev_To e else ev_From e)"
  by (induction es arbitrary: s) auto

lemma transition_frame [simp]:
  "sm_resource (snd (transition to reason at m)) = sm_resource m"
  "sm_id (snd (transition to reason at m)) = sm_id m"
  "sm_field (snd (transition to reason at m)) = sm_field m"
  "sm_valid (snd (transition to reason at m)) = sm_valid m"
  "sm_transitions (snd (transition to reason at m)) = sm_transitions m"
  "sm_string (snd (transition to reason at m)) = sm_string m"
  by (auto simp: transition_def recordRejected_def)

lemma transition_ok_iff:
  "fst (transition to reason at m) = None \<longleftrightarrow>
     sm_valid m to \<and> TrimSpace reason \<noteq> [] \<and> at \<noteq> 0 \<and> allows (sm_transitions m) (sm_status m) to"
  by (auto simp: transition_def is_zero_time_def)

lemma transition_status:
  "sm_status (snd (transition to reason at m)) =
     (if fst (transition to reason at m) = None then to else sm_status m)"
  by (auto simp: transition_def recordRejected_def)

lemma transition_event_path:
  "event_path s (sm_events m) (sm_string m (sm_status m)) \<Longrightarrow>
   event_path s (sm_events (snd (transition to reason at m)))
     (sm_string m (sm_status (snd (transition to reason at m))))"
  by (auto simp: transition_def recordRejected_def event_path_snoc)

lemma newStateMachine_Inr:
  "newStateMachine resource ident field status valid transitions str = Inr m \<longleftrightarrow>
     identifierPattern ident \<and> valid status \<and>
     m = \<lparr>sm_resource = resource, sm_id = ident, sm_field = field, sm_status = status,
          sm_valid = valid, sm_transitions = transitions, sm_string = str, sm_events = []\<rparr>"
  by (auto simp: newStateMachine_def)

section \<open>The contract of a transition table\<close>

text \<open>
  Every table of the package is closed (a target of a transition is itself a key of the map),
  irreflexive, and its constants have different texts.  What follows from the three laws is proved
  once here; each status type interprets the locale below.
\<close>

locale status_table =
  fixes tr :: "'s \<Rightarrow> 's list option" and str :: "'s \<Rightarrow> string"
  assumes closed: "tr s = Some ts \<Longrightarrow> t \<in> set ts \<Longrightarrow> tr t \<noteq> None"
    and irrefl: "\<not> allows tr s s"
    and inj: "tr s \<noteq> None \<Longrightarrow> tr t \<noteq> None \<Longrightarrow> str s = str t \<Longrightarrow> s = t"
begin

definition on_table :: "'s state_machine \<Rightarrow> bool" where
  "on_table m \<longleftrightarrow> sm_transitions m = tr \<and> sm_string m = str \<and>
     sm_valid m = (\<lambda>s. tr s \<noteq> None) \<and> tr (sm_status m) \<noteq> None"

lemma transition_on_table: "on_table m \<Longrightarrow> on_table (snd (transition to reason at m))"
  by (auto simp: on_table_def transition_status transition_ok_iff)

lemma run_on_table: "on_table m \<Longrightarrow> on_table (run_transitions cs m)"
  by (induction cs m rule: run_transitions.induct) (auto intro: transition_on_table)

lemma run_event_path:
  "on_table m \<Longrightarrow> event_path s (sm_events m) (str (sm_status m)) \<Longrightarrow>
   event_path s (sm_events (run_transitions cs m)) (str (sm_status (run_transitions cs m)))"
proof (induction cs m rule: run_transitions.induct)
  case (2 to reason at cs m)
  have "on_table (snd (transition to reason at m))"
    using "2.prems"(1) by (rule transition_on_table)
  moreover have "event_path s (sm_events (snd (transition to reason at m)))
      (str (sm_status (snd (transition to reason at m))))"
    using transition_event_path [of s m to reason at] "2.prems" by (simp add: on_table_def)
  ultimately show ?case using "2.IH" by simp
qed simp

text \<open>A machine that has just been restored, after any calls: its log is the story of its status.\<close>

lemma restored_log:
  assumes "newStateMachine res i fld s0 (\<lambda>s. tr s \<noteq> None) tr str = Inr m"
  shows "tr (sm_status (run_transitions cs m)) \<noteq> None \<and>
    event_path (str s0) (sm_events (run_transitions cs m)) (str (sm_status (run_transitions cs m)))"
proof -
  from assms have m: "on_table m" "sm_status m = s0" "sm_events m = []"
    by (auto simp: newStateMachine_Inr on_table_def)
  have "on_table (run_transitions cs m)" by (rule run_on_table [OF m(1)])
  moreover have "event_path (str s0) (sm_events m) (str (sm_status m))" using m by simp
  ultimately show ?thesis using run_event_path [OF m(1)] by (simp add: on_table_def)
qed

text \<open>A status with no outgoing transition is never left.\<close>

lemma terminal_absorbing:
  assumes "on_table m" and "tr (sm_status m) = Some []"
  shows "sm_status (run_transitions cs m) = sm_status m"
  using assms
proof (induction cs m rule: run_transitions.induct)
  case (2 to reason at cs m)
  then have same: "sm_status (snd (transition to reason at m)) = sm_status m"
    by (auto simp: transition_status transition_ok_iff on_table_def allows_def)
  moreover have "on_table (snd (transition to reason at m))"
    using "2.prems"(1) by (rule transition_on_table)
  ultimately show ?case using "2.IH" "2.prems"(2) by simp
qed simp

lemma no_self_transition:
  "on_table m \<Longrightarrow> fst (transition to reason at m) = None \<Longrightarrow> to \<noteq> sm_status m"
  using irrefl by (auto simp: transition_ok_iff on_table_def)

end


section \<open>The status types and their tables\<close>

datatype device_lifecycle_status =
    DeviceProvisioning | DeviceBooting | DeviceReady | DeviceReserved | DeviceBusy |
    DeviceRecycling | DeviceStopped | DeviceQuarantined | DeviceDeleted | DeviceOther string

fun device_lifecycle_string :: "device_lifecycle_status \<Rightarrow> string" where
  "device_lifecycle_string DeviceProvisioning = ''provisioning''"
| "device_lifecycle_string DeviceBooting = ''booting''"
| "device_lifecycle_string DeviceReady = ''ready''"
| "device_lifecycle_string DeviceReserved = ''reserved''"
| "device_lifecycle_string DeviceBusy = ''busy''"
| "device_lifecycle_string DeviceRecycling = ''recycling''"
| "device_lifecycle_string DeviceStopped = ''stopped''"
| "device_lifecycle_string DeviceQuarantined = ''quarantined''"
| "device_lifecycle_string DeviceDeleted = ''deleted''"
| "device_lifecycle_string (DeviceOther s) = s"

fun deviceTransitions :: "device_lifecycle_status \<Rightarrow> device_lifecycle_status list option" where
  "deviceTransitions DeviceProvisioning =
     Some [DeviceBooting, DeviceQuarantined, DeviceDeleted]"
| "deviceTransitions DeviceBooting =
     Some [DeviceReady, DeviceStopped, DeviceQuarantined]"
| "deviceTransitions DeviceReady =
     Some [DeviceProvisioning, DeviceReserved, DeviceRecycling, DeviceStopped, DeviceQuarantined, DeviceDeleted]"
| "deviceTransitions DeviceReserved =
     Some [DeviceBusy, DeviceReady, DeviceRecycling, DeviceQuarantined]"
| "deviceTransitions DeviceBusy =
     Some [DeviceReady, DeviceRecycling, DeviceQuarantined]"
| "deviceTransitions DeviceRecycling =
     Some [DeviceReady, DeviceStopped, DeviceQuarantined]"
| "deviceTransitions DeviceStopped =
     Some [DeviceProvisioning, DeviceBooting, DeviceQuarantined, DeviceDeleted]"
| "deviceTransitions DeviceQuarantined =
     Some [DeviceProvisioning, DeviceDeleted]"
| "deviceTransitions DeviceDeleted =
     Some []"
| "deviceTransitions (DeviceOther s) = None"

definition validDeviceLifecycleStatus :: "device_lifecycle_status \<Rightarrow> bool" where
  "validDeviceLifecycleStatus s \<longleftrightarrow> deviceTransitions s \<noteq> None"

interpretation lifecycle_tab: status_table deviceTransitions device_lifecycle_string
proof unfold_locales
  show "deviceTransitions s = Some ts \<Longrightarrow> t \<in> set ts \<Longrightarrow> deviceTransitions t \<noteq> None" for s ts t
    by (cases s) auto
  show "\<not> allows deviceTransitions s s" for s
    by (cases s) (auto simp: allows_def)
  show "deviceTransitions s \<noteq> None \<Longrightarrow> deviceTransitions t \<noteq> None \<Longrightarrow> device_lifecycle_string s = device_lifecycle_string t \<Longrightarrow> s = t" for s t
    by (cases s; cases t) auto
qed

datatype health_status =
    HealthUnknown | HealthHealthy | HealthDegraded | HealthUnhealthy | HealthOther string

fun health_string :: "health_status \<Rightarrow> string" where
  "health_string HealthUnknown = ''unknown''"
| "health_string HealthHealthy = ''healthy''"
| "health_string HealthDegraded = ''degraded''"
| "health_string HealthUnhealthy = ''unhealthy''"
| "health_string (HealthOther s) = s"

fun healthTransitions :: "health_status \<Rightarrow> health_status list option" where
  "healthTransitions HealthUnknown =
     Some [HealthHealthy, HealthDegraded, HealthUnhealthy]"
| "healthTransitions HealthHealthy =
     Some [HealthUnknown, HealthDegraded, HealthUnhealthy]"
| "healthTransitions HealthDegraded =
     Some [HealthUnknown, HealthHealthy, HealthUnhealthy]"
| "healthTransitions HealthUnhealthy =
     Some [HealthUnknown, HealthHealthy, HealthDegraded]"
| "healthTransitions (HealthOther s) = None"

definition validHealthStatus :: "health_status \<Rightarrow> bool" where
  "validHealthStatus s \<longleftrightarrow> healthTransitions s \<noteq> None"

interpretation health_tab: status_table healthTransitions health_string
proof unfold_locales
  show "healthTransitions s = Some ts \<Longrightarrow> t \<in> set ts \<Longrightarrow> healthTransitions t \<noteq> None" for s ts t
    by (cases s) auto
  show "\<not> allows healthTransitions s s" for s
    by (cases s) (auto simp: allows_def)
  show "healthTransitions s \<noteq> None \<Longrightarrow> healthTransitions t \<noteq> None \<Longrightarrow> health_string s = health_string t \<Longrightarrow> s = t" for s t
    by (cases s; cases t) auto
qed

datatype reservation_status =
    ReservationPending | ReservationActive | ReservationReleased | ReservationFailed |
    ReservationExpired | ReservationForceReleased | ReservationOther string

fun reservation_string :: "reservation_status \<Rightarrow> string" where
  "reservation_string ReservationPending = ''pending''"
| "reservation_string ReservationActive = ''active''"
| "reservation_string ReservationReleased = ''released''"
| "reservation_string ReservationFailed = ''failed''"
| "reservation_string ReservationExpired = ''expired''"
| "reservation_string ReservationForceReleased = ''force_released''"
| "reservation_string (ReservationOther s) = s"

fun reservationTransitions :: "reservation_status \<Rightarrow> reservation_status list option" where
  "reservationTransitions ReservationPending =
     Some [ReservationActive, ReservationFailed]"
| "reservationTransitions ReservationActive =
     Some [ReservationReleased, ReservationExpired, ReservationForceReleased]"
| "reservationTransitions ReservationReleased =
     Some []"
| "reservationTransitions ReservationFailed =
     Some []"
| "reservationTransitions ReservationExpired =
     Some []"
| "reservationTransitions ReservationForceReleased =
     Some []"
| "reservationTransitions (ReservationOther s) = None"

definition validReservationStatus :: "reservation_status \<Rightarrow> bool" where
  "validReservationStatus s \<longleftrightarrow> reservationTransitions s \<noteq> None"

interpretation reservation_tab: status_table reservationTransitions reservation_string
proof unfold_locales
  show "reservationTransitions s = Some ts \<Longrightarrow> t \<in> set ts \<Longrightarrow> reservationTransitions t \<noteq> None" for s ts t
    by (cases s) auto
  show "\<not> allows reservationTransitions s s" for s
    by (cases s) (auto simp: allows_def)
  show "reservationTransitions s \<noteq> None \<Longrightarrow> reservationTransitions t \<noteq> None \<Longrightarrow> reservation_string s = reservation_string t \<Longrightarrow> s = t" for s t
    by (cases s; cases t) auto
qed

datatype session_status =
    SessionStarting | SessionActive | SessionClosing | SessionClosed | SessionFailed |
    SessionOther string

fun session_string :: "session_status \<Rightarrow> string" where
  "session_string SessionStarting = ''starting''"
| "session_string SessionActive = ''active''"
| "session_string SessionClosing = ''closing''"
| "session_string SessionClosed = ''closed''"
| "session_string SessionFailed = ''failed''"
| "session_string (SessionOther s) = s"

fun sessionTransitions :: "session_status \<Rightarrow> session_status list option" where
  "sessionTransitions SessionStarting =
     Some [SessionActive, SessionFailed]"
| "sessionTransitions SessionActive =
     Some [SessionClosing, SessionFailed]"
| "sessionTransitions SessionClosing =
     Some [SessionClosed, SessionFailed]"
| "sessionTransitions SessionClosed =
     Some []"
| "sessionTransitions SessionFailed =
     Some []"
| "sessionTransitions (SessionOther s) = None"

definition validSessionStatus :: "session_status \<Rightarrow> bool" where
  "validSessionStatus s \<longleftrightarrow> sessionTransitions s \<noteq> None"

interpretation session_tab: status_table sessionTransitions session_string
proof unfold_locales
  show "sessionTransitions s = Some ts \<Longrightarrow> t \<in> set ts \<Longrightarrow> sessionTransitions t \<noteq> None" for s ts t
    by (cases s) auto
  show "\<not> allows sessionTransitions s s" for s
    by (cases s) (auto simp: allows_def)
  show "sessionTransitions s \<noteq> None \<Longrightarrow> sessionTransitions t \<noteq> None \<Longrightarrow> session_string s = session_string t \<Longrightarrow> s = t" for s t
    by (cases s; cases t) auto
qed

datatype command_status =
    CommandPending | CommandLeased | CommandSucceeded | CommandFailed | CommandTimedOut |
    CommandCanceled | CommandOther string

fun command_string :: "command_status \<Rightarrow> string" where
  "command_string CommandPending = ''pending''"
| "command_string CommandLeased = ''leased''"
| "command_string CommandSucceeded = ''succeeded''"
| "command_string CommandFailed = ''failed''"
| "command_string CommandTimedOut = ''timed_out''"
| "command_string CommandCanceled = ''canceled''"
| "command_string (CommandOther s) = s"

fun commandTransitions :: "command_status \<Rightarrow> command_status list option" where
  "commandTransitions CommandPending =
     Some [CommandLeased, CommandCanceled]"
| "commandTransitions CommandLeased =
     Some [CommandPending, CommandSucceeded, CommandFailed, CommandTimedOut, CommandCanceled]"
| "commandTransitions CommandSucceeded =
     Some []"
| "commandTransitions CommandFailed =
     Some []"
| "commandTransitions CommandTimedOut =
     Some []"
| "commandTransitions CommandCanceled =
     Some []"
| "commandTransitions (CommandOther s) = None"

definition validCommandStatus :: "command_status \<Rightarrow> bool" where
  "validCommandStatus s \<longleftrightarrow> commandTransitions s \<noteq> None"

interpretation command_tab: status_table commandTransitions command_string
proof unfold_locales
  show "commandTransitions s = Some ts \<Longrightarrow> t \<in> set ts \<Longrightarrow> commandTransitions t \<noteq> None" for s ts t
    by (cases s) auto
  show "\<not> allows commandTransitions s s" for s
    by (cases s) (auto simp: allows_def)
  show "commandTransitions s \<noteq> None \<Longrightarrow> commandTransitions t \<noteq> None \<Longrightarrow> command_string s = command_string t \<Longrightarrow> s = t" for s t
    by (cases s; cases t) auto
qed

datatype host_status =
    HostOnline | HostOffline | HostDraining | HostMaintenance | HostOther string

fun host_string :: "host_status \<Rightarrow> string" where
  "host_string HostOnline = ''online''"
| "host_string HostOffline = ''offline''"
| "host_string HostDraining = ''draining''"
| "host_string HostMaintenance = ''maintenance''"
| "host_string (HostOther s) = s"

fun hostTransitions :: "host_status \<Rightarrow> host_status list option" where
  "hostTransitions HostOnline =
     Some [HostOffline, HostDraining, HostMaintenance]"
| "hostTransitions HostOffline =
     Some [HostOnline, HostMaintenance]"
| "hostTransitions HostDraining =
     Some [HostOnline, HostOffline, HostMaintenance]"
| "hostTransitions HostMaintenance =
     Some [HostOnline, HostOffline]"
| "hostTransitions (HostOther s) = None"

definition validHostStatus :: "host_status \<Rightarrow> bool" where
  "validHostStatus s \<longleftrightarrow> hostTransitions s \<noteq> None"

interpretation host_tab: status_table hostTransitions host_string
proof unfold_locales
  show "hostTransitions s = Some ts \<Longrightarrow> t \<in> set ts \<Longrightarrow> hostTransitions t \<noteq> None" for s ts t
    by (cases s) auto
  show "\<not> allows hostTransitions s s" for s
    by (cases s) (auto simp: allows_def)
  show "hostTransitions s \<noteq> None \<Longrightarrow> hostTransitions t \<noteq> None \<Longrightarrow> host_string s = host_string t \<Longrightarrow> s = t" for s t
    by (cases s; cases t) auto
qed

datatype pool_status =
    PoolActive | PoolDisabled | PoolOther string

fun pool_string :: "pool_status \<Rightarrow> string" where
  "pool_string PoolActive = ''active''"
| "pool_string PoolDisabled = ''disabled''"
| "pool_string (PoolOther s) = s"

fun poolTransitions :: "pool_status \<Rightarrow> pool_status list option" where
  "poolTransitions PoolActive =
     Some [PoolDisabled]"
| "poolTransitions PoolDisabled =
     Some [PoolActive]"
| "poolTransitions (PoolOther s) = None"

definition validPoolStatus :: "pool_status \<Rightarrow> bool" where
  "validPoolStatus s \<longleftrightarrow> poolTransitions s \<noteq> None"

interpretation pool_tab: status_table poolTransitions pool_string
proof unfold_locales
  show "poolTransitions s = Some ts \<Longrightarrow> t \<in> set ts \<Longrightarrow> poolTransitions t \<noteq> None" for s ts t
    by (cases s) auto
  show "\<not> allows poolTransitions s s" for s
    by (cases s) (auto simp: allows_def)
  show "poolTransitions s \<noteq> None \<Longrightarrow> poolTransitions t \<noteq> None \<Longrightarrow> pool_string s = pool_string t \<Longrightarrow> s = t" for s t
    by (cases s; cases t) auto
qed

datatype image_status =
    ImageDraft | ImageValidating | ImageReady | ImageFailed | ImageDisabled | ImageOther
    string

fun image_string :: "image_status \<Rightarrow> string" where
  "image_string ImageDraft = ''draft''"
| "image_string ImageValidating = ''validating''"
| "image_string ImageReady = ''ready''"
| "image_string ImageFailed = ''failed''"
| "image_string ImageDisabled = ''disabled''"
| "image_string (ImageOther s) = s"

fun imageTransitions :: "image_status \<Rightarrow> image_status list option" where
  "imageTransitions ImageDraft =
     Some [ImageValidating, ImageDisabled]"
| "imageTransitions ImageValidating =
     Some [ImageDraft, ImageReady, ImageFailed, ImageDisabled]"
| "imageTransitions ImageReady =
     Some [ImageDraft, ImageValidating, ImageDisabled]"
| "imageTransitions ImageFailed =
     Some [ImageDraft, ImageValidating, ImageDisabled]"
| "imageTransitions ImageDisabled =
     Some [ImageDraft]"
| "imageTransitions (ImageOther s) = None"

definition validImageStatus :: "image_status \<Rightarrow> bool" where
  "validImageStatus s \<longleftrightarrow> imageTransitions s \<noteq> None"

interpretation image_tab: status_table imageTransitions image_string
proof unfold_locales
  show "imageTransitions s = Some ts \<Longrightarrow> t \<in> set ts \<Longrightarrow> imageTransitions t \<noteq> None" for s ts t
    by (cases s) auto
  show "\<not> allows imageTransitions s s" for s
    by (cases s) (auto simp: allows_def)
  show "imageTransitions s \<noteq> None \<Longrightarrow> imageTransitions t \<noteq> None \<Longrightarrow> image_string s = image_string t \<Longrightarrow> s = t" for s t
    by (cases s; cases t) auto
qed

section \<open>Aggregates\<close>

type_synonym Reservation = "reservation_status state_machine"
type_synonym Session = "session_status state_machine"
type_synonym Command = "command_status state_machine"
type_synonym Host = "host_status state_machine"
type_synonym Pool = "pool_status state_machine"
type_synonym Image = "image_status state_machine"

definition RestoreReservation :: "string \<Rightarrow> reservation_status \<Rightarrow> (domain_error, Reservation) result" where
  "RestoreReservation ident status =
     newStateMachine ''device_reservation'' ident ''status'' status validReservationStatus
       reservationTransitions reservation_string"

definition RestoreSession :: "string \<Rightarrow> session_status \<Rightarrow> (domain_error, Session) result" where
  "RestoreSession ident status =
     newStateMachine ''device_session'' ident ''status'' status validSessionStatus
       sessionTransitions session_string"

definition NewSession :: "string \<Rightarrow> (domain_error, Session) result" where
  "NewSession ident = RestoreSession ident SessionStarting"

definition RestoreCommand :: "string \<Rightarrow> command_status \<Rightarrow> (domain_error, Command) result" where
  "RestoreCommand ident status =
     newStateMachine ''device_host_command'' ident ''status'' status validCommandStatus
       commandTransitions command_string"

definition RestoreHost :: "string \<Rightarrow> host_status \<Rightarrow> (domain_error, Host) result" where
  "RestoreHost ident status =
     newStateMachine ''device_host'' ident ''status'' status validHostStatus
       hostTransitions host_string"

definition RestorePool :: "string \<Rightarrow> pool_status \<Rightarrow> (domain_error, Pool) result" where
  "RestorePool ident status =
     newStateMachine ''device_pool'' ident ''status'' status validPoolStatus
       poolTransitions pool_string"

definition NewPool :: "string \<Rightarrow> (domain_error, Pool) result" where
  "NewPool ident = RestorePool ident PoolActive"

definition RestoreImage :: "string \<Rightarrow> image_status \<Rightarrow> (domain_error, Image) result" where
  "RestoreImage ident status =
     newStateMachine ''device_image'' ident ''status'' status validImageStatus
       imageTransitions image_string"

definition NewImage :: "string \<Rightarrow> (domain_error, Image) result" where
  "NewImage ident = RestoreImage ident ImageDraft"

lemmas restore_defs =
  RestoreReservation_def RestoreSession_def NewSession_def RestoreCommand_def RestoreHost_def
  RestorePool_def NewPool_def RestoreImage_def NewImage_def

text \<open>A call on an aggregate that only asks whether the transition is legal.\<close>

definition check_transition ::
  "(domain_error, 's state_machine) result \<Rightarrow> 's \<Rightarrow> string \<Rightarrow> timestamp \<Rightarrow>
     (domain_error, 's state_machine) result" where
  "check_transition restored to reason at =
     result_bind restored (\<lambda>m.
       case transition to reason at m of (Some e, _) \<Rightarrow> Inl e | (None, m') \<Rightarrow> Inr m')"

lemma check_transition_Inr:
  "check_transition restored to reason at = Inr m' \<longleftrightarrow>
     (\<exists>m. restored = Inr m \<and> transition to reason at m = (None, m'))"
proof (cases restored)
  case (Inr m)
  then show ?thesis
    by (cases "transition to reason at m"; cases "fst (transition to reason at m)")
      (auto simp: check_transition_def)
qed (simp add: check_transition_def)

section \<open>The device aggregate\<close>

record Device =
  dv_lifecycle :: "device_lifecycle_status state_machine"
  dv_health :: health_status
  dv_events :: "transition_event list"

definition RestoreDevice ::
  "string \<Rightarrow> device_lifecycle_status \<Rightarrow> health_status \<Rightarrow> (domain_error, Device) result" where
  "RestoreDevice ident lifecycle health =
     result_bind
       (newStateMachine ''device'' ident ''lifecycle_status'' lifecycle validDeviceLifecycleStatus
          deviceTransitions device_lifecycle_string)
       (\<lambda>state. if \<not> validHealthStatus health then Inl (ErrInvalidStatus (health_string health))
                else Inr \<lparr>dv_lifecycle = state, dv_health = health, dv_events = []\<rparr>)"

definition Lifecycle :: "Device \<Rightarrow> device_lifecycle_status" where
  "Lifecycle d = sm_status (dv_lifecycle d)"

definition Health :: "Device \<Rightarrow> health_status" where
  "Health d = dv_health d"

definition Device_Transition ::
  "device_lifecycle_status \<Rightarrow> string \<Rightarrow> timestamp \<Rightarrow> Device \<Rightarrow> domain_error option \<times> Device" where
  "Device_Transition to reason at d =
     (if to = DeviceReady \<and> dv_health d \<noteq> HealthHealthy then
        (Some ErrDeviceNotHealthy,
         if TrimSpace reason \<noteq> [] \<and> \<not> is_zero_time at
         then d\<lparr>dv_lifecycle := recordRejected to reason at ''DEVICE_NOT_HEALTHY'' (dv_lifecycle d)\<rparr>
         else d)
      else (case transition to reason at (dv_lifecycle d) of
              (err, state) \<Rightarrow> (err, d\<lparr>dv_lifecycle := state\<rparr>)))"

definition UpdateHealth ::
  "health_status \<Rightarrow> string \<Rightarrow> timestamp \<Rightarrow> Device \<Rightarrow> domain_error option \<times> Device" where
  "UpdateHealth to reason at d =
     (let event = \<lambda>accepted code.
            \<lparr>ev_Resource = ''device'', ev_ID = sm_id (dv_lifecycle d), ev_Field = ''health_status'',
             ev_From = health_string (dv_health d), ev_To = health_string to,
             ev_Reason = TrimSpace reason, ev_At = at, ev_Accepted = accepted, ev_ErrorCode = code\<rparr>
      in if \<not> validHealthStatus to then (Some (ErrInvalidStatus (health_string to)), d)
         else if TrimSpace reason = [] then (Some ErrReasonRequired, d)
         else if is_zero_time at then (Some ErrTimeRequired, d)
         else if \<not> allows healthTransitions (dv_health d) to then
           (Some (ErrInvalidTransition
              \<lparr>te_Resource = ''device'', te_ID = sm_id (dv_lifecycle d), te_Field = ''health_status'',
               te_From = health_string (dv_health d), te_To = health_string to\<rparr>),
            d\<lparr>dv_events := dv_events d @ [event False ''INVALID_STATE_TRANSITION'']\<rparr>)
         else (None, d\<lparr>dv_health := to, dv_events := dv_events d @ [event True []]\<rparr>))"

definition IsSchedulable :: "Device \<Rightarrow> bool" where
  "IsSchedulable d \<longleftrightarrow> Lifecycle d = DeviceReady \<and> Health d = HealthHealthy"

definition Events :: "Device \<Rightarrow> transition_event list" where
  "Events d = sort_key ev_At (sm_events (dv_lifecycle d) @ dv_events d)"

text \<open>Calls on a device, in any order.\<close>

datatype device_call =
    CallTransition device_lifecycle_status string timestamp
  | CallUpdateHealth health_status string timestamp

fun apply_call :: "device_call \<Rightarrow> Device \<Rightarrow> Device" where
  "apply_call (CallTransition to reason at) d = snd (Device_Transition to reason at d)"
| "apply_call (CallUpdateHealth to reason at) d = snd (UpdateHealth to reason at d)"

definition run_device :: "device_call list \<Rightarrow> Device \<Rightarrow> Device" where
  "run_device cs d = fold apply_call cs d"

section \<open>Health reasons\<close>

definition HostUnavailableReason :: string where
  "HostUnavailableReason =
     [CHR 0xE8, CHR 0xAE, CHR 0xBE, CHR 0xE5, CHR 0xA4, CHR 0x87, CHR 0xE5, CHR 0xAE, CHR 0xBF,
     CHR 0xE4, CHR 0xB8, CHR 0xBB, CHR 0xE6, CHR 0x9C, CHR 0xBA, CHR 0xE7, CHR 0xA6, CHR 0xBB,
     CHR 0xE7, CHR 0xBA, CHR 0xBF, CHR 0xE6, CHR 0x88, CHR 0x96, CHR 0xE6, CHR 0x9A, CHR 0x82,
     CHR 0xE4, CHR 0xB8, CHR 0x8D, CHR 0xE5, CHR 0x8F, CHR 0xAF, CHR 0xE7, CHR 0x94, CHR 0xA8]"

definition STFReadinessStabilizationReason :: string where
  "STFReadinessStabilizationReason = ''STF readiness stabilization is in progress''"

definition AgentReportedUnhealthyReason :: string where
  "AgentReportedUnhealthyReason =
     ''agent heartbeat reported an assigned or schedulable device is not healthy''"

definition IsSTFFailureReason :: "string \<Rightarrow> bool" where
  "IsSTFFailureReason reason =
     (let r = TrimSpace reason
      in r = ''device is not visible through STF'' \<or> has_prefix r ''STF '')"

definition IsSystemRecoverableHealthReason :: "string \<Rightarrow> bool" where
  "IsSystemRecoverableHealthReason reason =
     (let r = TrimSpace reason
      in r = HostUnavailableReason \<or> r = AgentReportedUnhealthyReason \<or>
         IsSTFFailureReason r \<or> has_prefix r ''IOS_PROVIDER_DEVICE_MISSING:'')"

section \<open>What a device guarantees\<close>

lemma RestoreDevice_Inr:
  "RestoreDevice ident l h = Inr d \<longleftrightarrow>
     identifierPattern ident \<and> validDeviceLifecycleStatus l \<and> validHealthStatus h \<and>
     d = \<lparr>dv_lifecycle =
            \<lparr>sm_resource = ''device'', sm_id = ident, sm_field = ''lifecycle_status'', sm_status = l,
             sm_valid = validDeviceLifecycleStatus, sm_transitions = deviceTransitions,
             sm_string = device_lifecycle_string, sm_events = []\<rparr>,
          dv_health = h, dv_events = []\<rparr>"
  by (auto simp: RestoreDevice_def newStateMachine_Inr)

definition device_wf :: "Device \<Rightarrow> bool" where
  "device_wf d \<longleftrightarrow>
     sm_transitions (dv_lifecycle d) = deviceTransitions \<and>
     sm_valid (dv_lifecycle d) = validDeviceLifecycleStatus \<and>
     sm_string (dv_lifecycle d) = device_lifecycle_string \<and>
     validDeviceLifecycleStatus (Lifecycle d) \<and> validHealthStatus (Health d)"

lemma RestoreDevice_wf: "RestoreDevice ident l h = Inr d \<Longrightarrow> device_wf d \<and> Lifecycle d = l \<and> Health d = h"
  by (auto simp: RestoreDevice_Inr device_wf_def Lifecycle_def Health_def)

lemma Device_Transition_ok:
  "device_wf d \<Longrightarrow>
   fst (Device_Transition to reason at d) = None \<longleftrightarrow>
     (to = DeviceReady \<longrightarrow> Health d = HealthHealthy) \<and> TrimSpace reason \<noteq> [] \<and> at \<noteq> 0 \<and>
     allows deviceTransitions (Lifecycle d) to"
proof (cases "to = DeviceReady \<and> dv_health d \<noteq> HealthHealthy")
  case True
  then show ?thesis by (simp add: Device_Transition_def Health_def)
next
  case False
  assume wf: "device_wf d"
  from False have "fst (Device_Transition to reason at d) = fst (transition to reason at (dv_lifecycle d))"
    by (auto simp: Device_Transition_def split_beta)
  moreover have "allows deviceTransitions (Lifecycle d) to \<Longrightarrow> validDeviceLifecycleStatus to"
    using lifecycle_tab.closed by (auto simp: allows_def validDeviceLifecycleStatus_def split: option.splits)
  ultimately show ?thesis
    using False wf by (auto simp: transition_ok_iff device_wf_def Lifecycle_def Health_def)
qed

lemma Device_Transition_result:
  "Lifecycle (snd (Device_Transition to reason at d)) =
     (if fst (Device_Transition to reason at d) = None then to else Lifecycle d)"
  "Health (snd (Device_Transition to reason at d)) = Health d"
  by (auto simp: Device_Transition_def Lifecycle_def Health_def recordRejected_def split_beta
      transition_status)

lemma Device_Transition_wf: "device_wf d \<Longrightarrow> device_wf (snd (Device_Transition to reason at d))"
proof -
  assume wf: "device_wf d"
  let ?d = "snd (Device_Transition to reason at d)"
  have "validDeviceLifecycleStatus (Lifecycle ?d)"
    using wf lifecycle_tab.closed Device_Transition_ok [OF wf]
    by (auto simp: Device_Transition_result device_wf_def allows_def validDeviceLifecycleStatus_def
        split: option.splits)
  with wf show ?thesis
    by (auto simp: device_wf_def Device_Transition_result)
      (auto simp: Device_Transition_def recordRejected_def split_beta)
qed

lemma UpdateHealth_lifecycle [simp]:
  "dv_lifecycle (snd (UpdateHealth to reason at d)) = dv_lifecycle d"
  by (simp add: UpdateHealth_def Let_def)

lemma UpdateHealth_wf: "device_wf d \<Longrightarrow> device_wf (snd (UpdateHealth to reason at d))"
  by (auto simp: device_wf_def Lifecycle_def Health_def UpdateHealth_def Let_def)

lemma apply_call_wf: "device_wf d \<Longrightarrow> device_wf (apply_call c d)"
  by (cases c) (auto intro: Device_Transition_wf UpdateHealth_wf)

lemma run_device_Cons: "run_device (c # cs) d = run_device cs (apply_call c d)"
  by (simp add: run_device_def)

lemma run_device_Nil: "run_device [] d = d"
  by (simp add: run_device_def)

lemma run_device_wf: "device_wf d \<Longrightarrow> device_wf (run_device cs d)"
  by (induction cs arbitrary: d) (auto simp: run_device_Nil run_device_Cons intro: apply_call_wf)

text \<open>One call either keeps the lifecycle or moves it along the table.\<close>

lemma apply_call_step:
  assumes "device_wf d"
  shows "Lifecycle (apply_call c d) = Lifecycle d \<or>
    allows deviceTransitions (Lifecycle d) (Lifecycle (apply_call c d))"
proof (cases c)
  case (CallTransition to reason at)
  then show ?thesis
    using Device_Transition_ok [OF assms] by (auto simp: Device_Transition_result)
next
  case (CallUpdateHealth to reason at)
  then show ?thesis by (simp add: Lifecycle_def)
qed

text \<open>Everything a device in quarantine can be until it boots again.\<close>

lemma quarantine_closed:
  "l \<in> {DeviceQuarantined, DeviceProvisioning, DeviceDeleted} \<Longrightarrow> allows deviceTransitions l l' \<Longrightarrow>
   l' \<in> {DeviceQuarantined, DeviceProvisioning, DeviceDeleted, DeviceBooting}"
  by (cases l; cases l') (auto simp: allows_def)

section \<open>Properties\<close>

text \<open>
  C1: The event log of a restored reservation tells the truth.  After any sequence of
  \<open>Transition\<close> calls the status is one of the table's, and replaying the log from the restored
  status, where rejected events change nothing, ends in the current status.
\<close>

theorem reservation_log_replays:
  assumes "RestoreReservation ident s0 = Inr m"
  shows "validReservationStatus (sm_status (run_transitions cs m)) \<and>
    event_path (reservation_string s0) (sm_events (run_transitions cs m))
      (reservation_string (sm_status (run_transitions cs m)))"
  using reservation_tab.restored_log [of "''device_reservation''" ident "''status''" s0 m cs] assms
  by (simp add: RestoreReservation_def validReservationStatus_def [abs_def])

theorem reservation_log_replays_witness:
  "\<exists>m. RestoreReservation ''res_0123456789ab'' ReservationPending = Inr m \<and>
     sm_status (run_transitions [(ReservationActive, ''go'', 5), (ReservationPending, ''no'', 6)] m)
       = ReservationActive \<and>
     event_path ''pending''
       (sm_events (run_transitions [(ReservationActive, ''go'', 5), (ReservationPending, ''no'', 6)] m))
       ''active''"
proof -
  let ?m = "\<lparr>sm_resource = ''device_reservation'', sm_id = ''res_0123456789ab'', sm_field = ''status'',
    sm_status = ReservationPending, sm_valid = validReservationStatus,
    sm_transitions = reservationTransitions, sm_string = reservation_string, sm_events = []\<rparr>"
  let ?cs = "[(ReservationActive, ''go'', 5), (ReservationPending, ''no'', 6)]"
  have m: "RestoreReservation ''res_0123456789ab'' ReservationPending = Inr ?m"
    by (simp add: RestoreReservation_def newStateMachine_def validReservationStatus_def
        identifierPattern_def is_word_byte_def byte_def)
  have s: "sm_status (run_transitions ?cs ?m) = ReservationActive"
    by (simp add: transition_status transition_ok_iff validReservationStatus_def allows_def
        TrimSpace_def trim_left.simps trim_right_rev.simps space_suffix_def byte_def)
  show ?thesis
    using reservation_log_replays [OF m, of ?cs] m s by auto
qed

text \<open>
  C2: A device never reaches \<open>ready\<close> without being healthy at that moment: a call of
  \<open>Transition\<close> that ends in \<open>ready\<close> and was not already there found the device healthy, and
  the device is then schedulable.
\<close>

theorem ready_only_when_healthy:
  assumes "device_wf d" and "Lifecycle d \<noteq> DeviceReady"
    and "Lifecycle (snd (Device_Transition to reason at d)) = DeviceReady"
  shows "Health d = HealthHealthy \<and> IsSchedulable (snd (Device_Transition to reason at d)) \<and>
    Lifecycle d \<in> {DeviceBooting, DeviceReserved, DeviceBusy, DeviceRecycling}"
proof -
  from assms(2,3) have ok: "fst (Device_Transition to reason at d) = None" "to = DeviceReady"
    by (auto simp: Device_Transition_result split: if_splits)
  with Device_Transition_ok [OF assms(1)] have "Health d = HealthHealthy"
    and "allows deviceTransitions (Lifecycle d) DeviceReady" by auto
  moreover from this(2) have "Lifecycle d \<in> {DeviceBooting, DeviceReserved, DeviceBusy, DeviceRecycling}"
    by (cases "Lifecycle d") (auto simp: allows_def)
  ultimately show ?thesis using ok by (simp add: IsSchedulable_def Device_Transition_result)
qed

theorem ready_only_when_healthy_witness:
  "\<exists>d. RestoreDevice ''dev_0123456789ab'' DeviceBusy HealthHealthy = Inr d \<and>
     Lifecycle (snd (Device_Transition DeviceReady ''done'' 7 d)) = DeviceReady \<and> IsSchedulable
       (snd (Device_Transition DeviceReady ''done'' 7 d))"
proof -
  obtain d where d: "RestoreDevice ''dev_0123456789ab'' DeviceBusy HealthHealthy = Inr d"
    by (simp add: RestoreDevice_def newStateMachine_def validDeviceLifecycleStatus_def
        validHealthStatus_def identifierPattern_def is_word_byte_def byte_def)
  note wf = RestoreDevice_wf [OF d]
  have "fst (Device_Transition DeviceReady ''done'' 7 d) = None"
    using wf by (simp add: Device_Transition_ok allows_def TrimSpace_def trim_left.simps
        trim_right_rev.simps space_suffix_def byte_def)
  then have r: "Lifecycle (snd (Device_Transition DeviceReady ''done'' 7 d)) = DeviceReady"
    by (simp add: Device_Transition_result)
  show ?thesis
    using ready_only_when_healthy [OF _ _ r] wf d r by auto
qed

text \<open>
  C3: There is no shortcut out of quarantine.  Whatever calls are made on a device restored in
  quarantine, it is in \<open>quarantined\<close>, \<open>provisioning\<close> or \<open>deleted\<close> until some call has put
  it into \<open>booting\<close>; in particular it cannot be schedulable before a boot.
\<close>

theorem quarantine_needs_boot:
  assumes "device_wf d" and "Lifecycle d \<in> {DeviceQuarantined, DeviceProvisioning, DeviceDeleted}"
    and "Lifecycle (run_device cs d) \<notin> {DeviceQuarantined, DeviceProvisioning, DeviceDeleted}"
  shows "\<exists>k \<le> length cs. Lifecycle (run_device (take k cs) d) = DeviceBooting"
  using assms
proof (induction cs arbitrary: d)
  case Nil
  then show ?case by (simp add: run_device_Nil)
next
  case (Cons c cs)
  let ?d = "apply_call c d"
  have wf: "device_wf ?d" by (rule apply_call_wf [OF Cons.prems(1)])
  have next_l: "Lifecycle ?d \<in> {DeviceQuarantined, DeviceProvisioning, DeviceDeleted, DeviceBooting}"
    using apply_call_step [OF Cons.prems(1), of c]
  proof
    assume "Lifecycle ?d = Lifecycle d"
    with Cons.prems(2) show ?thesis by auto
  next
    assume "allows deviceTransitions (Lifecycle d) (Lifecycle ?d)"
    with Cons.prems(2) show ?thesis by (rule quarantine_closed)
  qed
  show ?case
  proof (cases "Lifecycle ?d = DeviceBooting")
    case True
    then have "Lifecycle (run_device (take 1 (c # cs)) d) = DeviceBooting"
      by (simp add: run_device_Cons run_device_Nil)
    then show ?thesis by (metis One_nat_def Suc_leI length_greater_0_conv list.discI)
  next
    case False
    with next_l Cons.IH [OF wf] Cons.prems(3)
    obtain k where "k \<le> length cs" "Lifecycle (run_device (take k cs) ?d) = DeviceBooting"
      by (auto simp: run_device_Cons)
    then show ?thesis by (intro exI [of _ "Suc k"]) (simp add: run_device_Cons)
  qed
qed

theorem quarantine_needs_boot_witness:
  "\<exists>d. RestoreDevice ''dev_0123456789ab'' DeviceQuarantined HealthUnknown = Inr d \<and>
     (\<exists>k \<le> 2. Lifecycle (run_device (take k
        [CallTransition DeviceProvisioning ''fix'' 1, CallTransition DeviceBooting ''boot'' 2]) d)
      = DeviceBooting)"
proof -
  let ?cs = "[CallTransition DeviceProvisioning ''fix'' 1, CallTransition DeviceBooting ''boot'' 2]"
  obtain d where d: "RestoreDevice ''dev_0123456789ab'' DeviceQuarantined HealthUnknown = Inr d"
    by (simp add: RestoreDevice_def newStateMachine_def validDeviceLifecycleStatus_def
        validHealthStatus_def identifierPattern_def is_word_byte_def byte_def)
  note wf = RestoreDevice_wf [OF d]
  have "Lifecycle (run_device ?cs d) = DeviceBooting"
    using wf
    by (simp add: run_device_Cons run_device_Nil Device_Transition_result Device_Transition_ok
        Device_Transition_wf allows_def TrimSpace_def trim_left.simps trim_right_rev.simps
        space_suffix_def byte_def)
  then show ?thesis
    using quarantine_needs_boot [of d ?cs] wf d by (auto simp: numeral_2_eq_2)
qed

end
