(* ===== verification/Farm_Json.thy ===== *)
theory Farm_Json
  imports Farm_Prelude
begin

text \<open>
  JSON values as the program handles them: Go values decoded from JSON (\<open>map[string]any\<close>) and the
  \<open>jsonb\<close> columns of the database, with the operators the queries use: key existence \<open>?\<close>,
  \<open>->>\<close>, the cast \<open>::int\<close>, containment \<open>@>\<close> and the SQL function
  \<open>device_schedulable_capabilities\<close>.

  An object is the list of its members in ascending key order with distinct keys, which is how
  \<open>encoding/json\<close> writes a map; equal objects are then equal lists.  A number is an integer or,
  when it is not integral, its decimal text.
\<close>

datatype json =
    JNull
  | JBool bool
  | JNum int
  | JReal string
  | JStr string
  | JArr "json list"
  | JObj "(string \<times> json) list"

type_synonym json_obj = "(string \<times> json) list"

definition obj_wf :: "json_obj \<Rightarrow> bool" where
  "obj_wf o' \<longleftrightarrow> sorted (map fst o') \<and> distinct (map fst o')"

definition obj_get :: "json_obj \<Rightarrow> string \<Rightarrow> json option" where
  "obj_get o' k = map_of o' k"

definition obj_has :: "json_obj \<Rightarrow> string \<Rightarrow> bool" where
  "obj_has o' k \<longleftrightarrow> k \<in> set (map fst o')"

fun obj_put :: "string \<Rightarrow> json \<Rightarrow> json_obj \<Rightarrow> json_obj" where
  "obj_put k v [] = [(k, v)]"
| "obj_put k v ((k', v') # o') =
     (if k = k' then (k, v) # o' else if k < k' then (k, v) # (k', v') # o'
      else (k', v') # obj_put k v o')"

definition obj_remove :: "string \<Rightarrow> json_obj \<Rightarrow> json_obj" where
  "obj_remove k o' = filter (\<lambda>m. fst m \<noteq> k) o'"

lemma obj_get_put [simp]: "obj_get (obj_put k v o') k' = (if k' = k then Some v else obj_get o' k')"
  by (induction k v o' rule: obj_put.induct) (auto simp: obj_get_def)

lemma set_keys_put [simp]: "fst ` set (obj_put k v o') = insert k (fst ` set o')"
  by (induction k v o' rule: obj_put.induct) (auto simp: image_iff)

lemma obj_has_put [simp]: "obj_has (obj_put k v o') k' \<longleftrightarrow> k' = k \<or> obj_has o' k'"
  by (simp add: obj_has_def)

lemma obj_get_has: "obj_has o' k \<longleftrightarrow> obj_get o' k \<noteq> None"
  by (simp add: obj_has_def obj_get_def map_of_eq_None_iff)

lemma obj_wf_put: "obj_wf o' \<Longrightarrow> obj_wf (obj_put k v o')"
  by (induction k v o' rule: obj_put.induct) (auto simp: obj_wf_def not_less dest: less_imp_le)

lemma obj_get_remove [simp]: "obj_get (obj_remove k o') k' = (if k' = k then None else obj_get o' k')"
  by (induction o') (auto simp: obj_get_def obj_remove_def)

section \<open>Text of a value\<close>

fun nat_text :: "nat \<Rightarrow> string" where
  "nat_text n = (if n < 10 then [char_of (48 + n)] else nat_text (n div 10) @ [char_of (48 + n mod 10)])"

declare nat_text.simps [simp del]

definition int_text :: "int \<Rightarrow> string" where
  "int_text i = (if i < 0 then CHR ''-'' # nat_text (nat (- i)) else nat_text (nat i))"

definition is_digit :: "char \<Rightarrow> bool" where
  "is_digit c \<longleftrightarrow> 48 \<le> byte c \<and> byte c \<le> 57"

text \<open>The value of a digit in bases up to 16, 16 for a character that is no digit.\<close>

definition digit_value :: "char \<Rightarrow> nat" where
  "digit_value c =
     (let b = byte (lower_char c)
      in if is_digit c then b - 48 else if 97 \<le> b \<and> b \<le> 102 then b - 87 else 16)"

definition digits_value :: "nat \<Rightarrow> string \<Rightarrow> int" where
  "digits_value base ds = foldl (\<lambda>n c. n * int base + int (digit_value c)) 0 ds"

text \<open>Digits with single underscores between them; \<open>ok\<close> says whether one may come first.\<close>

fun group_digits :: "nat \<Rightarrow> bool \<Rightarrow> string \<Rightarrow> string option" where
  "group_digits base ok [] = Some []"
| "group_digits base ok (c # s) =
     (if c = CHR ''_''
      then (if ok \<and> s \<noteq> [] \<and> digit_value (hd s) < base then group_digits base True s else None)
      else if digit_value c < base then map_option (\<lambda>ds. c # ds) (group_digits base True s)
      else None)"

text \<open>
  The input syntax of the SQL type \<open>int\<close> (PostgreSQL 16 and later): surrounding white space, an
  optional sign, decimal digits or digits after \<open>0x\<close>, \<open>0o\<close>, \<open>0b\<close>, single underscores between
  digits, within 32 bits.  Anything else is an error of the query.
\<close>

definition sql_space :: "char \<Rightarrow> bool" where
  "sql_space c \<longleftrightarrow> byte c \<in> {9, 10, 11, 12, 13, 32}"

definition split_radix :: "string \<Rightarrow> nat \<times> string" where
  "split_radix t =
     (case t of
        z # x # r \<Rightarrow>
          if z = CHR ''0'' \<and> lower_char x = CHR ''x'' then (16, r)
          else if z = CHR ''0'' \<and> lower_char x = CHR ''o'' then (8, r)
          else if z = CHR ''0'' \<and> lower_char x = CHR ''b'' then (2, r)
          else (10, t)
      | _ \<Rightarrow> (10, t))"

definition parse_int :: "int \<Rightarrow> int \<Rightarrow> string \<Rightarrow> int option" where
  "parse_int lo hi s =
     (let t = rev (dropWhile sql_space (rev (dropWhile sql_space s)));
          neg = (case t of c # _ \<Rightarrow> c = CHR ''-'' | [] \<Rightarrow> False);
          body = (case t of c # r \<Rightarrow> if c = CHR ''-'' \<or> c = CHR ''+'' then r else t | [] \<Rightarrow> [])
      in case split_radix body of (base, ds) \<Rightarrow>
         (case group_digits base (base \<noteq> 10) ds of
            None \<Rightarrow> None
          | Some digits \<Rightarrow>
              let v = (if neg then - digits_value base digits else digits_value base digits)
              in if digits \<noteq> [] \<and> lo \<le> v \<and> v \<le> hi then Some v else None))"

definition parse_int4 :: "string \<Rightarrow> int option" where
  "parse_int4 = parse_int (- (2 ^ 31)) (2 ^ 31 - 1)"

definition parse_int8 :: "string \<Rightarrow> int option" where
  "parse_int8 = parse_int (- (2 ^ 63)) (2 ^ 63 - 1)"

text \<open>Integers survive being printed and read back.\<close>

definition digit_char :: "char \<Rightarrow> bool" where
  "digit_char c \<longleftrightarrow> is_digit c \<and> c \<noteq> CHR ''_'' \<and> \<not> sql_space c \<and> c \<noteq> CHR ''-'' \<and> c \<noteq> CHR ''+''"

lemma byte_char_of: "n < 256 \<Longrightarrow> byte (char_of n) = n"
  by (simp add: byte_def)

lemma byte_neq: "byte c \<noteq> byte d \<Longrightarrow> c \<noteq> d"
  by auto

lemma digit_char_of: "n < 10 \<Longrightarrow> digit_char (char_of (48 + n)) \<and> digit_value (char_of (48 + n)) = n"
proof -
  assume n: "n < 10"
  then have b: "byte (char_of (48 + n)) = 48 + n" by (simp add: byte_char_of)
  have "char_of (48 + n) \<noteq> CHR ''_''" "char_of (48 + n) \<noteq> CHR ''-''" "char_of (48 + n) \<noteq> CHR ''+''"
    by (rule byte_neq, unfold b, use n in \<open>simp add: byte_def\<close>)+
  with b n show ?thesis
    by (simp add: digit_char_def is_digit_def sql_space_def digit_value_def lower_char_def)
qed

lemma nat_text_digits: "list_all digit_char (nat_text n) \<and> nat_text n \<noteq> [] \<and> digits_value 10 (nat_text n) = int n"
proof (induction n rule: nat_text.induct)
  case (1 n)
  show ?case
  proof (cases "n < 10")
    case True
    with digit_char_of [OF True] show ?thesis by (simp add: nat_text.simps [of n] digits_value_def)
  next
    case False
    have "int (n div 10) * 10 + int (n mod 10) = int n"
      by (metis div_mult_mod_eq of_nat_add of_nat_mult of_nat_numeral)
    with False "1" digit_char_of [of "n mod 10"] show ?thesis
      by (simp add: nat_text.simps [of n] digits_value_def)
  qed
qed

lemma group_digits_plain: "list_all digit_char ds \<Longrightarrow> group_digits 10 ok ds = Some ds"
proof (induction ds arbitrary: ok)
  case (Cons c ds)
  then have "digit_value c < 10"
    by (auto simp: digit_char_def digit_value_def is_digit_def lower_char_def)
  with Cons show ?case by (simp add: digit_char_def)
qed simp

lemma nat_text_not_zero_first: "nat_text n = CHR ''0'' # x # r \<Longrightarrow> False"
proof (induction n arbitrary: x r rule: nat_text.induct)
  case (1 n)
  then have n: "\<not> n < 10" by (auto simp: nat_text.simps [of n])
  then have e: "nat_text (n div 10) @ [char_of (48 + n mod 10)] = CHR ''0'' # x # r"
    using "1.prems" by (simp add: nat_text.simps [of n])
  obtain a t where a: "nat_text (n div 10) = a # t"
    using nat_text_digits [of "n div 10"] by (cases "nat_text (n div 10)") auto
  show False
  proof (cases t)
    case Nil
    with a e have "nat_text (n div 10) = ''0''" by simp
    with nat_text_digits [of "n div 10"] have "n div 10 = 0" by (simp add: digits_value_def digit_value_def
        is_digit_def byte_def lower_char_def)
    with n show False by simp
  next
    case (Cons b t')
    with a e "1.IH" [OF n] show False by auto
  qed
qed

lemma split_radix_nat_text: "split_radix (nat_text n) = (10, nat_text n)"
  using nat_text_not_zero_first [of n] by (auto simp: split_radix_def split: list.splits)

lemma trim_digits:
  assumes "list_all digit_char ds" and "ds \<noteq> []" and "\<not> sql_space c"
  shows "rev (dropWhile sql_space (rev (dropWhile sql_space ds))) = ds"
    and "rev (dropWhile sql_space (rev (dropWhile sql_space (c # ds)))) = c # ds"
proof -
  have front: "dropWhile sql_space ds = ds" using assms by (cases ds) (auto simp: digit_char_def)
  obtain u b where b: "ds = u @ [b]" using assms(2) by (cases ds rule: rev_cases) auto
  with assms(1) have "\<not> sql_space b" by (simp add: digit_char_def)
  with front b assms(3) show "rev (dropWhile sql_space (rev (dropWhile sql_space ds))) = ds"
    and "rev (dropWhile sql_space (rev (dropWhile sql_space (c # ds)))) = c # ds"
    by simp_all
qed

lemma int_text_trim: "rev (dropWhile sql_space (rev (dropWhile sql_space (int_text i)))) = int_text i"
proof -
  have "\<not> sql_space (CHR ''-'')" by (simp add: sql_space_def byte_def)
  then show ?thesis
    using trim_digits [of "nat_text (nat i)" "CHR ''-''"] trim_digits [of "nat_text (nat (- i))" "CHR ''-''"]
      nat_text_digits [of "nat i"] nat_text_digits [of "nat (- i)"]
    unfolding int_text_def by presburger
qed

lemma parse_int_text:
  assumes "lo \<le> i" and "i \<le> hi"
  shows "parse_int lo hi (int_text i) = Some i"
proof (cases "i < 0")
  case True
  note d = nat_text_digits [of "nat (- i)"]
  from True d assms show ?thesis
    unfolding parse_int_def Let_def int_text_trim
    by (simp add: int_text_def split_radix_nat_text group_digits_plain)
next
  case False
  let ?d = "nat_text (nat i)"
  note d = nat_text_digits [of "nat i"]
  then obtain a t where a: "?d = a # t" "digit_char a" by (cases ?d) auto
  have i: "int_text i = ?d" using False by (simp add: int_text_def)
  from a have body: "(case ?d of c # r \<Rightarrow> if c = CHR ''-'' \<or> c = CHR ''+'' then r else ?d | [] \<Rightarrow> []) = ?d"
    and sign: "(case ?d of c # _ \<Rightarrow> c = CHR ''-'' | [] \<Rightarrow> False) = False" by (simp_all add: digit_char_def)
  from False d assms show ?thesis
    unfolding parse_int_def Let_def int_text_trim unfolding i body sign
    by (simp add: split_radix_nat_text group_digits_plain)
qed

definition hex_digit :: "nat \<Rightarrow> char" where
  "hex_digit n = char_of (if n < 10 then 48 + n else 87 + n)"

definition escape_char :: "char \<Rightarrow> string" where
  "escape_char c =
     (if byte c = 34 \<or> byte c = 92 then [CHR 0x5C, c]
      else if byte c = 8 then [CHR 0x5C, CHR ''b'']
      else if byte c = 9 then [CHR 0x5C, CHR ''t'']
      else if byte c = 10 then [CHR 0x5C, CHR ''n'']
      else if byte c = 12 then [CHR 0x5C, CHR ''f'']
      else if byte c = 13 then [CHR 0x5C, CHR ''r'']
      else if byte c < 32 then [CHR 0x5C, CHR ''u'', CHR ''0'', CHR ''0'', hex_digit (byte c div 16), hex_digit (byte c mod 16)]
      else [c])"

definition json_escape :: "string \<Rightarrow> string" where
  "json_escape s = concat (map escape_char s)"

fun join_text :: "string \<Rightarrow> string list \<Rightarrow> string" where
  "join_text sep [] = []"
| "join_text sep [x] = x"
| "join_text sep (x # y # xs) = x @ sep @ join_text sep (y # xs)"

primrec json_print :: "json \<Rightarrow> string" where
  "json_print JNull = ''null''"
| "json_print (JBool b) = (if b then ''true'' else ''false'')"
| "json_print (JNum i) = int_text i"
| "json_print (JReal s) = s"
| "json_print (JStr s) = CHR 0x22 # json_escape s @ [CHR 0x22]"
| "json_print (JArr vs) = ''['' @ join_text '', '' (map json_print vs) @ '']''"
| "json_print (JObj ms) =
     ''{'' @ join_text '', ''
       (map (\<lambda>(k, t). CHR 0x22 # json_escape k @ CHR 0x22 # '': '' @ t) (map (map_prod id json_print) ms))
     @ ''}''"

text \<open>\<open>object ->> key\<close>: the text of a member, \<open>None\<close> for SQL NULL.\<close>

definition arrow_text :: "json_obj \<Rightarrow> string \<Rightarrow> string option" where
  "arrow_text o' k =
     (case obj_get o' k of
        None \<Rightarrow> None
      | Some JNull \<Rightarrow> None
      | Some (JStr s) \<Rightarrow> Some s
      | Some v \<Rightarrow> Some (json_print v))"

text \<open>\<open>COALESCE(NULLIF(object->>key, '')::int, 0)\<close>; \<open>None\<close> is the cast error.\<close>

definition int_or_zero :: "json_obj \<Rightarrow> string \<Rightarrow> int option" where
  "int_or_zero o' k =
     (case arrow_text o' k of
        None \<Rightarrow> Some 0
      | Some t \<Rightarrow> if t = [] then Some 0 else parse_int4 t)"

section \<open>Containment\<close>

function json_contains :: "json \<Rightarrow> json \<Rightarrow> bool" where
  "json_contains l r =
     (case r of
        JObj ms \<Rightarrow> (case l of
            JObj ls \<Rightarrow> list_all (\<lambda>m. case map_of ls (fst m) of None \<Rightarrow> False
                                     | Some w \<Rightarrow> json_contains w (snd m)) ms
          | _ \<Rightarrow> False)
      | JArr vs \<Rightarrow> (case l of
            JArr ws \<Rightarrow> list_all (\<lambda>v. list_ex (\<lambda>w. json_contains w v) ws) vs
          | _ \<Rightarrow> False)
      | _ \<Rightarrow> l = r)"
  by pat_completeness auto

lemma json_member_size: "m \<in> set ms \<Longrightarrow> size (snd m) < size (JObj ms)"
proof (induction ms)
  case (Cons x ms)
  then show ?case by (cases x) (auto simp: less_Suc_eq_le le_SucI trans_le_add2)
qed simp

lemma json_element_size: "v \<in> set vs \<Longrightarrow> size v < size (JArr vs)"
  by (induction vs) auto

termination json_contains
  by (relation "measure (\<lambda>(l, r). size r)") (auto simp: json_member_size json_element_size simp del: json.size)

declare json_contains.simps [simp del]

definition obj_contains :: "json_obj \<Rightarrow> json_obj \<Rightarrow> bool" where
  "obj_contains l r = json_contains (JObj l) (JObj r)"

lemma obj_contains_iff:
  "obj_contains l r \<longleftrightarrow>
     (\<forall>(k, v) \<in> set r. \<exists>w. obj_get l k = Some w \<and> json_contains w v)"
  by (auto simp: obj_contains_def json_contains.simps [of "JObj l"] list_all_iff obj_get_def
      split: option.splits)

lemma obj_contains_Nil [simp]: "obj_contains l []"
  by (simp add: obj_contains_iff)

text \<open>\<open>left || right\<close> on objects: the members of the right replace those of the left.\<close>

definition obj_merge :: "json_obj \<Rightarrow> json_obj \<Rightarrow> json_obj" where
  "obj_merge l r = fold (\<lambda>(k, v) acc. obj_put k v acc) r l"

text \<open>
  The scheduling keys of \<open>device_schedulable_capabilities\<close>: only these take part in matching.
\<close>

definition schedulable_keys :: "string list" where
  "schedulable_keys =
     [''platformVersion'', ''automationName'', ''deviceClass'', ''realDevice'', ''model'',
      ''apiLevel'', ''abi'', ''resolution'', ''hardware_profile_id'']"

definition device_schedulable_capabilities :: "json_obj \<Rightarrow> json_obj" where
  "device_schedulable_capabilities requested = filter (\<lambda>m. fst m \<in> set schedulable_keys) requested"

lemma schedulable_get:
  "obj_get (device_schedulable_capabilities r) k =
     (if k \<in> set schedulable_keys then obj_get r k else None)"
  by (induction r) (auto simp: obj_get_def device_schedulable_capabilities_def)

end
