(* ===== verification/Farm_Tables.thy ===== *)
theory Farm_Tables
  imports Domain_Machine Farm_Json
begin

text \<open>
  The state the control plane shares: the PostgreSQL tables of \<open>migrations/\<close> that the scheduling
  core reads and writes, one record per row type with the columns it uses, and the constraints of
  the schema that can make a statement fail.  A database is one value of \<open>farm_db\<close>; the database
  clock is part of it, because every lease decision of the program reads that clock.
\<close>

section \<open>Errors\<close>

text \<open>
  The sentinel errors of the packages, the errors of \<open>domain\<close>, \<open>SqlError\<close> with the SQLSTATE for a
  statement the database rejects, and \<open>JsonError\<close> for a value that does not encode or decode.  Packages
  that name an error of their own alike (\<open>ErrInvalidArgument\<close>, \<open>ErrNotFound\<close>, \<open>ErrConflict\<close>) share a
  constructor, because no code compares the errors of two packages.
\<close>

datatype farm_error =
    DomainErr domain_error
  | SqlError string
  | RepoErrNotFound
  | RepoErrIdempotencyConflict
  | RepoErrCapacityUnavailable
  | RepoErrPoolUnavailable
  | RepoErrLeaseConflict
  | ErrInvalidArgument
  | ErrNotFound
  | ErrConflict
  | ErrPoolUnavailable
  | PoolSelectionUnavailableError string
  | ErrCapacityUnavailable
  | ErrNothingToReap
  | ErrNothingToReapRemote
  | ErrForbidden
  | ErrSTFReleaseFailed
  | ErrSTFRemoteFailed
  | ErrIOSSessionCleanup
  | SchedErrNoPendingReservation
  | SchedErrCapacityUnavailable
  | SchedErrSTFClaimFailed
  | ErrIDGeneration
  | ErrDeviceIdentityConflict
  | ErrNoCommand
  | ErrNoBuildAgent
  | ErrHostUnavailable
  | ErrImageUnavailable
  | ErrProviderUnavailable
  | ErrInsufficientHostResources
  | ContextCanceled
  | JsonError

definition lift_domain :: "(domain_error, 'a) result \<Rightarrow> (farm_error, 'a) result" where
  "lift_domain r = (case r of Inl e \<Rightarrow> Inl (DomainErr e) | Inr a \<Rightarrow> Inr a)"

lemma lift_domain_Inr [simp]: "lift_domain r = Inr a \<longleftrightarrow> r = Inr a"
  by (cases r) (auto simp: lift_domain_def)

section \<open>Rows\<close>

record device_row =
  dev_id :: string
  dev_name :: string
  dev_host_id :: string
  dev_platform :: string
  dev_kind :: string
  dev_provider_type :: string
  dev_provider_ref :: string
  dev_image_id :: "string option"
  dev_lifecycle_mode :: string
  dev_lifecycle :: device_lifecycle_status
  dev_health :: health_status
  dev_health_reason :: "string option"
  dev_failures :: int
  dev_last_seen_at :: "timestamp option"
  dev_serial :: string
  dev_stf_serial :: "string option"
  dev_adb_endpoint :: "string option"
  dev_appium_endpoint :: "string option"
  dev_capabilities :: json_obj
  dev_profile_override :: "json_obj option"
  dev_pending_image_id :: "string option"
  dev_pending_profile :: "json_obj option"
  dev_reimage_status :: string
  dev_reimage_error :: "string option"
  dev_profile_update_status :: string
  dev_profile_update_error :: "string option"
  dev_created_at :: timestamp
  dev_updated_at :: timestamp

text \<open>
  The members \<open>host_readiness_auto_maintenance\<close> and \<open>host_readiness_failure_started_at\<close> of the
  capabilities of a host are kept as fields of their own; only the heartbeat writes them.
\<close>

record host_row =
  host_id :: string
  host_name :: string
  host_type :: string
  host_address :: "string option"
  host_os :: string
  host_arch :: string
  host_status :: host_status
  host_draining :: bool
  host_capacity :: json_obj
  host_used_capacity :: json_obj
  host_capabilities :: json_obj
  host_auto_maintenance :: bool
  host_failure_started_at :: "timestamp option"
  host_last_heartbeat_at :: "timestamp option"
  host_created_at :: timestamp
  host_updated_at :: timestamp

record pool_row =
  pool_id :: string
  pool_name :: string
  pool_platform :: string
  pool_default_lease_seconds :: int
  pool_max_lease_seconds :: int
  pool_max_concurrency :: int
  pool_total_target :: int
  pool_min_ready :: int
  pool_status :: pool_status
  pool_fresh_vm_per_run :: bool
  pool_default_image_id :: "string option"
  pool_base_device_id :: "string option"
  pool_created_at :: timestamp
  pool_updated_at :: timestamp

record pool_device_row =
  pd_pool_id :: string
  pd_device_id :: string
  pd_enabled :: bool
  pd_created_at :: timestamp

record image_row =
  img_id :: string
  img_name :: string
  img_docker_image :: "string option"
  img_docker_digest :: string
  img_api_level :: int
  img_abi :: string
  img_resolution :: string
  img_resource_config :: json_obj
  img_status :: image_status
  img_validation_error :: "string option"
  img_created_at :: timestamp
  img_updated_at :: timestamp

record pool_image_row =
  pi_pool_id :: string
  pi_image_id :: string
  pi_enabled :: bool
  pi_min_ready :: int
  pi_max_instances :: int
  pi_created_at :: timestamp
  pi_updated_at :: timestamp

record host_image_state_row =
  his_host_id :: string
  his_image_id :: string
  his_available :: bool
  his_error_code :: "string option"
  his_observed_at :: timestamp

record reservation_row =
  rsv_id :: string
  rsv_client_id :: string
  rsv_pool_id :: string
  rsv_device_id :: "string option"
  rsv_owner_type :: string
  rsv_owner_id :: string
  rsv_capabilities :: json_obj
  rsv_lease_seconds :: int
  rsv_status :: reservation_status
  rsv_key :: string
  rsv_starts_at :: "timestamp option"
  rsv_expires_at :: "timestamp option"
  rsv_released_at :: "timestamp option"
  rsv_failure_code :: "string option"
  rsv_created_at :: timestamp
  rsv_updated_at :: timestamp

text \<open>
  The member \<open>stf_remote_session\<close> of a session's \<open>connection_metadata\<close> is the only part of it
  that the program reads back; the rest is kept as an object.
\<close>

record remote_session =
  rem_id :: string
  rem_url :: string
  rem_expires_at :: timestamp
  rem_owner_type :: string
  rem_owner_id :: string
  rem_client_id :: string
  rem_key :: string
  rem_request_hash :: string

record session_row =
  ses_id :: string
  ses_reservation_id :: string
  ses_device_id :: string
  ses_status :: session_status
  ses_started_at :: "timestamp option"
  ses_ended_at :: "timestamp option"
  ses_metadata :: json_obj
  ses_remote :: "remote_session option"
  ses_created_at :: timestamp
  ses_updated_at :: timestamp

record operation_row =
  op_client_id :: string
  op_scope :: string
  op_key :: string
  op_request_hash :: string
  op_resource_type :: string
  op_resource_id :: string
  op_response_status :: int

record audit_row =
  aud_id :: string
  aud_actor_type :: string
  aud_actor_id :: string
  aud_action :: string
  aud_resource_type :: string
  aud_resource_id :: string
  aud_request_id :: string
  aud_reason :: string
  aud_created_at :: timestamp

record health_event_row =
  he_id :: string
  he_device_id :: string
  he_source :: string
  he_event_type :: string
  he_severity :: string
  he_reason :: string
  he_payload :: json_obj
  he_observed_at :: timestamp
  he_created_at :: timestamp

record command_row =
  cmd_id :: string
  cmd_host_id :: string
  cmd_type :: string
  cmd_payload :: json_obj
  cmd_status :: command_status
  cmd_lease_token :: "string option"
  cmd_lease_expires_at :: "timestamp option"
  cmd_attempts :: int
  cmd_max_attempts :: int
  cmd_key :: string
  cmd_result :: "json option"
  cmd_error_code :: "string option"
  cmd_created_at :: timestamp
  cmd_updated_at :: timestamp
  cmd_completed_at :: "timestamp option"

record catalog_row =
  cat_id :: string
  cat_package_name :: string
  cat_api_level :: int
  cat_image_type :: string
  cat_abi :: string
  cat_revision :: string
  cat_source_updated_at :: timestamp
  cat_last_seen_at :: timestamp
  cat_created_at :: timestamp
  cat_updated_at :: timestamp

record preparation_row =
  prep_id :: string
  prep_catalog_id :: string
  prep_host_id :: string
  prep_build_command_id :: string
  prep_validation_command_id :: "string option"
  prep_client_id :: string
  prep_key :: string
  prep_catalog_revision :: string
  prep_runtime_profile :: json_obj
  prep_status :: string
  prep_docker_image :: "string option"
  prep_docker_digest :: "string option"
  prep_image_disk_mb :: "int option"
  prep_image_id :: "string option"
  prep_error_code :: "string option"
  prep_created_at :: timestamp
  prep_updated_at :: timestamp

record job_row =
  job_id :: string
  job_client_id :: string
  job_key :: string
  job_request_hash :: string
  job_pool_id :: string
  job_catalog_id :: string
  job_hardware_profile_id :: string
  job_runtime_profile :: json_obj
  job_preparation_id :: "string option"
  job_image_id :: "string option"
  job_device_id :: "string option"
  job_command_id :: "string option"
  job_status :: string
  job_error_stage :: "string option"
  job_error_code :: "string option"
  job_capacity_result :: "json option"
  job_created_at :: timestamp
  job_updated_at :: timestamp

record farm_db =
  devices :: "device_row list"
  hosts :: "host_row list"
  pools :: "pool_row list"
  pool_devices :: "pool_device_row list"
  images :: "image_row list"
  pool_images :: "pool_image_row list"
  host_image_states :: "host_image_state_row list"
  reservations :: "reservation_row list"
  sessions :: "session_row list"
  operations :: "operation_row list"
  audits :: "audit_row list"
  commands :: "command_row list"
  health_events :: "health_event_row list"
  catalog :: "catalog_row list"
  preparations :: "preparation_row list"
  jobs :: "job_row list"
  db_clock :: timestamp

type_synonym 'a farm_tx = "(farm_db, farm_error, 'a) tx"

section \<open>Constraints\<close>

text \<open>Byte classes of the pattern for the owner of a manual reservation.\<close>

definition manual_owner_char :: "char \<Rightarrow> bool" where
  "manual_owner_char c \<longleftrightarrow> is_word_byte c \<or> byte c \<in> {46, 64, 45}"

text \<open>The CHECK constraints of \<open>device_reservations\<close>.\<close>

definition ck_reservation :: "reservation_row \<Rightarrow> bool" where
  "ck_reservation r \<longleftrightarrow>
     identifierPattern (rsv_id r) \<and>
     rsv_owner_type r \<in> {''run_attempt'', ''manual'', ''test_run''} \<and>
     (if rsv_owner_type r = ''manual''
      then 1 \<le> length (rsv_owner_id r) \<and> length (rsv_owner_id r) \<le> 64 \<and>
           list_all manual_owner_char (rsv_owner_id r)
      else identifierPattern (rsv_owner_id r)) \<and>
     validReservationStatus (rsv_status r) \<and>
     60 \<le> rsv_lease_seconds r \<and>
     (rsv_status r = ReservationActive \<longrightarrow>
        rsv_device_id r \<noteq> None \<and> rsv_starts_at r \<noteq> None \<and> rsv_expires_at r \<noteq> None \<and>
        the (rsv_starts_at r) < the (rsv_expires_at r) \<and> rsv_released_at r = None) \<and>
     (rsv_status r \<in> {ReservationReleased, ReservationExpired, ReservationForceReleased} \<longrightarrow>
        rsv_device_id r \<noteq> None \<and> rsv_released_at r \<noteq> None) \<and>
     rsv_created_at r \<le> rsv_updated_at r \<and>
     (case rsv_expires_at r of None \<Rightarrow> True
      | Some e \<Rightarrow> rsv_starts_at r \<noteq> None \<and> the (rsv_starts_at r) < e) \<and>
     (case (rsv_released_at r, rsv_starts_at r) of (Some e, Some s) \<Rightarrow> s \<le> e | _ \<Rightarrow> True)"

text \<open>The partial unique index \<open>uq_device_reservations_active_device\<close>.\<close>

definition uq_active_device :: "reservation_row list \<Rightarrow> bool" where
  "uq_active_device rs \<longleftrightarrow>
     distinct (map rsv_device_id (filter (\<lambda>r. rsv_status r = ReservationActive) rs))"

text \<open>The CHECK constraints of \<open>device_sessions\<close>.\<close>

definition ck_session :: "session_row \<Rightarrow> bool" where
  "ck_session s \<longleftrightarrow>
     identifierPattern (ses_id s) \<and> validSessionStatus (ses_status s) \<and>
     (ses_status s = SessionActive \<longrightarrow> ses_started_at s \<noteq> None \<and> ses_ended_at s = None) \<and>
     (ses_status s \<in> {SessionClosed, SessionFailed} \<longrightarrow> ses_ended_at s \<noteq> None) \<and>
     ses_created_at s \<le> ses_updated_at s \<and>
     (case (ses_started_at s, ses_ended_at s) of (Some a, Some b) \<Rightarrow> a \<le> b | _ \<Rightarrow> True)"

section \<open>Statements\<close>

text \<open>
  An UPDATE of \<open>device_reservations\<close> returns the rows it wrote (\<open>RETURNING\<close>), or fails when a
  written row breaks a CHECK (23514) or the table breaks the unique index (23505).
\<close>

definition update_reservations ::
  "(reservation_row \<Rightarrow> bool) \<Rightarrow> (reservation_row \<Rightarrow> reservation_row) \<Rightarrow> reservation_row list farm_tx" where
  "update_reservations P f db =
     (let written = map f (filter P (reservations db)); rs = update_where P f (reservations db)
      in if \<not> list_all ck_reservation written then Inl (SqlError ''23514'')
         else if \<not> uq_active_device rs then Inl (SqlError ''23505'')
         else Inr (written, db\<lparr>reservations := rs\<rparr>))"

definition update_sessions ::
  "(session_row \<Rightarrow> bool) \<Rightarrow> (session_row \<Rightarrow> session_row) \<Rightarrow> session_row list farm_tx" where
  "update_sessions P f db =
     (let written = map f (filter P (sessions db))
      in if \<not> list_all ck_session written then Inl (SqlError ''23514'')
         else Inr (written, db\<lparr>sessions := update_where P f (sessions db)\<rparr>))"

text \<open>
  An UPDATE of \<open>devices\<close> returns the number of rows it touched.  Its CHECK constraints are on
  columns that the statements of this development set to constants of the status types and to the
  database clock, and are not repeated here.
\<close>

definition update_devices ::
  "(device_row \<Rightarrow> bool) \<Rightarrow> (device_row \<Rightarrow> device_row) \<Rightarrow> nat farm_tx" where
  "update_devices P f db =
     Inr (length (filter P (devices db)), db\<lparr>devices := update_where P f (devices db)\<rparr>)"

text \<open>\<open>RETURNING\<close> read by \<open>QueryRow\<close>: no row is \<open>pgx.ErrNoRows\<close>, more rows are not read.\<close>

definition returning_row :: "'e \<Rightarrow> 'r list \<Rightarrow> ('s, 'e, 'r) tx" where
  "returning_row e rows s = (case rows of [] \<Rightarrow> Inl e | r # _ \<Rightarrow> Inr (r, s))"

lemma returning_row_Inr [simp]:
  "returning_row e rows s = Inr (r, s') \<longleftrightarrow> (\<exists>rest. rows = r # rest) \<and> s' = s"
  by (cases rows) (auto simp: returning_row_def)

lemma update_devices_Inr [simp]:
  "update_devices P f db = Inr (n, db') \<longleftrightarrow>
     n = length (filter P (devices db)) \<and> db' = db\<lparr>devices := update_where P f (devices db)\<rparr>"
  by (auto simp: update_devices_def)

lemma update_reservations_Inr:
  "update_reservations P f db = Inr (rs, db') \<longleftrightarrow>
     rs = map f (filter P (reservations db)) \<and> list_all ck_reservation rs \<and>
     uq_active_device (update_where P f (reservations db)) \<and>
     db' = db\<lparr>reservations := update_where P f (reservations db)\<rparr>"
  by (auto simp: update_reservations_def Let_def)

lemma update_sessions_Inr:
  "update_sessions P f db = Inr (ss, db') \<longleftrightarrow>
     ss = map f (filter P (sessions db)) \<and> list_all ck_session ss \<and>
     db' = db\<lparr>sessions := update_where P f (sessions db)\<rparr>"
  by (auto simp: update_sessions_def Let_def)

lemmas update_Inr = update_reservations_Inr update_sessions_Inr

end
