(* ===== verification/Paging.thy ===== *)
theory Paging
  imports Farm_Prelude
begin

text \<open>
  The package \<open>internal/paging\<close> and the query-string parser of \<open>internal/api/pagination.go\<close>.
  Go's \<open>int\<close> is 64 bits wide on the deployment targets; the arithmetic of \<open>Offset\<close> wraps around,
  so it is modelled at that width.
\<close>

definition wrap64 :: "int \<Rightarrow> int" where
  "wrap64 x = (x + 2 ^ 63) mod 2 ^ 64 - 2 ^ 63"

lemma wrap64_id: "- (2 ^ 63) \<le> x \<Longrightarrow> x < 2 ^ 63 \<Longrightarrow> wrap64 x = x"
  by (simp add: wrap64_def)

lemma wrap64_range: "- (2 ^ 63) \<le> wrap64 x \<and> wrap64 x < 2 ^ 63"
proof -
  have "0 \<le> (x + 2 ^ 63) mod 2 ^ 64" and "(x + 2 ^ 63) mod 2 ^ 64 < 2 ^ 64" by simp_all
  then show ?thesis by (simp add: wrap64_def)
qed

definition DefaultSize :: int where
  "DefaultSize = 50"

definition MaxSize :: int where
  "MaxSize = 200"

record Page =
  page_number :: int
  page_size :: int

definition New :: "int \<Rightarrow> int \<Rightarrow> Page option" where
  "New number size' =
     (if number < 1 \<or> size' < 1 \<or> MaxSize < size' then None
      else Some \<lparr>page_number = number, page_size = size'\<rparr>)"

definition Limit :: "Page \<Rightarrow> int" where
  "Limit p = page_size p"

definition Offset :: "Page \<Rightarrow> int" where
  "Offset p = wrap64 (wrap64 (page_number p - 1) * page_size p)"

record 'a PageResult =
  pr_items :: "'a list"
  pr_page :: int
  pr_page_size :: int
  pr_total :: int

definition NewResult :: "'a list \<Rightarrow> Page \<Rightarrow> int \<Rightarrow> 'a PageResult" where
  "NewResult items p count =
     \<lparr>pr_items = items, pr_page = page_number p, pr_page_size = page_size p, pr_total = count\<rparr>"

text \<open>
  \<open>pagination\<close>: an absent or empty query parameter takes its default, one that is no integer of
  the platform's width is refused.  The argument is what \<open>strconv.Atoi\<close> makes of the parameter:
  \<open>None\<close> when the parameter is empty, \<open>Some None\<close> when it does not parse.
\<close>

definition pagination :: "int option option \<Rightarrow> int option option \<Rightarrow> Page option" where
  "pagination page psize =
     (case page of
        Some None \<Rightarrow> None
      | _ \<Rightarrow>
         (case psize of
            Some None \<Rightarrow> None
          | _ \<Rightarrow> New (case page of Some (Some n) \<Rightarrow> n | _ \<Rightarrow> 1)
                    (case psize of Some (Some n) \<Rightarrow> n | _ \<Rightarrow> DefaultSize)))"

text \<open>
  The window \<open>LIMIT n OFFSET m\<close> of an ordered result; a negative offset is an error of the query.
\<close>

definition sql_window :: "int \<Rightarrow> int \<Rightarrow> 'a list \<Rightarrow> 'a list option" where
  "sql_window limit offset rows =
     (if offset < 0 \<or> limit < 0 then None else Some (take (nat limit) (drop (nat offset) rows)))"

definition page_window :: "Page \<Rightarrow> 'a list \<Rightarrow> 'a list option" where
  "page_window p rows = sql_window (Limit p) (Offset p) rows"

section \<open>Lemmas\<close>

lemma New_Some:
  "New n s = Some p \<longleftrightarrow> 1 \<le> n \<and> 1 \<le> s \<and> s \<le> 200 \<and> p = \<lparr>page_number = n, page_size = s\<rparr>"
  by (auto simp: New_def MaxSize_def)

lemma Offset_exact:
  assumes "New n s = Some p" and "n * s < 2 ^ 63"
  shows "Offset p = (n - 1) * s"
proof -
  from assms(1) have b: "1 \<le> n" "1 \<le> s" and p: "p = \<lparr>page_number = n, page_size = s\<rparr>"
    by (auto simp: New_Some)
  have "n - 1 \<le> (n - 1) * s" using b by (simp add: mult_le_cancel_left1)
  moreover have lo: "0 \<le> (n - 1) * s" using b by simp
  moreover have up: "(n - 1) * s < 2 ^ 63" using b assms(2) by (simp add: algebra_simps)
  ultimately have "wrap64 (n - 1) = n - 1" using b by (intro wrap64_id) auto
  moreover have "wrap64 ((n - 1) * s) = (n - 1) * s" using lo up by (intro wrap64_id) auto
  ultimately show ?thesis by (simp add: Offset_def p)
qed

lemma page_window_exact:
  assumes "New n s = Some p" and "n * s < 2 ^ 63"
  shows "page_window p rows = Some (take (nat s) (drop (nat ((n - 1) * s)) rows))"
proof -
  from assms(1) have "1 \<le> s" and "0 \<le> (n - 1) * s" and "page_size p = s"
    by (auto simp: New_Some)
  then show ?thesis
    by (simp add: page_window_def sql_window_def Limit_def Offset_exact [OF assms])
qed

section \<open>Properties\<close>

text \<open>
  C4: Pages are a partition of the listing.  For a page whose window ends below the range of the
  platform's integers, the rows of pages 1 to k, in order, are exactly the first k pages' worth of
  the ordered rows: none is skipped and none appears twice.
\<close>

theorem pages_partition:
  assumes "1 \<le> s" and "s \<le> 200" and "int k * s < 2 ^ 63"
  shows "concat (map (\<lambda>i. the (page_window (the (New (int i) s)) rows)) [1..<Suc k]) =
    take (k * nat s) rows"
  using assms(3)
proof (induction k)
  case (Suc k)
  from Suc.prems assms(1) have "int k * s < 2 ^ 63"
    by (simp add: algebra_simps)
  note IH = Suc.IH [OF this]
  have New: "New (int (Suc k)) s = Some \<lparr>page_number = int (Suc k), page_size = s\<rparr>"
    using assms by (simp add: New_Some)
  have "nat ((int (Suc k) - 1) * s) = k * nat s"
    using assms(1) by (simp add: nat_mult_distrib)
  then have win: "the (page_window (the (New (int (Suc k)) s)) rows) = take (nat s) (drop (k * nat s) rows)"
    using page_window_exact [OF New Suc.prems, of rows] unfolding New option.sel by simp
  have "[1..<Suc (Suc k)] = [1..<Suc k] @ [Suc k]" by simp
  then have "concat (map (\<lambda>i. the (page_window (the (New (int i) s)) rows)) [1..<Suc (Suc k)]) =
      take (k * nat s) rows @ take (nat s) (drop (k * nat s) rows)"
    using IH win by simp
  also have "\<dots> = take (Suc k * nat s) rows"
    by (metis add.commute mult_Suc take_add)
  finally show ?case .
qed simp

theorem pages_partition_witness:
  "concat (map (\<lambda>i. the (page_window (the (New (int i) 2)) [10, 20, 30::int])) [1..<Suc 2]) =
     [10, 20, 30]"
  using pages_partition [of 2 2 "[10, 20, 30::int]"] by simp


end
