(* ===== verification/Sensitive.thy ===== *)
theory Sensitive
  imports Farm_Json
begin

text \<open>
  The package \<open>internal/sensitive\<close>: detection and redaction of secrets in free text and in JSON
  objects before they reach a log, an audit row or the database.  The three regular expressions of
  the package are deterministic scanners (no alternative of theirs can match at the same place in
  two ways), so each is a function from the text at a position to the text behind the match.
\<close>

section \<open>Scanners\<close>

definition re_space :: "char \<Rightarrow> bool" where
  "re_space c \<longleftrightarrow> byte c \<in> {9, 10, 12, 13, 32}"

text \<open>The word boundary before a letter: nothing, or a character that is not a word character.\<close>

definition boundary :: "char option \<Rightarrow> bool" where
  "boundary prev \<longleftrightarrow> (case prev of None \<Rightarrow> True | Some c \<Rightarrow> \<not> is_word_byte c)"

fun strip_ci :: "string \<Rightarrow> string \<Rightarrow> string option" where
  "strip_ci [] s = Some s"
| "strip_ci (p # ps) [] = None"
| "strip_ci (p # ps) (c # s) = (if lower_char c = p then strip_ci ps s else None)"

definition bearer_char :: "char \<Rightarrow> bool" where
  "bearer_char c \<longleftrightarrow> (is_word_byte c) \<or> byte c \<in> {46, 126, 43, 47, 61, 45}"

definition match_bearer :: "char option \<Rightarrow> string \<Rightarrow> string option" where
  "match_bearer prev s =
     (if \<not> boundary prev then None
      else case strip_ci ''bearer'' s of
        None \<Rightarrow> None
      | Some r \<Rightarrow>
          let sp = takeWhile re_space r; r1 = dropWhile re_space r;
              tok = takeWhile bearer_char r1
          in if sp = [] \<or> length tok < 6 then None else Some (drop (length tok) r1))"

fun first_strip :: "string list \<Rightarrow> string \<Rightarrow> string option" where
  "first_strip [] s = None"
| "first_strip (p # ps) s = (case strip_ci p s of None \<Rightarrow> first_strip ps s | Some r \<Rightarrow> Some r)"

definition secret_words :: "string list" where
  "secret_words =
     [''token'', ''password'', ''passwd'', ''secret'', ''cookie'', ''credential'',
      ''api_key'', ''api-key'', ''apikey'']"

definition match_secret :: "char option \<Rightarrow> string \<Rightarrow> string option" where
  "match_secret prev s =
     (if \<not> boundary prev then None
      else case first_strip secret_words s of
        None \<Rightarrow> None
      | Some r \<Rightarrow>
          (case dropWhile re_space r of
             [] \<Rightarrow> None
           | c # r1 \<Rightarrow>
               if byte c \<in> {58, 61} then
                 (let r2 = dropWhile re_space r1;
                      val = takeWhile (\<lambda>d. \<not> re_space d \<and> byte d \<notin> {44, 59}) r2
                  in if val = [] then None else Some (drop (length val) r2))
               else None))"

definition scheme_char :: "char \<Rightarrow> bool" where
  "scheme_char c \<longleftrightarrow> (let b = byte (lower_char c) in (97 \<le> b \<and> b \<le> 122) \<or> (48 \<le> b \<and> b \<le> 57) \<or> b \<in> {43, 46, 45})"

definition is_letter :: "char \<Rightarrow> bool" where
  "is_letter c \<longleftrightarrow> (let b = byte (lower_char c) in 97 \<le> b \<and> b \<le> 122)"

definition match_url :: "char option \<Rightarrow> string \<Rightarrow> string option" where
  "match_url prev s =
     (if \<not> boundary prev \<or> s = [] \<or> \<not> is_letter (hd s) then None
      else case strip_ci ''://'' (dropWhile scheme_char s) of
        None \<Rightarrow> None
      | Some r \<Rightarrow>
          let user = takeWhile (\<lambda>d. \<not> re_space d \<and> byte d \<notin> {47, 64, 58}) r;
              r1 = drop (length user) r
          in if user = [] then None
             else case r1 of
               [] \<Rightarrow> None
             | c # r2 \<Rightarrow>
                 if byte c \<noteq> 58 then None
                 else let pass = takeWhile (\<lambda>d. \<not> re_space d \<and> byte d \<noteq> 64) r2;
                          r3 = drop (length pass) r2
                      in if pass = [] then None
                         else case r3 of
                           [] \<Rightarrow> None
                         | a # r4 \<Rightarrow> if byte a = 64 then Some r4 else None)"

text \<open>A match anywhere in the text.\<close>

fun any_match :: "(char option \<Rightarrow> string \<Rightarrow> string option) \<Rightarrow> char option \<Rightarrow> string \<Rightarrow> bool" where
  "any_match m prev [] = (m prev [] \<noteq> None)"
| "any_match m prev (c # s) = (m prev (c # s) \<noteq> None \<or> any_match m (Some c) s)"

definition Contains :: "string \<Rightarrow> bool" where
  "Contains value \<longleftrightarrow>
     any_match match_bearer None value \<or> any_match match_secret None value \<or>
     any_match match_url None value"

text \<open>
  Replacing every leftmost match; \<open>rep\<close> gets the matched text.  A match consumes at least one
  character: the rest is taken from the tail.
\<close>

function replace_all ::
  "(char option \<Rightarrow> string \<Rightarrow> string option) \<Rightarrow> (string \<Rightarrow> string) \<Rightarrow> char option \<Rightarrow> string \<Rightarrow> string" where
  "replace_all m rep prev [] = []"
| "replace_all m rep prev (c # s) =
     (case m prev (c # s) of
        None \<Rightarrow> c # replace_all m rep (Some c) s
      | Some rest \<Rightarrow>
          let n = length (c # s) - length rest; hit = take n (c # s)
          in if n = 0 then c # replace_all m rep (Some c) s
             else rep hit @ replace_all m rep (Some (last hit)) (drop n (c # s)))"
  by pat_completeness auto
termination
  by (relation "measure (\<lambda>(m, rep, prev, s). length s)") auto

definition Redacted :: string where
  "Redacted = ''[REDACTED]''"

definition redact_secret_match :: "string \<Rightarrow> string" where
  "redact_secret_match hit =
     (let before = takeWhile (\<lambda>c. byte c \<notin> {58, 61}) hit
      in if length before = length hit then Redacted else TrimSpace before @ ''='' @ Redacted)"

definition redact_url_match :: "string \<Rightarrow> string" where
  "redact_url_match hit = takeWhile scheme_char hit @ ''://'' @ Redacted @ ''@''"

definition RedactText :: "string \<Rightarrow> string" where
  "RedactText value =
     (let v1 = replace_all match_bearer (\<lambda>_. ''Bearer '' @ Redacted) None value;
          v2 = replace_all match_secret redact_secret_match None v1
      in replace_all match_url redact_url_match None v2)"

section \<open>Objects\<close>

definition sensitiveKey :: "string \<Rightarrow> bool" where
  "sensitiveKey key =
     (let normalized = filter (\<lambda>c. byte c \<notin> {45, 95, 46, 32}) (ToLower key)
      in list_ex (\<lambda>fragment. contains_string normalized fragment)
           [''authorization'', ''password'', ''passwd'', ''token'', ''secret'', ''cookie'',
            ''credential'', ''apikey'', ''dsn''])"

fun containsValue :: "json \<Rightarrow> bool" where
  "containsValue (JStr s) = Contains s"
| "containsValue (JObj ms) = list_ex (\<lambda>m. sensitiveKey (fst m) \<or> containsValue (snd m)) ms"
| "containsValue (JArr vs) = list_ex containsValue vs"
| "containsValue v = False"

definition ContainsMap :: "json_obj \<Rightarrow> bool" where
  "ContainsMap source = list_ex (\<lambda>m. sensitiveKey (fst m) \<or> containsValue (snd m)) source"

fun redactValue :: "json \<Rightarrow> json" where
  "redactValue (JStr s) = JStr (RedactText s)"
| "redactValue (JObj ms) =
     JObj (map (\<lambda>m. (fst m, if sensitiveKey (fst m) then JStr Redacted else redactValue (snd m))) ms)"
| "redactValue (JArr vs) = JArr (map redactValue vs)"
| "redactValue v = v"

definition RedactMap :: "json_obj \<Rightarrow> json_obj" where
  "RedactMap source =
     map (\<lambda>m. (fst m, if sensitiveKey (fst m) then JStr Redacted else redactValue (snd m))) source"

end
