(* ===== verification/Reservation_Repository.thy ===== *)
theory Reservation_Repository
  imports Farm_Tables Paging Sensitive
begin

text \<open>
  \<open>internal/repository/reservation.go\<close>: every method of \<open>ReservationRepository\<close> as a statement
  (or a sequence of statements) over \<open>farm_db\<close>, with its SQL translated clause by clause.

  Conventions.  A transaction is atomic, so \<open>FOR UPDATE\<close> has no effect of its own; what
  \<open>SKIP LOCKED\<close> skips is a parameter, the identifiers of the rows other transactions hold.
  Conditions are evaluated in the order in which they are written, and a query that sorts and takes
  one row looks at the rows in that order.  Text comparisons of \<open>ORDER BY\<close> compare bytes.
\<close>

section \<open>Parameters and results\<close>

record create_params =
  cp_ID :: string
  cp_ClientID :: string
  cp_PoolID :: string
  cp_OwnerType :: string
  cp_OwnerID :: string
  cp_RequestedCapabilities :: json_obj
  cp_LeaseSeconds :: int
  cp_IdempotencyKey :: string

record pool_policy =
  pp_Status :: pool_status
  pp_Platform :: string
  pp_MaxLeaseSeconds :: int
  pp_MaxConcurrency :: int
  pp_ActiveReservations :: int
  pp_FreshVMPerRun :: bool

record device_assignment =
  da_ID :: string
  da_HostID :: string
  da_Platform :: string
  da_DeviceKind :: string
  da_LifecycleMode :: string
  da_Lifecycle :: device_lifecycle_status
  da_Health :: health_status
  da_Serial :: string
  da_STFSerial :: string
  da_ADBEndpoint :: "string option"
  da_AppiumEndpoint :: "string option"
  da_AppiumUDID :: string

record expired_remote =
  er_ID :: string
  er_ReservationID :: string
  er_DeviceID :: string
  er_Serial :: string
  er_ExpiresAt :: timestamp

record operation_params =
  opp_ClientID :: string
  opp_Scope :: string
  opp_Key :: string
  opp_RequestHash :: string
  opp_ResourceType :: string
  opp_ResourceID :: string
  opp_ResponseStatus :: int

definition TargetDeviceCapability :: string where
  "TargetDeviceCapability = ''_device_farm_target_device_id''"

text \<open>
  \<open>minSDKLowerBoundValue\<close>: the positive integer bound of a request, 0 when there is none.  A value
  decoded from JSON is a \<open>float64\<close>, whose conversion to \<open>int\<close> truncates: the part of its decimal
  text before the point.
\<close>

definition real_trunc :: "string \<Rightarrow> int" where
  "real_trunc t =
     (let neg = (case t of c # _ \<Rightarrow> c = CHR ''-'' | [] \<Rightarrow> False);
          ds = takeWhile is_digit (if neg then tl t else t);
          v = digits_value 10 ds
      in if neg then - v else v)"

definition minSDKLowerBoundValue :: "json_obj \<Rightarrow> int" where
  "minSDKLowerBoundValue requested =
     (case obj_get requested ''androidMinSdkLevel'' of
        Some (JNum i) \<Rightarrow> if 0 < i then i else 0
      | Some (JReal t) \<Rightarrow> if 0 < real_trunc t then real_trunc t else 0
      | _ \<Rightarrow> 0)"

section \<open>Row selection helpers\<close>

text \<open>
  A condition that may raise an error is a \<open>bool option\<close>, \<open>None\<close> for the error.  \<open>scan_first\<close> is
  the first row that satisfies it, \<open>None\<close> when a row before it raises the error.
\<close>

fun scan_first :: "('r \<Rightarrow> bool option) \<Rightarrow> 'r list \<Rightarrow> 'r option option" where
  "scan_first q [] = Some None"
| "scan_first q (r # rs) =
     (case q r of None \<Rightarrow> None | Some b \<Rightarrow> if b then Some (Some r) else scan_first q rs)"

definition rsv_age :: "reservation_row \<Rightarrow> timestamp \<times> string" where
  "rsv_age r = (rsv_created_at r, rsv_id r)"

definition dev_age :: "device_row \<Rightarrow> timestamp \<times> string" where
  "dev_age d = (dev_created_at d, dev_id d)"

definition to_assignment :: "device_row \<Rightarrow> device_assignment" where
  "to_assignment d =
     \<lparr>da_ID = dev_id d, da_HostID = dev_host_id d, da_Platform = dev_platform d,
      da_DeviceKind = dev_kind d, da_LifecycleMode = dev_lifecycle_mode d,
      da_Lifecycle = dev_lifecycle d, da_Health = dev_health d, da_Serial = dev_serial d,
      da_STFSerial = (case dev_stf_serial d of None \<Rightarrow> dev_serial d
                      | Some s \<Rightarrow> if s = [] then dev_serial d else s),
      da_ADBEndpoint = dev_adb_endpoint d, da_AppiumEndpoint = dev_appium_endpoint d,
      da_AppiumUDID = (case arrow_text (dev_capabilities d) ''appiumUdid'' of
                         None \<Rightarrow> dev_serial d | Some u \<Rightarrow> u)\<rparr>"

section \<open>Creating and reading reservations\<close>

definition sameReservationRequest :: "reservation_row \<Rightarrow> create_params \<Rightarrow> bool" where
  "sameReservationRequest r p \<longleftrightarrow>
     rsv_client_id r = cp_ClientID p \<and> rsv_pool_id r = cp_PoolID p \<and>
     rsv_owner_type r = cp_OwnerType p \<and> rsv_owner_id r = cp_OwnerID p \<and>
     rsv_lease_seconds r = cp_LeaseSeconds p \<and> rsv_key r = cp_IdempotencyKey p \<and>
     rsv_capabilities r = cp_RequestedCapabilities p"

definition pending_row :: "create_params \<Rightarrow> timestamp \<Rightarrow> reservation_row" where
  "pending_row p now =
     \<lparr>rsv_id = cp_ID p, rsv_client_id = cp_ClientID p, rsv_pool_id = cp_PoolID p,
      rsv_device_id = None, rsv_owner_type = cp_OwnerType p, rsv_owner_id = cp_OwnerID p,
      rsv_capabilities = cp_RequestedCapabilities p, rsv_lease_seconds = cp_LeaseSeconds p,
      rsv_status = ReservationPending, rsv_key = cp_IdempotencyKey p, rsv_starts_at = None,
      rsv_expires_at = None, rsv_released_at = None, rsv_failure_code = None,
      rsv_created_at = now, rsv_updated_at = now\<rparr>"

text \<open>
  \<open>CreatePending\<close>: the insert, or on a conflict of (client, key) the row that is already there;
  then the comparison of that row with the request.  The CHECK constraints are evaluated on the
  proposed row before the conflict is looked for, the foreign key after the insert.
\<close>

definition CreatePending :: "create_params \<Rightarrow> reservation_row farm_tx" where
  "CreatePending p db =
     (let row = pending_row p (db_clock db)
      in if \<not> ck_reservation row then Inl (SqlError ''23514'')
         else case find_row (\<lambda>r. rsv_client_id r = cp_ClientID p \<and> rsv_key r = cp_IdempotencyKey p)
                     (reservations db) of
           Some r \<Rightarrow> if sameReservationRequest r p then Inr (r, db) else Inl RepoErrIdempotencyConflict
         | None \<Rightarrow>
             if find_row (\<lambda>r. rsv_id r = cp_ID p) (reservations db) \<noteq> None then Inl (SqlError ''23505'')
             else if find_row (\<lambda>q. pool_id q = cp_PoolID p) (pools db) = None then Inl (SqlError ''23503'')
             else if sameReservationRequest row p then Inr (row, db\<lparr>reservations := reservations db @ [row]\<rparr>)
             else Inl RepoErrIdempotencyConflict)"

definition LockNextPending :: "string list \<Rightarrow> farm_db \<Rightarrow> (farm_error, reservation_row) result" where
  "LockNextPending locked db =
     (case first_by rsv_age (\<lambda>r. rsv_status r = ReservationPending \<and> rsv_id r \<notin> set locked)
             (reservations db) of
        None \<Rightarrow> Inl RepoErrNotFound | Some r \<Rightarrow> Inr r)"

section \<open>Matching devices\<close>

text \<open>The inner join of a device with its memberships, its host and the pools of the memberships.\<close>

type_synonym joined = "device_row \<times> pool_device_row \<times> host_row \<times> pool_row"

definition join_device :: "farm_db \<Rightarrow> joined list" where
  "join_device db =
     concat (map (\<lambda>d.
       concat (map (\<lambda>pd.
         concat (map (\<lambda>h.
           map (\<lambda>p. (d, pd, h, p)) (filter (\<lambda>p. pool_id p = pd_pool_id pd) (pools db)))
           (filter (\<lambda>h. host_id h = dev_host_id d) (hosts db))))
         (filter (\<lambda>pd. pd_device_id pd = dev_id d) (pool_devices db))))
       (devices db))"

lemma join_device_iff:
  "(d, pd, h, p) \<in> set (join_device db) \<longleftrightarrow>
     d \<in> set (devices db) \<and> pd \<in> set (pool_devices db) \<and> h \<in> set (hosts db) \<and> p \<in> set (pools db) \<and>
     pd_device_id pd = dev_id d \<and> host_id h = dev_host_id d \<and> pool_id p = pd_pool_id pd"
  by (auto simp: join_device_def)

text \<open>The conditions on a joined row that cannot fail, in the order of the query.\<close>

definition schedulable_row :: "json_obj \<Rightarrow> joined \<Rightarrow> bool" where
  "schedulable_row req j = (case j of (d, pd, h, p) \<Rightarrow>
     pd_enabled pd \<and> pool_status p = PoolActive \<and> pool_platform p = dev_platform d \<and>
     host_status h = HostOnline \<and> \<not> host_draining h \<and>
     dev_lifecycle d = DeviceReady \<and> dev_health d = HealthHealthy \<and>
     (\<not> obj_has req TargetDeviceCapability \<or> arrow_text req TargetDeviceCapability = Some (dev_id d)) \<and>
     (\<not> obj_has req ''platformName'' \<or>
        map_option ToLower (arrow_text req ''platformName'') = Some (pool_platform p)) \<and>
     obj_contains (dev_capabilities d) (device_schedulable_capabilities req))"

text \<open>The lower bound \<open>androidMinSdkLevel\<close>, with its casts to \<open>int\<close>.\<close>

definition min_sdk_ok :: "json_obj \<Rightarrow> json_obj \<Rightarrow> bool option" where
  "min_sdk_ok req caps =
     (case int_or_zero req ''androidMinSdkLevel'' of
        None \<Rightarrow> None
      | Some m \<Rightarrow>
          if m = 0 then Some True
          else (case int_or_zero caps ''apiLevel'' of None \<Rightarrow> None | Some a \<Rightarrow> Some (m \<le> a)))"

definition matches_request :: "json_obj \<Rightarrow> joined \<Rightarrow> bool option" where
  "matches_request req j =
     (if schedulable_row req j then min_sdk_ok req (dev_capabilities (fst j)) else Some False)"

text \<open>\<open>EXISTS\<close> over the join.\<close>

definition allocatable :: "farm_db \<Rightarrow> json_obj \<Rightarrow> bool option" where
  "allocatable db req = map_option (\<lambda>m. m \<noteq> None) (scan_first (matches_request req) (join_device db))"

definition allocation_due :: "farm_db \<Rightarrow> reservation_row \<Rightarrow> bool" where
  "allocation_due db r \<longleftrightarrow>
     rsv_status r = ReservationPending \<and> rsv_device_id r = None \<and>
     (rsv_failure_code r = None \<or> rsv_updated_at r \<le> db_clock db - 5 * second)"

definition LockNextAllocatablePending ::
  "string list \<Rightarrow> farm_db \<Rightarrow> (farm_error, reservation_row) result" where
  "LockNextAllocatablePending locked db =
     (case scan_first
             (\<lambda>r. map_option (\<lambda>b. b \<and> rsv_id r \<notin> set locked) (allocatable db (rsv_capabilities r)))
             (sort_key rsv_age (filter (allocation_due db) (reservations db))) of
        None \<Rightarrow> Inl (SqlError ''22P02'')
      | Some None \<Rightarrow> Inl RepoErrNotFound
      | Some (Some r) \<Rightarrow> Inr r)"

definition LockMatchingDevice ::
  "string list \<Rightarrow> json_obj \<Rightarrow> farm_db \<Rightarrow> (farm_error, device_assignment) result" where
  "LockMatchingDevice locked req db =
     (case scan_first
             (\<lambda>j. map_option (\<lambda>b. b \<and> dev_id (fst j) \<notin> set locked) (matches_request req j))
             (sort_key (dev_age \<circ> fst) (join_device db)) of
        None \<Rightarrow> Inl (SqlError ''22P02'')
      | Some None \<Rightarrow> Inl RepoErrCapacityUnavailable
      | Some (Some j) \<Rightarrow> Inr (to_assignment (fst j)))"

section \<open>Claims\<close>

definition ReserveForClaim :: "string \<Rightarrow> string \<Rightarrow> timestamp \<Rightarrow> unit farm_tx" where
  "ReserveForClaim reservationID deviceID reservedAt =
     tx_bind
       (update_devices
          (\<lambda>d. dev_id d = deviceID \<and> dev_lifecycle d = DeviceReady \<and> dev_health d = HealthHealthy)
          (\<lambda>d. d\<lparr>dev_lifecycle := DeviceReserved, dev_updated_at := reservedAt\<rparr>))
       (\<lambda>n. tx_bind (tx_guard (n = 1) RepoErrCapacityUnavailable)
       (\<lambda>_. tx_bind
          (update_reservations
             (\<lambda>r. rsv_id r = reservationID \<and> rsv_status r = ReservationPending \<and> rsv_device_id r = None)
             (\<lambda>r. r\<lparr>rsv_device_id := Some deviceID, rsv_failure_code := None, rsv_updated_at := reservedAt\<rparr>))
       (\<lambda>rows. tx_guard (length rows = 1) RepoErrNotFound)))"

definition CompensateClaim ::
  "string \<Rightarrow> string \<Rightarrow> string \<Rightarrow> bool \<Rightarrow> timestamp \<Rightarrow> unit farm_tx" where
  "CompensateClaim reservationID deviceID failureCode terminal at =
     tx_bind
       (update_devices
          (\<lambda>d. dev_id d = deviceID \<and> dev_lifecycle d = DeviceReserved)
          (\<lambda>d. d\<lparr>dev_lifecycle := DeviceRecycling, dev_updated_at := at\<rparr>))
       (\<lambda>n. tx_bind (tx_guard (n = 1) RepoErrNotFound)
       (\<lambda>_. tx_bind
          (update_devices
             (\<lambda>d. dev_id d = deviceID \<and> dev_lifecycle d = DeviceRecycling \<and> dev_health d = HealthHealthy)
             (\<lambda>d. d\<lparr>dev_lifecycle := DeviceReady, dev_updated_at := at\<rparr>))
       (\<lambda>n. tx_bind (tx_guard (n = 1) RepoErrNotFound)
       (\<lambda>_. tx_bind
          (update_reservations
             (\<lambda>r. rsv_id r = reservationID \<and> rsv_status r = ReservationPending \<and>
                  rsv_device_id r = Some deviceID)
             (\<lambda>r. r\<lparr>rsv_device_id := None,
                    rsv_status := (if terminal then ReservationFailed else ReservationPending),
                    rsv_failure_code := Some failureCode, rsv_updated_at := at\<rparr>))
       (\<lambda>rows. tx_guard (length rows = 1) RepoErrNotFound)))))"

definition HasPending :: "farm_db \<Rightarrow> bool" where
  "HasPending db = list_ex (\<lambda>r. rsv_status r = ReservationPending) (reservations db)"

definition Get :: "string \<Rightarrow> farm_db \<Rightarrow> (farm_error, reservation_row) result" where
  "Get ident db =
     (case find_row (\<lambda>r. rsv_id r = ident) (reservations db) of
        None \<Rightarrow> Inl RepoErrNotFound | Some r \<Rightarrow> Inr r)"

text \<open>\<open>LockByID\<close> is the same query with a row lock.\<close>

definition LockByID :: "string \<Rightarrow> farm_db \<Rightarrow> (farm_error, reservation_row) result" where
  "LockByID ident db =
     (case find_row (\<lambda>r. rsv_id r = ident) (reservations db) of
        None \<Rightarrow> Inl RepoErrNotFound | Some r \<Rightarrow> Inr r)"

section \<open>What the sweeps select\<close>

definition lease_expired :: "int \<Rightarrow> farm_db \<Rightarrow> reservation_row \<Rightarrow> bool" where
  "lease_expired graceSeconds db r \<longleftrightarrow>
     rsv_status r = ReservationActive \<and>
     (case rsv_expires_at r of None \<Rightarrow> False | Some e \<Rightarrow> e + graceSeconds * second \<le> db_clock db)"

definition rsv_expiry_order :: "reservation_row \<Rightarrow> timestamp \<times> string" where
  "rsv_expiry_order r = ((case rsv_expires_at r of None \<Rightarrow> 0 | Some e \<Rightarrow> e), rsv_id r)"

definition LockNextExpired :: "string list \<Rightarrow> int \<Rightarrow> farm_db \<Rightarrow> (farm_error, reservation_row) result" where
  "LockNextExpired locked graceSeconds db =
     (case first_by rsv_expiry_order (\<lambda>r. lease_expired graceSeconds db r \<and> rsv_id r \<notin> set locked)
             (reservations db) of
        None \<Rightarrow> Inl RepoErrNotFound | Some r \<Rightarrow> Inr r)"

definition FindNextExpired :: "int \<Rightarrow> farm_db \<Rightarrow> (farm_error, reservation_row) result" where
  "FindNextExpired graceSeconds db =
     (case first_by rsv_expiry_order (lease_expired graceSeconds db) (reservations db) of
        None \<Rightarrow> Inl RepoErrNotFound | Some r \<Rightarrow> Inr r)"

definition stale_pending :: "int \<Rightarrow> int \<Rightarrow> farm_db \<Rightarrow> reservation_row \<Rightarrow> bool" where
  "stale_pending timeoutSeconds graceSeconds db r \<longleftrightarrow>
     rsv_status r = ReservationPending \<and> rsv_device_id r = None \<and>
     rsv_created_at r + timeoutSeconds * second + graceSeconds * second \<le> db_clock db"

definition FindNextStalePending :: "int \<Rightarrow> int \<Rightarrow> farm_db \<Rightarrow> (farm_error, reservation_row) result" where
  "FindNextStalePending timeoutSeconds graceSeconds db =
     (case first_by rsv_age (stale_pending timeoutSeconds graceSeconds db) (reservations db) of
        None \<Rightarrow> Inl RepoErrNotFound | Some r \<Rightarrow> Inr r)"

definition orphaned_claim :: "int \<Rightarrow> farm_db \<Rightarrow> reservation_row \<Rightarrow> bool" where
  "orphaned_claim graceSeconds db r \<longleftrightarrow>
     rsv_status r = ReservationPending \<and> rsv_device_id r \<noteq> None \<and>
     rsv_updated_at r + graceSeconds * second \<le> db_clock db"

definition FindNextOrphanedClaim :: "int \<Rightarrow> farm_db \<Rightarrow> (farm_error, reservation_row) result" where
  "FindNextOrphanedClaim graceSeconds db =
     (case first_by (\<lambda>r. (rsv_updated_at r, rsv_id r)) (orphaned_claim graceSeconds db) (reservations db) of
        None \<Rightarrow> Inl RepoErrNotFound | Some r \<Rightarrow> Inr r)"

section \<open>Ending a pending reservation\<close>

definition FailPendingClaim :: "string \<Rightarrow> string \<Rightarrow> string \<Rightarrow> timestamp \<Rightarrow> unit farm_tx" where
  "FailPendingClaim reservationID deviceID failureCode at =
     tx_bind
       (update_devices
          (\<lambda>d. dev_id d = deviceID \<and> dev_lifecycle d = DeviceReserved)
          (\<lambda>d. d\<lparr>dev_lifecycle :=
                   (if dev_lifecycle d \<noteq> DeviceReserved then dev_lifecycle d
                    else if dev_health d = HealthHealthy then DeviceReady else DeviceQuarantined),
                 dev_updated_at := at\<rparr>))
       (\<lambda>n. tx_bind (tx_guard (n = 1) RepoErrNotFound)
       (\<lambda>_. tx_bind
          (update_reservations
             (\<lambda>r. rsv_id r = reservationID \<and> rsv_device_id r = Some deviceID \<and>
                  rsv_status r = ReservationPending)
             (\<lambda>r. r\<lparr>rsv_device_id := None, rsv_status := ReservationFailed,
                    rsv_failure_code := Some failureCode, rsv_updated_at := at\<rparr>))
       (\<lambda>rows. tx_guard (length rows = 1) RepoErrNotFound)))"

definition FailPendingReservation :: "string \<Rightarrow> string \<Rightarrow> timestamp \<Rightarrow> unit farm_tx" where
  "FailPendingReservation reservationID failureCode at =
     tx_bind
       (update_reservations
          (\<lambda>r. rsv_id r = reservationID \<and> rsv_status r = ReservationPending \<and> rsv_device_id r = None)
          (\<lambda>r. r\<lparr>rsv_status := ReservationFailed, rsv_failure_code := Some failureCode,
                 rsv_updated_at := at\<rparr>))
       (\<lambda>rows. tx_guard (length rows = 1) RepoErrNotFound)"

definition CancelPending :: "string \<Rightarrow> string \<Rightarrow> timestamp \<Rightarrow> reservation_row farm_tx" where
  "CancelPending ident failureCode canceledAt =
     tx_bind
       (update_reservations
          (\<lambda>r. rsv_id r = ident \<and> rsv_status r = ReservationPending \<and> rsv_device_id r = None)
          (\<lambda>r. r\<lparr>rsv_status := ReservationFailed, rsv_failure_code := Some failureCode,
                 rsv_updated_at := canceledAt\<rparr>))
       (returning_row RepoErrNotFound)"

definition MarkFailed :: "string \<Rightarrow> string \<Rightarrow> unit farm_tx" where
  "MarkFailed ident failureCode db =
     tx_bind
       (update_reservations
          (\<lambda>r. rsv_id r = ident \<and> rsv_status r = ReservationPending)
          (\<lambda>r. r\<lparr>rsv_status := ReservationFailed, rsv_failure_code := Some failureCode,
                 rsv_updated_at := db_clock db\<rparr>))
       (\<lambda>rows. tx_guard (length rows = 1) RepoErrNotFound) db"

section \<open>Idempotent operations\<close>

definition lower_hex :: "char \<Rightarrow> bool" where
  "lower_hex c \<longleftrightarrow> is_digit c \<or> 97 \<le> byte c \<and> byte c \<le> 102"

text \<open>The CHECK constraints of \<open>device_idempotency_records\<close>.\<close>

definition ck_operation :: "operation_params \<Rightarrow> bool" where
  "ck_operation p \<longleftrightarrow>
     length (opp_RequestHash p) = 64 \<and> list_all lower_hex (opp_RequestHash p) \<and>
     200 \<le> opp_ResponseStatus p \<and> opp_ResponseStatus p \<le> 299"

definition find_operation :: "operation_params \<Rightarrow> farm_db \<Rightarrow> operation_row option" where
  "find_operation p db =
     find_row (\<lambda>o'. op_client_id o' = opp_ClientID p \<and> op_scope o' = opp_Scope p \<and> op_key o' = opp_Key p)
       (operations db)"

definition same_operation :: "operation_params \<Rightarrow> operation_row \<Rightarrow> bool" where
  "same_operation p o' \<longleftrightarrow>
     op_request_hash o' = opp_RequestHash p \<and> op_resource_type o' = opp_ResourceType p \<and>
     op_resource_id o' = opp_ResourceID p"

definition operation_of :: "operation_params \<Rightarrow> operation_row" where
  "operation_of p =
     \<lparr>op_client_id = opp_ClientID p, op_scope = opp_Scope p, op_key = opp_Key p,
      op_request_hash = opp_RequestHash p, op_resource_type = opp_ResourceType p,
      op_resource_id = opp_ResourceID p, op_response_status = opp_ResponseStatus p\<rparr>"

text \<open>\<open>True\<close> when the operation is a replay of one that was recorded before.\<close>

definition BeginOperation :: "operation_params \<Rightarrow> bool farm_tx" where
  "BeginOperation p db =
     (if \<not> ck_operation p then Inl (SqlError ''23514'')
      else case find_operation p db of
        None \<Rightarrow> Inr (False, db\<lparr>operations := operations db @ [operation_of p]\<rparr>)
      | Some o' \<Rightarrow> if same_operation p o' then Inr (True, db) else Inl RepoErrIdempotencyConflict)"

definition CheckOperation :: "operation_params \<Rightarrow> farm_db \<Rightarrow> (farm_error, bool) result" where
  "CheckOperation p db =
     (case find_operation p db of
        None \<Rightarrow> Inr False
      | Some o' \<Rightarrow> if same_operation p o' then Inr True else Inl RepoErrIdempotencyConflict)"

definition Extend :: "string \<Rightarrow> timestamp \<Rightarrow> reservation_row farm_tx" where
  "Extend ident expiresAt db =
     tx_bind
       (update_reservations
          (\<lambda>r. rsv_id r = ident \<and> rsv_status r = ReservationActive)
          (\<lambda>r. r\<lparr>rsv_expires_at := Some expiresAt, rsv_updated_at := db_clock db\<rparr>))
       (returning_row RepoErrNotFound) db"

section \<open>Sessions and devices\<close>

definition LockSession :: "string \<Rightarrow> farm_db \<Rightarrow> (farm_error, session_row) result" where
  "LockSession reservationID db =
     (case find_row (\<lambda>s. ses_reservation_id s = reservationID) (sessions db) of
        None \<Rightarrow> Inl RepoErrNotFound | Some s \<Rightarrow> Inr s)"

definition GetSession :: "string \<Rightarrow> farm_db \<Rightarrow> (farm_error, session_row) result" where
  "GetSession reservationID db =
     (case find_row (\<lambda>s. ses_reservation_id s = reservationID) (sessions db) of
        None \<Rightarrow> Inl RepoErrNotFound | Some s \<Rightarrow> Inr s)"

definition LockDevice :: "string \<Rightarrow> farm_db \<Rightarrow> (farm_error, device_assignment) result" where
  "LockDevice ident db =
     (case find_row (\<lambda>d. dev_id d = ident) (devices db) of
        None \<Rightarrow> Inl RepoErrNotFound | Some d \<Rightarrow> Inr (to_assignment d))"

definition GetDevice :: "string \<Rightarrow> farm_db \<Rightarrow> (farm_error, device_assignment) result" where
  "GetDevice ident db =
     (case find_row (\<lambda>d. dev_id d = ident) (devices db) of
        None \<Rightarrow> Inl RepoErrNotFound | Some d \<Rightarrow> Inr (to_assignment d))"

definition SetRemoteSession :: "string \<Rightarrow> remote_session \<Rightarrow> session_row farm_tx" where
  "SetRemoteSession reservationID metadata db =
     tx_bind
       (update_sessions
          (\<lambda>s. ses_reservation_id s = reservationID \<and> ses_status s = SessionActive)
          (\<lambda>s. s\<lparr>ses_remote := Some metadata, ses_updated_at := db_clock db\<rparr>))
       (returning_row RepoErrNotFound) db"

definition expired_remote_row :: "farm_db \<Rightarrow> session_row \<times> reservation_row \<times> device_row \<Rightarrow> bool" where
  "expired_remote_row db j = (case j of (s, r, d) \<Rightarrow>
     rsv_id r = ses_reservation_id s \<and> dev_id d = ses_device_id s \<and>
     ses_status s = SessionActive \<and> rsv_status r = ReservationActive \<and>
     (case ses_remote s of None \<Rightarrow> False | Some m \<Rightarrow> rem_expires_at m \<le> db_clock db))"

definition FindNextExpiredRemoteSession :: "farm_db \<Rightarrow> (farm_error, expired_remote) result" where
  "FindNextExpiredRemoteSession db =
     (case first_by (\<lambda>(s, r, d). ((case ses_remote s of None \<Rightarrow> 0 | Some m \<Rightarrow> rem_expires_at m), ses_id s))
             (expired_remote_row db)
             (List.product (sessions db) (List.product (reservations db) (devices db))) of
        None \<Rightarrow> Inl RepoErrNotFound
      | Some (s, r, d) \<Rightarrow>
          (case ses_remote s of
             None \<Rightarrow> Inl RepoErrNotFound
           | Some m \<Rightarrow> Inr \<lparr>er_ID = rem_id m, er_ReservationID = ses_reservation_id s,
                            er_DeviceID = ses_device_id s, er_Serial = dev_serial d,
                            er_ExpiresAt = rem_expires_at m\<rparr>))"

definition ClearRemoteSession :: "string \<Rightarrow> string \<Rightarrow> unit farm_tx" where
  "ClearRemoteSession reservationID remoteID db =
     tx_bind
       (update_sessions
          (\<lambda>s. ses_reservation_id s = reservationID \<and> ses_status s = SessionActive \<and>
               (case ses_remote s of None \<Rightarrow> False | Some m \<Rightarrow> rem_id m = remoteID))
          (\<lambda>s. s\<lparr>ses_remote := None, ses_updated_at := db_clock db\<rparr>))
       (\<lambda>rows. tx_guard (length rows = 1) RepoErrNotFound) db"

section \<open>Closing an active reservation\<close>

text \<open>The CASE expression of the device update, and the states it applies to.\<close>

definition close_lifecycle ::
  "bool \<Rightarrow> device_lifecycle_status \<Rightarrow> device_lifecycle_status \<Rightarrow> device_lifecycle_status" where
  "close_lifecycle recycle releaseLifecycle l =
     (if l = DeviceQuarantined then l
      else if recycle then DeviceRecycling
      else if releaseLifecycle = DeviceQuarantined then DeviceQuarantined
      else DeviceReady)"

definition closable_lifecycles :: "device_lifecycle_status list" where
  "closable_lifecycles = [DeviceReady, DeviceBusy, DeviceReserved, DeviceRecycling, DeviceQuarantined]"

definition CloseActive ::
  "string \<Rightarrow> string \<Rightarrow> reservation_status \<Rightarrow> bool \<Rightarrow> device_lifecycle_status \<Rightarrow> timestamp \<Rightarrow>
   reservation_row farm_tx" where
  "CloseActive reservationID deviceID terminal recycle releaseLifecycle closedAt =
     tx_bind
       (update_sessions
          (\<lambda>s. ses_reservation_id s = reservationID \<and> ses_status s = SessionActive)
          (\<lambda>s. s\<lparr>ses_status := SessionClosing, ses_updated_at := closedAt\<rparr>))
       (\<lambda>_. tx_bind
       (update_sessions
          (\<lambda>s. ses_reservation_id s = reservationID \<and> ses_status s = SessionClosing)
          (\<lambda>s. s\<lparr>ses_status := SessionClosed, ses_ended_at := Some closedAt, ses_updated_at := closedAt\<rparr>))
       (\<lambda>_. tx_bind
       (update_devices
          (\<lambda>d. dev_id d = deviceID \<and> dev_lifecycle d \<in> set closable_lifecycles)
          (\<lambda>d. d\<lparr>dev_lifecycle := close_lifecycle recycle releaseLifecycle (dev_lifecycle d),
                 dev_lifecycle_mode := (if recycle then ''rebuild'' else dev_lifecycle_mode d),
                 dev_updated_at := closedAt\<rparr>))
       (\<lambda>n. tx_bind (tx_guard (n = 1) RepoErrNotFound)
       (\<lambda>_. tx_bind
       (update_reservations
          (\<lambda>r. rsv_id r = reservationID \<and> rsv_status r = ReservationActive)
          (\<lambda>r. r\<lparr>rsv_status := terminal, rsv_released_at := Some closedAt, rsv_updated_at := closedAt\<rparr>))
       (returning_row RepoErrNotFound)))))"

text \<open>\<open>InsertAudit\<close>: the reason is redacted before it is stored.\<close>

definition ck_audit :: "audit_row \<Rightarrow> bool" where
  "ck_audit a \<longleftrightarrow>
     identifierPattern (aud_id a) \<and>
     aud_actor_type a \<in> {''service'', ''agent'', ''system'', ''console''}"

definition InsertAudit ::
  "string \<Rightarrow> string \<Rightarrow> string \<Rightarrow> string \<Rightarrow> string \<Rightarrow> string \<Rightarrow> string \<Rightarrow> unit farm_tx" where
  "InsertAudit ident actorType actorID action resourceID requestID reason db =
     (let row = \<lparr>aud_id = ident, aud_actor_type = actorType, aud_actor_id = actorID,
                 aud_action = action, aud_resource_type = ''device_reservation'', aud_resource_id = resourceID, aud_request_id = requestID,
                 aud_reason = RedactText reason,
                 aud_created_at = db_clock db\<rparr>
      in if \<not> ck_audit row then Inl (SqlError ''23514'')
         else if find_row (\<lambda>a. aud_id a = ident) (audits db) \<noteq> None then Inl (SqlError ''23505'')
         else Inr ((), db\<lparr>audits := audits db @ [row]\<rparr>))"

section \<open>Listing\<close>

record reservation_filter =
  rf_OwnerType :: string
  rf_OwnerID :: string

definition filter_matches :: "reservation_filter \<Rightarrow> reservation_row \<Rightarrow> bool" where
  "filter_matches f r \<longleftrightarrow>
     (rf_OwnerType f = [] \<or> rsv_owner_type r = rf_OwnerType f) \<and>
     (rf_OwnerID f = [] \<or> rsv_owner_id r = rf_OwnerID f)"

definition repo_List ::
  "reservation_filter \<Rightarrow> Page \<Rightarrow> farm_db \<Rightarrow> (farm_error, reservation_row list \<times> int) result" where
  "repo_List f p db =
     (let matching = filter (filter_matches f) (reservations db)
      in case page_window p (rev (sort_key rsv_age matching)) of
           None \<Rightarrow> Inl (SqlError ''2201X'')
         | Some rows \<Rightarrow> Inr (rows, int (length matching)))"

section \<open>Pool policies\<close>

definition pool_policy_of :: "pool_row \<Rightarrow> int \<Rightarrow> pool_policy" where
  "pool_policy_of p n =
     \<lparr>pp_Status = pool_status p, pp_Platform = pool_platform p,
      pp_MaxLeaseSeconds = pool_max_lease_seconds p, pp_MaxConcurrency = pool_max_concurrency p,
      pp_ActiveReservations = n, pp_FreshVMPerRun = pool_fresh_vm_per_run p\<rparr>"

definition count_active_in_pool :: "string \<Rightarrow> farm_db \<Rightarrow> int" where
  "count_active_in_pool poolID db =
     int (length (filter (\<lambda>r. rsv_pool_id r = poolID \<and> rsv_status r = ReservationActive) (reservations db)))"

definition GetPoolPolicy :: "string \<Rightarrow> farm_db \<Rightarrow> (farm_error, pool_policy) result" where
  "GetPoolPolicy poolID db =
     (case find_row (\<lambda>p. pool_id p = poolID) (pools db) of
        None \<Rightarrow> Inl RepoErrNotFound
      | Some p \<Rightarrow> Inr (pool_policy_of p (count_active_in_pool poolID db)))"

definition LockPoolPolicy :: "string \<Rightarrow> farm_db \<Rightarrow> (farm_error, pool_policy) result" where
  "LockPoolPolicy poolID db =
     (case find_row (\<lambda>p. pool_id p = poolID) (pools db) of
        None \<Rightarrow> Inl RepoErrNotFound
      | Some p \<Rightarrow> Inr (pool_policy_of p (count_active_in_pool poolID db)))"

text \<open>
  A pool belongs to a host when it carries the host's address in its name; a host without an address
  has no such pool.
\<close>

definition pool_of_address :: "host_row \<Rightarrow> pool_row \<Rightarrow> bool" where
  "pool_of_address h p = (case host_address h of
     None \<Rightarrow> False
   | Some a \<Rightarrow> pool_name p = (if pool_platform p = ''ios'' then ''iOS - '' @ a else ''android-'' @ a))"

definition host_pool :: "(pool_row \<Rightarrow> bool) \<Rightarrow> (pool_row \<Rightarrow> 'k::linorder) \<Rightarrow> string \<Rightarrow> farm_db \<Rightarrow> string option" where
  "host_pool ok order hostID db =
     map_option (pool_id \<circ> snd)
       (first_by (order \<circ> snd)
          (\<lambda>(h, p). host_id h = hostID \<and> ok p \<and> pool_of_address h p)
          (List.product (hosts db) (pools db)))"

definition member_pool ::
  "(pool_device_row \<Rightarrow> pool_row \<Rightarrow> bool) \<Rightarrow> (pool_device_row \<Rightarrow> 'k::linorder) \<Rightarrow> string \<Rightarrow> farm_db \<Rightarrow> string option" where
  "member_pool ok order deviceID db =
     map_option (pd_pool_id \<circ> fst)
       (first_by (order \<circ> fst)
          (\<lambda>(pd, p). pool_id p = pd_pool_id pd \<and> pd_device_id pd = deviceID \<and> ok pd p)
          (List.product (pool_devices db) (pools db)))"

definition coalesce :: "'a option \<Rightarrow> 'a option \<Rightarrow> 'a option" where
  "coalesce a b = (case a of None \<Rightarrow> b | Some x \<Rightarrow> Some x)"

definition LoadPoolPolicyForRelease ::
  "string \<Rightarrow> string \<Rightarrow> farm_db \<Rightarrow> (farm_error, pool_policy) result" where
  "LoadPoolPolicyForRelease hostID deviceID db =
     (let chosen = coalesce
            (host_pool (\<lambda>p. True) (\<lambda>p. (pool_status p \<noteq> PoolActive, pool_created_at p)) hostID db)
            (member_pool (\<lambda>pd p. True) (\<lambda>pd. (\<not> pd_enabled pd, pd_created_at pd)) deviceID db)
      in case first_by (\<lambda>p. (pool_status p \<noteq> PoolActive, pool_created_at p))
                (\<lambda>p. chosen = Some (pool_id p)) (pools db) of
           None \<Rightarrow> Inl RepoErrNotFound | Some p \<Rightarrow> Inr (pool_policy_of p 0))"

definition count_active_on_host :: "string \<Rightarrow> farm_db \<Rightarrow> int" where
  "count_active_on_host hostID db =
     int (length (filter
       (\<lambda>(r, d). rsv_device_id r = Some (dev_id d) \<and> rsv_status r = ReservationActive \<and> dev_host_id d = hostID)
       (List.product (reservations db) (devices db))))"

definition LockPoolPolicyForHost ::
  "string \<Rightarrow> string \<Rightarrow> farm_db \<Rightarrow> (farm_error, pool_policy) result" where
  "LockPoolPolicyForHost hostID deviceID db =
     (let chosen = coalesce
            (host_pool (\<lambda>p. pool_status p = PoolActive) pool_created_at hostID db)
            (member_pool (\<lambda>pd p. pool_status p = PoolActive \<and> pd_enabled pd) pd_created_at deviceID db)
      in case first_by pool_created_at
                (\<lambda>p. pool_status p = PoolActive \<and> chosen = Some (pool_id p)) (pools db) of
           None \<Rightarrow> Inl RepoErrNotFound
         | Some p \<Rightarrow> Inr (pool_policy_of p (count_active_on_host hostID db)))"

section \<open>Targeted reservations\<close>

definition ValidateTargetDeviceInPool :: "string \<Rightarrow> string \<Rightarrow> farm_db \<Rightarrow> (farm_error, unit) result" where
  "ValidateTargetDeviceInPool poolID deviceID db =
     (if list_ex (\<lambda>(d, pd, p).
            pd_device_id pd = dev_id d \<and> pd_enabled pd \<and> pool_id p = pd_pool_id pd \<and>
            pool_status p = PoolActive \<and> pd_pool_id pd = poolID \<and> dev_id d = deviceID \<and>
            dev_lifecycle d \<notin> {DeviceDeleted, DeviceStopped, DeviceQuarantined} \<and>
            pool_platform p = dev_platform d)
          (List.product (devices db) (List.product (pool_devices db) (pools db)))
      then Inr () else Inl RepoErrNotFound)"

definition FindActivePoolForDevice :: "string \<Rightarrow> farm_db \<Rightarrow> (farm_error, string) result" where
  "FindActivePoolForDevice deviceID db =
     (case first_by (\<lambda>(d, pd, h, p). (pool_created_at p, pool_id p))
             (\<lambda>(d, pd, h, p). pd_enabled pd \<and> pool_status p = PoolActive \<and> dev_id d = deviceID \<and>
                dev_lifecycle d = DeviceReady \<and> dev_health d = HealthHealthy \<and>
                pool_platform p = dev_platform d \<and> host_status h = HostOnline \<and> \<not> host_draining h)
             (join_device db) of
        None \<Rightarrow> Inl RepoErrCapacityUnavailable
      | Some (d, pd, h, p) \<Rightarrow> Inr (pool_id p))"

definition open_targeted :: "string \<Rightarrow> string \<Rightarrow> reservation_row \<Rightarrow> bool" where
  "open_targeted ownerID deviceID r \<longleftrightarrow>
     rsv_owner_type r = ''manual'' \<and> (ownerID = [] \<or> rsv_owner_id r = ownerID) \<and>
     rsv_status r \<in> {ReservationPending, ReservationActive} \<and>
     arrow_text (rsv_capabilities r) TargetDeviceCapability = Some deviceID"

definition FindOpenTargeted :: "string \<Rightarrow> string \<Rightarrow> farm_db \<Rightarrow> (farm_error, reservation_row) result" where
  "FindOpenTargeted ownerID deviceID db =
     (case rev (sort_key rsv_age (filter (open_targeted ownerID deviceID) (reservations db))) of
        [] \<Rightarrow> Inl RepoErrNotFound | r # _ \<Rightarrow> Inr r)"

definition KeepAliveTargeted ::
  "string \<Rightarrow> string \<Rightarrow> string \<Rightarrow> duration \<Rightarrow> reservation_row farm_tx" where
  "KeepAliveTargeted reservationID ownerID deviceID lease db =
     (let seconds = trunc_div lease second; now = db_clock db;
          pool_of = (\<lambda>r. find_row (\<lambda>p. pool_id p = rsv_pool_id r) (pools db))
      in tx_bind
           (update_reservations
              (\<lambda>r. rsv_id r = reservationID \<and> pool_of r \<noteq> None \<and> rsv_status r = ReservationActive \<and>
                   (case rsv_expires_at r of None \<Rightarrow> False | Some e \<Rightarrow> now < e) \<and>
                   rsv_owner_type r = ''manual'' \<and> rsv_owner_id r = ownerID \<and>
                   arrow_text (rsv_capabilities r) TargetDeviceCapability = Some deviceID)
              (\<lambda>r. r\<lparr>rsv_expires_at :=
                       (case pool_of r of None \<Rightarrow> rsv_expires_at r
                        | Some p \<Rightarrow> Some (min (now + seconds * second)
                                            (now + pool_max_lease_seconds p * second))),
                     rsv_updated_at := now\<rparr>))
           (returning_row RepoErrNotFound) db)"

section \<open>Activation\<close>

definition opt_text :: "string option \<Rightarrow> json" where
  "opt_text t = (case t of None \<Rightarrow> JNull | Some s \<Rightarrow> JStr s)"

definition session_metadata :: "device_assignment \<Rightarrow> json_obj" where
  "session_metadata device =
     [(''host_id'', JStr (da_HostID device)), (''platform'', JStr (da_Platform device)),
      (''serial'', JStr (da_Serial device)), (''adb_endpoint'', opt_text (da_ADBEndpoint device)),
      (''appium_endpoint'', opt_text (da_AppiumEndpoint device)),
      (''appium_udid'', JStr (da_AppiumUDID device))]"

definition started_session :: "string \<Rightarrow> string \<Rightarrow> device_assignment \<Rightarrow> timestamp \<Rightarrow> session_row" where
  "started_session sessionID reservationID device now =
     \<lparr>ses_id = sessionID, ses_reservation_id = reservationID, ses_device_id = da_ID device,
      ses_status = SessionActive, ses_started_at = Some now, ses_ended_at = None,
      ses_metadata = session_metadata device, ses_remote = None, ses_created_at = now,
      ses_updated_at = now\<rparr>"

text \<open>The insert into \<open>device_sessions\<close>: CHECKs, then the two unique columns.\<close>

definition insert_session :: "session_row \<Rightarrow> session_row farm_tx" where
  "insert_session s db =
     (if \<not> ck_session s then Inl (SqlError ''23514'')
      else if find_row (\<lambda>x. ses_id x = ses_id s \<or> ses_reservation_id x = ses_reservation_id s) (sessions db) \<noteq> None
      then Inl (SqlError ''23505'')
      else Inr (s, db\<lparr>sessions := sessions db @ [s]\<rparr>))"

definition ActivateClaimed ::
  "reservation_row \<Rightarrow> device_assignment \<Rightarrow> string \<Rightarrow> (reservation_row \<times> session_row) farm_tx" where
  "ActivateClaimed reservation device sessionID db =
     (let now = db_clock db
      in tx_bind
           (update_devices
              (\<lambda>d. dev_id d = da_ID device \<and> dev_lifecycle d = DeviceReserved)
              (\<lambda>d. d\<lparr>dev_lifecycle := DeviceBusy, dev_updated_at := now\<rparr>))
           (\<lambda>n. tx_bind (tx_guard (n = 1) RepoErrCapacityUnavailable)
           (\<lambda>_. tx_bind
              (update_reservations
                 (\<lambda>r. rsv_id r = rsv_id reservation \<and> rsv_status r = ReservationPending \<and>
                      rsv_device_id r = Some (da_ID device))
                 (\<lambda>r. r\<lparr>rsv_device_id := Some (da_ID device), rsv_status := ReservationActive,
                        rsv_starts_at := Some now,
                        rsv_expires_at := Some (now + rsv_lease_seconds r * second),
                        rsv_updated_at := now\<rparr>))
           (\<lambda>rows. tx_bind (returning_row RepoErrNotFound rows)
           (\<lambda>active. tx_bind
              (insert_session (started_session sessionID (rsv_id reservation) device now))
           (\<lambda>session. tx_return (active, session)))))) db)"

end
