(* ===== verification/Farm_Invariant.thy ===== *)
theory Farm_Invariant
  imports Reservation_Repository
begin

text \<open>
  The invariant of the tables of the scheduling core.  Its centre, \<open>core\<close>, is about three sets of
  rows: a device is held by at most one reservation; a held device is \<open>reserved\<close> for a claim, \<open>busy\<close>
  under an active reservation, or \<open>quarantined\<close>, and so never \<open>ready\<close>; and active reservations
  and open sessions belong together.  Around it stand what the schema enforces (keys,
  CHECK constraints) and that no timestamp lies ahead of the database clock.
\<close>

section \<open>The core\<close>

definition holds :: "reservation_row \<Rightarrow> bool" where
  "holds r \<longleftrightarrow> rsv_status r \<in> {ReservationPending, ReservationActive} \<and> rsv_device_id r \<noteq> None"

definition exclusive :: "reservation_row set \<Rightarrow> bool" where
  "exclusive R \<longleftrightarrow>
     (\<forall>r\<in>R. \<forall>q\<in>R. holds r \<longrightarrow> holds q \<longrightarrow> rsv_device_id r = rsv_device_id q \<longrightarrow> r = q)"

definition held_lifecycle :: "reservation_status \<Rightarrow> device_lifecycle_status \<Rightarrow> bool" where
  "held_lifecycle s l \<longleftrightarrow>
     l = DeviceQuarantined \<or> l = (if s = ReservationActive then DeviceBusy else DeviceReserved)"

lemma held_lifecycle_simps [simp]:
  "held_lifecycle s DeviceQuarantined" "held_lifecycle ReservationActive DeviceBusy"
  "held_lifecycle ReservationPending DeviceReserved" "\<not> held_lifecycle s DeviceReady"
  by (simp_all add: held_lifecycle_def)

definition guarded :: "device_row set \<Rightarrow> reservation_row set \<Rightarrow> bool" where
  "guarded D R \<longleftrightarrow>
     (\<forall>r\<in>R. holds r \<longrightarrow>
        (\<exists>d\<in>D. rsv_device_id r = Some (dev_id d) \<and> held_lifecycle (rsv_status r) (dev_lifecycle d)))"

definition open_session :: "session_row \<Rightarrow> bool" where
  "open_session s \<longleftrightarrow> ses_status s \<in> {SessionStarting, SessionActive, SessionClosing}"

definition paired :: "reservation_row set \<Rightarrow> session_row set \<Rightarrow> bool" where
  "paired R S \<longleftrightarrow>
     (\<forall>r\<in>R. rsv_status r = ReservationActive \<longrightarrow>
        (\<exists>s\<in>S. ses_reservation_id s = rsv_id r \<and> ses_status s = SessionActive \<and>
               rsv_device_id r = Some (ses_device_id s))) \<and>
     (\<forall>s\<in>S. \<exists>r\<in>R. rsv_id r = ses_reservation_id s \<and> rsv_status r \<noteq> ReservationPending \<and>
        (open_session s \<longrightarrow> rsv_status r = ReservationActive))"

definition core :: "device_row set \<Rightarrow> reservation_row set \<Rightarrow> session_row set \<Rightarrow> bool" where
  "core D R S \<longleftrightarrow>
     inj_on dev_id D \<and> inj_on rsv_id R \<and> inj_on ses_reservation_id S \<and>
     exclusive R \<and> guarded D R \<and> paired R S"

lemma core_dest:
  assumes "core D R S"
  shows "d \<in> D \<Longrightarrow> d' \<in> D \<Longrightarrow> dev_id d = dev_id d' \<Longrightarrow> d = d'"
    and "r \<in> R \<Longrightarrow> r' \<in> R \<Longrightarrow> rsv_id r = rsv_id r' \<Longrightarrow> r = r'"
    and "s \<in> S \<Longrightarrow> s' \<in> S \<Longrightarrow> ses_reservation_id s = ses_reservation_id s' \<Longrightarrow> s = s'"
    and "r \<in> R \<Longrightarrow> r' \<in> R \<Longrightarrow> holds r \<Longrightarrow> holds r' \<Longrightarrow> rsv_device_id r = rsv_device_id r' \<Longrightarrow> r = r'"
    and "r \<in> R \<Longrightarrow> holds r \<Longrightarrow>
       \<exists>d\<in>D. rsv_device_id r = Some (dev_id d) \<and> held_lifecycle (rsv_status r) (dev_lifecycle d)"
    and "r \<in> R \<Longrightarrow> rsv_status r = ReservationActive \<Longrightarrow>
       \<exists>s\<in>S. ses_reservation_id s = rsv_id r \<and> ses_status s = SessionActive \<and> rsv_device_id r = Some (ses_device_id s)"
    and "s \<in> S \<Longrightarrow> \<exists>r\<in>R. rsv_id r = ses_reservation_id s \<and> rsv_status r \<noteq> ReservationPending \<and>
       (open_session s \<longrightarrow> rsv_status r = ReservationActive)"
  using assms unfolding core_def exclusive_def guarded_def paired_def inj_on_def by blast+

text \<open>Replacing one row keeps a key unique.\<close>

lemma inj_replace: "inj_on k X \<Longrightarrow> x \<in> X \<Longrightarrow> k x' = k x \<Longrightarrow> inj_on k (insert x' (X - {x}))"
  unfolding inj_on_def by (metis (no_types, lifting) DiffD1 DiffD2 insert_iff)

lemma core_replace:
  assumes c: "core D R S"
  shows "d \<in> D \<Longrightarrow> dev_id d' = dev_id d \<Longrightarrow> inj_on dev_id (insert d' (D - {d}))"
    and "r \<in> R \<Longrightarrow> rsv_id r' = rsv_id r \<Longrightarrow> inj_on rsv_id (insert r' (R - {r}))"
    and "s \<in> S \<Longrightarrow> ses_reservation_id s' = ses_reservation_id s \<Longrightarrow>
      inj_on ses_reservation_id (insert s' (S - {s}))"
    and "inj_on dev_id D" and "inj_on rsv_id R" and "inj_on ses_reservation_id S"
proof -
  show k: "inj_on dev_id D" "inj_on rsv_id R" "inj_on ses_reservation_id S"
    using c by (simp_all add: core_def)
  show "d \<in> D \<Longrightarrow> dev_id d' = dev_id d \<Longrightarrow> inj_on dev_id (insert d' (D - {d}))"
    by (rule inj_replace [OF k(1)])
  show "r \<in> R \<Longrightarrow> rsv_id r' = rsv_id r \<Longrightarrow> inj_on rsv_id (insert r' (R - {r}))"
    by (rule inj_replace [OF k(2)])
  show "s \<in> S \<Longrightarrow> ses_reservation_id s' = ses_reservation_id s \<Longrightarrow>
      inj_on ses_reservation_id (insert s' (S - {s}))"
    by (rule inj_replace [OF k(3)])
qed

text \<open>A reservation that stops holding, and one that leaves the pending state or stays in it.\<close>

lemma exclusive_drop: "exclusive R \<Longrightarrow> \<not> holds r' \<Longrightarrow> exclusive (insert r' (R - X))"
  unfolding exclusive_def by blast

lemma exclusive_hold:
  assumes "exclusive R" and "\<And>q. q \<in> R - {r} \<Longrightarrow> holds q \<Longrightarrow> rsv_device_id q \<noteq> rsv_device_id r'"
  shows "exclusive (insert r' (R - {r}))"
  unfolding exclusive_def
proof (intro ballI impI)
  fix x y assume xy: "x \<in> insert r' (R - {r})" "y \<in> insert r' (R - {r})" "holds x" "holds y"
    "rsv_device_id x = rsv_device_id y"
  from xy(1,2) consider "x = r'" "y = r'" | "x = r'" "y \<in> R - {r}" | "y = r'" "x \<in> R - {r}"
    | "x \<in> R" "y \<in> R" by blast
  then show "x = y"
  proof cases
    case 2
    with assms(2) [of y] xy(4,5) show ?thesis by simp
  next
    case 3
    with assms(2) [of x] xy(3,5) show ?thesis by simp
  next
    case 4
    with assms(1) xy(3-5) show ?thesis unfolding exclusive_def by blast
  qed simp
qed

lemma guarded_drop: "guarded D R \<Longrightarrow> \<not> holds r' \<Longrightarrow> guarded D (insert r' (R - X))"
  unfolding guarded_def by blast

lemma guarded_free:
  assumes "guarded D R" and "\<And>r. r \<in> R \<Longrightarrow> holds r \<Longrightarrow> rsv_device_id r \<noteq> Some (dev_id d)"
  shows "guarded (insert d' (D - {d})) R"
  using assms unfolding guarded_def by (metis Diff_iff insert_iff singletonD)

lemma paired_inactive:
  assumes "paired R S" and "rsv_status r' \<noteq> ReservationActive"
    and "\<And>r. r \<in> X \<Longrightarrow> rsv_status r = ReservationPending"
  shows "paired (insert r' (R - X)) S"
  unfolding paired_def
proof (intro conjI ballI impI)
  fix q assume "q \<in> insert r' (R - X)" "rsv_status q = ReservationActive"
  with assms(1,2) show "\<exists>s\<in>S. ses_reservation_id s = rsv_id q \<and> ses_status s = SessionActive \<and>
      rsv_device_id q = Some (ses_device_id s)"
    unfolding paired_def by blast
next
  fix s assume "s \<in> S"
  with assms(1) obtain q where "q \<in> R" "rsv_id q = ses_reservation_id s" "rsv_status q \<noteq> ReservationPending"
      "open_session s \<longrightarrow> rsv_status q = ReservationActive"
    unfolding paired_def by blast
  with assms(3) [of q] show "\<exists>q\<in>insert r' (R - X). rsv_id q = ses_reservation_id s \<and>
      rsv_status q \<noteq> ReservationPending \<and> (open_session s \<longrightarrow> rsv_status q = ReservationActive)"
    by blast
qed

text \<open>
  A reservation changes while the devices and sessions stay: nothing new is held, an active
  reservation stays active with its device, a pending one does not become active.
\<close>

lemma core_reservation:
  assumes c: "core D R S" and r: "r \<in> R" and k: "rsv_id r' = rsv_id r"
    and h: "holds r' \<Longrightarrow> holds r \<and> rsv_device_id r' = rsv_device_id r"
    and a: "rsv_status r' = ReservationActive \<longleftrightarrow> rsv_status r = ReservationActive"
    and d: "rsv_status r = ReservationActive \<Longrightarrow> rsv_device_id r' = rsv_device_id r"
    and p: "rsv_status r' = ReservationPending \<Longrightarrow> rsv_status r = ReservationPending"
  shows "core D (insert r' (R - {r})) S"
  unfolding core_def
proof (intro conjI)
  show "inj_on dev_id D" and "inj_on ses_reservation_id S" using c by (simp_all add: core_def)
  show "inj_on rsv_id (insert r' (R - {r}))" by (rule core_replace(2) [OF c r k])
  show "exclusive (insert r' (R - {r}))"
    using core_dest(4) [OF c] r h unfolding exclusive_def by (metis DiffE insert_iff)
  show "guarded D (insert r' (R - {r}))"
    unfolding guarded_def
  proof (intro ballI impI)
    fix q assume q: "q \<in> insert r' (R - {r})" "holds q"
    have "rsv_status r' = rsv_status r" if "holds r'" using that h a p by (auto simp: holds_def)
    then show "\<exists>d\<in>D. rsv_device_id q = Some (dev_id d) \<and> held_lifecycle (rsv_status q) (dev_lifecycle d)"
      using q core_dest(5) [OF c, of q] core_dest(5) [OF c, of r] h r by (cases "q = r'") auto
  qed
  show "paired (insert r' (R - {r})) S"
    unfolding paired_def
  proof (intro conjI ballI impI)
    fix q assume "q \<in> insert r' (R - {r})" "rsv_status q = ReservationActive"
    then show "\<exists>s\<in>S. ses_reservation_id s = rsv_id q \<and> ses_status s = SessionActive \<and>
        rsv_device_id q = Some (ses_device_id s)"
      using core_dest(6) [OF c] r k a d by (metis DiffE insert_iff)
  next
    fix s assume "s \<in> S"
    then show "\<exists>q\<in>insert r' (R - {r}). rsv_id q = ses_reservation_id s \<and> rsv_status q \<noteq> ReservationPending \<and>
        (open_session s \<longrightarrow> rsv_status q = ReservationActive)"
      using core_dest(7) [OF c] k a p by (metis Diff_iff insert_iff singletonD)
  qed
qed

text \<open>A new reservation starts pending and without a device.\<close>

lemma core_insert:
  assumes c: "core D R S" and n: "rsv_status r' = ReservationPending" "rsv_device_id r' = None"
    and f: "\<And>r. r \<in> R \<Longrightarrow> rsv_id r \<noteq> rsv_id r'"
  shows "core D (insert r' R) S"
  unfolding core_def
proof (intro conjI)
  have nh: "\<not> holds r'" using n by (simp add: holds_def)
  have "rsv_id r' \<notin> rsv_id ` (R - {r'})" using f by force
  then show "inj_on rsv_id (insert r' R)" using core_replace(5) [OF c] by (simp add: inj_on_insert)
  show "inj_on dev_id D" "inj_on ses_reservation_id S" by (rule core_replace [OF c])+
  show "exclusive (insert r' R)" "guarded D (insert r' R)" "paired (insert r' R) S"
    using exclusive_drop [of R r' "{}"] guarded_drop [of D R r' "{}"] paired_inactive [of R S r' "{}"] c nh n
    by (simp_all add: core_def)
qed

text \<open>Reserving a ready device for a pending reservation.\<close>

lemma core_reserve:
  assumes c: "core D R S" and d: "d \<in> D" "dev_lifecycle d = DeviceReady"
    and d': "dev_id d' = dev_id d" "held_lifecycle ReservationPending (dev_lifecycle d')"
    and r: "r \<in> R" "rsv_status r = ReservationPending" "rsv_device_id r = None"
    and r': "rsv_id r' = rsv_id r" "rsv_status r' = ReservationPending" "rsv_device_id r' = Some (dev_id d)"
  shows "core (insert d' (D - {d})) (insert r' (R - {r})) S"
  unfolding core_def
proof (intro conjI)
  show "inj_on dev_id (insert d' (D - {d}))" by (rule core_replace(1) [OF c d(1) d'(1)])
  show "inj_on rsv_id (insert r' (R - {r}))" by (rule core_replace(2) [OF c r(1) r'(1)])
  show "inj_on ses_reservation_id S" by (rule core_replace(6) [OF c])
  have free: "rsv_device_id q \<noteq> Some (dev_id d)" if q: "q \<in> R" "holds q" for q
  proof
    assume "rsv_device_id q = Some (dev_id d)"
    then obtain e where "e \<in> D" "dev_id e = dev_id d" "dev_lifecycle e \<noteq> DeviceReady"
      using core_dest(5) [OF c q] by fastforce
    then show False using core_dest(1) [OF c, of e d] d by simp
  qed
  show "exclusive (insert r' (R - {r}))"
    by (rule exclusive_hold) (use c free r'(3) in \<open>simp_all add: core_def\<close>)
  have "guarded (insert d' (D - {d})) (R - {r})"
    by (rule guarded_free) (use c free in \<open>auto simp: core_def guarded_def\<close>)
  then show "guarded (insert d' (D - {d})) (insert r' (R - {r}))"
    using d' r'(2,3) unfolding guarded_def by auto
  show "paired (insert r' (R - {r})) S"
    using paired_inactive [of R S r' "{r}"] c r r' by (simp add: core_def)
qed

text \<open>
  Giving a device back: the one reservation that held it stops holding, so the device may become
  anything, ready included.
\<close>

lemma core_unhold:
  assumes c: "core D R S" and d: "d \<in> D" and d': "dev_id d' = dev_id d"
    and r: "r \<in> R" "holds r" "rsv_device_id r = Some (dev_id d)" "rsv_status r = ReservationPending"
    and r': "rsv_id r' = rsv_id r" "\<not> holds r'" "rsv_status r' \<noteq> ReservationActive"
  shows "core (insert d' (D - {d})) (insert r' (R - {r})) S"
  unfolding core_def
proof (intro conjI)
  show "inj_on dev_id (insert d' (D - {d}))" by (rule core_replace(1) [OF c d d'])
  show "inj_on rsv_id (insert r' (R - {r}))" by (rule core_replace(2) [OF c r(1) r'(1)])
  show "inj_on ses_reservation_id S" by (rule core_replace(6) [OF c])
  show "exclusive (insert r' (R - {r}))" using exclusive_drop c r'(2) by (simp add: core_def)
  show "guarded (insert d' (D - {d})) (insert r' (R - {r}))"
  proof (rule guarded_free)
    show "guarded D (insert r' (R - {r}))" using guarded_drop c r'(2) by (simp add: core_def)
    show "rsv_device_id q \<noteq> Some (dev_id d)" if "q \<in> insert r' (R - {r})" "holds q" for q
      using core_dest(4) [OF c, of q r] that r r'(2) by auto
  qed
  show "paired (insert r' (R - {r})) S"
    using paired_inactive [of R S r' "{r}"] c r r' by (simp add: core_def)
qed

text \<open>Activating a claim: the reservation becomes active together with a new session.\<close>

lemma core_activate:
  assumes c: "core D R S" and d: "d \<in> D"
    and d': "dev_id d' = dev_id d" "held_lifecycle ReservationActive (dev_lifecycle d')"
    and r: "r \<in> R" "holds r" "rsv_device_id r = Some (dev_id d)" "rsv_status r = ReservationPending"
    and r': "rsv_id r' = rsv_id r" "rsv_status r' = ReservationActive" "rsv_device_id r' = Some (dev_id d)"
    and s: "ses_reservation_id s = rsv_id r" "ses_status s = SessionActive" "ses_device_id s = dev_id d"
  shows "core (insert d' (D - {d})) (insert r' (R - {r})) (insert s S)"
  unfolding core_def
proof (intro conjI)
  have fresh: "ses_reservation_id t \<noteq> rsv_id r" if t: "t \<in> S" for t
  proof
    assume k: "ses_reservation_id t = rsv_id r"
    obtain q where "q \<in> R" "rsv_id q = rsv_id r" "rsv_status q \<noteq> ReservationPending"
      using core_dest(7) [OF c t] k by auto
    then show False using core_dest(2) [OF c, of q r] r by simp
  qed
  show "inj_on dev_id (insert d' (D - {d}))" by (rule core_replace(1) [OF c d d'(1)])
  show "inj_on rsv_id (insert r' (R - {r}))" by (rule core_replace(2) [OF c r(1) r'(1)])
  have "ses_reservation_id s \<notin> ses_reservation_id ` (S - {s})" using fresh s(1) by force
  then show "inj_on ses_reservation_id (insert s S)"
    using core_replace(6) [OF c] by (simp add: inj_on_insert)
  show "exclusive (insert r' (R - {r}))"
  proof (rule exclusive_hold)
    show "exclusive R" using c by (simp add: core_def)
    show "rsv_device_id q \<noteq> rsv_device_id r'" if "q \<in> R - {r}" "holds q" for q
      using core_dest(4) [OF c, of q r] that r r'(3) by auto
  qed
  have "rsv_device_id q \<noteq> Some (dev_id d)" if "q \<in> R - {r}" "holds q" for q
    using core_dest(4) [OF c, of q r] that r by auto
  then have "guarded (insert d' (D - {d})) (R - {r})"
    by (intro guarded_free) (use c in \<open>auto simp: core_def guarded_def\<close>)
  then show "guarded (insert d' (D - {d})) (insert r' (R - {r}))"
    using d' r'(2,3) unfolding guarded_def by auto
  show "paired (insert r' (R - {r})) (insert s S)"
    unfolding paired_def
  proof (intro conjI ballI impI)
    fix q assume "q \<in> insert r' (R - {r})" "rsv_status q = ReservationActive"
    then show "\<exists>t\<in>insert s S. ses_reservation_id t = rsv_id q \<and> ses_status t = SessionActive \<and>
        rsv_device_id q = Some (ses_device_id t)"
      using core_dest(6) [OF c, of q] r' s by auto
  next
    fix t assume "t \<in> insert s S"
    then consider "t = s" | "t \<in> S" by blast
    then show "\<exists>q\<in>insert r' (R - {r}). rsv_id q = ses_reservation_id t \<and> rsv_status q \<noteq> ReservationPending \<and>
        (open_session t \<longrightarrow> rsv_status q = ReservationActive)"
    proof cases
      case 1
      with r' s show ?thesis by auto
    next
      case 2
      then obtain q where "q \<in> R" "rsv_id q = ses_reservation_id t" "rsv_status q \<noteq> ReservationPending"
          "open_session t \<longrightarrow> rsv_status q = ReservationActive"
        using core_dest(7) [OF c, of t] by blast
      then show ?thesis using r(4) by auto
    qed
  qed
qed

text \<open>Closing: reservation and session end together and the device may become anything.\<close>

lemma core_close:
  assumes c: "core D R S" and d: "d \<in> D" and d': "dev_id d' = dev_id d"
    and r: "r \<in> R" "rsv_status r = ReservationActive" "rsv_device_id r = Some (dev_id d)"
    and r': "rsv_id r' = rsv_id r" "rsv_status r' \<notin> {ReservationPending, ReservationActive}"
    and s: "s \<in> S" "ses_reservation_id s = rsv_id r"
    and s': "ses_reservation_id s' = ses_reservation_id s" "\<not> open_session s'"
  shows "core (insert d' (D - {d})) (insert r' (R - {r})) (insert s' (S - {s}))"
  unfolding core_def
proof (intro conjI)
  show "inj_on dev_id (insert d' (D - {d}))" "inj_on rsv_id (insert r' (R - {r}))"
    "inj_on ses_reservation_id (insert s' (S - {s}))"
    by (rule core_replace [OF c]; fact)+
  have nh: "\<not> holds r'" using r' by (auto simp: holds_def)
  have hr: "holds r" using r by (simp add: holds_def)
  show "exclusive (insert r' (R - {r}))"
    using core_dest(4) [OF c] nh unfolding exclusive_def by (metis DiffE insert_iff)
  have "rsv_device_id q \<noteq> Some (dev_id d)" if "q \<in> R - {r}" "holds q" for q
    using core_dest(4) [OF c, of q r] that r hr by auto
  then show "guarded (insert d' (D - {d})) (insert r' (R - {r}))"
    using core_dest(5) [OF c] nh unfolding guarded_def by (metis Diff_iff insert_iff singletonD)
  have other: "ses_reservation_id t \<noteq> rsv_id r" if "t \<in> S" "t \<noteq> s" for t
    using core_dest(3) [OF c, of t s] that s by auto
  show "paired (insert r' (R - {r})) (insert s' (S - {s}))"
    unfolding paired_def
  proof (intro conjI ballI impI)
    fix q assume q: "q \<in> insert r' (R - {r})" "rsv_status q = ReservationActive"
    then have "q \<in> R" "q \<noteq> r" using r' by auto
    moreover have "rsv_id q \<noteq> rsv_id r" using core_dest(2) [OF c, of q r] calculation r by auto
    ultimately show "\<exists>t\<in>insert s' (S - {s}). ses_reservation_id t = rsv_id q \<and> ses_status t = SessionActive \<and>
        rsv_device_id q = Some (ses_device_id t)"
      using core_dest(6) [OF c, of q] q(2) s by (metis Diff_iff insert_iff singletonD)
  next
    fix t assume "t \<in> insert s' (S - {s})"
    then show "\<exists>q\<in>insert r' (R - {r}). rsv_id q = ses_reservation_id t \<and> rsv_status q \<noteq> ReservationPending \<and>
        (open_session t \<longrightarrow> rsv_status q = ReservationActive)"
      using core_dest(7) [OF c, of t] other r' s s' by (metis DiffE Diff_iff insert_iff singletonD)
  qed
qed

text \<open>A session changes without closing or moving.\<close>

lemma core_session:
  assumes c: "core D R S" and s: "s \<in> S"
    and s': "ses_reservation_id s' = ses_reservation_id s" "ses_status s' = ses_status s"
      "ses_device_id s' = ses_device_id s"
  shows "core D R (insert s' (S - {s}))"
proof -
  have "inj_on ses_reservation_id (insert s' (S - {s}))" by (rule core_replace(3) [OF c s s'(1)])
  moreover have "open_session s' = open_session s" using s' by (simp add: open_session_def)
  ultimately show ?thesis
    using c s s' unfolding core_def paired_def by (metis Diff_iff insert_iff singletonD)
qed

text \<open>Other components change devices, but keep the held ones and the state their holder expects.\<close>

lemma core_devices:
  assumes c: "core D R S" and "inj_on dev_id D'"
    and "\<And>r d. r \<in> R \<Longrightarrow> holds r \<Longrightarrow> d \<in> D \<Longrightarrow> rsv_device_id r = Some (dev_id d) \<Longrightarrow>
      held_lifecycle (rsv_status r) (dev_lifecycle d) \<Longrightarrow>
      \<exists>d'\<in>D'. dev_id d' = dev_id d \<and> held_lifecycle (rsv_status r) (dev_lifecycle d')"
  shows "core D' R S"
  using assms unfolding core_def guarded_def by metis

section \<open>Rows\<close>

text \<open>
  What holds of single rows at database time \<open>c\<close>: the CHECK constraints, no timestamp ahead of the
  clock, and a pending reservation has neither started nor been released.
\<close>

definition not_after :: "timestamp \<Rightarrow> timestamp option \<Rightarrow> bool" where
  "not_after c t \<longleftrightarrow> (case t of None \<Rightarrow> True | Some x \<Rightarrow> x \<le> c)"

lemma not_after_simps [simp]: "not_after c None" "not_after c (Some x) \<longleftrightarrow> x \<le> c"
  by (simp_all add: not_after_def)

lemma not_after_mono: "not_after c t \<Longrightarrow> c \<le> c' \<Longrightarrow> not_after c' t"
  by (cases t) auto

definition rsv_ok :: "timestamp \<Rightarrow> reservation_row \<Rightarrow> bool" where
  "rsv_ok c r \<longleftrightarrow>
     ck_reservation r \<and> rsv_updated_at r \<le> c \<and> not_after c (rsv_starts_at r) \<and>
     (rsv_status r = ReservationPending \<longrightarrow> rsv_starts_at r = None \<and> rsv_released_at r = None)"

definition ses_ok :: "timestamp \<Rightarrow> session_row \<Rightarrow> bool" where
  "ses_ok c s \<longleftrightarrow> ck_session s \<and> ses_updated_at s \<le> c \<and> not_after c (ses_started_at s)"

lemma rsv_ok_mono: "rsv_ok c r \<Longrightarrow> c \<le> c' \<Longrightarrow> rsv_ok c' r"
  using not_after_mono by (auto simp: rsv_ok_def)

lemma ses_ok_mono: "ses_ok c s \<Longrightarrow> c \<le> c' \<Longrightarrow> ses_ok c' s"
  using not_after_mono by (auto simp: ses_ok_def)

lemma rsv_ok_created: "rsv_ok c r \<Longrightarrow> rsv_created_at r \<le> c"
  by (auto simp: rsv_ok_def ck_reservation_def)

definition rows_ok :: "farm_db \<Rightarrow> bool" where
  "rows_ok db \<longleftrightarrow>
     0 < db_clock db \<and>
     distinct (map dev_id (devices db)) \<and> list_all (\<lambda>d. identifierPattern (dev_id d)) (devices db) \<and>
     distinct (map rsv_id (reservations db)) \<and> list_all (rsv_ok (db_clock db)) (reservations db) \<and>
     distinct (map ses_id (sessions db)) \<and> distinct (map ses_reservation_id (sessions db)) \<and>
     list_all (ses_ok (db_clock db)) (sessions db)"

definition farm_core :: "farm_db \<Rightarrow> bool" where
  "farm_core db \<longleftrightarrow> core (set (devices db)) (set (reservations db)) (set (sessions db))"

definition farm_inv :: "farm_db \<Rightarrow> bool" where
  "farm_inv db \<longleftrightarrow> rows_ok db \<and> farm_core db"

lemma farm_inv_rows: "farm_inv db \<Longrightarrow> rows_ok db" and farm_inv_core: "farm_inv db \<Longrightarrow> farm_core db"
  by (simp_all add: farm_inv_def)

lemma active_device:
  assumes "farm_inv db" and "r \<in> set (reservations db)" and "rsv_status r = ReservationActive"
  obtains d where "d \<in> set (devices db)" and "rsv_device_id r = Some (dev_id d)"
    and "dev_lifecycle d \<in> {DeviceBusy, DeviceQuarantined}"
proof -
  have c: "core (set (devices db)) (set (reservations db)) (set (sessions db))"
    using assms(1) by (simp add: farm_inv_def farm_core_def)
  have "rsv_device_id r \<noteq> None" using core_dest(6) [OF c assms(2,3)] by auto
  then have "holds r" using assms(3) by (simp add: holds_def)
  from core_dest(5) [OF c assms(2) this] show ?thesis using that assms(3) by (auto simp: held_lifecycle_def)
qed

lemma rows_okD:
  assumes "rows_ok db"
  shows "0 < db_clock db" and "distinct (map dev_id (devices db))"
    and "distinct (map rsv_id (reservations db))" and "distinct (map ses_reservation_id (sessions db))"
    and "d \<in> set (devices db) \<Longrightarrow> identifierPattern (dev_id d)"
    and "r \<in> set (reservations db) \<Longrightarrow> rsv_ok (db_clock db) r"
    and "s \<in> set (sessions db) \<Longrightarrow> ses_ok (db_clock db) s"
  using assms by (auto simp: rows_ok_def list_all_iff)

text \<open>The invariant reads four fields; statements on other tables keep it.\<close>

definition same_core :: "farm_db \<Rightarrow> farm_db \<Rightarrow> bool" where
  "same_core db db' \<longleftrightarrow>
     devices db' = devices db \<and> reservations db' = reservations db \<and> sessions db' = sessions db \<and>
     db_clock db' = db_clock db"

lemma same_core_inv: "same_core db db' \<Longrightarrow> farm_inv db' = farm_inv db"
  by (simp add: same_core_def farm_inv_def rows_ok_def farm_core_def)

lemma InsertAudit_same: "InsertAudit i t a c q m n db = Inr (u, db') \<Longrightarrow> same_core db db'"
  by (auto simp: InsertAudit_def Let_def same_core_def split: if_splits)

lemma BeginOperation_same: "BeginOperation p db = Inr (b, db') \<Longrightarrow> same_core db db'"
  by (auto simp: BeginOperation_def same_core_def split: if_splits option.splits)

section \<open>Statements under the invariant\<close>

text \<open>An UPDATE by primary key replaces one row.\<close>

lemma replaced_rest:
  assumes "distinct (map key t)" and "r \<in> set t" and "P r" and "\<And>x. P x \<Longrightarrow> key x = key r"
    and "key (f r) = key r"
  shows "set (update_where P f t) - {f r} = set t - {r}"
proof -
  have "x = r" if "x \<in> set t" "x = f r" for x
    using distinct_map_same [OF assms(1) that(1) assms(2)] that assms(5) by simp
  moreover have "set (update_where P f t) = insert (f r) (set t - {r})"
    by (rule set_update_single [of key t r P f, OF assms(1-4)])
  ultimately show ?thesis by auto
qed

lemma update_devices_rows:
  assumes "rows_ok db" and "update_devices P f db = Inr (n, db')" and "\<And>x. dev_id (f x) = dev_id x"
  shows "rows_ok db'"
proof -
  have "db' = db\<lparr>devices := update_where P f (devices db)\<rparr>" using assms(2) by simp
  moreover have "map dev_id (update_where P f (devices db)) = map dev_id (devices db)"
    by (rule map_update_where) (rule assms(3))
  ultimately show ?thesis
    using assms(1,3) by (auto simp: rows_ok_def list_all_iff set_update_where)
qed

lemma update_devices_one:
  assumes "rows_ok db" and "update_devices P f db = Inr (n, db')" and "n = 1"
    and "\<And>x. P x \<Longrightarrow> dev_id x = k" and "\<And>x. dev_id (f x) = dev_id x"
  obtains d where "d \<in> set (devices db)" and "P d" and "dev_id d = k" and "rows_ok db'"
    and "set (devices db') = insert (f d) (set (devices db) - {d})"
    and "set (devices db') - {f d} = set (devices db) - {d}"
    and "db' = db\<lparr>devices := update_where P f (devices db)\<rparr>"
proof -
  from assms(2,3) have len: "length (filter P (devices db)) = 1"
    and db': "db' = db\<lparr>devices := update_where P f (devices db)\<rparr>" by simp_all
  from length_filter_eq_one [OF len] obtain d where d: "d \<in> set (devices db)" "P d" by blast
  have k: "P x \<Longrightarrow> dev_id x = dev_id d" for x using assms(4) d(2) by simp
  have "rows_ok db'"
    using assms(1) assms(5) by (auto simp: rows_ok_def db' list_all_iff set_update_where map_update_where)
  moreover have "set (devices db') = insert (f d) (set (devices db) - {d})"
    using set_update_single [of dev_id "devices db" d P f, OF rows_okD(2) [OF assms(1)] d k]
    by (simp add: db')
  moreover have "set (devices db') - {f d} = set (devices db) - {d}"
    using replaced_rest [of dev_id "devices db" d P f, OF rows_okD(2) [OF assms(1)] d k assms(5)]
    by (simp add: db')
  ultimately show ?thesis using that d assms(4) [OF d(2)] db' by blast
qed

lemma update_reservations_one:
  assumes "rows_ok db" and "update_reservations P f db = Inr (rows, db')" and "rows \<noteq> []"
    and "\<And>x. P x \<Longrightarrow> rsv_id x = k" and "\<And>x. rsv_id (f x) = rsv_id x"
    and "\<And>x. P x \<Longrightarrow> rsv_ok (db_clock db) x \<Longrightarrow> ck_reservation (f x) \<Longrightarrow> rsv_ok (db_clock db) (f x)"
  obtains r where "r \<in> set (reservations db)" and "P r" and "rsv_id r = k" and "rows = [f r]"
    and "rows_ok db'" and "set (reservations db') = insert (f r) (set (reservations db) - {r})"
    and "db' = db\<lparr>reservations := update_where P f (reservations db)\<rparr>"
proof -
  from assms(2) have rows: "rows = map f (filter P (reservations db))" and ck: "list_all ck_reservation rows"
    and db': "db' = db\<lparr>reservations := update_where P f (reservations db)\<rparr>"
    unfolding update_reservations_Inr by blast+
  from assms(3) rows obtain c cs where "c # cs = map f (filter P (reservations db))" by (cases rows) auto
  then obtain r where r: "r \<in> set (reservations db)" "P r" by (rule map_filter_ConsD)
  have k: "P x \<Longrightarrow> rsv_id x = rsv_id r" for x using assms(4) r(2) by simp
  have one: "filter P (reservations db) = [r]"
    by (rule filter_update_single [of rsv_id "reservations db" r P, OF rows_okD(3) [OF assms(1)] r k])
  have ok: "rsv_ok (db_clock db) (f r)"
    using assms(6) [OF r(2) rows_okD(6) [OF assms(1) r(1)]] ck one rows by simp
  have set': "set (reservations db') = insert (f r) (set (reservations db) - {r})"
    using set_update_single [of rsv_id "reservations db" r P f, OF rows_okD(3) [OF assms(1)] r k]
    by (simp add: db')
  have "rows_ok db'"
    using assms(1,5) ok set' by (auto simp: rows_ok_def db' list_all_iff map_update_where)
  then show ?thesis using that r rows one set' db' assms(4) [OF r(2)] by simp
qed

lemma update_sessions_keep:
  assumes "rows_ok db" and "update_sessions P f db = Inr (rows, db')"
    and "\<And>x. ses_id (f x) = ses_id x" and "\<And>x. ses_reservation_id (f x) = ses_reservation_id x"
    and "\<And>x. P x \<Longrightarrow> ses_ok (db_clock db) x \<Longrightarrow> ck_session (f x) \<Longrightarrow> ses_ok (db_clock db) (f x)"
  shows "rows_ok db'"
proof -
  from assms(2) have ck: "list_all ck_session (map f (filter P (sessions db)))"
    and db': "db' = db\<lparr>sessions := update_where P f (sessions db)\<rparr>"
    unfolding update_sessions_Inr by blast+
  have "ses_ok (db_clock db) (f x)" if "x \<in> set (sessions db)" "P x" for x
    using assms(5) [OF that(2) rows_okD(7) [OF assms(1) that(1)]] ck that by (auto simp: list_all_iff)
  then show ?thesis
    using assms(1,3,4) by (auto simp: rows_ok_def db' list_all_iff map_update_where set_update_where)
qed

lemma update_session_one:
  assumes "rows_ok db" and "update_sessions P f db = Inr (rows, db')"
    and "s \<in> set (sessions db)" and "P s" and "\<And>x. P x \<Longrightarrow> ses_reservation_id x = ses_reservation_id s"
    and "\<And>x. ses_reservation_id (f x) = ses_reservation_id x"
  shows "set (sessions db') = insert (f s) (set (sessions db) - {s})"
    and "set (sessions db') - {f s} = set (sessions db) - {s}"
    and "db' = db\<lparr>sessions := update_where P f (sessions db)\<rparr>" and "rows = [f s]"
proof -
  from assms(2) show db': "db' = db\<lparr>sessions := update_where P f (sessions db)\<rparr>"
    by (simp add: update_sessions_Inr)
  show "set (sessions db') = insert (f s) (set (sessions db) - {s})"
    using set_update_single [of ses_reservation_id "sessions db" s P f, OF rows_okD(4) [OF assms(1)] assms(3-5)]
    by (simp add: db')
  show "set (sessions db') - {f s} = set (sessions db) - {s}"
    using replaced_rest [of ses_reservation_id "sessions db" s P f, OF rows_okD(4) [OF assms(1)] assms(3-6)]
    by (simp add: db')
  show "rows = [f s]"
    using assms(2) filter_update_single [of ses_reservation_id "sessions db" s P, OF rows_okD(4) [OF assms(1)] assms(3-5)]
    by (simp add: update_sessions_Inr)
qed

end
