(* ===== verification/Repository_Effects.thy ===== *)
theory Repository_Effects
  imports Farm_Invariant
begin

text \<open>
  What the methods of \<open>ReservationRepository\<close> do to a database that satisfies the invariant: the
  rows each one replaces, and that the invariant holds again.
\<close>

section \<open>Statements that must touch one row\<close>

lemma one_device:
  "tx_bind (update_devices P f) (\<lambda>n. tx_bind (tx_guard (n = 1) e) k) db = Inr x \<longleftrightarrow>
     (\<exists>db1. update_devices P f db = Inr (1, db1) \<and> k () db1 = Inr x)"
  by (auto simp: tx_bind_def tx_guard_def update_devices_def split: if_splits)

lemma one_reservation:
  "tx_bind (update_reservations P f) (\<lambda>rows. tx_guard (length rows = 1) e) db = Inr (u, db') \<longleftrightarrow>
     (\<exists>row. update_reservations P f db = Inr ([row], db'))"
  by (auto simp: tx_bind_def tx_guard_def length_Suc_conv split: if_splits sum.splits)

lemma one_session:
  "tx_bind (update_sessions P f) (\<lambda>rows. tx_guard (length rows = 1) e) db = Inr (u, db') \<longleftrightarrow>
     (\<exists>row. update_sessions P f db = Inr ([row], db'))"
  by (auto simp: tx_bind_def tx_guard_def length_Suc_conv split: if_splits sum.splits)

lemma first_returned:
  "tx_bind m (returning_row e) db = Inr (r, db') \<longleftrightarrow> (\<exists>rest. m db = Inr (r # rest, db'))"
  by auto

lemma sessions_then:
  "tx_bind (update_sessions P f) (\<lambda>_. k) db = Inr x \<longleftrightarrow>
     (\<exists>rows db1. update_sessions P f db = Inr (rows, db1) \<and> k db1 = Inr x)"
  by (cases x) simp

lemmas one_row = sessions_then one_device one_reservation one_session first_returned

section \<open>Creating\<close>

lemma pending_row_ok:
  assumes "ck_reservation (pending_row p c)"
  shows "rsv_ok c (pending_row p c)"
  using assms by (simp add: rsv_ok_def pending_row_def)

lemma CreatePending_cases:
  assumes "CreatePending p db = Inr (r, db')"
  obtains "r \<in> set (reservations db)" and "db' = db"
  | "r = pending_row p (db_clock db)" and "ck_reservation r" and "\<And>q. q \<in> set (reservations db) \<Longrightarrow> rsv_id q \<noteq> rsv_id r"
    and "db' = db\<lparr>reservations := reservations db @ [r]\<rparr>"
proof -
  let ?f = "find_row (\<lambda>r. rsv_client_id r = cp_ClientID p \<and> rsv_key r = cp_IdempotencyKey p) (reservations db)"
  show ?thesis
  proof (cases ?f)
    case None
    with assms have "r = pending_row p (db_clock db)" "ck_reservation (pending_row p (db_clock db))"
      "find_row (\<lambda>r. rsv_id r = cp_ID p) (reservations db) = None"
      "db' = db\<lparr>reservations := reservations db @ [r]\<rparr>"
      by (auto simp: CreatePending_def Let_def simp del: find_row_None split: if_splits)
    then show ?thesis by (intro that(2)) (auto simp: pending_row_def)
  next
    case (Some q)
    with assms have "r = q" "db' = db"
      by (auto simp: CreatePending_def Let_def split: if_splits)
    with find_row_SomeD [OF Some] show ?thesis by (intro that(1)) auto
  qed
qed

lemma CreatePending_inv:
  assumes "farm_inv db" and "CreatePending p db = Inr (r, db')"
  shows "farm_inv db'"
  using assms(2)
proof (cases rule: CreatePending_cases)
  case 2
  have "core (set (devices db)) (insert r (set (reservations db))) (set (sessions db))"
    by (rule core_insert) (use assms(1) 2 in \<open>auto simp: farm_inv_def farm_core_def pending_row_def\<close>)
  moreover have "rsv_ok (db_clock db) r" using 2(1,2) pending_row_ok by simp
  moreover have "rsv_id r \<notin> rsv_id ` set (reservations db)" using 2(3) by force
  ultimately show ?thesis
    using assms(1) by (simp add: 2(4) farm_inv_def rows_ok_def farm_core_def)
qed (use assms in simp)

section \<open>Claims\<close>

lemma ReserveForClaim_effect:
  assumes "rows_ok db" and "ReserveForClaim rid did t db = Inr (u, db')" and "t \<le> db_clock db"
  obtains d r d' r' where
    "d \<in> set (devices db)" "dev_id d = did" "dev_lifecycle d = DeviceReady" "dev_health d = HealthHealthy"
    "d' = d\<lparr>dev_lifecycle := DeviceReserved, dev_updated_at := t\<rparr>"
    "r \<in> set (reservations db)" "rsv_id r = rid" "rsv_status r = ReservationPending" "rsv_device_id r = None"
    "r' = r\<lparr>rsv_device_id := Some did, rsv_failure_code := None, rsv_updated_at := t\<rparr>"
    "set (devices db') = insert d' (set (devices db) - {d})"
    "set (reservations db') = insert r' (set (reservations db) - {r})"
    "sessions db' = sessions db" "db_clock db' = db_clock db" "rows_ok db'"
proof -
  let ?P = "\<lambda>d. dev_id d = did \<and> dev_lifecycle d = DeviceReady \<and> dev_health d = HealthHealthy"
  let ?f = "\<lambda>d. d\<lparr>dev_lifecycle := DeviceReserved, dev_updated_at := t\<rparr>"
  let ?Q = "\<lambda>r. rsv_id r = rid \<and> rsv_status r = ReservationPending \<and> rsv_device_id r = None"
  let ?g = "\<lambda>r. r\<lparr>rsv_device_id := Some did, rsv_failure_code := None, rsv_updated_at := t\<rparr>"
  from assms(2) obtain db1 row where st: "update_devices ?P ?f db = Inr (1, db1)"
      "update_reservations ?Q ?g db1 = Inr ([row], db')"
    unfolding ReserveForClaim_def one_row by blast
  obtain d where d: "d \<in> set (devices db)" "?P d"
      "set (devices db1) = insert (?f d) (set (devices db) - {d})" "rows_ok db1"
      "db1 = db\<lparr>devices := update_where ?P ?f (devices db)\<rparr>"
    by (rule update_devices_one [OF assms(1) st(1) refl, of did]) (erule conjunct1, simp, rule that, assumption+)
  have ok: "rsv_ok (db_clock db1) (?g x)" if "?Q x" "rsv_ok (db_clock db1) x" "ck_reservation (?g x)" for x
    using that assms(3) d(5) by (simp add: rsv_ok_def)
  obtain r where r: "r \<in> set (reservations db1)" "?Q r"
      "rows_ok db'" "set (reservations db') = insert (?g r) (set (reservations db1) - {r})"
      "db' = db1\<lparr>reservations := update_where ?Q ?g (reservations db1)\<rparr>"
    by (rule update_reservations_one [OF d(4) st(2) list.distinct(2), of rid])
      (erule conjunct1, simp, erule (2) ok, rule that, (assumption | simp)+)
  show ?thesis
    by (rule that [of d "?f d" r "?g r"]) (use d r in simp_all)
qed

lemma ReserveForClaim_inv:
  assumes "farm_inv db" and "ReserveForClaim rid did t db = Inr (u, db')" and "t \<le> db_clock db"
  shows "farm_inv db'"
proof -
  from ReserveForClaim_effect [OF farm_inv_rows [OF assms(1)] assms(2,3)] obtain d r d' r' where
    e: "d \<in> set (devices db)" "dev_id d = did" "dev_lifecycle d = DeviceReady"
    "d' = d\<lparr>dev_lifecycle := DeviceReserved, dev_updated_at := t\<rparr>"
    "r \<in> set (reservations db)" "rsv_status r = ReservationPending" "rsv_device_id r = None"
    "r' = r\<lparr>rsv_device_id := Some did, rsv_failure_code := None, rsv_updated_at := t\<rparr>"
    "set (devices db') = insert d' (set (devices db) - {d})"
    "set (reservations db') = insert r' (set (reservations db) - {r})"
    "sessions db' = sessions db" "rows_ok db'"
    by metis
  have "farm_core db'"
    unfolding farm_core_def e(9-11)
    by (rule core_reserve [where d = d and r = r])
      (use e assms(1) in \<open>simp_all add: farm_inv_def farm_core_def\<close>)
  with e(12) show ?thesis by (simp add: farm_inv_def)
qed

lemma CompensateClaim_effect:
  assumes "rows_ok db" and "CompensateClaim rid did code terminal t db = Inr (u, db')" and "t \<le> db_clock db"
  obtains d r d' r' where
    "d \<in> set (devices db)" "dev_id d = did" "dev_lifecycle d = DeviceReserved" "dev_health d = HealthHealthy"
    "d' = d\<lparr>dev_lifecycle := DeviceReady, dev_updated_at := t\<rparr>"
    "r \<in> set (reservations db)" "rsv_id r = rid" "rsv_status r = ReservationPending" "rsv_device_id r = Some did"
    "r' = r\<lparr>rsv_device_id := None, rsv_status := (if terminal then ReservationFailed else ReservationPending),
            rsv_failure_code := Some code, rsv_updated_at := t\<rparr>"
    "set (devices db') = insert d' (set (devices db) - {d})"
    "set (reservations db') = insert r' (set (reservations db) - {r})"
    "sessions db' = sessions db" "db_clock db' = db_clock db" "rows_ok db'"
proof -
  let ?P = "\<lambda>d. dev_id d = did \<and> dev_lifecycle d = DeviceReserved"
  let ?f = "\<lambda>d. d\<lparr>dev_lifecycle := DeviceRecycling, dev_updated_at := t\<rparr>"
  let ?P' = "\<lambda>d. dev_id d = did \<and> dev_lifecycle d = DeviceRecycling \<and> dev_health d = HealthHealthy"
  let ?f' = "\<lambda>d. d\<lparr>dev_lifecycle := DeviceReady, dev_updated_at := t\<rparr>"
  let ?Q = "\<lambda>r. rsv_id r = rid \<and> rsv_status r = ReservationPending \<and> rsv_device_id r = Some did"
  let ?g = "\<lambda>r. r\<lparr>rsv_device_id := None,
       rsv_status := (if terminal then ReservationFailed else ReservationPending),
       rsv_failure_code := Some code, rsv_updated_at := t\<rparr>"
  from assms(2) obtain db1 db2 row where st: "update_devices ?P ?f db = Inr (1, db1)"
      "update_devices ?P' ?f' db1 = Inr (1, db2)" "update_reservations ?Q ?g db2 = Inr ([row], db')"
    unfolding CompensateClaim_def one_row by blast
  obtain d where d: "d \<in> set (devices db)" "?P d"
      "set (devices db1) = insert (?f d) (set (devices db) - {d})" "rows_ok db1"
      "set (devices db1) - {?f d} = set (devices db) - {d}"
      "db1 = db\<lparr>devices := update_where ?P ?f (devices db)\<rparr>"
    by (rule update_devices_one [OF assms(1) st(1) refl, of did]) (erule conjunct1, simp, rule that, assumption+)
  obtain e where e: "e \<in> set (devices db1)" "?P' e"
      "set (devices db2) = insert (?f' e) (set (devices db1) - {e})" "rows_ok db2"
      "db2 = db1\<lparr>devices := update_where ?P' ?f' (devices db1)\<rparr>"
    by (rule update_devices_one [OF d(4) st(2) refl, of did]) (erule conjunct1, simp, rule that, assumption+)
  have "e = ?f d"
    by (rule distinct_map_same [OF rows_okD(2) [OF d(4)] e(1)]) (use d e in simp_all)
  with d(2,5) e(2,3) have h: "dev_health d = HealthHealthy"
    and devs: "set (devices db2) = insert (?f' d) (set (devices db) - {d})" by simp_all
  have ok: "rsv_ok (db_clock db2) (?g x)" if "?Q x" "rsv_ok (db_clock db2) x" "ck_reservation (?g x)" for x
    using that assms(3) d(6) e(5) by (simp add: rsv_ok_def)
  obtain r where r: "r \<in> set (reservations db2)" "?Q r"
      "rows_ok db'" "set (reservations db') = insert (?g r) (set (reservations db2) - {r})"
      "db' = db2\<lparr>reservations := update_where ?Q ?g (reservations db2)\<rparr>"
    by (rule update_reservations_one [OF e(4) st(3) list.distinct(2), of rid])
      (erule conjunct1, simp, erule (2) ok, rule that, (assumption | simp)+)
  show ?thesis
    by (rule that [of d "?f' d" r "?g r"]) (use d(1,2,6) e(5) r devs h in simp_all)
qed

lemma CompensateClaim_inv:
  assumes "farm_inv db" and "CompensateClaim rid did code terminal t db = Inr (u, db')" and "t \<le> db_clock db"
  shows "farm_inv db'"
proof -
  from CompensateClaim_effect [OF farm_inv_rows [OF assms(1)] assms(2,3)] obtain d r d' r' where
    e: "d \<in> set (devices db)" "dev_id d = did"
    "d' = d\<lparr>dev_lifecycle := DeviceReady, dev_updated_at := t\<rparr>"
    "r \<in> set (reservations db)" "rsv_status r = ReservationPending" "rsv_device_id r = Some did"
    "r' = r\<lparr>rsv_device_id := None, rsv_status := (if terminal then ReservationFailed else ReservationPending),
            rsv_failure_code := Some code, rsv_updated_at := t\<rparr>"
    "set (devices db') = insert d' (set (devices db) - {d})"
    "set (reservations db') = insert r' (set (reservations db) - {r})"
    "sessions db' = sessions db" "rows_ok db'"
    by metis
  have "farm_core db'"
    unfolding farm_core_def e(8-10)
    by (rule core_unhold [where d = d and r = r])
      (use e assms(1) in \<open>simp_all add: farm_inv_def farm_core_def holds_def\<close>)
  with e(11) show ?thesis by (simp add: farm_inv_def)
qed

lemma FailPendingClaim_effect:
  assumes "rows_ok db" and "FailPendingClaim rid did code t db = Inr (u, db')" and "t \<le> db_clock db"
  obtains d r d' r' where
    "d \<in> set (devices db)" "dev_id d = did" "dev_lifecycle d = DeviceReserved"
    "d' = d\<lparr>dev_lifecycle := (if dev_health d = HealthHealthy then DeviceReady else DeviceQuarantined),
            dev_updated_at := t\<rparr>"
    "r \<in> set (reservations db)" "rsv_id r = rid" "rsv_status r = ReservationPending" "rsv_device_id r = Some did"
    "r' = r\<lparr>rsv_device_id := None, rsv_status := ReservationFailed,
            rsv_failure_code := Some code, rsv_updated_at := t\<rparr>"
    "set (devices db') = insert d' (set (devices db) - {d})"
    "set (reservations db') = insert r' (set (reservations db) - {r})"
    "sessions db' = sessions db" "db_clock db' = db_clock db" "rows_ok db'"
proof -
  let ?P = "\<lambda>d. dev_id d = did \<and> dev_lifecycle d = DeviceReserved"
  let ?f = "\<lambda>d. d\<lparr>dev_lifecycle :=
                   (if dev_lifecycle d \<noteq> DeviceReserved then dev_lifecycle d
                    else if dev_health d = HealthHealthy then DeviceReady else DeviceQuarantined),
                 dev_updated_at := t\<rparr>"
  let ?Q = "\<lambda>r. rsv_id r = rid \<and> rsv_device_id r = Some did \<and> rsv_status r = ReservationPending"
  let ?g = "\<lambda>r. r\<lparr>rsv_device_id := None, rsv_status := ReservationFailed,
                    rsv_failure_code := Some code, rsv_updated_at := t\<rparr>"
  from assms(2) obtain db1 row where st: "update_devices ?P ?f db = Inr (1, db1)"
      "update_reservations ?Q ?g db1 = Inr ([row], db')"
    unfolding FailPendingClaim_def one_row by blast
  obtain d where d: "d \<in> set (devices db)" "?P d"
      "set (devices db1) = insert (?f d) (set (devices db) - {d})" "rows_ok db1"
      "db1 = db\<lparr>devices := update_where ?P ?f (devices db)\<rparr>"
    by (rule update_devices_one [OF assms(1) st(1) refl, of did]) (erule conjunct1, simp, rule that, assumption+)
  have ok: "rsv_ok (db_clock db1) (?g x)" if "?Q x" "rsv_ok (db_clock db1) x" "ck_reservation (?g x)" for x
    using that assms(3) d(5) by (simp add: rsv_ok_def)
  obtain r where r: "r \<in> set (reservations db1)" "?Q r"
      "rows_ok db'" "set (reservations db') = insert (?g r) (set (reservations db1) - {r})"
      "db' = db1\<lparr>reservations := update_where ?Q ?g (reservations db1)\<rparr>"
    by (rule update_reservations_one [OF d(4) st(2) list.distinct(2), of rid])
      (erule conjunct1, simp, erule (2) ok, rule that, (assumption | simp)+)
  show ?thesis
    by (rule that [of d "?f d" r "?g r"]) (use d r in simp_all)
qed

lemma FailPendingClaim_inv:
  assumes "farm_inv db" and "FailPendingClaim rid did code t db = Inr (u, db')" and "t \<le> db_clock db"
  shows "farm_inv db'"
proof -
  obtain d r d' r' where
    e: "d \<in> set (devices db)" "dev_id d = did" "dev_id d' = dev_id d"
    "r \<in> set (reservations db)" "rsv_status r = ReservationPending" "rsv_device_id r = Some did"
    "r' = r\<lparr>rsv_device_id := None, rsv_status := ReservationFailed,
            rsv_failure_code := Some code, rsv_updated_at := t\<rparr>"
    "set (devices db') = insert d' (set (devices db) - {d})"
    "set (reservations db') = insert r' (set (reservations db) - {r})"
    "sessions db' = sessions db" "rows_ok db'"
    by (rule FailPendingClaim_effect [OF farm_inv_rows [OF assms(1)] assms(2,3)]) (rule that, simp_all)
  have "farm_core db'"
    unfolding farm_core_def e(8-10)
    by (rule core_unhold [where d = d and r = r])
      (use e assms(1) in \<open>simp_all add: farm_inv_def farm_core_def holds_def\<close>)
  with e(11) show ?thesis by (simp add: farm_inv_def)
qed

section \<open>Reservations alone\<close>

text \<open>An update of one reservation that holds nothing new keeps the invariant.\<close>

lemma update_reservation_inv:
  assumes inv: "farm_inv db" and st: "update_reservations P f db = Inr (row # rest, db')"
    and k: "\<And>x. P x \<Longrightarrow> rsv_id x = k" "\<And>x. rsv_id (f x) = rsv_id x"
    and ok: "\<And>x. P x \<Longrightarrow> rsv_ok (db_clock db) x \<Longrightarrow> ck_reservation (f x) \<Longrightarrow> rsv_ok (db_clock db) (f x)"
    and h: "\<And>x. P x \<Longrightarrow> holds (f x) \<Longrightarrow> holds x \<and> rsv_device_id (f x) = rsv_device_id x"
    and a: "\<And>x. P x \<Longrightarrow> rsv_status (f x) = ReservationActive \<longleftrightarrow> rsv_status x = ReservationActive"
    and d: "\<And>x. P x \<Longrightarrow> rsv_status x = ReservationActive \<Longrightarrow> rsv_device_id (f x) = rsv_device_id x"
    and p: "\<And>x. P x \<Longrightarrow> rsv_status (f x) = ReservationPending \<Longrightarrow> rsv_status x = ReservationPending"
  shows "farm_inv db'"
proof -
  obtain r where r: "r \<in> set (reservations db)" "P r" "rows_ok db'"
    "set (reservations db') = insert (f r) (set (reservations db) - {r})"
    "db' = db\<lparr>reservations := update_where P f (reservations db)\<rparr>"
    by (rule update_reservations_one [OF farm_inv_rows [OF inv] st, of k]) (rule k ok that list.distinct | assumption)+
  have "core (set (devices db)) (set (reservations db')) (set (sessions db))"
    unfolding r(4)
    by (rule core_reservation [where r = r])
      (use inv r(1) k(2) h [OF r(2)] a [OF r(2)] d [OF r(2)] p [OF r(2)] in
        \<open>simp_all add: farm_inv_def farm_core_def\<close>)
  then have "farm_core db'" unfolding farm_core_def by (simp add: r(5))
  with r(3) show ?thesis by (simp add: farm_inv_def)
qed

lemmas reservation_only = rsv_ok_def holds_def ck_reservation_def

lemma FailPendingReservation_inv:
  assumes "farm_inv db" and "FailPendingReservation rid code t db = Inr (u, db')" and "t \<le> db_clock db"
  shows "farm_inv db'"
proof -
  from assms(2) obtain row where st: "update_reservations
      (\<lambda>r. rsv_id r = rid \<and> rsv_status r = ReservationPending \<and> rsv_device_id r = None)
      (\<lambda>r. r\<lparr>rsv_status := ReservationFailed, rsv_failure_code := Some code, rsv_updated_at := t\<rparr>) db
      = Inr ([row], db')"
    unfolding FailPendingReservation_def one_row by blast
  show ?thesis
    by (rule update_reservation_inv [OF assms(1) st, of rid])
      (use assms(3) in \<open>simp_all add: rsv_ok_def holds_def\<close>)
qed

lemma CancelPending_inv:
  assumes "farm_inv db" and "CancelPending rid code t db = Inr (r, db')" and "t \<le> db_clock db"
  shows "farm_inv db'"
proof -
  from assms(2) obtain rest where st: "update_reservations
      (\<lambda>r. rsv_id r = rid \<and> rsv_status r = ReservationPending \<and> rsv_device_id r = None)
      (\<lambda>r. r\<lparr>rsv_status := ReservationFailed, rsv_failure_code := Some code, rsv_updated_at := t\<rparr>) db
      = Inr (r # rest, db')"
    unfolding CancelPending_def one_row by blast
  show ?thesis
    by (rule update_reservation_inv [OF assms(1) st, of rid])
      (use assms(3) in \<open>simp_all add: rsv_ok_def holds_def\<close>)
qed

lemma Extend_inv:
  assumes "farm_inv db" and "Extend rid e db = Inr (r, db')"
  shows "farm_inv db'"
proof -
  from assms(2) obtain rest where st: "update_reservations
      (\<lambda>r. rsv_id r = rid \<and> rsv_status r = ReservationActive)
      (\<lambda>r. r\<lparr>rsv_expires_at := Some e, rsv_updated_at := db_clock db\<rparr>) db = Inr (r # rest, db')"
    unfolding Extend_def one_row by blast
  show ?thesis
    by (rule update_reservation_inv [OF assms(1) st, of rid])
      (simp_all add: rsv_ok_def holds_def)
qed

lemma KeepAliveTargeted_inv:
  assumes "farm_inv db" and "KeepAliveTargeted rid owner did lease db = Inr (r, db')"
  shows "farm_inv db'"
proof -
  let ?pool = "\<lambda>r. find_row (\<lambda>p. pool_id p = rsv_pool_id r) (pools db)"
  from assms(2) obtain rest where st: "update_reservations
      (\<lambda>r. rsv_id r = rid \<and> ?pool r \<noteq> None \<and> rsv_status r = ReservationActive \<and>
           (case rsv_expires_at r of None \<Rightarrow> False | Some e \<Rightarrow> db_clock db < e) \<and>
           rsv_owner_type r = ''manual'' \<and> rsv_owner_id r = owner \<and>
           arrow_text (rsv_capabilities r) TargetDeviceCapability = Some did)
      (\<lambda>r. r\<lparr>rsv_expires_at :=
               (case ?pool r of None \<Rightarrow> rsv_expires_at r
                | Some p \<Rightarrow> Some (min (db_clock db + trunc_div lease second * second)
                                      (db_clock db + pool_max_lease_seconds p * second))),
             rsv_updated_at := db_clock db\<rparr>) db = Inr (r # rest, db')"
    unfolding KeepAliveTargeted_def Let_def one_row by blast
  show ?thesis
    by (rule update_reservation_inv [OF assms(1) st, of rid])
      (simp_all add: rsv_ok_def holds_def)
qed

section \<open>Sessions alone\<close>

lemma update_session_inv:
  assumes inv: "farm_inv db" and st: "update_sessions P f db = Inr (row # rest, db')"
    and k: "\<And>x. P x \<Longrightarrow> ses_reservation_id x = k"
    and f: "\<And>x. ses_id (f x) = ses_id x" "\<And>x. ses_reservation_id (f x) = ses_reservation_id x"
      "\<And>x. ses_status (f x) = ses_status x" "\<And>x. ses_device_id (f x) = ses_device_id x"
    and ok: "\<And>x. P x \<Longrightarrow> ses_ok (db_clock db) x \<Longrightarrow> ck_session (f x) \<Longrightarrow> ses_ok (db_clock db) (f x)"
  shows "farm_inv db'"
proof -
  have rows: "rows_ok db'"
    by (rule update_sessions_keep [OF farm_inv_rows [OF inv] st f(1,2) ok])
  from st have "row # rest = map f (filter P (sessions db))" unfolding update_sessions_Inr by blast
  then obtain s where s: "s \<in> set (sessions db)" "P s" by (rule map_filter_ConsD)
  have ks: "P x \<Longrightarrow> ses_reservation_id x = ses_reservation_id s" for x using k s(2) by simp
  have one: "set (sessions db') = insert (f s) (set (sessions db) - {s})"
    "db' = db\<lparr>sessions := update_where P f (sessions db)\<rparr>"
    by (rule update_session_one [of db P f "row # rest" db' s, OF farm_inv_rows [OF inv] st s ks f(2)], assumption)+
  have "core (set (devices db)) (set (reservations db)) (set (sessions db'))"
    unfolding one(1)
    by (rule core_session [where s = s]) (use inv s(1) f in \<open>simp_all add: farm_inv_def farm_core_def\<close>)
  then have "farm_core db'" unfolding farm_core_def by (simp add: one(2))
  with rows show ?thesis by (simp add: farm_inv_def)
qed

lemma SetRemoteSession_inv:
  assumes "farm_inv db" and "SetRemoteSession rid m db = Inr (s, db')"
  shows "farm_inv db'"
proof -
  from assms(2) obtain rest where st: "update_sessions
      (\<lambda>s. ses_reservation_id s = rid \<and> ses_status s = SessionActive)
      (\<lambda>s. s\<lparr>ses_remote := Some m, ses_updated_at := db_clock db\<rparr>) db = Inr (s # rest, db')"
    unfolding SetRemoteSession_def one_row by blast
  show ?thesis
    by (rule update_session_inv [OF assms(1) st, of rid]) (simp_all add: ses_ok_def)
qed

lemma ClearRemoteSession_inv:
  assumes "farm_inv db" and "ClearRemoteSession rid mid db = Inr (u, db')"
  shows "farm_inv db'"
proof -
  from assms(2) obtain row where st: "update_sessions
      (\<lambda>s. ses_reservation_id s = rid \<and> ses_status s = SessionActive \<and>
           (case ses_remote s of None \<Rightarrow> False | Some m \<Rightarrow> rem_id m = mid))
      (\<lambda>s. s\<lparr>ses_remote := None, ses_updated_at := db_clock db\<rparr>) db = Inr ([row], db')"
    unfolding ClearRemoteSession_def one_row by blast
  show ?thesis
    by (rule update_session_inv [OF assms(1) st, of rid]) (simp_all add: ses_ok_def)
qed

section \<open>Activation\<close>

lemma insert_session_Inr:
  "insert_session s db = Inr (s', db') \<longleftrightarrow>
     s' = s \<and> ck_session s \<and> db' = db\<lparr>sessions := sessions db @ [s]\<rparr> \<and>
     (\<forall>x\<in>set (sessions db). ses_id x \<noteq> ses_id s \<and> ses_reservation_id x \<noteq> ses_reservation_id s)"
  by (auto simp: insert_session_def split: if_splits)

lemma started_session_ok:
  "0 < db_clock db \<Longrightarrow> ck_session (started_session sid rid dev (db_clock db)) \<Longrightarrow>
   ses_ok (db_clock db) (started_session sid rid dev (db_clock db))"
  by (simp add: ses_ok_def started_session_def)

lemma insert_session_rows:
  assumes "rows_ok db" and "insert_session s db = Inr (s', db')" and "ses_ok (db_clock db) s"
  shows "rows_ok db'"
proof -
  from assms(2) have "ses_id s \<notin> ses_id ` set (sessions db)"
    "ses_reservation_id s \<notin> ses_reservation_id ` set (sessions db)"
    "db' = db\<lparr>sessions := sessions db @ [s]\<rparr>"
    unfolding insert_session_Inr by force+
  then show ?thesis using assms(1,3) by (simp add: rows_ok_def)
qed

lemma ActivateClaimed_effect:
  assumes "rows_ok db" and "ActivateClaimed res dev sid db = Inr ((active, session), db')"
  obtains d r d' where
    "d \<in> set (devices db)" "dev_id d = da_ID dev" "dev_lifecycle d = DeviceReserved"
    "d' = d\<lparr>dev_lifecycle := DeviceBusy, dev_updated_at := db_clock db\<rparr>"
    "r \<in> set (reservations db)" "rsv_id r = rsv_id res" "rsv_status r = ReservationPending"
    "rsv_device_id r = Some (da_ID dev)"
    "active = r\<lparr>rsv_device_id := Some (da_ID dev), rsv_status := ReservationActive,
       rsv_starts_at := Some (db_clock db),
       rsv_expires_at := Some (db_clock db + rsv_lease_seconds r * second), rsv_updated_at := db_clock db\<rparr>"
    "session = started_session sid (rsv_id res) dev (db_clock db)"
    "set (devices db') = insert d' (set (devices db) - {d})"
    "set (reservations db') = insert active (set (reservations db) - {r})"
    "set (sessions db') = insert session (set (sessions db))"
    "db_clock db' = db_clock db" "rows_ok db'"
proof -
  let ?P = "\<lambda>d. dev_id d = da_ID dev \<and> dev_lifecycle d = DeviceReserved"
  let ?f = "\<lambda>d. d\<lparr>dev_lifecycle := DeviceBusy, dev_updated_at := db_clock db\<rparr>"
  let ?Q = "\<lambda>r. rsv_id r = rsv_id res \<and> rsv_status r = ReservationPending \<and> rsv_device_id r = Some (da_ID dev)"
  let ?g = "\<lambda>r. r\<lparr>rsv_device_id := Some (da_ID dev), rsv_status := ReservationActive,
       rsv_starts_at := Some (db_clock db),
       rsv_expires_at := Some (db_clock db + rsv_lease_seconds r * second), rsv_updated_at := db_clock db\<rparr>"
  let ?s = "started_session sid (rsv_id res) dev (db_clock db)"
  from assms(2) obtain db1 rest db2 where st: "update_devices ?P ?f db = Inr (1, db1)"
      "update_reservations ?Q ?g db1 = Inr (active # rest, db2)"
      "insert_session ?s db2 = Inr (session, db')"
    unfolding ActivateClaimed_def Let_def one_device by (elim exE conjE tx_bind_InrE) auto
  obtain d where d: "d \<in> set (devices db)" "?P d"
      "set (devices db1) = insert (?f d) (set (devices db) - {d})" "rows_ok db1"
      "db1 = db\<lparr>devices := update_where ?P ?f (devices db)\<rparr>"
    by (rule update_devices_one [OF assms(1) st(1) refl, of "da_ID dev"]) (erule conjunct1, simp, rule that, assumption+)
  have ok: "rsv_ok (db_clock db1) (?g x)" if "?Q x" "rsv_ok (db_clock db1) x" "ck_reservation (?g x)" for x
    using that d(5) by (simp add: rsv_ok_def)
  obtain r where r: "r \<in> set (reservations db1)" "?Q r"
      "active = ?g r" "rows_ok db2" "set (reservations db2) = insert (?g r) (set (reservations db1) - {r})"
      "db2 = db1\<lparr>reservations := update_where ?Q ?g (reservations db1)\<rparr>"
    by (rule update_reservations_one [OF d(4) st(2) list.distinct(2), of "rsv_id res"])
      (erule conjunct1, simp, erule (2) ok, rule that, (assumption | simp)+)
  from st(3) have s: "session = ?s" "ck_session ?s" "db' = db2\<lparr>sessions := sessions db2 @ [?s]\<rparr>"
    unfolding insert_session_Inr by blast+
  have "ses_ok (db_clock db2) ?s"
    using started_session_ok [OF rows_okD(1) [OF assms(1)] s(2)] d(5) r(6) by simp
  from insert_session_rows [OF r(4) st(3) this] have "rows_ok db'" .
  then show ?thesis
    by (intro that [of d "?f d" r]) (use d r(1-3,5,6) s(1,3) in simp_all)
qed

lemma ActivateClaimed_inv:
  assumes "farm_inv db" and "ActivateClaimed res dev sid db = Inr ((active, session), db')"
  shows "farm_inv db'"
proof -
  obtain d r d' where e: "d \<in> set (devices db)" "dev_id d = da_ID dev"
    "d' = d\<lparr>dev_lifecycle := DeviceBusy, dev_updated_at := db_clock db\<rparr>"
    "r \<in> set (reservations db)" "rsv_id r = rsv_id res" "rsv_status r = ReservationPending"
    "rsv_device_id r = Some (da_ID dev)"
    "rsv_id active = rsv_id r" "rsv_status active = ReservationActive" "rsv_device_id active = Some (da_ID dev)"
    "session = started_session sid (rsv_id res) dev (db_clock db)"
    "set (devices db') = insert d' (set (devices db) - {d})"
    "set (reservations db') = insert active (set (reservations db) - {r})"
    "set (sessions db') = insert session (set (sessions db))" "rows_ok db'"
    by (rule ActivateClaimed_effect [OF farm_inv_rows [OF assms(1)] assms(2)]) (rule that, simp_all)
  have "farm_core db'"
    unfolding farm_core_def e(12-14)
    by (rule core_activate [where d = d and r = r])
      (use e(1-11) assms(1) in \<open>simp_all add: farm_inv_def farm_core_def holds_def started_session_def\<close>)
  with e(15) show ?thesis by (simp add: farm_inv_def)
qed

section \<open>Closing\<close>

lemma CloseActive_effect:
  assumes inv: "farm_inv db" and st: "CloseActive rid did terminal recycle target t db = Inr (closed, db')"
    and t: "t = db_clock db" and fin: "terminal \<notin> {ReservationPending, ReservationActive}"
  obtains d d' r s s' where
    "d \<in> set (devices db)" "dev_id d = did" "dev_lifecycle d \<in> set closable_lifecycles"
    "d' = d\<lparr>dev_lifecycle := close_lifecycle recycle target (dev_lifecycle d),
            dev_lifecycle_mode := (if recycle then ''rebuild'' else dev_lifecycle_mode d),
            dev_updated_at := t\<rparr>"
    "r \<in> set (reservations db)" "rsv_id r = rid" "rsv_status r = ReservationActive"
    "closed = r\<lparr>rsv_status := terminal, rsv_released_at := Some t, rsv_updated_at := t\<rparr>"
    "s \<in> set (sessions db)" "ses_reservation_id s = rid" "ses_status s = SessionActive"
    "rsv_device_id r = Some (ses_device_id s)"
    "s' = s\<lparr>ses_status := SessionClosed, ses_ended_at := Some t, ses_updated_at := t\<rparr>"
    "set (devices db') = insert d' (set (devices db) - {d})"
    "set (reservations db') = insert closed (set (reservations db) - {r})"
    "set (sessions db') = insert s' (set (sessions db) - {s})"
    "db_clock db' = db_clock db" "rows_ok db'"
proof -
  let ?P1 = "\<lambda>s. ses_reservation_id s = rid \<and> ses_status s = SessionActive"
  let ?f1 = "\<lambda>s. s\<lparr>ses_status := SessionClosing, ses_updated_at := t\<rparr>"
  let ?P2 = "\<lambda>s. ses_reservation_id s = rid \<and> ses_status s = SessionClosing"
  let ?f2 = "\<lambda>s. s\<lparr>ses_status := SessionClosed, ses_ended_at := Some t, ses_updated_at := t\<rparr>"
  let ?P = "\<lambda>d. dev_id d = did \<and> dev_lifecycle d \<in> set closable_lifecycles"
  let ?f = "\<lambda>d. d\<lparr>dev_lifecycle := close_lifecycle recycle target (dev_lifecycle d),
            dev_lifecycle_mode := (if recycle then ''rebuild'' else dev_lifecycle_mode d),
            dev_updated_at := t\<rparr>"
  let ?Q = "\<lambda>r. rsv_id r = rid \<and> rsv_status r = ReservationActive"
  let ?g = "\<lambda>r. r\<lparr>rsv_status := terminal, rsv_released_at := Some t, rsv_updated_at := t\<rparr>"
  from st obtain a1 db1 a2 db2 db3 rest where st: "update_sessions ?P1 ?f1 db = Inr (a1, db1)"
      "update_sessions ?P2 ?f2 db1 = Inr (a2, db2)" "update_devices ?P ?f db2 = Inr (1, db3)"
      "update_reservations ?Q ?g db3 = Inr (closed # rest, db')"
    unfolding CloseActive_def one_row by blast
  have rows: "rows_ok db" by (rule farm_inv_rows [OF inv])
  have rows1: "rows_ok db1" by (rule update_sessions_keep [OF rows st(1)]) (simp_all add: ses_ok_def t)
  have db1: "db1 = db\<lparr>sessions := update_where ?P1 ?f1 (sessions db)\<rparr>"
    using st(1) unfolding update_sessions_Inr by blast
  have rows2: "rows_ok db2"
    by (rule update_sessions_keep [OF rows1 st(2)]) (simp_all add: ses_ok_def t db1)
  have db2: "db2 = db1\<lparr>sessions := update_where ?P2 ?f2 (sessions db1)\<rparr>"
    using st(2) unfolding update_sessions_Inr by blast
  obtain d where d: "d \<in> set (devices db2)" "?P d"
      "set (devices db3) = insert (?f d) (set (devices db2) - {d})" "rows_ok db3"
      "db3 = db2\<lparr>devices := update_where ?P ?f (devices db2)\<rparr>"
    by (rule update_devices_one [OF rows2 st(3) refl, of did]) (erule conjunct1, simp, rule that, assumption+)
  have ok: "rsv_ok (db_clock db3) (?g x)" if "?Q x" "rsv_ok (db_clock db3) x" "ck_reservation (?g x)" for x
    using that d(5) fin by (simp add: rsv_ok_def t db1 db2)
  obtain r where r: "r \<in> set (reservations db3)" "?Q r"
      "closed = ?g r" "rows_ok db'" "set (reservations db') = insert (?g r) (set (reservations db3) - {r})"
      "db' = db3\<lparr>reservations := update_where ?Q ?g (reservations db3)\<rparr>"
    by (rule update_reservations_one [OF d(4) st(4) list.distinct(2), of rid])
      (erule conjunct1, simp, erule (2) ok, rule that, (assumption | simp)+)
  have "r \<in> set (reservations db)" using r(1) d(5) by (simp add: db1 db2)
  from core_dest(6) [OF farm_inv_core [OF inv, unfolded farm_core_def] this] r(2)
  obtain s where s: "s \<in> set (sessions db)" "?P1 s" "rsv_device_id r = Some (ses_device_id s)" by auto
  have s1: "set (sessions db1) = insert (?f1 s) (set (sessions db) - {s})"
    "set (sessions db1) - {?f1 s} = set (sessions db) - {s}"
    by (rule update_session_one [of db ?P1 ?f1 a1 db1 s, OF rows st(1) s(1,2)]; use s(2) in simp)+
  have s2: "set (sessions db2) = insert (?f2 (?f1 s)) (set (sessions db1) - {?f1 s})"
    by (rule update_session_one [of db1 ?P2 ?f2 a2 db2 "?f1 s", OF rows1 st(2)]) (use s1 s(2) in simp_all)
  show ?thesis
    by (rule that [of d "?f d" r s "?f2 (?f1 s)"])
      (use d(1-3,5) r s s1(2) s2 in \<open>simp_all add: db1 db2\<close>)
qed

lemma CloseActive_inv:
  assumes inv: "farm_inv db" and st: "CloseActive rid did terminal recycle target t db = Inr (closed, db')"
    and t: "t = db_clock db" and fin: "terminal \<notin> {ReservationPending, ReservationActive}"
    and r0: "r0 \<in> set (reservations db)" "rsv_id r0 = rid" "rsv_device_id r0 = Some did"
  shows "farm_inv db'"
proof -
  obtain d d' r s s' where e: "d \<in> set (devices db)" "dev_id d = did" "dev_id d' = dev_id d"
    "r \<in> set (reservations db)" "rsv_id r = rid" "rsv_status r = ReservationActive"
    "rsv_id closed = rid" "rsv_status closed = terminal"
    "s \<in> set (sessions db)" "ses_reservation_id s = rid"
    "ses_reservation_id s' = rid" "ses_status s' = SessionClosed"
    "set (devices db') = insert d' (set (devices db) - {d})"
    "set (reservations db') = insert closed (set (reservations db) - {r})"
    "set (sessions db') = insert s' (set (sessions db) - {s})" "rows_ok db'"
    by (rule CloseActive_effect [OF inv st t fin]) (rule that, simp_all)
  have "r0 = r" by (rule distinct_map_same [OF rows_okD(3) [OF farm_inv_rows [OF inv]] r0(1) e(4)]) (simp add: r0 e)
  then have "farm_core db'"
    unfolding farm_core_def e(13-15)
    by (intro core_close [where d = d and r = r and s = s])
      (use e(1-12) r0 inv fin in \<open>simp_all add: farm_inv_def farm_core_def open_session_def\<close>)
  with e(16) show ?thesis by (simp add: farm_inv_def)
qed

end
