(* ===== verification/Farm_Samples.thy ===== *)
theory Farm_Samples
  imports Farm_Tables
begin

text \<open>
  A small farm for the concrete instances of the theorems: one online host with one ready Android
  device in one active pool, and constructors for the reservations that come and go on it.
\<close>

definition farm_host :: host_row where
  "farm_host = \<lparr>host_id = ''host_0123456789a'', host_name = ''host-a'', host_type = ''docker_emulator'',
     host_address = Some ''10.0.0.5'', host_os = ''linux'', host_arch = ''amd64'', host_status = HostOnline, host_draining = False,
     host_capacity = [], host_used_capacity = [], host_capabilities = [], host_auto_maintenance = False,
     host_failure_started_at = None,
     host_last_heartbeat_at = None, host_created_at = 1, host_updated_at = 1\<rparr>"

definition farm_pool :: pool_row where
  "farm_pool = \<lparr>pool_id = ''pool_0123456789a'', pool_name = ''android-10.0.0.5'',
     pool_platform = ''android'', pool_default_lease_seconds = 600, pool_max_lease_seconds = 3600, pool_max_concurrency = 2,
     pool_total_target = 1, pool_min_ready = 0, pool_status = PoolActive, pool_fresh_vm_per_run = False, pool_default_image_id = None,
     pool_base_device_id = None, pool_created_at = 10, pool_updated_at = 10\<rparr>"

definition farm_device :: device_row where
  "farm_device = \<lparr>dev_id = ''dev_0123456789ab'', dev_name = ''device'', dev_host_id = ''host_0123456789a'',
     dev_platform = ''android'', dev_kind = ''emulator'', dev_provider_type = ''docker_emulator'',
     dev_provider_ref = ''emulator-01'', dev_image_id = Some ''image_0123456789a'', dev_lifecycle_mode = ''clean'', dev_lifecycle = DeviceReady, dev_health = HealthHealthy,
     dev_health_reason = None, dev_failures = 0, dev_last_seen_at = None,
     dev_serial = ''emulator-5554'', dev_stf_serial = Some ''10.0.0.5:5555'', dev_adb_endpoint = None,
     dev_appium_endpoint = None, dev_capabilities = [(''apiLevel'', JNum 34)], dev_profile_override = None,
     dev_pending_image_id = None, dev_pending_profile = None, dev_reimage_status = ''idle'',
     dev_reimage_error = None, dev_profile_update_status = ''idle'', dev_profile_update_error = None,
     dev_created_at = 20, dev_updated_at = 20\<rparr>"

definition farm_member :: pool_device_row where
  "farm_member = \<lparr>pd_pool_id = ''pool_0123456789a'', pd_device_id = ''dev_0123456789ab'',
     pd_enabled = True, pd_created_at = 30\<rparr>"

definition farm_pending :: "string \<Rightarrow> timestamp \<Rightarrow> json_obj \<Rightarrow> reservation_row" where
  "farm_pending ident created caps =
     \<lparr>rsv_id = ident, rsv_client_id = ''service'', rsv_pool_id = ''pool_0123456789a'',
      rsv_device_id = None, rsv_owner_type = ''test_run'', rsv_owner_id = ''run_0123456789ab'',
      rsv_capabilities = caps, rsv_lease_seconds = 60, rsv_status = ReservationPending,
      rsv_key = ''key_'' @ ident, rsv_starts_at = None, rsv_expires_at = None, rsv_released_at = None,
      rsv_failure_code = None, rsv_created_at = created, rsv_updated_at = created\<rparr>"

definition farm_with :: "reservation_row list \<Rightarrow> farm_db" where
  "farm_with rs =
     \<lparr>devices = [farm_device], hosts = [farm_host], pools = [farm_pool], pool_devices = [farm_member],
      images = [], pool_images = [], host_image_states = [], reservations = rs, sessions = [],
      operations = [], audits = [], commands = [], health_events = [], catalog = [], preparations = [], jobs = [], db_clock = 1000 * second\<rparr>"

lemmas farm_rows = farm_host_def farm_pool_def farm_device_def farm_member_def farm_pending_def

lemma farm_with_sel [simp]:
  "devices (farm_with rs) = [farm_device]" "hosts (farm_with rs) = [farm_host]"
  "pools (farm_with rs) = [farm_pool]" "pool_devices (farm_with rs) = [farm_member]"
  "reservations (farm_with rs) = rs" "sessions (farm_with rs) = []" "operations (farm_with rs) = []"
  "audits (farm_with rs) = []" "commands (farm_with rs) = []" "health_events (farm_with rs) = []" "db_clock (farm_with rs) = 1000 * second"
  by (simp_all add: farm_with_def)

text \<open>
  The farm after the pending reservation has been given the device, and after it has been activated,
  with the device in a state of one's choice.
\<close>

definition reserved_farm :: farm_db where
  "reserved_farm =
     (farm_with [(farm_pending ''rsv_0123456789ab'' (1000 * second) [])\<lparr>rsv_device_id := Some ''dev_0123456789ab''\<rparr>])
       \<lparr>devices := [farm_device\<lparr>dev_lifecycle := DeviceReserved, dev_updated_at := 1000 * second\<rparr>]\<rparr>"

definition leased_device :: "device_lifecycle_status \<Rightarrow> health_status \<Rightarrow> string option \<Rightarrow> device_row" where
  "leased_device l h reason = farm_device\<lparr>dev_lifecycle := l, dev_health := h, dev_health_reason := reason,
     dev_updated_at := 1000 * second\<rparr>"

definition leased_farm :: "device_row \<Rightarrow> farm_db" where
  "leased_farm d = (farm_with [(farm_pending ''rsv_0123456789ab'' (1000 * second) [])
       \<lparr>rsv_device_id := Some ''dev_0123456789ab'', rsv_status := ReservationActive,
        rsv_starts_at := Some (1000 * second), rsv_expires_at := Some (1060 * second)\<rparr>])
     \<lparr>devices := [d],
      sessions := [\<lparr>ses_id = ''ses_0123456789ab'', ses_reservation_id = ''rsv_0123456789ab'',
        ses_device_id = ''dev_0123456789ab'', ses_status = SessionActive, ses_started_at = Some (1000 * second),
        ses_ended_at = None,
        ses_metadata = [(''host_id'', JStr ''host_0123456789a''), (''platform'', JStr ''android''),
          (''serial'', JStr ''emulator-5554''), (''adb_endpoint'', JNull), (''appium_endpoint'', JNull),
          (''appium_udid'', JStr ''emulator-5554'')],
        ses_remote = None, ses_created_at = 1000 * second, ses_updated_at = 1000 * second\<rparr>]\<rparr>"

end
