(* ===== verification/Pool_Selector.thy ===== *)
theory Pool_Selector
  imports Reservation_Repository Farm_Samples "HOL-Library.Multiset"
begin

text \<open>
  \<open>internal/reservation/pool_selector.go\<close>: choosing a pool for a request that names none.  The
  query of \<open>listSelectablePools\<close> is translated in its parts: a pool can serve a request because a
  member device is allocatable now (A), or because a matching device can be started on demand (B),
  on Android from the default image on a host of the pool, on iOS from the base simulator.

  \<open>parse_ts\<close> is PostgreSQL's cast of a text to \<open>timestamptz\<close>, \<open>None\<close> when it raises an error; a
  condition is a \<open>bool option\<close>, \<open>None\<close> for an error of one of its casts.
\<close>

section \<open>The request\<close>

definition androidMinSdkLevelKey :: string where
  "androidMinSdkLevelKey = ''androidMinSdkLevel''"

text \<open>Numbers decoded from JSON are \<open>float64\<close>; the conversion to \<open>int\<close> truncates.\<close>

definition minSDKLowerBound :: "json_obj \<Rightarrow> int" where
  "minSDKLowerBound requested =
     (case obj_get requested androidMinSdkLevelKey of
        Some (JNum i) \<Rightarrow> i
      | Some (JReal t) \<Rightarrow> real_trunc t
      | _ \<Rightarrow> 0)"

definition schedulableCapabilityKeys :: "string list" where
  "schedulableCapabilityKeys =
     [''platformName'', ''platformVersion'', ''automationName'', ''deviceClass'', ''realDevice'',
      ''model'', ''apiLevel'', ''abi'', ''resolution'', ''hardware_profile_id'']"

text \<open>Members are visited in the order of the object; a later key replaces an equal trimmed one.\<close>

definition encode_key :: "string \<Rightarrow> string option" where
  "encode_key key =
     (let trimmed = TrimSpace key
      in if trimmed = [] \<or> has_prefix trimmed ''_'' then None
         else if trimmed = androidMinSdkLevelKey then None
         else if trimmed \<notin> set schedulableCapabilityKeys then None
         else Some trimmed)"

definition encodeRequestedCapabilities :: "json_obj \<Rightarrow> json_obj" where
  "encodeRequestedCapabilities requested =
     fold (\<lambda>(key, v) acc. case encode_key key of None \<Rightarrow> acc | Some k \<Rightarrow> obj_put k v acc) requested []"

section \<open>Conditions with errors\<close>

definition and_then :: "bool option \<Rightarrow> bool option \<Rightarrow> bool option" where
  "and_then a b = (case a of None \<Rightarrow> None | Some False \<Rightarrow> Some False | Some True \<Rightarrow> b)"

definition or_else :: "bool option \<Rightarrow> bool option \<Rightarrow> bool option" where
  "or_else a b = (case a of None \<Rightarrow> None | Some True \<Rightarrow> Some True | Some False \<Rightarrow> b)"

definition exists_row :: "('r \<Rightarrow> bool option) \<Rightarrow> 'r list \<Rightarrow> bool option" where
  "exists_row q rows = map_option (\<lambda>m. m \<noteq> None) (scan_first q rows)"

text \<open>\<open>COALESCE((object->>key)::bigint, d)\<close> and the same for \<open>int\<close>, without \<open>NULLIF\<close>.\<close>

definition bigint_or :: "int \<Rightarrow> json_obj \<Rightarrow> string \<Rightarrow> int option" where
  "bigint_or d o' k = (case arrow_text o' k of None \<Rightarrow> Some d | Some t \<Rightarrow> parse_int8 t)"

definition int_or :: "int \<Rightarrow> json_obj \<Rightarrow> string \<Rightarrow> int option" where
  "int_or d o' k = (case arrow_text o' k of None \<Rightarrow> Some d | Some t \<Rightarrow> parse_int4 t)"

section \<open>A: a member device is allocatable\<close>

definition member_matches :: "pool_row \<Rightarrow> json_obj \<Rightarrow> int \<Rightarrow> device_row \<times> pool_device_row \<times> host_row \<Rightarrow> bool option" where
  "member_matches p encoded minSDK j = (case j of (d, pd, h) \<Rightarrow>
     if pd_device_id pd = dev_id d \<and> host_id h = dev_host_id d \<and>
        pd_pool_id pd = pool_id p \<and> pd_enabled pd \<and> pool_platform p = dev_platform d \<and>
        host_status h = HostOnline \<and> \<not> host_draining h \<and>
        dev_lifecycle d = DeviceReady \<and> dev_health d = HealthHealthy \<and>
        obj_contains (dev_capabilities d) (device_schedulable_capabilities encoded)
     then if minSDK = 0 then Some True
          else map_option (\<lambda>a. minSDK \<le> a) (int_or_zero (dev_capabilities d) ''apiLevel'')
     else Some False)"

definition pool_has_device :: "farm_db \<Rightarrow> json_obj \<Rightarrow> int \<Rightarrow> pool_row \<Rightarrow> bool option" where
  "pool_has_device db encoded minSDK p =
     exists_row (member_matches p encoded minSDK)
       (List.product (devices db) (List.product (pool_devices db) (hosts db)))"

section \<open>B: a device can be started on demand\<close>

text \<open>Leases that still hold capacity: active and not yet expired.\<close>

definition pool_has_room :: "farm_db \<Rightarrow> pool_row \<Rightarrow> bool" where
  "pool_has_room db p \<longleftrightarrow>
     int (length (filter (\<lambda>r. rsv_pool_id r = pool_id p \<and> rsv_status r = ReservationActive \<and>
        (case rsv_expires_at r of None \<Rightarrow> False | Some e \<Rightarrow> db_clock db < e)) (reservations db)))
     < pool_max_concurrency p"

text \<open>Whether a host has memory, or a slot, for one more device.\<close>

definition fresh_within :: "duration \<Rightarrow> farm_db \<Rightarrow> timestamp \<Rightarrow> bool" where
  "fresh_within window db t \<longleftrightarrow> db_clock db - window < t"

definition host_slots_free :: "farm_db \<Rightarrow> host_row \<Rightarrow> bool option" where
  "host_slots_free db h =
     (case (int_or 0 (host_capacity h) ''device_slots'', int_or 0 (host_used_capacity h) ''device_slots'') of
        (Some cap, Some used) \<Rightarrow>
          Some (used + int (length (filter
             (\<lambda>(pd, d). dev_id d = pd_device_id pd \<and> dev_host_id d = host_id h \<and> pd_enabled pd \<and>
                dev_lifecycle d \<in> {DeviceProvisioning, DeviceBooting, DeviceReady})
             (List.product (pool_devices db) (devices db)))) < cap)
      | _ \<Rightarrow> None)"

definition host_memory_free :: "(string \<Rightarrow> timestamp option) \<Rightarrow> farm_db \<Rightarrow> image_row \<Rightarrow> host_row \<Rightarrow> bool option" where
  "host_memory_free parse_ts db i h =
     (case arrow_text (host_capacity h) ''collected_at'' of
        None \<Rightarrow> Some False
      | Some t \<Rightarrow>
          and_then (map_option (fresh_within (30 * second) db) (parse_ts t))
          (and_then (Some (case host_last_heartbeat_at h of None \<Rightarrow> True
                            | Some b \<Rightarrow> fresh_within (30 * second) db b))
             (case (bigint_or 0 (host_capacity h) ''memory_available_mb'',
                    bigint_or 5120 (img_resource_config i) ''ramMb'') of
                (Some avail, Some ram) \<Rightarrow> Some (2048 + max ram 2048 \<le> avail)
              | _ \<Rightarrow> None)))"

definition host_can_build :: "(string \<Rightarrow> timestamp option) \<Rightarrow> farm_db \<Rightarrow> image_row \<Rightarrow> host_row \<Rightarrow> bool option" where
  "host_can_build parse_ts db i h =
     (if arrow_text (host_capacity h) ''resource_model'' = Some ''dynamic_v1''
      then host_memory_free parse_ts db i h
      else if host_capacity h = [] then Some True
      else host_slots_free db h)"

definition image_capabilities :: "image_row \<Rightarrow> json_obj" where
  "image_capabilities i =
     [(''platformName'', JStr ''Android''), (''apiLevel'', JNum (img_api_level i)),
      (''abi'', JStr (img_abi i)), (''resolution'', JStr (img_resolution i))]"

definition live_base :: "farm_db \<Rightarrow> pool_row \<Rightarrow> device_row option" where
  "live_base db p =
     (case pool_base_device_id p of
        None \<Rightarrow> None
      | Some b \<Rightarrow> find_row (\<lambda>d. dev_id d = b \<and> dev_lifecycle d \<noteq> DeviceDeleted) (devices db))"

definition android_source ::
  "(string \<Rightarrow> timestamp option) \<Rightarrow> farm_db \<Rightarrow> json_obj \<Rightarrow> int \<Rightarrow> pool_row \<Rightarrow> pool_image_row \<times> image_row \<times> host_row
   \<Rightarrow> bool option" where
  "android_source parse_ts db encoded minSDK p j = (case j of (pi, i, h) \<Rightarrow>
     and_then
       (Some (img_id i = pi_image_id pi \<and> host_status h = HostOnline \<and> \<not> host_draining h \<and>
              host_type h \<in> {''docker_emulator'', ''hybrid''} \<and>
              (\<not> has_prefix (pool_name p) ''android-10.'' \<or>
               (case host_address h of None \<Rightarrow> False | Some a \<Rightarrow> pool_name p = ''android-'' @ a)) \<and>
              pi_pool_id pi = pool_id p \<and> pi_enabled pi \<and> Some (pi_image_id pi) = pool_default_image_id p \<and>
              img_status i = ImageReady \<and>
              (case arrow_text (device_schedulable_capabilities encoded) ''apiLevel'' of
                 None \<Rightarrow> True | Some t \<Rightarrow> int_text (img_api_level i) = t) \<and>
              (minSDK = 0 \<or> minSDK \<le> img_api_level i) \<and>
              \<not> list_ex (\<lambda>s. his_host_id s = host_id h \<and> Some (his_image_id s) = pool_default_image_id p \<and>
                            \<not> his_available s) (host_image_states db)))
       (and_then (host_can_build parse_ts db i h)
          (Some (obj_contains
             (obj_merge (image_capabilities i)
                (case live_base db p of None \<Rightarrow> [] | Some b \<Rightarrow> dev_capabilities b))
             (device_schedulable_capabilities encoded)))))"

definition android_supply :: "(string \<Rightarrow> timestamp option) \<Rightarrow> farm_db \<Rightarrow> json_obj \<Rightarrow> int \<Rightarrow> pool_row \<Rightarrow> bool option" where
  "android_supply parse_ts db encoded minSDK p =
     (if pool_platform p = ''android'' \<and> pool_default_image_id p \<noteq> None
      then exists_row (android_source parse_ts db encoded minSDK p)
             (List.product (pool_images db) (List.product (images db) (hosts db)))
      else Some False)"

definition ios_simulator :: "device_row \<Rightarrow> bool" where
  "ios_simulator d \<longleftrightarrow>
     dev_platform d = ''ios'' \<and> dev_kind d = ''simulator'' \<and>
     dev_provider_type d = ''appium_device_farm_ios''"

definition ios_template_capabilities :: json_obj where
  "ios_template_capabilities =
     [(''platformName'', JStr ''iOS''), (''automationName'', JStr ''XCUITest''),
      (''deviceClass'', JStr ''phone''), (''realDevice'', JBool False)]"

definition text_or_empty :: "json_obj \<Rightarrow> string \<Rightarrow> string" where
  "text_or_empty o' k = (case arrow_text o' k of None \<Rightarrow> [] | Some t \<Rightarrow> t)"

definition ios_supply :: "farm_db \<Rightarrow> json_obj \<Rightarrow> pool_row \<Rightarrow> bool" where
  "ios_supply db encoded p \<longleftrightarrow>
     pool_platform p = ''ios'' \<and>
     list_ex (\<lambda>b. Some (dev_id b) = pool_base_device_id p \<and> dev_lifecycle b \<noteq> DeviceDeleted \<and> ios_simulator b \<and>
        text_or_empty (dev_capabilities b) ''runtimeId'' \<noteq> [] \<and>
        text_or_empty (dev_capabilities b) ''deviceTypeId'' \<noteq> [] \<and>
        obj_contains (obj_merge ios_template_capabilities (dev_capabilities b))
          (device_schedulable_capabilities encoded) \<and>
        \<not> list_ex (\<lambda>(pd, x). dev_id x = pd_device_id pd \<and> pd_pool_id pd = pool_id p \<and> pd_enabled pd \<and>
             ios_simulator x \<and>
             (dev_lifecycle x \<in> {DeviceQuarantined, DeviceStopped} \<or>
              dev_lifecycle x \<notin> {DeviceProvisioning, DeviceBooting, DeviceDeleted} \<and>
              dev_health x \<noteq> HealthHealthy))
           (List.product (pool_devices db) (devices db)))
       (devices db)"

section \<open>Selection\<close>

record selectablePool =
  sp_ID :: string
  sp_MaxConcurrency :: int

definition pool_selectable ::
  "(string \<Rightarrow> timestamp option) \<Rightarrow> farm_db \<Rightarrow> string \<Rightarrow> json_obj \<Rightarrow> int \<Rightarrow> pool_row \<Rightarrow> bool option" where
  "pool_selectable parse_ts db platformName encoded minSDK p =
     (if pool_status p = PoolActive \<and> ToLower (pool_platform p) = platformName
      then or_else (pool_has_device db encoded minSDK p)
             (if pool_has_room db p
              then or_else (android_supply parse_ts db encoded minSDK p) (Some (ios_supply db encoded p))
              else Some False)
      else Some False)"

fun select_rows :: "('r \<Rightarrow> bool option) \<Rightarrow> 'r list \<Rightarrow> 'r list option" where
  "select_rows q [] = Some []"
| "select_rows q (r # rs) =
     (case q r of None \<Rightarrow> None
      | Some b \<Rightarrow> map_option (\<lambda>t. if b then r # t else t) (select_rows q rs))"

definition listSelectablePools ::
  "(string \<Rightarrow> timestamp option) \<Rightarrow> string \<Rightarrow> json_obj \<Rightarrow> farm_db \<Rightarrow> (farm_error, selectablePool list) result" where
  "listSelectablePools parse_ts platformName requested db =
     (if platformName = [] then Inr []
      else case select_rows
                  (pool_selectable parse_ts db platformName (encodeRequestedCapabilities requested)
                     (minSDKLowerBound requested)) (pools db) of
             None \<Rightarrow> Inl (SqlError ''22P02'')
           | Some ps \<Rightarrow>
               Inr (map (\<lambda>p. \<lparr>sp_ID = pool_id p, sp_MaxConcurrency = pool_max_concurrency p\<rparr>)
                      (sort_key pool_id ps)))"

definition poolSelectionWeight :: "selectablePool \<Rightarrow> int" where
  "poolSelectionWeight c = (if 0 < sp_MaxConcurrency c then sp_MaxConcurrency c else 1)"

fun weighted_pick :: "int \<Rightarrow> string \<Rightarrow> selectablePool list \<Rightarrow> string" where
  "weighted_pick cursor selected [] = selected"
| "weighted_pick cursor selected (c # cs) =
     (if cursor < poolSelectionWeight c then sp_ID c
      else weighted_pick (cursor - poolSelectionWeight c) selected cs)"

text \<open>
  \<open>poolSelectionCursor\<close> is a process-wide map from the platform to the cursor, guarded by a mutex;
  an absent key reads as 0.
\<close>

type_synonym cursors = "string \<Rightarrow> int"

definition selectWeightedPool :: "string \<Rightarrow> selectablePool list \<Rightarrow> cursors \<Rightarrow> string \<times> cursors" where
  "selectWeightedPool platformName candidates cur =
     (if candidates = [] then ([], cur)
      else
        let cs = sort_key sp_ID candidates;
            sum = sum_list (map poolSelectionWeight cs);
            n = (if sum \<le> 0 then int (length cs) else sum)
        in (weighted_pick (cur platformName mod n) (sp_ID (hd cs)) cs,
            cur(platformName := (cur platformName + 1) mod n)))"

definition requested_platform :: "json_obj \<Rightarrow> string" where
  "requested_platform requested =
     (case obj_get requested ''platformName'' of
        Some (JStr t) \<Rightarrow> ToLower (TrimSpace t) | _ \<Rightarrow> [])"

definition selectPoolForRequest ::
  "(string \<Rightarrow> timestamp option) \<Rightarrow> json_obj \<Rightarrow> farm_db \<Rightarrow> cursors \<Rightarrow> (farm_error, string) result \<times> cursors" where
  "selectPoolForRequest parse_ts requested db cur =
     (let platformName = requested_platform requested
      in case listSelectablePools parse_ts platformName requested db of
           Inl e \<Rightarrow> (Inl e, cur)
         | Inr candidates \<Rightarrow>
             if candidates = [] then (Inl (PoolSelectionUnavailableError platformName), cur)
             else (case selectWeightedPool platformName candidates cur of (p, cur') \<Rightarrow> (Inr p, cur')))"

section \<open>Weighted rotation\<close>

lemma weight_pos: "0 < poolSelectionWeight c"
  by (simp add: poolSelectionWeight_def)

lemma weights_pos: "cs \<noteq> [] \<Longrightarrow> 0 < sum_list (map poolSelectionWeight cs)"
proof (induction cs)
  case (Cons c cs)
  have "0 \<le> sum_list (map poolSelectionWeight cs)"
    by (rule sum_list_nonneg) (auto intro: less_imp_le weight_pos)
  with weight_pos [of c] show ?case by simp
qed simp

lemma weighted_pick_mem:
  "0 \<le> x \<Longrightarrow> x < sum_list (map poolSelectionWeight cs) \<Longrightarrow> weighted_pick x sel cs \<in> set (map sp_ID cs)"
  by (induction x sel cs rule: weighted_pick.induct) auto

text \<open>Of all the cursor positions, a candidate owns as many as its weight.\<close>

lemma pick_share:
  assumes "distinct (map sp_ID cs)" and "c \<in> set cs"
  shows "card {x. 0 \<le> x \<and> x < sum_list (map poolSelectionWeight cs) \<and> weighted_pick x sel cs = sp_ID c}
    = nat (poolSelectionWeight c)"
  using assms
proof (induction cs)
  case (Cons d ds)
  let ?w = "poolSelectionWeight d" and ?S = "sum_list (map poolSelectionWeight ds)"
  let ?A = "{x. 0 \<le> x \<and> x < ?w + ?S \<and> weighted_pick x sel (d # ds) = sp_ID c}"
  let ?B = "{x. 0 \<le> x \<and> x < ?S \<and> weighted_pick x sel ds = sp_ID c}"
  have S: "0 \<le> ?S" by (rule sum_list_nonneg) (auto intro: less_imp_le weight_pos)
  show ?case
  proof (cases "c = d")
    case True
    have "x < ?w" if "0 \<le> x" "x < ?w + ?S" "weighted_pick x sel (d # ds) = sp_ID c" for x
    proof (rule ccontr)
      assume "\<not> x < ?w"
      with that have "weighted_pick (x - ?w) sel ds = sp_ID d" "0 \<le> x - ?w" "x - ?w < ?S"
        using True by auto
      with weighted_pick_mem [of "x - ?w" ds sel] Cons.prems(1) show False by auto
    qed
    then have "?A \<subseteq> {0..<?w}" unfolding subset_eq mem_Collect_eq atLeastLessThan_iff by blast
    moreover have "{0..<?w} \<subseteq> ?A" using True S by auto
    ultimately have "?A = {0..<?w}" by (rule subset_antisym)
    then show ?thesis using True by simp
  next
    case False
    with Cons.prems have cd: "c \<in> set ds" "sp_ID d \<notin> sp_ID ` set ds" by auto
    then have "sp_ID c \<noteq> sp_ID d" by (metis imageI)
    with cd have c: "c \<in> set ds" "sp_ID c \<noteq> sp_ID d" by auto
    have "?A = (\<lambda>x. x + ?w) ` ?B"
    proof (intro set_eqI iffI)
      fix x assume "x \<in> ?A"
      then have "x - ?w \<in> ?B" using c(2) by (auto split: if_splits)
      then show "x \<in> (\<lambda>x. x + ?w) ` ?B" by (intro image_eqI [of _ _ "x - ?w"]) auto
    next
      fix x assume "x \<in> (\<lambda>x. x + ?w) ` ?B"
      then show "x \<in> ?A" using weight_pos [of d] by auto
    qed
    moreover have "inj_on (\<lambda>x. x + ?w) ?B" by (auto simp: inj_on_def)
    ultimately have "card ?A = card ?B" by (simp add: card_image)
    with Cons c show ?thesis by simp
  qed
qed simp

lemma count_map_upt: "count_list (map g [0..<k]) y = card {i \<in> {..<k}. g i = y}"
proof (induction k)
  case (Suc k)
  have "{i \<in> {..<Suc k}. g i = y} = (if g k = y then insert k {i \<in> {..<k}. g i = y} else {i \<in> {..<k}. g i = y})"
    by (auto simp: less_Suc_eq)
  with Suc show ?case by simp
qed simp

lemma bij_image_where:
  assumes "bij_betw f A {0..<n::int}"
  shows "f ` {i \<in> A. P (f i)} = {x. 0 \<le> x \<and> x < n \<and> P x}"
proof -
  have img: "f ` A = {0..<n}" using assms by (simp add: bij_betw_def)
  have "f ` {i \<in> A. P (f i)} = {x \<in> f ` A. P x}" by blast
  also have "\<dots> = {x. 0 \<le> x \<and> x < n \<and> P x}" unfolding img by simp
  finally show ?thesis .
qed

lemma rotation_bij:
  fixes a :: int
  assumes "0 < n"
  shows "bij_betw (\<lambda>i. (a + int i) mod int n) {..<n} {0..<int n}"
proof -
  have inj: "inj_on (\<lambda>i. (a + int i) mod int n) {..<n}"
  proof (rule inj_onI)
    fix i j assume ij: "i \<in> {..<n}" "j \<in> {..<n}" and "(a + int i) mod int n = (a + int j) mod int n"
    then have "int n dvd (a + int i) - (a + int j)" by (simp add: mod_eq_dvd_iff)
    then have "int n dvd int i - int j" by simp
    moreover have "\<bar>int i - int j\<bar> < int n" using ij by auto
    ultimately show "i = j" by (smt (verit) dvd_imp_le_int of_nat_eq_iff)
  qed
  have sub: "(\<lambda>i. (a + int i) mod int n) ` {..<n} \<subseteq> {0..<int n}" using assms by auto
  have "card ((\<lambda>i. (a + int i) mod int n) ` {..<n}) = card {0..<int n}" by (simp add: card_image [OF inj])
  then have "(\<lambda>i. (a + int i) mod int n) ` {..<n} = {0..<int n}" by (rule card_subset_eq [OF _ sub, rotated]) simp
  with inj show ?thesis by (simp add: bij_betw_def)
qed

text \<open>\<open>k\<close> selections in a row from the same candidates.\<close>

fun select_times :: "nat \<Rightarrow> string \<Rightarrow> selectablePool list \<Rightarrow> cursors \<Rightarrow> string list" where
  "select_times 0 platformName cs cur = []"
| "select_times (Suc k) platformName cs cur =
     (case selectWeightedPool platformName cs cur of (p, cur') \<Rightarrow> p # select_times k platformName cs cur')"

lemma selectWeightedPool_step:
  assumes "cs \<noteq> []" and "ss = sort_key sp_ID cs" and "n = sum_list (map poolSelectionWeight ss)"
  shows "selectWeightedPool platformName cs cur =
    (weighted_pick (cur platformName mod n) (sp_ID (hd ss)) ss,
     cur(platformName := (cur platformName + 1) mod n))" and "0 < n"
proof -
  have "ss \<noteq> []" using assms(1,2) by (metis length_0_conv length_sort)
  then show "0 < n" using weights_pos assms(3) by blast
  then show "selectWeightedPool platformName cs cur =
    (weighted_pick (cur platformName mod n) (sp_ID (hd ss)) ss,
     cur(platformName := (cur platformName + 1) mod n))"
    unfolding selectWeightedPool_def Let_def assms(2) [symmetric] assms(3) [symmetric]
    using assms(1) by simp
qed

lemma select_times_cursors:
  assumes "cs \<noteq> []" and "ss = sort_key sp_ID cs" and "n = sum_list (map poolSelectionWeight ss)"
  shows "select_times k platformName cs cur =
    map (\<lambda>i. weighted_pick ((cur platformName + int i) mod n) (sp_ID (hd ss)) ss) [0..<k]"
proof (induction k arbitrary: cur)
  case (Suc k)
  have shift: "((cur platformName + 1) mod n + int i) mod n = (cur platformName + int (Suc i)) mod n" for i
    by (simp add: mod_simps algebra_simps)
  have "[0..<Suc k] = 0 # map Suc [0..<k]" by (simp add: map_Suc_upt upt_conv_Cons del: upt_Suc)
  then show ?case
    unfolding select_times.simps selectWeightedPool_step(1) [OF assms] prod.case Suc.IH fun_upd_same shift
    by simp
qed simp

section \<open>Agreement with the allocator\<close>

lemma fold_put_get:
  "distinct (map fst ms) \<Longrightarrow> (\<And>k v. (k, v) \<in> set ms \<Longrightarrow> TrimSpace k = k) \<Longrightarrow>
   obj_get (fold (\<lambda>(key, v) acc. case encode_key key of None \<Rightarrow> acc | Some k \<Rightarrow> obj_put k v acc) ms acc) k =
     (case (if encode_key k = Some k then obj_get ms k else None) of None \<Rightarrow> obj_get acc k | Some v \<Rightarrow> Some v)"
proof (induction ms arbitrary: acc)
  case Nil
  then show ?case by (simp add: obj_get_def)
next
  case (Cons m ms)
  obtain key v where m: "m = (key, v)" by (cases m)
  have "TrimSpace key = key" using Cons.prems(2) [of key v] m by simp
  then have e: "encode_key key = None \<or> encode_key key = Some key" by (auto simp: encode_key_def Let_def)
  have nk: "key \<notin> fst ` set ms" using Cons.prems(1) m by auto
  then have none: "obj_get ms key = None" by (simp add: obj_get_def map_of_eq_None_iff)
  have IH: "obj_get (fold (\<lambda>(key, v) acc. case encode_key key of None \<Rightarrow> acc | Some k \<Rightarrow> obj_put k v acc) ms acc) k =
     (case (if encode_key k = Some k then obj_get ms k else None) of None \<Rightarrow> obj_get acc k | Some v \<Rightarrow> Some v)" for acc
    by (rule Cons.IH) (use Cons.prems in simp, rule Cons.prems(2), rule list.set_intros(2))
  have step: "obj_get ((key, v) # ms) k = (if k = key then Some v else obj_get ms k)"
    by (simp add: obj_get_def)
  from e show ?case
  proof
    assume "encode_key key = None"
    then show ?thesis by (auto simp: m IH step)
  next
    assume "encode_key key = Some key"
    then show ?thesis using none by (auto simp: m IH step split: option.splits)
  qed
qed

lemma encode_get:
  assumes "obj_wf req" and "\<And>k v. (k, v) \<in> set req \<Longrightarrow> TrimSpace k = k"
  shows "obj_get (encodeRequestedCapabilities req) k = (if encode_key k = Some k then obj_get req k else None)"
  using fold_put_get [of req "[]" k] assms
  by (auto simp: encodeRequestedCapabilities_def obj_wf_def obj_get_def split: option.splits)

lemma schedulable_key_encoded: "k \<in> set schedulable_keys \<Longrightarrow> TrimSpace k = k \<Longrightarrow> encode_key k = Some k"
  by (auto simp: encode_key_def Let_def schedulable_keys_def schedulableCapabilityKeys_def
      androidMinSdkLevelKey_def)

lemma contains_encoded:
  assumes "obj_wf req" and "\<And>k v. (k, v) \<in> set req \<Longrightarrow> TrimSpace k = k"
    and "obj_contains caps (device_schedulable_capabilities (encodeRequestedCapabilities req))"
  shows "obj_contains caps (device_schedulable_capabilities req)"
  unfolding obj_contains_iff
proof (intro ballI, clarify)
  fix k v assume "(k, v) \<in> set (device_schedulable_capabilities req)"
  then have kv: "(k, v) \<in> set req" "k \<in> set schedulable_keys"
    by (auto simp: device_schedulable_capabilities_def)
  have "obj_get req k = Some v" using kv(1) assms(1) by (simp add: obj_get_def obj_wf_def)
  then have "obj_get (encodeRequestedCapabilities req) k = Some v"
    using encode_get [of req k, OF assms(1,2)] schedulable_key_encoded [OF kv(2) assms(2) [OF kv(1)]] by simp
  then have "(k, v) \<in> set (device_schedulable_capabilities (encodeRequestedCapabilities req))"
    using kv(2) by (auto simp: obj_get_def device_schedulable_capabilities_def dest: map_of_SomeD)
  with assms(3) show "\<exists>w. obj_get caps k = Some w \<and> json_contains w v"
    unfolding obj_contains_iff by blast
qed

text \<open>\<open>scan_first\<close> finds a row as soon as one qualifies and none before it raises an error.\<close>

lemma scan_first_Some:
  "scan_first q rows = Some (Some r) \<Longrightarrow> r \<in> set rows \<and> q r = Some True"
  by (induction rows) (auto split: option.splits if_splits)

lemma exists_row_True: "exists_row q rows = Some True \<Longrightarrow> \<exists>r\<in>set rows. q r = Some True"
  by (auto simp: exists_row_def dest!: scan_first_Some)

lemma and_platform_lower:
  "p \<in> {''android'', ''ios''} \<Longrightarrow> ToLower p = p"
  by (auto simp: ToLower_def lower_char_def byte_def)

text \<open>A normalised request, as \<open>create\<close> passes it on: what \<open>normalizeRequestedCapabilities\<close> leaves.\<close>

definition normalized_request :: "json_obj \<Rightarrow> bool" where
  "normalized_request req \<longleftrightarrow>
     obj_wf req \<and> list_all (\<lambda>(k, v). TrimSpace k = k) req \<and>
     obj_get req ''platformName'' \<in> {Some (JStr ''Android''), Some (JStr ''iOS'')} \<and>
     \<not> obj_has req TargetDeviceCapability \<and>
     (case obj_get req androidMinSdkLevelKey of
        None \<Rightarrow> True | Some (JNum i) \<Rightarrow> - (2 ^ 31) \<le> i \<and> i < 2 ^ 31 | _ \<Rightarrow> False)"

lemma normalized_min_sdk:
  assumes "normalized_request req"
  shows "int_or_zero req ''androidMinSdkLevel'' = Some (minSDKLowerBound req)"
proof (cases "obj_get req ''androidMinSdkLevel''")
  case None
  then show ?thesis by (simp add: int_or_zero_def arrow_text_def minSDKLowerBound_def androidMinSdkLevelKey_def)
next
  case (Some v)
  with assms obtain i where v: "v = JNum i" "- (2 ^ 31) \<le> i" "i < 2 ^ 31"
    by (auto simp: normalized_request_def androidMinSdkLevelKey_def split: json.splits)
  have "int_text i \<noteq> []" using nat_text_digits [of "nat i"] by (auto simp: int_text_def)
  moreover have "parse_int4 (int_text i) = Some i"
    unfolding parse_int4_def by (rule parse_int_text) (use v in auto)
  ultimately show ?thesis
    using Some v by (simp add: int_or_zero_def arrow_text_def minSDKLowerBound_def androidMinSdkLevelKey_def)
qed

lemma scan_first_total:
  assumes "\<And>r. r \<in> set rows \<Longrightarrow> q r \<noteq> None" and "r \<in> set rows" and "q r = Some True"
  shows "\<exists>x. scan_first q rows = Some (Some x)"
  using assms
proof (induction rows)
  case (Cons a rows)
  from Cons.prems(1) obtain b where b: "q a = Some b" by fastforce
  show ?case
  proof (cases b)
    case False
    with b Cons show ?thesis by auto
  qed (use b in auto)
qed simp

text \<open>Devices whose API level, when they state one, reads as an integer.\<close>

definition api_levels_ok :: "farm_db \<Rightarrow> bool" where
  "api_levels_ok db \<longleftrightarrow> list_all (\<lambda>d. int_or_zero (dev_capabilities d) ''apiLevel'' \<noteq> None) (devices db)"

lemma matches_request_total:
  assumes "normalized_request req" and "api_levels_ok db" and "j \<in> set (join_device db)"
  shows "matches_request req j \<noteq> None"
proof -
  obtain d pd h p where j: "j = (d, pd, h, p)" by (cases j)
  with assms(3) have "d \<in> set (devices db)" by (simp add: join_device_iff)
  with assms(2) have "int_or_zero (dev_capabilities d) ''apiLevel'' \<noteq> None"
    by (auto simp: api_levels_ok_def list_all_iff)
  then show ?thesis
    using normalized_min_sdk [OF assms(1)] j
    by (auto simp: matches_request_def min_sdk_ok_def)
qed

lemma platform_names:
  "TrimSpace ''Android'' = ''Android''" "TrimSpace ''iOS'' = ''iOS''"
  "TrimSpace ''platformName'' = ''platformName''"
  by (simp_all add: TrimSpace_def trim_left.simps trim_right_rev.simps space_suffix_def byte_def)

lemma lower_platform_names [simp]: "ToLower ''Android'' = ''android''" "ToLower ''iOS'' = ''ios''"
proof -
  have "char_of (97 :: nat) = CHR ''a''" "char_of (111 :: nat) = CHR ''o''" "char_of (115 :: nat) = CHR ''s''"
    by (simp_all add: char_of_def bit_0)
  then show "ToLower ''Android'' = ''android''" "ToLower ''iOS'' = ''ios''"
    by (simp_all add: ToLower_def lower_char_def byte_def)
qed

lemma member_matches_allocatable:
  assumes req: "normalized_request req" and p: "p \<in> set (pools db)" "pool_status p = PoolActive"
    "pool_platform p \<in> {''android'', ''ios''}" "pool_platform p = requested_platform req"
    and j: "d \<in> set (devices db)" "pd \<in> set (pool_devices db)" "h \<in> set (hosts db)"
    and m: "member_matches p (encodeRequestedCapabilities req) (minSDKLowerBound req) (d, pd, h) = Some True"
  shows "(d, pd, h, p) \<in> set (join_device db)" and "matches_request req (d, pd, h, p) = Some True"
proof -
  have trim: "\<And>k v. (k, v) \<in> set req \<Longrightarrow> TrimSpace k = k" and wf: "obj_wf req"
    using req by (auto simp: normalized_request_def list_all_iff)
  from m show "(d, pd, h, p) \<in> set (join_device db)"
    using j p by (auto simp: join_device_iff member_matches_def split: if_splits)
  have "obj_get req ''platformName'' = Some (JStr ''Android'') \<or> obj_get req ''platformName'' = Some (JStr ''iOS'')"
    using req by (simp add: normalized_request_def)
  then have plat: "map_option ToLower (arrow_text req ''platformName'') = Some (pool_platform p)"
    using p(4) by (elim disjE) (simp_all add: requested_platform_def arrow_text_def platform_names)
  have "obj_contains (dev_capabilities d) (device_schedulable_capabilities req)"
    using m contains_encoded [OF wf trim] by (auto simp: member_matches_def split: if_splits)
  then have s: "schedulable_row req (d, pd, h, p)"
    using m plat req p by (auto simp: schedulable_row_def member_matches_def normalized_request_def split: if_splits)
  have "min_sdk_ok req (dev_capabilities d) = Some True"
    using m normalized_min_sdk [OF req]
    by (auto simp: min_sdk_ok_def member_matches_def split: if_splits option.splits)
  with s show "matches_request req (d, pd, h, p) = Some True" by (simp add: matches_request_def)
qed

section \<open>Properties\<close>

text \<open>
  C11: The rotation is fair.  Over as many consecutive selections as the weights add up to, from any
  cursor, every candidate pool is selected exactly as often as its weight, its \<open>max_concurrency\<close>.
\<close>

theorem rotation_fair:
  assumes "distinct (map sp_ID cs)" and "c \<in> set cs" and "0 \<le> cur platformName"
  shows "count_list (select_times (nat (sum_list (map poolSelectionWeight cs))) platformName cs cur) (sp_ID c)
    = nat (poolSelectionWeight c)"
proof -
  define ss where "ss = sort_key sp_ID cs"
  define n where "n = sum_list (map poolSelectionWeight ss)"
  have ne: "cs \<noteq> []" using assms(2) by auto
  note pos = selectWeightedPool_step(2) [OF ne ss_def n_def]
  have perm: "mset ss = mset cs" by (simp add: ss_def)
  then have "sum_list (map poolSelectionWeight cs) = n"
    unfolding n_def by (metis mset_map sum_mset_sum_list)
  have "mset (map sp_ID ss) = mset (map sp_ID cs)" by (simp add: perm)
  then have ds: "distinct (map sp_ID ss)" using assms(1) mset_eq_imp_distinct_iff by blast
  have cs: "c \<in> set ss" using assms(2) by (simp add: ss_def)
  let ?pick = "\<lambda>x. weighted_pick x (sp_ID (hd ss)) ss" and ?f = "\<lambda>i. (cur platformName + int i) mod n"
  have bij: "bij_betw ?f {..<nat n} {0..<n}" using rotation_bij [of "nat n" "cur platformName"] pos by simp
  have "count_list (map (\<lambda>i. ?pick (?f i)) [0..<nat n]) (sp_ID c) = card {i \<in> {..<nat n}. ?pick (?f i) = sp_ID c}"
    by (rule count_map_upt)
  also have "\<dots> = card (?f ` {i \<in> {..<nat n}. ?pick (?f i) = sp_ID c})"
    by (rule card_image [symmetric]) (rule inj_on_subset [OF bij_betw_imp_inj_on [OF bij]], auto)
  also have "?f ` {i \<in> {..<nat n}. ?pick (?f i) = sp_ID c} = {x. 0 \<le> x \<and> x < n \<and> ?pick x = sp_ID c}"
    by (rule bij_image_where [OF bij])
  also have "card \<dots> = nat (poolSelectionWeight c)" using pick_share [OF ds cs] by (simp add: n_def)
  finally show ?thesis
    unfolding \<open>sum_list (map poolSelectionWeight cs) = n\<close> select_times_cursors [OF ne ss_def n_def] .
qed

theorem rotation_fair_witness:
  "count_list (select_times 3 ''android''
      [\<lparr>sp_ID = ''a'', sp_MaxConcurrency = 2\<rparr>, \<lparr>sp_ID = ''b'', sp_MaxConcurrency = 0\<rparr>] (\<lambda>_. 5)) ''a'' = 2"
  using rotation_fair [of "[\<lparr>sp_ID = ''a'', sp_MaxConcurrency = 2\<rparr>, \<lparr>sp_ID = ''b'', sp_MaxConcurrency = 0\<rparr>]"
      "\<lparr>sp_ID = ''a'', sp_MaxConcurrency = 2\<rparr>" "\<lambda>_. 5" "''android''"]
  by (simp add: poolSelectionWeight_def)



end
