(* ===== verification/Scheduler.thy ===== *)
theory Scheduler
  imports Reservation_Repository Farm_Samples
begin

text \<open>
  \<open>internal/scheduler/scheduler.go\<close>.  One call of \<open>RunOnce\<close> is two transactions with a call to
  the STF service in between: reserve a device for the oldest request that can be served, claim the
  device, activate the reservation; a failure after the first transaction is compensated by a third.
  The transactions are separate definitions, so that other transactions can run between them; in
  \<open>RunOnce\<close> these are the parameter \<open>se_others\<close>.

  The claimer is an interface of the Go code.  Its outcome is a parameter: \<open>dc_Claim\<close> is \<open>None\<close> for
  success and \<open>Some retryable\<close> for an error.
\<close>

section \<open>Parameters\<close>

record device_claimer =
  dc_Claim :: "string \<Rightarrow> duration \<Rightarrow> bool option"
  dc_Release :: "string \<Rightarrow> bool"

record scheduler_env =
  se_locked_reservations :: "string list"
  se_locked_devices :: "string list"
  se_claimer :: "device_claimer option"
  se_newID :: "(farm_error, string) result"
  se_now :: timestamp
  se_others :: "farm_db \<Rightarrow> farm_db"

record claim_candidate =
  cc_reservation :: reservation_row
  cc_device :: device_assignment

type_synonym assignment = "reservation_row \<times> session_row"

datatype stf_call = STFClaim string duration | STFRelease string

text \<open>The device aggregate, asked for one transition.\<close>

definition check_device ::
  "string \<Rightarrow> device_lifecycle_status \<Rightarrow> health_status \<Rightarrow> device_lifecycle_status \<Rightarrow> string \<Rightarrow> timestamp \<Rightarrow>
     (farm_error, Device) result" where
  "check_device ident lifecycle health to reason at =
     lift_domain (result_bind (RestoreDevice ident lifecycle health) (\<lambda>d.
       case Device_Transition to reason at d of (Some e, _) \<Rightarrow> Inl e | (None, d') \<Rightarrow> Inr d'))"

section \<open>The transactions\<close>

definition next_reservation :: "string list \<Rightarrow> farm_db \<Rightarrow> (farm_error, reservation_row) result" where
  "next_reservation locked db =
     (case LockNextAllocatablePending locked db of
        Inl RepoErrNotFound \<Rightarrow>
          Inl (if HasPending db then SchedErrCapacityUnavailable else SchedErrNoPendingReservation)
      | Inl e \<Rightarrow> Inl e
      | Inr r \<Rightarrow> Inr r)"

definition matching_device :: "string list \<Rightarrow> json_obj \<Rightarrow> farm_db \<Rightarrow> (farm_error, device_assignment) result" where
  "matching_device locked req db =
     (case LockMatchingDevice locked req db of
        Inl RepoErrCapacityUnavailable \<Rightarrow> Inl SchedErrCapacityUnavailable
      | Inl e \<Rightarrow> Inl e
      | Inr d \<Rightarrow> Inr d)"

definition host_policy :: "string \<Rightarrow> string \<Rightarrow> farm_db \<Rightarrow> (farm_error, pool_policy) result" where
  "host_policy hostID deviceID db =
     (case LockPoolPolicyForHost hostID deviceID db of
        Inl RepoErrNotFound \<Rightarrow> Inl SchedErrCapacityUnavailable
      | Inl e \<Rightarrow> Inl e
      | Inr p \<Rightarrow> Inr p)"

definition ClockNow :: "farm_db \<Rightarrow> (farm_error, timestamp) result" where
  "ClockNow db = Inr (db_clock db)"

definition reserve_tx :: "string list \<Rightarrow> string list \<Rightarrow> claim_candidate farm_tx" where
  "reserve_tx lockedR lockedD =
     tx_bind (tx_read (next_reservation lockedR)) (\<lambda>reservation.
     tx_bind (tx_read (matching_device lockedD (rsv_capabilities reservation))) (\<lambda>device.
     tx_bind (tx_read (host_policy (da_HostID device) (da_ID device))) (\<lambda>policy.
     tx_bind (tx_guard (pp_Status policy = PoolActive) SchedErrCapacityUnavailable) (\<lambda>_.
     tx_bind (tx_guard (pp_ActiveReservations policy < pp_MaxConcurrency policy) SchedErrCapacityUnavailable) (\<lambda>_.
     tx_bind (tx_read ClockNow) (\<lambda>now.
     tx_bind (tx_lift (check_device (da_ID device) (da_Lifecycle device) (da_Health device)
                         DeviceReserved ''scheduler reserved device'' now)) (\<lambda>_.
     tx_bind (ReserveForClaim (rsv_id reservation) (da_ID device) now) (\<lambda>_.
     tx_return \<lparr>cc_reservation = reservation\<lparr>rsv_device_id := Some (da_ID device)\<rparr>, cc_device = device\<rparr>))))))))"

definition activate_tx :: "claim_candidate \<Rightarrow> string \<Rightarrow> timestamp \<Rightarrow> assignment farm_tx" where
  "activate_tx selected sessionID wall =
     tx_bind (tx_read (LockByID (rsv_id (cc_reservation selected)))) (\<lambda>reservation.
     tx_bind (tx_guard (rsv_status reservation = ReservationPending \<and>
                        rsv_device_id reservation = Some (da_ID (cc_device selected))) RepoErrNotFound) (\<lambda>_.
     tx_bind (tx_read (LockPoolPolicyForHost (da_HostID (cc_device selected)) (da_ID (cc_device selected)))) (\<lambda>policy.
     tx_bind (tx_guard (pp_Status policy = PoolActive \<and> pp_ActiveReservations policy < pp_MaxConcurrency policy)
                SchedErrCapacityUnavailable) (\<lambda>_.
     tx_bind (tx_read (LockDevice (da_ID (cc_device selected)))) (\<lambda>device.
     tx_bind (tx_lift (lift_domain (check_transition
                (RestoreReservation (rsv_id reservation) (rsv_status reservation))
                ReservationActive ''device allocation claim succeeded'' wall))) (\<lambda>_.
     tx_bind (tx_lift (check_device (da_ID device) (da_Lifecycle device) (da_Health device)
                DeviceBusy ''device session started after allocation claim'' wall)) (\<lambda>_.
     tx_bind (tx_lift (lift_domain (check_transition (NewSession sessionID)
                SessionActive ''scheduler started session'' wall))) (\<lambda>_.
     ActivateClaimed reservation device sessionID))))))))"

definition compensateClaim :: "claim_candidate \<Rightarrow> string \<Rightarrow> bool \<Rightarrow> unit farm_tx" where
  "compensateClaim selected failureCode terminal =
     tx_bind (tx_read ClockNow) (\<lambda>now.
       CompensateClaim (rsv_id (cc_reservation selected)) (da_ID (cc_device selected)) failureCode terminal now)"

section \<open>RunOnce\<close>

text \<open>Only Android devices go through the claimer.\<close>

definition claimer_for :: "scheduler_env \<Rightarrow> device_assignment \<Rightarrow> device_claimer option" where
  "claimer_for env device = (if da_Platform device = ''android'' then se_claimer env else None)"

text \<open>
  \<open>releaseAndCompensate\<close>: errors of the release and of the compensation are logged and dropped.
\<close>

definition releaseAndCompensate ::
  "scheduler_env \<Rightarrow> claim_candidate \<Rightarrow> string \<Rightarrow> bool \<Rightarrow> farm_db \<Rightarrow> stf_call list \<times> farm_db" where
  "releaseAndCompensate env selected failureCode terminal db =
     ((case claimer_for env (cc_device selected) of
         None \<Rightarrow> [] | Some _ \<Rightarrow> [STFRelease (da_STFSerial (cc_device selected))]),
      snd (run_tx (compensateClaim selected failureCode terminal) db))"

definition claim_device :: "scheduler_env \<Rightarrow> claim_candidate \<Rightarrow> stf_call list \<times> bool option" where
  "claim_device env selected =
     (let serial = da_STFSerial (cc_device selected);
          lease = rsv_lease_seconds (cc_reservation selected) * second
      in case claimer_for env (cc_device selected) of
           None \<Rightarrow> ([], None)
         | Some c \<Rightarrow> ([STFClaim serial lease], dc_Claim c serial lease))"

text \<open>
  The joined error of a failed claim with a failed compensation is represented by the first, which is
  what the callers test for.
\<close>

definition RunOnce :: "scheduler_env \<Rightarrow> farm_db \<Rightarrow> (farm_error, assignment) result \<times> stf_call list \<times> farm_db" where
  "RunOnce env db =
     (case run_tx (reserve_tx (se_locked_reservations env) (se_locked_devices env)) db of
        (Inl e, db1) \<Rightarrow> (Inl e, [], db1)
      | (Inr selected, db1) \<Rightarrow>
          let db2 = se_others env db1
          in case claim_device env selected of
               (calls, Some retryable) \<Rightarrow>
                 (Inl SchedErrSTFClaimFailed, calls,
                  snd (run_tx (compensateClaim selected ''STF_CLAIM_FAILED'' (\<not> retryable)) db2))
             | (calls, None) \<Rightarrow>
                 (case se_newID env of
                    Inl e \<Rightarrow>
                      (case releaseAndCompensate env selected ''SESSION_ID_GENERATION_FAILED'' True db2 of
                         (cleanup, db3) \<Rightarrow> (Inl e, calls @ cleanup, db3))
                  | Inr sessionID \<Rightarrow>
                      (case run_tx (activate_tx selected sessionID (se_now env)) db2 of
                         (Inr a, db3) \<Rightarrow> (Inr a, calls, db3)
                       | (Inl e, db3) \<Rightarrow>
                           (case releaseAndCompensate env selected ''STF_CLAIM_COMPENSATED'' False db3 of
                              (cleanup, db4) \<Rightarrow> (Inl e, calls @ cleanup, db4)))))"

end
