(* ===== verification/Audit_Actor.thy ===== *)
theory Audit_Actor
  imports Farm_Prelude
begin

text \<open>
  \<open>internal/audit/actor.go\<close>: the identity a request acts under.  Go counts and ranges over the
  runes of a string; \<open>decode_rune\<close> is \<open>utf8.DecodeRune\<close>, in which a byte that starts no valid
  encoding is the rune U+FFFD of width one.
\<close>

section \<open>Runes\<close>

definition cont_byte :: "char \<Rightarrow> bool" where
  "cont_byte c \<longleftrightarrow> 128 \<le> byte c \<and> byte c \<le> 191"

definition rune_error :: "nat \<times> nat" where
  "rune_error = (65533, 1)"

fun decode_rune :: "string \<Rightarrow> nat \<times> nat" where
  "decode_rune [] = rune_error"
| "decode_rune (a # s) =
     (let x = byte a in
      if x < 128 then (x, 1)
      else if 194 \<le> x \<and> x \<le> 223 then
        (case s of
           b # _ \<Rightarrow> if cont_byte b then ((x - 192) * 64 + (byte b - 128), 2) else rune_error
         | _ \<Rightarrow> rune_error)
      else if 224 \<le> x \<and> x \<le> 239 then
        (case s of
           b # c # _ \<Rightarrow>
             if cont_byte b \<and> cont_byte c \<and> (x = 224 \<longrightarrow> 160 \<le> byte b) \<and> (x = 237 \<longrightarrow> byte b \<le> 159)
             then ((x - 224) * 4096 + (byte b - 128) * 64 + (byte c - 128), 3) else rune_error
         | _ \<Rightarrow> rune_error)
      else if 240 \<le> x \<and> x \<le> 244 then
        (case s of
           b # c # d # _ \<Rightarrow>
             if cont_byte b \<and> cont_byte c \<and> cont_byte d \<and> (x = 240 \<longrightarrow> 144 \<le> byte b) \<and>
                (x = 244 \<longrightarrow> byte b \<le> 143)
             then ((x - 240) * 262144 + (byte b - 128) * 4096 + (byte c - 128) * 64 + (byte d - 128), 4)
             else rune_error
         | _ \<Rightarrow> rune_error)
      else rune_error)"

lemma decode_rune_width: "0 < snd (decode_rune s)"
  by (induction s rule: decode_rune.induct)
    (auto simp: rune_error_def Let_def split: list.splits)

function runes :: "string \<Rightarrow> nat list" where
  "runes s = (if s = [] then [] else fst (decode_rune s) # runes (drop (snd (decode_rune s)) s))"
  by pat_completeness auto
termination
  by (relation "measure length") (use decode_rune_width in \<open>auto simp: not_le\<close>)

declare runes.simps [simp del]

definition RuneCountInString :: "string \<Rightarrow> nat" where
  "RuneCountInString s = length (runes s)"

definition IsControl :: "nat \<Rightarrow> bool" where
  "IsControl r \<longleftrightarrow> r < 32 \<or> 127 \<le> r \<and> r < 160"

section \<open>Actors\<close>

record Actor =
  ac_Type :: string
  ac_ID :: string
  ac_ClientID :: string

definition ActorService :: string where "ActorService = ''service''"
definition ActorAgent :: string where "ActorAgent = ''agent''"
definition ActorConsole :: string where "ActorConsole = ''console''"
definition ActorSystem :: string where "ActorSystem = ''system''"

lemmas actor_type_defs = ActorService_def ActorAgent_def ActorConsole_def ActorSystem_def

definition validField :: "string \<Rightarrow> nat \<Rightarrow> bool" where
  "validField v limit \<longleftrightarrow>
     TrimSpace v \<noteq> [] \<and> RuneCountInString v \<le> limit \<and> list_all (\<lambda>r. \<not> IsControl r) (runes v)"

definition Service :: "string \<Rightarrow> Actor" where
  "Service actorID =
     (let a = TrimSpace actorID; b = (if validField a 128 then a else ActorService)
      in \<lparr>ac_Type = ActorService, ac_ID = b, ac_ClientID = ActorService\<rparr>)"

definition Console :: "string \<Rightarrow> Actor" where
  "Console subjectID =
     (let s = TrimSpace subjectID
      in \<lparr>ac_Type = ActorConsole, ac_ID = s, ac_ClientID = ActorConsole @ '':'' @ s\<rparr>)"

definition System :: Actor where
  "System = \<lparr>ac_Type = ActorSystem, ac_ID = ActorSystem, ac_ClientID = ActorSystem\<rparr>"

definition Valid :: "Actor \<Rightarrow> bool" where
  "Valid a \<longleftrightarrow>
     ac_Type a \<in> {ActorService, ActorAgent, ActorConsole, ActorSystem} \<and>
     validField (ac_ID a) 128 \<and> validField (ac_ClientID a) 128"

lemma Valid_type: "Valid a \<Longrightarrow> ac_Type a \<in> {''service'', ''agent'', ''system'', ''console''}"
  by (auto simp: Valid_def actor_type_defs)

lemma runes_Cons_ascii: "byte c < 128 \<Longrightarrow> runes (c # s) = byte c # runes s"
  by (subst runes.simps) simp

lemma runes_Nil [simp]: "runes [] = []"
  by (simp add: runes.simps)

lemma validField_service: "validField ''service'' 128"
  by (simp add: validField_def RuneCountInString_def runes_Cons_ascii byte_def IsControl_def TrimSpace_def
      trim_left.simps trim_right_rev.simps space_suffix_def)

text \<open>
  Whatever a caller puts into the actor header, the identity built for a service request can be
  persisted, keeps the service type and stays inside the idempotency namespace of the service.
\<close>

theorem service_actor_valid:
  "Valid (Service actorID) \<and> ac_Type (Service actorID) = ''service'' \<and>
   ac_ClientID (Service actorID) = ''service''"
  using validField_service by (auto simp: Valid_def Service_def Let_def actor_type_defs)

end
