(* ===== verification/Reservation_Service.thy ===== *)
theory Reservation_Service
  imports Pool_Selector Scheduler Audit_Actor
begin

text \<open>
  \<open>internal/reservation/service.go\<close>.  A handler is a sequence of reads of the database, calls of the
  STF and iOS controllers, and transactions; each transaction is a definition of its own (\<open>..._tx\<close>),
  so that the system theory can interleave them.  In the handlers \<open>sv_others\<close> is what other
  transactions commit between the reads and the final transaction.

  Parameters: the controllers (interfaces of the Go code), the generator of identifiers, the hash of
  a request (\<open>requestHash\<close> is SHA-256 over the JSON text), the process clock, PostgreSQL's cast to
  \<open>timestamptz\<close>.  A service without a database is not modelled; a service without controllers is.
\<close>

section \<open>Inputs, views and parameters\<close>

record create_input =
  ci_PoolID :: string
  ci_RequestedDeviceID :: string
  ci_OwnerType :: string
  ci_OwnerID :: string
  ci_RequestedCapabilities :: json_obj
  ci_LeaseSeconds :: int
  ci_poolIDPresent :: bool

record remote_input =
  ri_OwnerType :: string
  ri_OwnerID :: string
  ri_TTLSeconds :: int

record remote_view =
  rv_ID :: string
  rv_ReservationID :: string
  rv_URL :: string
  rv_ExpiresAt :: timestamp

record view =
  v_ID :: string
  v_PoolID :: string
  v_DeviceID :: "string option"
  v_OwnerType :: string
  v_OwnerID :: string
  v_RequestedCapabilities :: json_obj
  v_LeaseSeconds :: int
  v_Status :: reservation_status
  v_StartsAt :: "timestamp option"
  v_ExpiresAt :: "timestamp option"
  v_ReleasedAt :: "timestamp option"
  v_FailureCode :: "string option"
  v_CreatedAt :: timestamp
  v_UpdatedAt :: timestamp

record stf_controller =
  stf_Release :: "string \<Rightarrow> bool"
  stf_RemoteConnect :: "string \<Rightarrow> string option"
  stf_RemoteDisconnect :: "string \<Rightarrow> bool"

datatype hash_request =
    ExtendRequest string int
  | ReleaseRequest string string bool
  | RemoteRequest string string string int

record service_env =
  sv_newID :: "(farm_error, string) result"
  sv_newID2 :: "(farm_error, string) result"
  sv_stf :: "stf_controller option"
  sv_ios :: "(string \<Rightarrow> bool) option"
  sv_hash :: "hash_request \<Rightarrow> string"
  sv_now :: timestamp
  sv_parse_ts :: "string \<Rightarrow> timestamp option"
  sv_others :: "farm_db \<Rightarrow> farm_db"

datatype external_call =
    CallIOSClose string
  | CallSTFRelease string
  | CallRemoteConnect string
  | CallRemoteDisconnect string

section \<open>Validation and conversion\<close>

definition validOwnerType :: "string \<Rightarrow> bool" where
  "validOwnerType v \<longleftrightarrow> v \<in> {''run_attempt'', ''manual'', ''test_run''}"

definition validOwnerID :: "string \<Rightarrow> string \<Rightarrow> bool" where
  "validOwnerID ownerType v =
     (if ownerType = ''manual''
      then 1 \<le> length v \<and> length v \<le> 64 \<and> list_all manual_owner_char v
      else identifierPattern v)"

definition isClosedStatus :: "reservation_status \<Rightarrow> bool" where
  "isClosedStatus s \<longleftrightarrow>
     s \<in> {ReservationReleased, ReservationExpired, ReservationForceReleased, ReservationFailed}"

definition validateCreate :: "Actor \<Rightarrow> string \<Rightarrow> create_input \<Rightarrow> (farm_error, unit) result" where
  "validateCreate actor key input =
     (if \<not> Valid actor \<or> length key < 8 \<or> 128 < length key \<or> \<not> identifierPattern (ci_PoolID input) \<or>
         \<not> validOwnerID (ci_OwnerType input) (ci_OwnerID input) \<or> \<not> validOwnerType (ci_OwnerType input) \<or>
         ci_LeaseSeconds input < 60
      then Inl ErrInvalidArgument
      else if ci_RequestedDeviceID input \<noteq> [] \<and> \<not> identifierPattern (ci_RequestedDeviceID input)
      then Inl ErrInvalidArgument
      else if ContainsMap (ci_RequestedCapabilities input) then Inl ErrInvalidArgument
      else if list_ex (\<lambda>m. has_prefix (fst m) ''_device_farm_'') (ci_RequestedCapabilities input)
      then Inl ErrInvalidArgument
      else Inr ())"

definition normalizeRequestedCapabilities :: "json_obj \<Rightarrow> (farm_error, json_obj) result" where
  "normalizeRequestedCapabilities source =
     (case obj_get source ''platformName'' of
        None \<Rightarrow> Inr source
      | Some (JStr t) \<Rightarrow>
          let name = ToLower (TrimSpace t)
          in if name = ''android'' then Inr (obj_put ''platformName'' (JStr ''Android'') source)
             else if name = ''ios'' then Inr (obj_put ''platformName'' (JStr ''iOS'') source)
             else Inl ErrInvalidArgument
      | Some _ \<Rightarrow> Inl ErrInvalidArgument)"

definition toView :: "reservation_row \<Rightarrow> view" where
  "toView r =
     \<lparr>v_ID = rsv_id r, v_PoolID = rsv_pool_id r, v_DeviceID = rsv_device_id r,
      v_OwnerType = rsv_owner_type r, v_OwnerID = rsv_owner_id r,
      v_RequestedCapabilities = obj_remove TargetDeviceCapability (rsv_capabilities r),
      v_LeaseSeconds = rsv_lease_seconds r, v_Status = rsv_status r, v_StartsAt = rsv_starts_at r,
      v_ExpiresAt = rsv_expires_at r, v_ReleasedAt = rsv_released_at r,
      v_FailureCode = rsv_failure_code r, v_CreatedAt = rsv_created_at r, v_UpdatedAt = rsv_updated_at r\<rparr>"

definition translateRepositoryError :: "farm_error \<Rightarrow> farm_error" where
  "translateRepositoryError e = (case e of
     RepoErrNotFound \<Rightarrow> ErrNotFound
   | RepoErrIdempotencyConflict \<Rightarrow> ErrConflict
   | RepoErrPoolUnavailable \<Rightarrow> ErrPoolUnavailable
   | RepoErrCapacityUnavailable \<Rightarrow> ErrCapacityUnavailable
   | _ \<Rightarrow> e)"

definition translated :: "(farm_error, 'a) result \<Rightarrow> (farm_error, 'a) result" where
  "translated r = (case r of Inl e \<Rightarrow> Inl (translateRepositoryError e) | Inr a \<Rightarrow> Inr a)"

lemma translated_Inr [simp]: "translated r = Inr a \<longleftrightarrow> r = Inr a"
  by (cases r) (auto simp: translated_def)

definition result_view :: "(farm_error, reservation_row) result \<Rightarrow> (farm_error, view) result" where
  "result_view r = (case r of Inl e \<Rightarrow> Inl (translateRepositoryError e) | Inr a \<Rightarrow> Inr (toView a))"

lemma result_view_Inr: "result_view r = Inr v \<longleftrightarrow> (\<exists>a. r = Inr a \<and> v = toView a)"
  by (cases r) (auto simp: result_view_def)

section \<open>Creating\<close>

text \<open>The transaction of a targeted request, under the advisory lock of the device.\<close>

definition create_targeted_tx :: "Actor \<Rightarrow> string \<Rightarrow> create_params \<Rightarrow> reservation_row farm_tx" where
  "create_targeted_tx actor targetDeviceID params db =
     (case FindOpenTargeted [] targetDeviceID db of
        Inr existing \<Rightarrow>
          if rsv_owner_id existing = ac_ID actor then Inr (existing, db) else Inl ErrConflict
      | Inl RepoErrNotFound \<Rightarrow> CreatePending params db
      | Inl e \<Rightarrow> Inl e)"

definition choose_pool ::
  "service_env \<Rightarrow> create_input \<Rightarrow> farm_db \<Rightarrow> cursors \<Rightarrow> (farm_error, string) result \<times> cursors" where
  "choose_pool env input db cur =
     (if TrimSpace (ci_PoolID input) \<noteq> [] then (Inr (ci_PoolID input), cur)
      else if ci_poolIDPresent input then (Inl ErrInvalidArgument, cur)
      else selectPoolForRequest (sv_parse_ts env) (ci_RequestedCapabilities input) db cur)"

text \<open>
  The checks against the pool, ending with the parameters of the insert.  The capabilities here are
  normalised, so \<open>platformName\<close> is a string when it is present.
\<close>

definition create_params_for ::
  "service_env \<Rightarrow> Actor \<Rightarrow> string \<Rightarrow> create_input \<Rightarrow> string \<Rightarrow> farm_db \<Rightarrow> (farm_error, create_params) result" where
  "create_params_for env actor key input targetDeviceID db =
     result_bind (validateCreate actor key input) (\<lambda>_.
     result_bind (translated (GetPoolPolicy (ci_PoolID input) db)) (\<lambda>policy.
       if pp_Status policy \<noteq> PoolActive then Inl ErrPoolUnavailable
       else if (case obj_get (ci_RequestedCapabilities input) ''platformName'' of
                  Some (JStr t) \<Rightarrow> ToLower t \<noteq> pp_Platform policy | _ \<Rightarrow> False)
       then Inl ErrInvalidArgument
       else if pp_MaxLeaseSeconds policy < ci_LeaseSeconds input then Inl ErrInvalidArgument
       else
         result_bind
           (if targetDeviceID = [] then Inr (ci_RequestedCapabilities input)
            else if \<not> identifierPattern targetDeviceID then Inl ErrInvalidArgument
            else result_bind (translated (ValidateTargetDeviceInPool (ci_PoolID input) targetDeviceID db))
                   (\<lambda>_. Inr (obj_put TargetDeviceCapability (JStr targetDeviceID)
                               (ci_RequestedCapabilities input))))
           (\<lambda>caps. result_bind (sv_newID env) (\<lambda>ident.
             Inr \<lparr>cp_ID = ident, cp_ClientID = ac_ClientID actor, cp_PoolID = ci_PoolID input,
                  cp_OwnerType = ci_OwnerType input, cp_OwnerID = ci_OwnerID input,
                  cp_RequestedCapabilities = caps, cp_LeaseSeconds = ci_LeaseSeconds input,
                  cp_IdempotencyKey = key\<rparr>))))"

definition insert_tx :: "Actor \<Rightarrow> string \<Rightarrow> create_params \<Rightarrow> reservation_row farm_tx" where
  "insert_tx actor targetDeviceID params =
     (if targetDeviceID = [] then CreatePending params
      else create_targeted_tx actor targetDeviceID params)"

definition create ::
  "service_env \<Rightarrow> Actor \<Rightarrow> string \<Rightarrow> create_input \<Rightarrow> string \<Rightarrow> farm_db \<times> cursors \<Rightarrow>
     (farm_error, view) result \<times> farm_db \<times> cursors" where
  "create env actor key input targetDeviceID st =
     (case st of (db, cur) \<Rightarrow>
        case normalizeRequestedCapabilities (ci_RequestedCapabilities input) of
          Inl e \<Rightarrow> (Inl e, db, cur)
        | Inr caps \<Rightarrow>
            let input1 = input\<lparr>ci_RequestedCapabilities := caps\<rparr>
            in case choose_pool env input1 db cur of
                 (Inl e, cur') \<Rightarrow> (Inl e, db, cur')
               | (Inr poolID, cur') \<Rightarrow>
                   let input2 = input1\<lparr>ci_PoolID := poolID\<rparr>
                   in case create_params_for env actor key input2 targetDeviceID db of
                        Inl e \<Rightarrow> (Inl e, db, cur')
                      | Inr params \<Rightarrow>
                          (case run_tx (insert_tx actor targetDeviceID params) (sv_others env db) of
                             (r, db') \<Rightarrow> (result_view r, db', cur')))"

definition Create ::
  "service_env \<Rightarrow> Actor \<Rightarrow> string \<Rightarrow> create_input \<Rightarrow> farm_db \<times> cursors \<Rightarrow>
     (farm_error, view) result \<times> farm_db \<times> cursors" where
  "Create env actor key input st = create env actor key input (TrimSpace (ci_RequestedDeviceID input)) st"

definition CreateForDevice ::
  "service_env \<Rightarrow> Actor \<Rightarrow> string \<Rightarrow> string \<Rightarrow> int \<Rightarrow> farm_db \<times> cursors \<Rightarrow>
     (farm_error, view) result \<times> farm_db \<times> cursors" where
  "CreateForDevice env actor key deviceID leaseSeconds st =
     (case st of (db, cur) \<Rightarrow>
        if \<not> Valid actor \<or> length key < 8 \<or> 128 < length key \<or> \<not> validOwnerID ''manual'' (ac_ID actor) \<or>
           \<not> identifierPattern deviceID \<or> leaseSeconds < 60
        then (Inl ErrInvalidArgument, db, cur)
        else case FindOpenTargeted (ac_ID actor) deviceID db of
               Inr existing \<Rightarrow> (Inr (toView existing), db, cur)
             | Inl RepoErrNotFound \<Rightarrow>
                 (case FindActivePoolForDevice deviceID db of
                    Inl e \<Rightarrow> (Inl (translateRepositoryError e), db, cur)
                  | Inr poolID \<Rightarrow>
                      create env actor key
                        \<lparr>ci_PoolID = poolID, ci_RequestedDeviceID = [], ci_OwnerType = ''manual'',
                         ci_OwnerID = ac_ID actor, ci_RequestedCapabilities = [],
                         ci_LeaseSeconds = leaseSeconds, ci_poolIDPresent = False\<rparr>
                        deviceID st)
             | Inl e \<Rightarrow> (Inl (translateRepositoryError e), db, cur))"

section \<open>Reading\<close>

definition FindOpenForDevice :: "string \<Rightarrow> string \<Rightarrow> farm_db \<Rightarrow> (farm_error, view) result" where
  "FindOpenForDevice ownerID deviceID db =
     (if \<not> validOwnerID ''manual'' ownerID \<or> \<not> identifierPattern deviceID then Inl ErrInvalidArgument
      else result_view (FindOpenTargeted ownerID deviceID db))"

definition service_Get :: "string \<Rightarrow> farm_db \<Rightarrow> (farm_error, view) result" where
  "service_Get ident db =
     (if \<not> identifierPattern ident then Inl ErrInvalidArgument else result_view (Get ident db))"

definition service_List :: "reservation_filter \<Rightarrow> Page \<Rightarrow> farm_db \<Rightarrow> (farm_error, view PageResult) result" where
  "service_List f p db =
     (if rf_OwnerType f \<noteq> [] \<and> \<not> validOwnerType (rf_OwnerType f) then Inl ErrInvalidArgument
      else if rf_OwnerID f \<noteq> [] \<and> \<not> validOwnerID (rf_OwnerType f) (rf_OwnerID f) then Inl ErrInvalidArgument
      else case repo_List f p db of
             Inl e \<Rightarrow> Inl (translateRepositoryError e)
           | Inr (records, n) \<Rightarrow> Inr (NewResult (map toView records) p n))"

section \<open>Keeping alive and extending\<close>

definition minute :: duration where
  "minute = 60 * second"

definition KeepAliveForDevice ::
  "string \<Rightarrow> string \<Rightarrow> string \<Rightarrow> duration \<Rightarrow> farm_db \<Rightarrow> (farm_error, view) result \<times> farm_db" where
  "KeepAliveForDevice reservationID ownerID deviceID lease db =
     (if lease < minute \<or> \<not> identifierPattern reservationID \<or> \<not> validOwnerID ''manual'' ownerID \<or>
         \<not> identifierPattern deviceID
      then (Inl ErrInvalidArgument, db)
      else case run_tx (KeepAliveTargeted reservationID ownerID deviceID lease) db of
             (r, db') \<Rightarrow> (result_view r, db'))"

text \<open>The new expiry: the old one plus the extension, at most a full window from now.\<close>

definition next_expiry :: "timestamp \<Rightarrow> timestamp \<Rightarrow> int \<Rightarrow> int \<Rightarrow> timestamp" where
  "next_expiry now expires additionalSeconds maxLeaseSeconds =
     (let maximumExpiry = now + maxLeaseSeconds * second;
          nextExpiry = expires + additionalSeconds * second
      in if maximumExpiry < nextExpiry then maximumExpiry else nextExpiry)"

definition extend_operation :: "service_env \<Rightarrow> Actor \<Rightarrow> string \<Rightarrow> string \<Rightarrow> int \<Rightarrow> operation_params" where
  "extend_operation env actor key ident additionalSeconds =
     \<lparr>opp_ClientID = ac_ClientID actor, opp_Scope = ''extend_device_reservation'', opp_Key = key,
      opp_RequestHash = sv_hash env (ExtendRequest ident additionalSeconds),
      opp_ResourceType = ''device_reservation'', opp_ResourceID = ident, opp_ResponseStatus = 200\<rparr>"

definition extend_tx :: "operation_params \<Rightarrow> string \<Rightarrow> int \<Rightarrow> reservation_row farm_tx" where
  "extend_tx operation ident additionalSeconds =
     tx_bind (BeginOperation operation) (\<lambda>replay.
       if replay then tx_read (Get ident)
       else
         tx_bind (tx_read (LockByID ident)) (\<lambda>current.
           case (rsv_status current, rsv_starts_at current, rsv_expires_at current) of
             (ReservationActive, Some _, Some expires) \<Rightarrow>
               tx_bind (tx_read ClockNow) (\<lambda>now.
               tx_bind (tx_guard (now < expires) ErrConflict) (\<lambda>_.
               tx_bind (tx_read (GetPoolPolicy (rsv_pool_id current))) (\<lambda>policy.
               tx_bind (tx_guard (additionalSeconds \<le> pp_MaxLeaseSeconds policy) ErrInvalidArgument) (\<lambda>_.
                 Extend ident (next_expiry now expires additionalSeconds (pp_MaxLeaseSeconds policy))))))
           | _ \<Rightarrow> tx_fail ErrConflict))"

definition service_Extend ::
  "service_env \<Rightarrow> Actor \<Rightarrow> string \<Rightarrow> string \<Rightarrow> int \<Rightarrow> farm_db \<Rightarrow> (farm_error, view) result \<times> farm_db" where
  "service_Extend env actor key ident additionalSeconds db =
     (if \<not> Valid actor \<or> length key < 8 \<or> 128 < length key \<or> \<not> identifierPattern ident \<or>
         additionalSeconds < 60
      then (Inl ErrInvalidArgument, db)
      else case run_tx (extend_tx (extend_operation env actor key ident additionalSeconds) ident additionalSeconds) db of
             (r, db') \<Rightarrow> (result_view r, db'))"

section \<open>Closing\<close>

text \<open>\<open>releaseSTF\<close> and \<open>closeIOSSession\<close>, with the calls they make.\<close>

definition releaseSTF :: "service_env \<Rightarrow> reservation_row \<Rightarrow> farm_db \<Rightarrow> (farm_error, unit) result \<times> external_call list" where
  "releaseSTF env current db =
     (case (sv_stf env, rsv_device_id current) of
        (Some c, Some deviceID) \<Rightarrow>
          (case GetDevice deviceID db of
             Inl e \<Rightarrow> (Inl (translateRepositoryError e), [])
           | Inr device \<Rightarrow>
               if da_Platform device \<noteq> ''android'' then (Inr (), [])
               else (if stf_Release c (da_STFSerial device) then Inr () else Inl ErrSTFReleaseFailed,
                     [CallSTFRelease (da_STFSerial device)]))
      | _ \<Rightarrow> (Inr (), []))"

definition closeIOSSession :: "service_env \<Rightarrow> reservation_row \<Rightarrow> (farm_error, unit) result \<times> external_call list" where
  "closeIOSSession env current =
     (case (sv_ios env, rsv_device_id current) of
        (Some c, Some _) \<Rightarrow>
          (if c (rsv_id current) then Inr () else Inl ErrIOSSessionCleanup, [CallIOSClose (rsv_id current)])
      | _ \<Rightarrow> (Inr (), []))"

definition recordSTFFailure ::
  "service_env \<Rightarrow> reservation_row \<Rightarrow> Actor \<Rightarrow> string \<Rightarrow> string \<Rightarrow> string \<Rightarrow> unit farm_tx" where
  "recordSTFFailure env current actor requestID action reason =
     tx_bind (tx_lift (sv_newID env)) (\<lambda>auditID.
       InsertAudit auditID (ac_Type actor) (ac_ID actor) action (rsv_id current) requestID reason)"

text \<open>
  What \<open>closeActiveLocked\<close> decides for the device: whether it is recycled, the lifecycle it goes to,
  and the reason.
\<close>

definition wants_recycle :: "(farm_error, pool_policy) result \<Rightarrow> device_assignment \<Rightarrow> Device \<Rightarrow> bool" where
  "wants_recycle policy device state \<longleftrightarrow>
     (case policy of Inl _ \<Rightarrow> False | Inr p \<Rightarrow> pp_FreshVMPerRun p) \<and>
     da_Platform device = ''android'' \<and> da_DeviceKind device = ''emulator'' \<and>
     Lifecycle state \<noteq> DeviceQuarantined \<and> Health state = HealthHealthy"

definition release_target :: "bool \<Rightarrow> Device \<Rightarrow> device_lifecycle_status \<times> string" where
  "release_target recycle state =
     (if Health state \<noteq> HealthHealthy
      then (DeviceQuarantined, ''reservation released; unhealthy device quarantined'')
      else if recycle
      then (DeviceRecycling, ''reservation released; pool requires a fresh VM for the next run'')
      else (DeviceReady, ''reservation released; device data retained''))"

definition release_policy :: "string \<Rightarrow> string \<Rightarrow> (farm_error, pool_policy) result farm_tx" where
  "release_policy hostID deviceID db =
     (case LoadPoolPolicyForRelease hostID deviceID db of
        Inl e \<Rightarrow> if e = RepoErrNotFound then Inr (Inl e, db) else Inl e
      | Inr p \<Rightarrow> Inr (Inr p, db))"

definition closeActiveLocked ::
  "(farm_error, string) result \<Rightarrow> reservation_row \<Rightarrow> reservation_status \<Rightarrow> Actor \<Rightarrow> string \<Rightarrow> string \<Rightarrow> string \<Rightarrow>
     reservation_row farm_tx" where
  "closeActiveLocked newID current terminal actor action requestID reason =
     (case rsv_device_id current of
        None \<Rightarrow> tx_fail ErrConflict
      | Some deviceID \<Rightarrow>
          tx_bind (tx_read ClockNow) (\<lambda>now.
          tx_bind (tx_lift (lift_domain (check_transition
             (RestoreReservation (rsv_id current) (rsv_status current)) terminal reason now))) (\<lambda>_.
          tx_bind (tx_read (LockSession (rsv_id current))) (\<lambda>session.
          tx_bind (tx_lift (lift_domain (check_transition
             (check_transition (RestoreSession (ses_id session) (ses_status session)) SessionClosing reason now)
             SessionClosed reason now))) (\<lambda>_.
          tx_bind (tx_read (LockDevice deviceID)) (\<lambda>device.
          tx_bind (release_policy (da_HostID device) (da_ID device)) (\<lambda>policy.
          tx_bind (tx_lift (lift_domain
             (RestoreDevice (da_ID device) (da_Lifecycle device) (da_Health device)))) (\<lambda>state.
            let recycle = wants_recycle policy device state;
                target = fst (release_target recycle state);
                deviceReason = snd (release_target recycle state)
            in
          tx_bind (tx_lift (if Lifecycle state \<noteq> DeviceQuarantined \<and> Lifecycle state \<noteq> target
                            then (case Device_Transition target deviceReason now state of
                                    (Some e, _) \<Rightarrow> Inl (DomainErr e) | (None, _) \<Rightarrow> Inr ())
                            else Inr ())) (\<lambda>_.
          tx_bind (tx_lift newID) (\<lambda>auditID.
          tx_bind (CloseActive (rsv_id current) deviceID terminal recycle target now) (\<lambda>closed.
          tx_bind (InsertAudit auditID (ac_Type actor) (ac_ID actor) action (rsv_id current) requestID reason) (\<lambda>_.
            tx_return closed))))))))))))"

definition release_operation :: "service_env \<Rightarrow> Actor \<Rightarrow> string \<Rightarrow> string \<Rightarrow> string \<Rightarrow> bool \<Rightarrow> operation_params" where
  "release_operation env actor key ident reason force =
     \<lparr>opp_ClientID = ac_ClientID actor, opp_Scope = ''release_device_reservation'', opp_Key = key,
      opp_RequestHash = sv_hash env (ReleaseRequest ident reason force),
      opp_ResourceType = ''device_reservation'', opp_ResourceID = ident, opp_ResponseStatus = 200\<rparr>"

definition cancel_pending_tx ::
  "(farm_error, string) result \<Rightarrow> Actor \<Rightarrow> reservation_row \<Rightarrow> string \<Rightarrow> string \<Rightarrow> reservation_row farm_tx" where
  "cancel_pending_tx newID actor current requestID reason =
     tx_bind (tx_guard (rsv_device_id current = None) ErrConflict) (\<lambda>_.
     tx_bind (tx_read ClockNow) (\<lambda>now.
     tx_bind (tx_lift (lift_domain (check_transition
        (RestoreReservation (rsv_id current) (rsv_status current)) ReservationFailed reason now))) (\<lambda>_.
     tx_bind (CancelPending (rsv_id current) ''RESERVATION_CANCELED'' now) (\<lambda>canceled.
     tx_bind (tx_lift newID) (\<lambda>auditID.
     tx_bind (InsertAudit auditID (ac_Type actor) (ac_ID actor) ''cancel_pending_device_reservation''
                (rsv_id current) requestID reason) (\<lambda>_.
       tx_return canceled))))))"

definition release_locked ::
  "(farm_error, string) result \<Rightarrow> Actor \<Rightarrow> string \<Rightarrow> string \<Rightarrow> string \<Rightarrow> bool \<Rightarrow> reservation_row farm_tx" where
  "release_locked newID actor ident requestID reason force =
     tx_bind (tx_read (LockByID ident)) (\<lambda>current.
       if rsv_status current = ReservationPending then cancel_pending_tx newID actor current requestID reason
       else if rsv_status current \<noteq> ReservationActive then
         (if isClosedStatus (rsv_status current) then tx_return current else tx_fail ErrConflict)
       else
         closeActiveLocked newID current
           (if force then ReservationForceReleased else ReservationReleased) actor
           (if force then ''force_release_device_reservation'' else ''release_device_reservation'')
           requestID reason)"

definition release_tx ::
  "(farm_error, string) result \<Rightarrow> operation_params \<Rightarrow> Actor \<Rightarrow> string \<Rightarrow> string \<Rightarrow> string \<Rightarrow> bool \<Rightarrow> reservation_row farm_tx" where
  "release_tx newID operation actor ident requestID reason force =
     tx_bind (BeginOperation operation) (\<lambda>replay.
       if replay then tx_read (Get ident) else release_locked newID actor ident requestID reason force)"

definition owned_by_actor :: "Actor \<Rightarrow> reservation_row \<Rightarrow> bool" where
  "owned_by_actor actor r \<longleftrightarrow>
     rsv_client_id r = ac_ClientID actor \<or>
     ac_Type actor = ActorConsole \<and> rsv_owner_type r = ''manual'' \<and> rsv_owner_id r = ac_ID actor"

text \<open>
  The iOS session is closed and the STF device released before the transaction, only for an active
  reservation; a failure of either leaves the reservation active.
\<close>

definition close_externals ::
  "service_env \<Rightarrow> reservation_row \<Rightarrow> Actor \<Rightarrow> string \<Rightarrow> string \<Rightarrow> farm_db \<Rightarrow>
     (farm_error, unit) result \<times> external_call list \<times> farm_db" where
  "close_externals env current actor requestID failureText db =
     (case closeIOSSession env current of
        (Inl e, calls) \<Rightarrow> (Inl e, calls, db)
      | (Inr _, calls) \<Rightarrow>
          (case releaseSTF env current db of
             (Inl e, calls') \<Rightarrow>
               (Inl e, calls @ calls',
                snd (run_tx (recordSTFFailure env current actor requestID ''stf_release_failed'' failureText) db))
           | (Inr _, calls') \<Rightarrow> (Inr (), calls @ calls', db)))"

definition Release ::
  "service_env \<Rightarrow> Actor \<Rightarrow> string \<Rightarrow> string \<Rightarrow> string \<Rightarrow> string \<Rightarrow> bool \<Rightarrow> farm_db \<Rightarrow>
     (farm_error, view) result \<times> external_call list \<times> farm_db" where
  "Release env actor key ident requestID rawReason force db =
     (let reason = TrimSpace rawReason; operation = release_operation env actor key ident reason force in
      if \<not> Valid actor \<or> length key < 8 \<or> 128 < length key \<or> \<not> identifierPattern ident \<or>
         length reason < 3 \<or> 500 < length reason \<or> Contains reason \<or> requestID = []
      then (Inl ErrInvalidArgument, [], db)
      else case CheckOperation operation db of
             Inl e \<Rightarrow> (Inl (translateRepositoryError e), [], db)
           | Inr _ \<Rightarrow>
               (case Get ident db of
                  Inl e \<Rightarrow> (Inl (translateRepositoryError e), [], db)
                | Inr current \<Rightarrow>
                    if \<not> owned_by_actor actor current \<and> \<not> force then (Inl ErrForbidden, [], db)
                    else case (if rsv_status current = ReservationActive
                               then close_externals env current actor requestID
                                      ''STF release failed; reservation remains active'' db
                               else (Inr (), [], db)) of
                           (Inl e, calls, db1) \<Rightarrow> (Inl e, calls, db1)
                         | (Inr _, calls, db1) \<Rightarrow>
                             (case run_tx (release_tx (sv_newID env) operation actor ident requestID reason force)
                                     (sv_others env db1) of
                                (r, db2) \<Rightarrow> (result_view r, calls, db2))))"

section \<open>Sweeps\<close>

definition reaperActor :: Actor where
  "reaperActor = System\<lparr>ac_ID := ''reservation_reaper''\<rparr>"

definition whole_seconds :: "duration \<Rightarrow> int" where
  "whole_seconds d = trunc_div d second"

definition reap_tx :: "(farm_error, string) result \<Rightarrow> string \<Rightarrow> duration \<Rightarrow> reservation_row farm_tx" where
  "reap_tx newID ident gracePeriod =
     tx_bind (tx_read (LockByID ident)) (\<lambda>current.
       case (rsv_status current, rsv_expires_at current) of
         (ReservationActive, Some expires) \<Rightarrow>
           tx_bind (tx_read ClockNow) (\<lambda>now.
           tx_bind (tx_guard (expires + gracePeriod \<le> now) ErrNothingToReap) (\<lambda>_.
             closeActiveLocked newID current ReservationExpired reaperActor ''expire_device_reservation''
               (''reaper_'' @ ident) ''reservation lease and grace period expired''))
       | _ \<Rightarrow> tx_fail ErrNothingToReap)"

definition ReapOnce :: "service_env \<Rightarrow> duration \<Rightarrow> farm_db \<Rightarrow> (farm_error, view) result \<times> external_call list \<times> farm_db" where
  "ReapOnce env gracePeriod db =
     (if gracePeriod < 0 then (Inl ErrInvalidArgument, [], db)
      else case FindNextExpired (whole_seconds gracePeriod) db of
             Inl e \<Rightarrow> (Inl (if e = RepoErrNotFound then ErrNothingToReap else translateRepositoryError e), [], db)
           | Inr selected \<Rightarrow>
               (case close_externals env selected reaperActor (''reaper_'' @ rsv_id selected)
                       ''STF release failed during expiry; reservation remains active'' db of
                  (Inl e, calls, db1) \<Rightarrow> (Inl e, calls, db1)
                | (Inr _, calls, db1) \<Rightarrow>
                    (case run_tx (reap_tx (sv_newID env) (rsv_id selected) gracePeriod) (sv_others env db1) of
                       (r, db2) \<Rightarrow> (result_view r, calls, db2))))"

text \<open>The audit reasons of the two pending sweeps are Chinese sentences, here in UTF-8.\<close>

definition stale_pending_reason :: string where
  "stale_pending_reason =
     [CHR 0xE7, CHR 0xAD, CHR 0x89, CHR 0xE4, CHR 0xB8, CHR 0x8D, CHR 0xE5, CHR 0x88, CHR 0xB0,
     CHR 0xE8, CHR 0x99, CHR 0x9A, CHR 0xE6, CHR 0x8B, CHR 0x9F, CHR 0xE6, CHR 0x9C, CHR 0xBA,
     CHR 0xEF, CHR 0xBC, CHR 0x8C, CHR 0xE9, CHR 0x9C, CHR 0x80, CHR 0xE8, CHR 0xA6, CHR 0x81,
     CHR 0xE6, CHR 0xA3, CHR 0x80, CHR 0xE6, CHR 0x9F, CHR 0xA5, CHR 0xEF, CHR 0xBC, CHR 0x9A,
     CHR 0xE9, CHR 0xA2, CHR 0x84, CHR 0xE7, CHR 0xBA, CHR 0xA6, CHR 0xE5, CHR 0x9C, CHR 0xA8,
     CHR 0xE7, CHR 0xAD, CHR 0x89, CHR 0xE5, CHR 0xBE, CHR 0x85, CHR 0xE4, CHR 0xB8, CHR 0x8A,
     CHR 0xE9, CHR 0x99, CHR 0x90, CHR 0xE5, CHR 0x86, CHR 0x85, CHR 0xE6, CHR 0x9C, CHR 0xAA,
     CHR 0xE8, CHR 0x83, CHR 0xBD, CHR 0xE5, CHR 0x88, CHR 0x86, CHR 0xE9, CHR 0x85, CHR 0x8D,
     CHR 0xE5, CHR 0x88, CHR 0xB0, CHR 0xE8, CHR 0xAE, CHR 0xBE, CHR 0xE5, CHR 0xA4, CHR 0x87]"

definition orphaned_claim_reason :: string where
  "orphaned_claim_reason =
     [CHR 0xE8, CHR 0xAE, CHR 0xBE, CHR 0xE5, CHR 0xA4, CHR 0x87, CHR 0xE5, CHR 0x88, CHR 0x86,
     CHR 0xE9, CHR 0x85, CHR 0x8D, CHR 0xE4, CHR 0xB8, CHR 0xAD, CHR 0xE6, CHR 0x96, CHR 0xAD,
     CHR 0xEF, CHR 0xBC, CHR 0x8C, CHR 0xE5, CHR 0xB7, CHR 0xB2, CHR 0xE9, CHR 0x87, CHR 0x8A,
     CHR 0xE6, CHR 0x94, CHR 0xBE, CHR 0xE8, CHR 0xAE, CHR 0xBE, CHR 0xE5, CHR 0xA4, CHR 0x87,
     CHR 0xE5, CHR 0xB9, CHR 0xB6, CHR 0xE7, CHR 0xBB, CHR 0x88, CHR 0xE6, CHR 0xAD, CHR 0xA2,
     CHR 0xE9, CHR 0xA2, CHR 0x84, CHR 0xE7, CHR 0xBA, CHR 0xA6]"

definition fail_stale_tx ::
  "(farm_error, string) result \<Rightarrow> string \<Rightarrow> duration \<Rightarrow> duration \<Rightarrow> reservation_row farm_tx" where
  "fail_stale_tx newID ident timeout claimGrace =
     tx_bind (tx_read (LockByID ident)) (\<lambda>current.
     tx_bind (tx_guard (rsv_status current = ReservationPending \<and> rsv_device_id current = None) ErrNothingToReap) (\<lambda>_.
     tx_bind (tx_read ClockNow) (\<lambda>now.
     tx_bind (tx_guard (rsv_created_at current + timeout + claimGrace \<le> now) ErrNothingToReap) (\<lambda>_.
     tx_bind (FailPendingReservation (rsv_id current) ''PENDING_TIMEOUT'' now) (\<lambda>_.
     tx_bind (tx_lift newID) (\<lambda>auditID.
     tx_bind (InsertAudit auditID (ac_Type reaperActor) (ac_ID reaperActor) ''fail_stale_pending_reservation''
                (rsv_id current) (''pending_reaper_'' @ ident) stale_pending_reason) (\<lambda>_.
       tx_read (Get (rsv_id current)))))))))"

definition ReapStalePendingOnce ::
  "service_env \<Rightarrow> duration \<Rightarrow> duration \<Rightarrow> farm_db \<Rightarrow> (farm_error, view) result \<times> farm_db" where
  "ReapStalePendingOnce env timeout claimGrace db =
     (if timeout \<le> 0 \<or> claimGrace < 0 then (Inl ErrInvalidArgument, db)
      else case FindNextStalePending (whole_seconds timeout) (whole_seconds claimGrace) db of
             Inl e \<Rightarrow> (Inl (if e = RepoErrNotFound then ErrNothingToReap else translateRepositoryError e), db)
           | Inr selected \<Rightarrow>
               (case run_tx (fail_stale_tx (sv_newID env) (rsv_id selected) timeout claimGrace)
                       (sv_others env db) of
                  (r, db') \<Rightarrow> (result_view r, db')))"

definition fail_orphan_tx ::
  "(farm_error, string) result \<Rightarrow> string \<Rightarrow> duration \<Rightarrow> reservation_row farm_tx" where
  "fail_orphan_tx newID ident grace =
     tx_bind (tx_read (LockByID ident)) (\<lambda>current.
       case (rsv_status current, rsv_device_id current) of
         (ReservationPending, Some deviceID) \<Rightarrow>
           tx_bind (tx_read ClockNow) (\<lambda>now.
           tx_bind (tx_guard (rsv_updated_at current + grace \<le> now) ErrNothingToReap) (\<lambda>_.
           tx_bind (FailPendingClaim (rsv_id current) deviceID ''CLAIM_ABANDONED'' now) (\<lambda>_.
           tx_bind (tx_lift newID) (\<lambda>auditID.
           tx_bind (InsertAudit auditID (ac_Type reaperActor) (ac_ID reaperActor) ''fail_orphaned_device_claim''
                      (rsv_id current) (''orphan_reaper_'' @ ident) orphaned_claim_reason) (\<lambda>_.
             tx_read (Get (rsv_id current)))))))
       | _ \<Rightarrow> tx_fail ErrNothingToReap)"

definition ReapOrphanedClaimOnce ::
  "service_env \<Rightarrow> duration \<Rightarrow> farm_db \<Rightarrow> (farm_error, view) result \<times> farm_db" where
  "ReapOrphanedClaimOnce env grace db =
     (if grace < 0 then (Inl ErrInvalidArgument, db)
      else case FindNextOrphanedClaim (whole_seconds grace) db of
             Inl e \<Rightarrow> (Inl (if e = RepoErrNotFound then ErrNothingToReap else translateRepositoryError e), db)
           | Inr selected \<Rightarrow>
               (case run_tx (fail_orphan_tx (sv_newID env) (rsv_id selected) grace)
                       (sv_others env db) of
                  (r, db') \<Rightarrow> (result_view r, db')))"

section \<open>Remote sessions\<close>

definition decodeRemoteSession :: "session_row \<Rightarrow> (farm_error, remote_session) result" where
  "decodeRemoteSession s =
     (case ses_remote s of
        None \<Rightarrow> Inl ErrConflict
      | Some m \<Rightarrow>
          if rem_id m = [] \<or> rem_url m = [] \<or> is_zero_time (rem_expires_at m) then Inl ErrConflict else Inr m)"

definition remoteSessionView :: "string \<Rightarrow> remote_session \<Rightarrow> remote_view" where
  "remoteSessionView reservationID m =
     \<lparr>rv_ID = rem_id m, rv_ReservationID = reservationID, rv_URL = rem_url m, rv_ExpiresAt = rem_expires_at m\<rparr>"

definition loadRemoteSession ::
  "service_env \<Rightarrow> string \<Rightarrow> string \<Rightarrow> string \<Rightarrow> string \<Rightarrow> farm_db \<Rightarrow> (farm_error, remote_view) result" where
  "loadRemoteSession env reservationID clientID key hash db =
     (case GetSession reservationID db of
        Inl e \<Rightarrow> Inl (translateRepositoryError e)
      | Inr session \<Rightarrow>
          (case decodeRemoteSession session of
             Inl _ \<Rightarrow> Inl ErrConflict
           | Inr m \<Rightarrow>
               if rem_client_id m \<noteq> clientID \<or> rem_key m \<noteq> key \<or> rem_request_hash m \<noteq> hash then Inl ErrConflict
               else if rem_expires_at m \<le> sv_now env then Inl ErrConflict
               else Inr (remoteSessionView reservationID m)))"

definition remote_operation :: "Actor \<Rightarrow> string \<Rightarrow> string \<Rightarrow> string \<Rightarrow> operation_params" where
  "remote_operation actor key reservationID hash =
     \<lparr>opp_ClientID = ac_ClientID actor, opp_Scope = ''create_stf_remote_session'', opp_Key = key,
      opp_RequestHash = hash, opp_ResourceType = ''device_reservation'', opp_ResourceID = reservationID,
      opp_ResponseStatus = 201\<rparr>"

definition remote_allowed :: "Actor \<Rightarrow> remote_input \<Rightarrow> reservation_row \<Rightarrow> bool" where
  "remote_allowed actor input r \<longleftrightarrow>
     rsv_client_id r = ac_ClientID actor \<and> rsv_owner_type r = ri_OwnerType input \<and>
     rsv_owner_id r = ri_OwnerID input"

definition remote_tx ::
  "operation_params \<Rightarrow> Actor \<Rightarrow> remote_input \<Rightarrow> string \<Rightarrow> string \<Rightarrow> remote_session \<Rightarrow> remote_session farm_tx" where
  "remote_tx operation actor input reservationID deviceID metadata =
     tx_bind (tx_read (LockByID reservationID)) (\<lambda>locked.
     tx_bind (tx_guard (rsv_status locked = ReservationActive \<and> rsv_device_id locked = Some deviceID \<and>
                        remote_allowed actor input locked) ErrConflict) (\<lambda>_.
     tx_bind (BeginOperation operation) (\<lambda>replay.
     tx_bind (if replay then tx_read (LockSession reservationID) else SetRemoteSession reservationID metadata) (\<lambda>session.
       tx_lift (decodeRemoteSession session)))))"

definition CreateRemoteSession ::
  "service_env \<Rightarrow> Actor \<Rightarrow> string \<Rightarrow> string \<Rightarrow> remote_input \<Rightarrow> farm_db \<Rightarrow>
     (farm_error, remote_view) result \<times> external_call list \<times> farm_db" where
  "CreateRemoteSession env actor key reservationID rawInput db =
     (case sv_stf env of
        None \<Rightarrow> (Inl ErrSTFRemoteFailed, [], db)
      | Some c \<Rightarrow>
          let input = (if ri_TTLSeconds rawInput = 0 then rawInput\<lparr>ri_TTLSeconds := 300\<rparr> else rawInput);
              hash = sv_hash env (RemoteRequest reservationID (ri_OwnerType input) (ri_OwnerID input)
                                    (ri_TTLSeconds input));
              operation = remote_operation actor key reservationID hash
          in if \<not> Valid actor \<or> length key < 8 \<or> 128 < length key \<or> \<not> identifierPattern reservationID \<or>
                \<not> validOwnerType (ri_OwnerType input) \<or> \<not> validOwnerID (ri_OwnerType input) (ri_OwnerID input) \<or>
                ri_TTLSeconds input < 30 \<or> 3600 < ri_TTLSeconds input
             then (Inl ErrInvalidArgument, [], db)
             else case CheckOperation operation db of
                    Inl e \<Rightarrow> (Inl (translateRepositoryError e), [], db)
                  | Inr True \<Rightarrow> (loadRemoteSession env reservationID (ac_ClientID actor) key hash db, [], db)
                  | Inr False \<Rightarrow>
                      (case Get reservationID db of
                         Inl e \<Rightarrow> (Inl (translateRepositoryError e), [], db)
                       | Inr current \<Rightarrow>
                           if \<not> remote_allowed actor input current then (Inl ErrForbidden, [], db)
                           else case (rsv_status current, rsv_device_id current) of
                             (ReservationActive, Some deviceID) \<Rightarrow>
                               (case GetDevice deviceID db of
                                  Inl e \<Rightarrow> (Inl (translateRepositoryError e), [], db)
                                | Inr device \<Rightarrow>
                                    (case sv_newID env of
                                       Inl e \<Rightarrow> (Inl e, [], db)
                                     | Inr remoteID \<Rightarrow>
                                         (case stf_RemoteConnect c (da_STFSerial device) of
                                            None \<Rightarrow> (Inl ErrSTFRemoteFailed,
                                                     [CallRemoteConnect (da_STFSerial device)], db)
                                          | Some url \<Rightarrow>
                                              let metadata =
                                                \<lparr>rem_id = remoteID, rem_url = url,
                                                 rem_expires_at = sv_now env + ri_TTLSeconds input * second,
                                                 rem_owner_type = ri_OwnerType input,
                                                 rem_owner_id = ri_OwnerID input,
                                                 rem_client_id = ac_ClientID actor, rem_key = key,
                                                 rem_request_hash = hash\<rparr>
                                              in (case run_tx (remote_tx operation actor input reservationID
                                                                 (da_ID device) metadata) (sv_others env db) of
                                                    (Inl e, db') \<Rightarrow>
                                                      (Inl (translateRepositoryError e),
                                                       [CallRemoteConnect (da_STFSerial device),
                                                        CallRemoteDisconnect (da_STFSerial device)], db')
                                                  | (Inr stored, db') \<Rightarrow>
                                                      (Inr (remoteSessionView reservationID stored),
                                                       [CallRemoteConnect (da_STFSerial device)], db')))))
                           | _ \<Rightarrow> (Inl ErrConflict, [], db)))"

definition ReapRemoteSessionOnce ::
  "service_env \<Rightarrow> farm_db \<Rightarrow> (farm_error, remote_view) result \<times> external_call list \<times> farm_db" where
  "ReapRemoteSessionOnce env db =
     (case sv_stf env of
        None \<Rightarrow> (Inl ErrNothingToReapRemote, [], db)
      | Some c \<Rightarrow>
          (case FindNextExpiredRemoteSession db of
             Inl e \<Rightarrow> (Inl (if e = RepoErrNotFound then ErrNothingToReapRemote else translateRepositoryError e), [], db)
           | Inr remote \<Rightarrow>
               if \<not> stf_RemoteDisconnect c (er_Serial remote)
               then (Inl ErrSTFRemoteFailed, [CallRemoteDisconnect (er_Serial remote)], db)
               else (case run_tx (ClearRemoteSession (er_ReservationID remote) (er_ID remote)) (sv_others env db) of
                       (Inl e, db') \<Rightarrow>
                         (Inl (if e = RepoErrNotFound then ErrNothingToReapRemote else translateRepositoryError e),
                          [CallRemoteDisconnect (er_Serial remote)], db')
                     | (Inr _, db') \<Rightarrow>
                         (Inr \<lparr>rv_ID = er_ID remote, rv_ReservationID = er_ReservationID remote, rv_URL = [],
                               rv_ExpiresAt = er_ExpiresAt remote\<rparr>,
                          [CallRemoteDisconnect (er_Serial remote)], db'))))"

end
