(* ===== verification/Reaper.thy ===== *)
theory Reaper
  imports Reservation_Service
begin

text \<open>
  \<open>internal/reaper/reaper.go\<close>, and the loops that drain work until nothing is left: the four loops
  of \<open>Reaper.Run\<close> and the inner loop of \<open>Scheduler.Run\<close>.  One pass of such a loop repeats a step as
  long as it succeeds; the interface \<open>drain_loop\<close> states what makes it end.
\<close>

section \<open>Draining\<close>

text \<open>
  \<open>drain fuel step s\<close> repeats \<open>step\<close> until it fails and returns the error that stopped it with the
  final state, \<open>None\<close> when the fuel does not suffice.
\<close>

fun drain :: "nat \<Rightarrow> ('s \<Rightarrow> ('e, 'a) result \<times> 's) \<Rightarrow> 's \<Rightarrow> ('e \<times> 's) option" where
  "drain 0 step s = None"
| "drain (Suc fuel) step s =
     (case step s of
        (Inl e, s') \<Rightarrow> Some (e, s')
      | (Inr _, s') \<Rightarrow> drain fuel step s')"

locale drain_loop =
  fixes step :: "'s \<Rightarrow> ('e, 'a) result \<times> 's" and ok :: "'s \<Rightarrow> bool" and work :: "'s \<Rightarrow> nat"
  assumes ok_step: "ok s \<Longrightarrow> ok (snd (step s))"
    and work_step: "ok s \<Longrightarrow> fst (step s) = Inr a \<Longrightarrow> work (snd (step s)) < work s"
begin

lemma drain_ends: "ok s \<Longrightarrow> work s < fuel \<Longrightarrow> \<exists>e s'. drain fuel step s = Some (e, s')"
proof (induction fuel arbitrary: s)
  case (Suc fuel)
  obtain r s' where st: "step s = (r, s')" by (cases "step s")
  show ?case
  proof (cases r)
    case (Inr a)
    with st Suc.prems ok_step [of s] work_step [of s a] have "ok s'" "work s' < fuel" by auto
    with Suc.IH st Inr show ?thesis by simp
  qed (use st in simp)
qed simp

lemma drain_ok: "ok s \<Longrightarrow> drain fuel step s = Some (e, s') \<Longrightarrow> ok s'"
proof (induction fuel arbitrary: s)
  case (Suc fuel)
  then show ?case using ok_step [of s] by (auto split: prod.splits sum.splits)
qed simp

end

section \<open>The reaper\<close>

record Policy =
  po_GracePeriod :: duration
  po_PendingTimeout :: duration
  po_PendingClaimGrace :: duration

definition reaper_RunOnce ::
  "service_env \<Rightarrow> Policy \<Rightarrow> farm_db \<Rightarrow> (farm_error, view) result \<times> external_call list \<times> farm_db" where
  "reaper_RunOnce env policy db = ReapOnce env (po_GracePeriod policy) db"

definition RunPendingOnce :: "service_env \<Rightarrow> Policy \<Rightarrow> farm_db \<Rightarrow> (farm_error, view) result \<times> farm_db" where
  "RunPendingOnce env policy db =
     (if po_PendingTimeout policy \<le> 0 then (Inl ErrNothingToReap, db)
      else ReapStalePendingOnce env (po_PendingTimeout policy) (po_PendingClaimGrace policy) db)"

definition RunOrphanedClaimOnce :: "service_env \<Rightarrow> Policy \<Rightarrow> farm_db \<Rightarrow> (farm_error, view) result \<times> farm_db" where
  "RunOrphanedClaimOnce env policy db =
     (if po_PendingTimeout policy \<le> 0 then (Inl ErrNothingToReap, db)
      else ReapOrphanedClaimOnce env (po_PendingClaimGrace policy) db)"

text \<open>
  One turn of the ticker: the four loops in their order.  The identifiers come from a stream that the
  environment function supplies for each state, so that repeated calls get different ones.
\<close>

definition without_calls ::
  "('s \<Rightarrow> ('e, 'a) result \<times> 'c \<times> 's) \<Rightarrow> 's \<Rightarrow> ('e, 'a) result \<times> 's" where
  "without_calls f s = (case f s of (r, _, s') \<Rightarrow> (r, s'))"

definition reaper_cycle :: "nat \<Rightarrow> (farm_db \<Rightarrow> service_env) \<Rightarrow> Policy \<Rightarrow> farm_db \<Rightarrow> farm_db option" where
  "reaper_cycle fuel env policy db =
     (case drain fuel (\<lambda>s. without_calls (reaper_RunOnce (env s) policy) s) db of
        None \<Rightarrow> None
      | Some (_, db1) \<Rightarrow>
          (case drain fuel (\<lambda>s. without_calls (ReapRemoteSessionOnce (env s)) s) db1 of
             None \<Rightarrow> None
           | Some (_, db2) \<Rightarrow>
               (case drain fuel (\<lambda>s. RunPendingOnce (env s) policy s) db2 of
                  None \<Rightarrow> None
                | Some (_, db3) \<Rightarrow>
                    (case drain fuel (\<lambda>s. RunOrphanedClaimOnce (env s) policy s) db3 of
                       None \<Rightarrow> None
                     | Some (_, db4) \<Rightarrow> Some db4))))"

end
