(* ===== verification/Service_Effects.thy ===== *)
theory Service_Effects
  imports Repository_Effects Reaper
begin

text \<open>
  The transactions of the scheduler and of the reservation service keep the invariant of the
  scheduling core.  Each lemma unfolds a transaction to the repository method it writes with; reads
  leave the database alone, and audit rows and operation records are outside the invariant.
\<close>

section \<open>Scheduler\<close>

lemma reserve_tx_Inr:
  assumes "reserve_tx lockedR lockedD db = Inr (c, db')"
  obtains r d p where
    "next_reservation lockedR db = Inr r" "matching_device lockedD (rsv_capabilities r) db = Inr d"
    "host_policy (da_HostID d) (da_ID d) db = Inr p" "pp_Status p = PoolActive"
    "pp_ActiveReservations p < pp_MaxConcurrency p"
    "ReserveForClaim (rsv_id r) (da_ID d) (db_clock db) db = Inr ((), db')"
    "c = \<lparr>cc_reservation = r\<lparr>rsv_device_id := Some (da_ID d)\<rparr>, cc_device = d\<rparr>"
  using assms by (auto simp: reserve_tx_def ClockNow_def split: if_splits)

lemma reserve_tx_inv: "farm_inv db \<Longrightarrow> reserve_tx lockedR lockedD db = Inr (c, db') \<Longrightarrow> farm_inv db'"
  by (erule reserve_tx_Inr) (blast intro: ReserveForClaim_inv)

lemma activate_tx_Inr:
  assumes "activate_tx c sid wall db = Inr (a, db')"
  obtains r d p where
    "LockByID (rsv_id (cc_reservation c)) db = Inr r" "rsv_status r = ReservationPending"
    "rsv_device_id r = Some (da_ID (cc_device c))"
    "LockPoolPolicyForHost (da_HostID (cc_device c)) (da_ID (cc_device c)) db = Inr p"
    "pp_ActiveReservations p < pp_MaxConcurrency p"
    "LockDevice (da_ID (cc_device c)) db = Inr d"
    "ActivateClaimed r d sid db = Inr (a, db')"
  using assms by (auto simp: activate_tx_def split: if_splits)

lemma activate_tx_inv: "farm_inv db \<Longrightarrow> activate_tx c sid wall db = Inr (a, db') \<Longrightarrow> farm_inv db'"
  by (erule activate_tx_Inr) (cases a, blast intro: ActivateClaimed_inv)

lemma compensateClaim_inv: "farm_inv db \<Longrightarrow> compensateClaim c code terminal db = Inr (u, db') \<Longrightarrow> farm_inv db'"
  using CompensateClaim_inv [of db "rsv_id (cc_reservation c)" "da_ID (cc_device c)" code terminal "db_clock db" u db']
  by (simp add: compensateClaim_def ClockNow_def)

section \<open>Reservation service\<close>

lemma insert_tx_inv:
  assumes "farm_inv db" and "insert_tx actor target p db = Inr (r, db')"
  shows "farm_inv db'"
proof (cases "CreatePending p db = Inr (r, db')")
  case True
  with assms(1) show ?thesis by (rule CreatePending_inv)
next
  case False
  with assms(2) have "db' = db"
    by (auto simp: insert_tx_def create_targeted_tx_def split: if_splits sum.splits farm_error.splits)
  with assms(1) show ?thesis by simp
qed

lemma begin_then:
  assumes "tx_bind (BeginOperation p) k db = Inr (r, db')"
  obtains replay db1 where "same_core db db1" and "k replay db1 = Inr (r, db')"
  using assms BeginOperation_same [of p db] by auto

lemma same_core_sym: "same_core db db' \<Longrightarrow> same_core db' db"
  by (simp add: same_core_def)

text \<open>The status tests of the handlers, as conditions.\<close>

lemma active_both:
  "(case (st, a, b) of (ReservationActive, Some x, Some y) \<Rightarrow> f x y | _ \<Rightarrow> tx_fail e) db = Inr z \<longleftrightarrow>
     st = ReservationActive \<and> (\<exists>x y. a = Some x \<and> b = Some y \<and> f x y db = Inr z)"
  by (cases st; cases a; cases b) auto

lemma active_one:
  "(case (st, a) of (ReservationActive, Some x) \<Rightarrow> f x | _ \<Rightarrow> tx_fail e) db = Inr z \<longleftrightarrow>
     st = ReservationActive \<and> (\<exists>x. a = Some x \<and> f x db = Inr z)"
  by (cases st; cases a) auto

lemma pending_one:
  "(case (st, a) of (ReservationPending, Some x) \<Rightarrow> f x | _ \<Rightarrow> tx_fail e) db = Inr z \<longleftrightarrow>
     st = ReservationPending \<and> (\<exists>x. a = Some x \<and> f x db = Inr z)"
  by (cases st; cases a) auto

lemmas status_case = active_both [unfolded prod.case] active_one [unfolded prod.case] pending_one [unfolded prod.case]

lemma LockByID_Inr: "LockByID i db = Inr r \<Longrightarrow> r \<in> set (reservations db) \<and> rsv_id r = i"
  by (auto simp: LockByID_def split: option.splits dest: find_row_SomeD)

lemma extend_tx_cases:
  assumes "extend_tx p ident n db = Inr (r, db')"
  obtains db1 where "same_core db db1" and "db' = db1" and "Get ident db1 = Inr r"
  | db1 current start expires policy where "same_core db db1" and "LockByID ident db1 = Inr current"
    and "rsv_status current = ReservationActive" and "rsv_starts_at current = Some start"
    and "rsv_expires_at current = Some expires" and "db_clock db1 < expires"
    and "GetPoolPolicy (rsv_pool_id current) db1 = Inr policy" and "n \<le> pp_MaxLeaseSeconds policy"
    and "Extend ident (next_expiry (db_clock db1) expires n (pp_MaxLeaseSeconds policy)) db1 = Inr (r, db')"
proof -
  from assms obtain replay db1 where b: "BeginOperation p db = Inr (replay, db1)"
    and k: "if replay then Get ident db1 = Inr r \<and> db' = db1
      else \<exists>current. LockByID ident db1 = Inr current \<and>
        rsv_status current = ReservationActive \<and> (\<exists>start expires. rsv_starts_at current = Some start \<and>
        rsv_expires_at current = Some expires \<and> db_clock db1 < expires \<and>
        (\<exists>policy. GetPoolPolicy (rsv_pool_id current) db1 = Inr policy \<and> n \<le> pp_MaxLeaseSeconds policy \<and>
          Extend ident (next_expiry (db_clock db1) expires n (pp_MaxLeaseSeconds policy)) db1 = Inr (r, db')))"
    by (auto simp: extend_tx_def status_case ClockNow_def split: if_splits)
  show ?thesis
    using that BeginOperation_same [OF b] k by (cases replay) auto
qed

lemma extend_tx_inv:
  assumes "farm_inv db" and "extend_tx p ident n db = Inr (r, db')"
  shows "farm_inv db'"
  using assms(2)
proof (cases rule: extend_tx_cases)
  case (1 db1)
  with assms(1) show ?thesis using same_core_inv by auto
next
  case (2 db1)
  with assms(1) have "farm_inv db1" using same_core_inv by auto
  then show ?thesis by (rule Extend_inv) (rule 2)
qed

section \<open>Closing\<close>

lemma closeActiveLocked_Inr:
  assumes "closeActiveLocked newID current terminal actor action requestID reason db = Inr (r, db')"
  obtains did session device policy state auditID db1 w where
    "rsv_device_id current = Some did"
    "\<exists>m. check_transition (RestoreReservation (rsv_id current) (rsv_status current)) terminal reason (db_clock db) = Inr m"
    "LockSession (rsv_id current) db = Inr session" "LockDevice did db = Inr device"
    "release_policy (da_HostID device) (da_ID device) db = Inr (policy, db)"
    "RestoreDevice (da_ID device) (da_Lifecycle device) (da_Health device) = Inr state"
    "Lifecycle state \<noteq> DeviceQuarantined \<and>
       Lifecycle state \<noteq> fst (release_target (wants_recycle policy device state) state) \<longrightarrow>
       fst (Device_Transition (fst (release_target (wants_recycle policy device state) state))
              (snd (release_target (wants_recycle policy device state) state)) (db_clock db) state) = None"
    "newID = Inr auditID"
    "CloseActive (rsv_id current) did terminal (wants_recycle policy device state)
       (fst (release_target (wants_recycle policy device state) state)) (db_clock db) db = Inr (r, db1)"
    "InsertAudit auditID (ac_Type actor) (ac_ID actor) action (rsv_id current) requestID reason db1 = Inr (w, db')"
proof -
  have rp: "release_policy h i s = Inr (pol, s') \<Longrightarrow> s' = s" for h i pol s s'
    by (auto simp: release_policy_def split: sum.splits if_splits)
  have tr: "(if b then (case m of (Some e, _) \<Rightarrow> Inl (DomainErr e) | (None, _) \<Rightarrow> Inr ()) else Inr ()) = Inr u
      \<longleftrightarrow> (b \<longrightarrow> fst m = None)" for b and m :: "domain_error option \<times> Device" and u
    by (cases m; cases "fst m") auto
  from assms obtain did where did: "rsv_device_id current = Some did"
    by (cases "rsv_device_id current") (simp_all add: closeActiveLocked_def)
  from assms show ?thesis
    unfolding closeActiveLocked_def did option.case Let_def tx_bind_Inr tx_read_Inr tx_lift_Inr tr lift_domain_Inr
      ClockNow_def sum.inject tx_return_Inr
    apply (elim exE conjE)
    apply hypsubst
    apply (frule rp)
    apply hypsubst
    apply (rule that [OF did])
    apply (assumption | blast)+
    done
qed

lemma closeActiveLocked_inv:
  assumes inv: "farm_inv db" and st: "closeActiveLocked newID current terminal actor action requestID reason db = Inr (r, db')"
    and fin: "terminal \<in> {ReservationReleased, ReservationForceReleased, ReservationExpired}"
    and cur: "current \<in> set (reservations db)"
  shows "farm_inv db'"
proof -
  from st obtain did recycle target db1 auditID w where
    c: "rsv_device_id current = Some did" "CloseActive (rsv_id current) did terminal recycle target (db_clock db) db = Inr (r, db1)"
      "InsertAudit auditID (ac_Type actor) (ac_ID actor) action (rsv_id current) requestID reason db1 = Inr (w, db')"
    by (rule closeActiveLocked_Inr) blast
  have "farm_inv db1"
    by (rule CloseActive_inv [OF inv c(2) refl _ cur refl c(1)]) (use fin in auto)
  then show ?thesis using same_core_inv [OF InsertAudit_same [OF c(3)]] by simp
qed

lemma cancel_pending_tx_Inr:
  assumes "cancel_pending_tx newID actor current requestID reason db = Inr (r, db')"
  obtains db1 where "rsv_device_id current = None"
    "CancelPending (rsv_id current) ''RESERVATION_CANCELED'' (db_clock db) db = Inr (r, db1)" "same_core db1 db'"
  using assms unfolding cancel_pending_tx_def tx_bind_Inr tx_guard_Inr tx_read_Inr tx_lift_Inr tx_return_Inr
    ClockNow_def sum.inject
  by (elim exE conjE) (blast dest: InsertAudit_same)

lemma cancel_pending_tx_inv:
  "farm_inv db \<Longrightarrow> cancel_pending_tx newID actor current requestID reason db = Inr (r, db') \<Longrightarrow> farm_inv db'"
  by (erule cancel_pending_tx_Inr) (use CancelPending_inv same_core_inv in \<open>metis order_refl\<close>)

lemma release_locked_cases:
  assumes "release_locked newID actor ident requestID reason force db = Inr (r, db')"
  obtains (cancel) current where "LockByID ident db = Inr current" "rsv_status current = ReservationPending"
      "cancel_pending_tx newID actor current requestID reason db = Inr (r, db')"
  | (closed) "db' = db" "LockByID ident db = Inr r" "isClosedStatus (rsv_status r)"
  | (close) current where "LockByID ident db = Inr current" "rsv_status current = ReservationActive"
    "closeActiveLocked newID current
       (if force then ReservationForceReleased else ReservationReleased) actor
       (if force then ''force_release_device_reservation'' else ''release_device_reservation'')
       requestID reason db = Inr (r, db')"
  using assms unfolding release_locked_def tx_bind_Inr tx_read_Inr
  by (elim exE conjE) (simp split: if_splits)

lemma release_tx_inv:
  assumes "farm_inv db" and "release_tx newID p actor ident requestID reason force db = Inr (r, db')"
  shows "farm_inv db'"
proof -
  from assms(2) obtain replay db1 where b: "BeginOperation p db = Inr (replay, db1)"
    and k: "(if replay then tx_read (Get ident) else release_locked newID actor ident requestID reason force) db1
      = Inr (r, db')"
    unfolding release_tx_def tx_bind_Inr by blast
  have inv: "farm_inv db1" using assms(1) same_core_inv [OF BeginOperation_same [OF b]] by simp
  show ?thesis
  proof (cases replay)
    case True
    with k inv show ?thesis by simp
  next
    case False
    with k have "release_locked newID actor ident requestID reason force db1 = Inr (r, db')" by simp
    then show ?thesis
    proof (cases rule: release_locked_cases)
      case (cancel current)
      with inv show ?thesis by (blast intro: cancel_pending_tx_inv)
    next
      case closed
      with inv show ?thesis by simp
    next
      case (close current)
      show ?thesis
        by (rule closeActiveLocked_inv [OF inv close(3)]) (use LockByID_Inr [OF close(1)] in auto)
    qed
  qed
qed

section \<open>Sweeps and remote sessions\<close>

lemma reap_tx_Inr:
  assumes "reap_tx newID ident grace db = Inr (r, db')"
  obtains current expires where "LockByID ident db = Inr current" "rsv_status current = ReservationActive"
    "rsv_expires_at current = Some expires" "expires + grace \<le> db_clock db"
    "closeActiveLocked newID current ReservationExpired reaperActor ''expire_device_reservation''
       (''reaper_'' @ ident) ''reservation lease and grace period expired'' db = Inr (r, db')"
  using assms by (auto simp: reap_tx_def status_case ClockNow_def split: if_splits)

lemma reap_tx_inv: "farm_inv db \<Longrightarrow> reap_tx newID ident grace db = Inr (r, db') \<Longrightarrow> farm_inv db'"
  by (erule reap_tx_Inr, rule closeActiveLocked_inv) (auto dest: LockByID_Inr)

lemma fail_stale_tx_Inr:
  assumes "fail_stale_tx newID ident timeout grace db = Inr (r, db')"
  obtains current db1 where "LockByID ident db = Inr current" "rsv_status current = ReservationPending"
    "rsv_device_id current = None" "rsv_created_at current + timeout + grace \<le> db_clock db"
    "FailPendingReservation (rsv_id current) ''PENDING_TIMEOUT'' (db_clock db) db = Inr ((), db1)"
    "same_core db1 db'" "Get (rsv_id current) db' = Inr r"
  using assms by (auto simp: fail_stale_tx_def ClockNow_def split: if_splits dest: InsertAudit_same)

lemma fail_stale_tx_inv: "farm_inv db \<Longrightarrow> fail_stale_tx newID ident timeout grace db = Inr (r, db') \<Longrightarrow> farm_inv db'"
  by (erule fail_stale_tx_Inr) (use FailPendingReservation_inv same_core_inv in \<open>metis order_refl\<close>)

lemma fail_orphan_tx_Inr:
  assumes "fail_orphan_tx newID ident grace db = Inr (r, db')"
  obtains current did db1 where "LockByID ident db = Inr current" "rsv_status current = ReservationPending"
    "rsv_device_id current = Some did" "rsv_updated_at current + grace \<le> db_clock db"
    "FailPendingClaim (rsv_id current) did ''CLAIM_ABANDONED'' (db_clock db) db = Inr ((), db1)"
    "same_core db1 db'" "Get (rsv_id current) db' = Inr r"
  using assms by (auto simp: fail_orphan_tx_def status_case ClockNow_def split: if_splits dest: InsertAudit_same)

lemma fail_orphan_tx_inv: "farm_inv db \<Longrightarrow> fail_orphan_tx newID ident grace db = Inr (r, db') \<Longrightarrow> farm_inv db'"
  by (erule fail_orphan_tx_Inr) (use FailPendingClaim_inv same_core_inv in \<open>metis order_refl\<close>)

lemma remote_tx_inv:
  assumes "farm_inv db" and "remote_tx p actor input rid did m db = Inr (x, db')"
  shows "farm_inv db'"
proof -
  from assms(2) obtain replay db1 where "same_core db db1"
    and k: "db' = db1 \<or> (\<exists>s. SetRemoteSession rid m db1 = Inr (s, db'))"
    by (auto simp: remote_tx_def split: if_splits dest: BeginOperation_same)
  then have "farm_inv db1" using assms(1) same_core_inv by blast
  with k show ?thesis using SetRemoteSession_inv by blast
qed

lemma recordSTFFailure_same: "recordSTFFailure env current actor q a n db = Inr (u, db') \<Longrightarrow> same_core db db'"
  by (auto simp: recordSTFFailure_def dest: InsertAudit_same)

end
