(* ===== verification/Command_Repository.thy ===== *)
theory Command_Repository
  imports Farm_Tables
begin

text \<open>
  \<open>internal/repository/command.go\<close>: the queue of host commands.  An agent leases the oldest
  pending command of its host under a token, completes it or extends the lease while the lease is
  live, and a sweep returns expired leases to the queue until the attempts are used up.
\<close>

section \<open>Constraints and statements\<close>

record create_command_params =
  ccp_ID :: string
  ccp_HostID :: string
  ccp_CommandType :: string
  ccp_Payload :: json_obj
  ccp_MaxAttempts :: int
  ccp_IdempotencyKey :: string

definition command_types :: "string list" where
  "command_types =
     [''create'', ''start'', ''stop'', ''restart'', ''rebuild'', ''delete'', ''inspect'',
      ''validate_image'', ''sync_android_catalog'', ''prepare_android_image'']"

text \<open>The CHECK constraints of \<open>device_host_commands\<close>.\<close>

definition ck_command :: "command_row \<Rightarrow> bool" where
  "ck_command c \<longleftrightarrow>
     identifierPattern (cmd_id c) \<and> cmd_type c \<in> set command_types \<and> validCommandStatus (cmd_status c) \<and>
     0 \<le> cmd_attempts c \<and> 0 < cmd_max_attempts c \<and> cmd_attempts c \<le> cmd_max_attempts c \<and>
     (cmd_status c = CommandLeased \<longrightarrow> cmd_lease_token c \<noteq> None \<and> cmd_lease_expires_at c \<noteq> None) \<and>
     (cmd_status c \<in> {CommandSucceeded, CommandFailed, CommandTimedOut, CommandCanceled} \<longrightarrow>
        cmd_completed_at c \<noteq> None) \<and>
     cmd_created_at c \<le> cmd_updated_at c \<and>
     (case cmd_completed_at c of None \<Rightarrow> True | Some t \<Rightarrow> cmd_created_at c \<le> t)"

definition update_commands ::
  "(command_row \<Rightarrow> bool) \<Rightarrow> (command_row \<Rightarrow> command_row) \<Rightarrow> command_row list farm_tx" where
  "update_commands P f db =
     (let written = map f (filter P (commands db))
      in if \<not> list_all ck_command written then Inl (SqlError ''23514'')
         else Inr (written, db\<lparr>commands := update_where P f (commands db)\<rparr>))"

definition millisecond :: duration where
  "millisecond = 1000000"

definition Milliseconds :: "duration \<Rightarrow> int" where
  "Milliseconds d = trunc_div d millisecond"

section \<open>Operations\<close>

definition retries :: "command_status \<Rightarrow> bool \<Rightarrow> command_row \<Rightarrow> bool" where
  "retries status retryable c \<longleftrightarrow>
     retryable \<and> status = CommandFailed \<and> cmd_attempts c < cmd_max_attempts c"

definition holds_lease :: "string \<Rightarrow> string \<Rightarrow> int \<Rightarrow> farm_db \<Rightarrow> command_row \<Rightarrow> bool" where
  "holds_lease ident leaseToken attempt db c \<longleftrightarrow>
     cmd_id c = ident \<and> cmd_status c = CommandLeased \<and> cmd_lease_token c = Some leaseToken \<and>
     cmd_attempts c = attempt \<and>
     (case cmd_lease_expires_at c of None \<Rightarrow> False | Some e \<Rightarrow> db_clock db \<le> e)"

definition Complete ::
  "string \<Rightarrow> string \<Rightarrow> int \<Rightarrow> command_status \<Rightarrow> json \<Rightarrow> string option \<Rightarrow> bool \<Rightarrow> command_row farm_tx" where
  "Complete ident leaseToken attempt status result errorCode retryable db =
     tx_bind
       (update_commands (holds_lease ident leaseToken attempt db)
          (\<lambda>c. c\<lparr>cmd_status := (if retries status retryable c then CommandPending else status),
                 cmd_lease_token := None, cmd_lease_expires_at := None, cmd_result := Some result,
                 cmd_error_code := errorCode,
                 cmd_completed_at := (if retries status retryable c then None else Some (db_clock db)),
                 cmd_updated_at := db_clock db\<rparr>))
       (returning_row RepoErrLeaseConflict) db"

definition lease_lapsed :: "farm_db \<Rightarrow> command_row \<Rightarrow> bool" where
  "lease_lapsed db c \<longleftrightarrow>
     cmd_status c = CommandLeased \<and>
     (case cmd_lease_expires_at c of None \<Rightarrow> False | Some e \<Rightarrow> e < db_clock db)"

definition RecoverExpiredLease :: "string list \<Rightarrow> command_row farm_tx" where
  "RecoverExpiredLease locked db =
     (case first_by (\<lambda>c. ((case cmd_lease_expires_at c of None \<Rightarrow> 0 | Some e \<Rightarrow> e), cmd_id c))
             (\<lambda>c. lease_lapsed db c \<and> cmd_id c \<notin> set locked) (commands db) of
        None \<Rightarrow> Inl RepoErrNotFound
      | Some candidate \<Rightarrow>
          tx_bind
            (update_commands (\<lambda>c. cmd_id c = cmd_id candidate)
               (\<lambda>c. let retry = cmd_attempts c < cmd_max_attempts c
                    in c\<lparr>cmd_status := (if retry then CommandPending else CommandTimedOut),
                         cmd_lease_token := None, cmd_lease_expires_at := None,
                         cmd_error_code := (if retry then None else Some ''COMMAND_ATTEMPTS_EXHAUSTED''),
                         cmd_completed_at := (if retry then None else Some (db_clock db)),
                         cmd_updated_at := db_clock db\<rparr>))
            (returning_row RepoErrNotFound) db)"

definition ExtendLease :: "string \<Rightarrow> string \<Rightarrow> int \<Rightarrow> duration \<Rightarrow> command_row farm_tx" where
  "ExtendLease ident leaseToken attempt leaseDuration db =
     tx_bind
       (update_commands (holds_lease ident leaseToken attempt db)
          (\<lambda>c. c\<lparr>cmd_lease_expires_at := Some (db_clock db + Milliseconds leaseDuration * millisecond),
                 cmd_updated_at := db_clock db\<rparr>))
       (returning_row RepoErrLeaseConflict) db"

definition pending_command :: "create_command_params \<Rightarrow> timestamp \<Rightarrow> command_row" where
  "pending_command p now =
     \<lparr>cmd_id = ccp_ID p, cmd_host_id = ccp_HostID p, cmd_type = ccp_CommandType p,
      cmd_payload = ccp_Payload p, cmd_status = CommandPending, cmd_lease_token = None,
      cmd_lease_expires_at = None, cmd_attempts = 0, cmd_max_attempts = ccp_MaxAttempts p,
      cmd_key = ccp_IdempotencyKey p, cmd_result = None, cmd_error_code = None,
      cmd_created_at = now, cmd_updated_at = now, cmd_completed_at = None\<rparr>"

definition same_command :: "create_command_params \<Rightarrow> command_row \<Rightarrow> bool" where
  "same_command p c \<longleftrightarrow>
     cmd_host_id c = ccp_HostID p \<and> cmd_type c = ccp_CommandType p \<and>
     cmd_max_attempts c = ccp_MaxAttempts p \<and> cmd_key c = ccp_IdempotencyKey p \<and>
     cmd_payload c = ccp_Payload p"

definition Create :: "create_command_params \<Rightarrow> command_row farm_tx" where
  "Create p db =
     (let row = pending_command p (db_clock db)
      in if \<not> ck_command row then Inl (SqlError ''23514'')
         else case find_row (\<lambda>c. cmd_host_id c = ccp_HostID p \<and> cmd_key c = ccp_IdempotencyKey p)
                     (commands db) of
           Some c \<Rightarrow> if same_command p c then Inr (c, db) else Inl RepoErrIdempotencyConflict
         | None \<Rightarrow>
             if find_row (\<lambda>c. cmd_id c = ccp_ID p) (commands db) \<noteq> None then Inl (SqlError ''23505'')
             else if find_row (\<lambda>h. host_id h = ccp_HostID p) (hosts db) = None then Inl (SqlError ''23503'')
             else if same_command p row then Inr (row, db\<lparr>commands := commands db @ [row]\<rparr>)
             else Inl RepoErrIdempotencyConflict)"

definition claimable :: "string \<Rightarrow> command_row \<Rightarrow> bool" where
  "claimable hostID c \<longleftrightarrow>
     cmd_host_id c = hostID \<and> cmd_status c = CommandPending \<and> cmd_attempts c < cmd_max_attempts c"

definition cmd_age :: "command_row \<Rightarrow> timestamp \<times> string" where
  "cmd_age c = (cmd_created_at c, cmd_id c)"

definition leased_row :: "string \<Rightarrow> duration \<Rightarrow> farm_db \<Rightarrow> command_row \<Rightarrow> command_row" where
  "leased_row tok dur db c =
     c\<lparr>cmd_status := CommandLeased, cmd_lease_token := Some tok,
       cmd_lease_expires_at := Some (db_clock db + Milliseconds dur * millisecond),
       cmd_attempts := cmd_attempts c + 1, cmd_updated_at := db_clock db\<rparr>"

definition ClaimNext :: "string list \<Rightarrow> string \<Rightarrow> string \<Rightarrow> duration \<Rightarrow> command_row farm_tx" where
  "ClaimNext locked hostID leaseToken leaseDuration db =
     (case first_by cmd_age (\<lambda>c. claimable hostID c \<and> cmd_id c \<notin> set locked) (commands db) of
        None \<Rightarrow> Inl RepoErrNotFound
      | Some candidate \<Rightarrow>
          tx_bind
            (update_commands (\<lambda>c. cmd_id c = cmd_id candidate) (leased_row leaseToken leaseDuration db))
            (returning_row RepoErrNotFound) db)"

section \<open>Steps of the queue\<close>

text \<open>
  Everything that can happen to the table: the five statements above, the mark that the warm pool
  puts into the payload of a finished command, and any transaction that leaves the table alone.  The
  database clock never runs backwards.
\<close>

inductive command_step :: "farm_db \<Rightarrow> farm_db \<Rightarrow> bool" where
  step_create: "Create p db = Inr (c, db') \<Longrightarrow> command_step db db'"
| step_claim: "ClaimNext locked hostID tok dur db = Inr (c, db') \<Longrightarrow> command_step db db'"
| step_complete: "Complete ident tok n st res ec retry db = Inr (c, db') \<Longrightarrow> command_step db db'"
| step_recover: "RecoverExpiredLease locked db = Inr (c, db') \<Longrightarrow> command_step db db'"
| step_extend: "ExtendLease ident tok n dur db = Inr (c, db') \<Longrightarrow> command_step db db'"
| step_mark: "update_commands (\<lambda>c. cmd_id c = ident)
                (\<lambda>c. c\<lparr>cmd_payload := pay, cmd_updated_at := db_clock db\<rparr>) db = Inr (cs, db')
              \<Longrightarrow> command_step db db'"
| step_other: "commands db' = commands db \<Longrightarrow> db_clock db \<le> db_clock db' \<Longrightarrow> command_step db db'"

definition commands_ok :: "farm_db \<Rightarrow> bool" where
  "commands_ok db \<longleftrightarrow>
     distinct (map cmd_id (commands db)) \<and> list_all ck_command (commands db) \<and>
     list_all (\<lambda>c. cmd_created_at c \<le> db_clock db) (commands db)"

text \<open>How one row may change in one step.\<close>

definition cmd_evolves :: "command_row \<Rightarrow> command_row \<Rightarrow> bool" where
  "cmd_evolves c c' \<longleftrightarrow>
     cmd_id c' = cmd_id c \<and> cmd_max_attempts c' = cmd_max_attempts c \<and>
     cmd_created_at c' = cmd_created_at c \<and>
     (cmd_status c' = cmd_status c \<or> allows commandTransitions (cmd_status c) (cmd_status c')) \<and>
     (if cmd_status c \<noteq> CommandLeased \<and> cmd_status c' = CommandLeased
      then cmd_attempts c' = cmd_attempts c + 1 else cmd_attempts c' = cmd_attempts c)"

lemma cmd_evolves_refl: "cmd_evolves c c"
  by (auto simp: cmd_evolves_def)

lemma update_commands_Inr:
  "update_commands P f db = Inr (cs, db') \<longleftrightarrow>
     cs = map f (filter P (commands db)) \<and> list_all ck_command cs \<and>
     db' = db\<lparr>commands := update_where P f (commands db)\<rparr>"
  by (auto simp: update_commands_def Let_def)

lemma update_returning:
  "tx_bind (update_commands P f) (returning_row e) db = Inr (c, db') \<longleftrightarrow>
     (\<exists>cs. update_commands P f db = Inr (c # cs, db'))"
  by auto

lemma update_commands_evolves:
  assumes "update_commands P f db = Inr (cs, db')"
    and "\<And>c. c \<in> set (commands db) \<Longrightarrow> P c \<Longrightarrow> ck_command (f c) \<Longrightarrow> cmd_evolves c (f c)"
  shows "list_all2 cmd_evolves (commands db) (commands db') \<and> db_clock db' = db_clock db"
  using assms
  by (auto simp: update_commands_Inr update_where_def list_all2_map2 cmd_evolves_refl list_all_iff
      intro!: list.rel_refl_strong)

text \<open>What a successful claim and a successful recovery did.\<close>

lemma leased_row_sel [simp]:
  "cmd_id (leased_row tok dur db c) = cmd_id c"
  "cmd_attempts (leased_row tok dur db c) = cmd_attempts c + 1"
  "cmd_max_attempts (leased_row tok dur db c) = cmd_max_attempts c"
  "cmd_status (leased_row tok dur db c) = CommandLeased"
  "cmd_lease_token (leased_row tok dur db c) = Some tok"
  "cmd_lease_expires_at (leased_row tok dur db c) = Some (db_clock db + Milliseconds dur * millisecond)"
  "cmd_created_at (leased_row tok dur db c) = cmd_created_at c"
  by (simp_all add: leased_row_def)

lemma key_rows_same:
  assumes "distinct (map cmd_id cs)" and "k \<in> set cs" and "c \<in> set cs" and "cmd_id c = cmd_id k"
  shows "c = k"
  using assms by (auto dest: distinct_map_same)

lemma ClaimNext_InrE:
  assumes "ClaimNext locked hostID tok dur db = Inr (c, db')"
  obtains k cs where
    "first_by cmd_age (\<lambda>c. claimable hostID c \<and> cmd_id c \<notin> set locked) (commands db) = Some k"
    and "update_commands (\<lambda>c. cmd_id c = cmd_id k) (leased_row tok dur db) db = Inr (c # cs, db')"
  using assms unfolding ClaimNext_def
  by (auto simp only: update_returning option.simps split: option.splits)

lemma RecoverExpiredLease_InrE:
  assumes "RecoverExpiredLease locked db = Inr (c, db')"
  obtains k f cs where "k \<in> set (commands db)" and "lease_lapsed db k"
    and "update_commands (\<lambda>c. cmd_id c = cmd_id k) f db = Inr (c # cs, db')"
    and "\<And>x. cmd_status x = CommandLeased \<Longrightarrow> cmd_evolves x (f x)"
proof -
  obtain k where k: "first_by (\<lambda>c. ((case cmd_lease_expires_at c of None \<Rightarrow> 0 | Some e \<Rightarrow> e), cmd_id c))
      (\<lambda>c. lease_lapsed db c \<and> cmd_id c \<notin> set locked) (commands db) = Some k"
    using assms unfolding RecoverExpiredLease_def by (auto split: option.splits)
  show ?thesis
    using assms first_by_SomeD [OF k] unfolding RecoverExpiredLease_def k option.simps update_returning
    by (elim exE) (rule that, auto simp: cmd_evolves_def allows_def Let_def)
qed

text \<open>Every step changes each row along \<open>cmd_evolves\<close> and may append one.\<close>

definition rows_follow :: "farm_db \<Rightarrow> farm_db \<Rightarrow> bool" where
  "rows_follow db db' \<longleftrightarrow>
     db_clock db \<le> db_clock db' \<and>
     (list_all2 cmd_evolves (commands db) (commands db') \<or>
      (\<exists>p. commands db' = commands db @ [pending_command p (db_clock db)] \<and>
           ck_command (pending_command p (db_clock db)) \<and> ccp_ID p \<notin> cmd_id ` set (commands db)))"

lemma rows_follow_update:
  assumes "update_commands P f db = Inr (cs, db')"
    and "\<And>c. c \<in> set (commands db) \<Longrightarrow> P c \<Longrightarrow> ck_command (f c) \<Longrightarrow> cmd_evolves c (f c)"
  shows "rows_follow db db'"
  using update_commands_evolves [OF assms] by (auto simp: rows_follow_def)

lemma rows_follow_same: "commands db' = commands db \<Longrightarrow> db_clock db \<le> db_clock db' \<Longrightarrow> rows_follow db db'"
  by (auto simp: rows_follow_def cmd_evolves_refl intro!: list.rel_refl_strong)

lemma rows_follow_append:
  "commands db' = commands db @ [pending_command p (db_clock db)] \<Longrightarrow> db_clock db' = db_clock db \<Longrightarrow>
   ck_command (pending_command p (db_clock db)) \<Longrightarrow> \<forall>c\<in>set (commands db). cmd_id c \<noteq> ccp_ID p \<Longrightarrow>
   rows_follow db db'"
  unfolding rows_follow_def by (intro conjI disjI2 exI [of _ p]) auto

lemma leased_moves: "validCommandStatus st \<Longrightarrow> st \<noteq> CommandLeased \<Longrightarrow> allows commandTransitions CommandLeased st"
  by (cases st) (auto simp: validCommandStatus_def allows_def)

lemma completed_evolves:
  assumes "cmd_status c = CommandLeased"
    and "c' = c\<lparr>cmd_status := st, cmd_lease_token := None, cmd_lease_expires_at := e, cmd_result := res,
               cmd_error_code := ec, cmd_completed_at := done, cmd_updated_at := t\<rparr>"
    and "ck_command c'"
  shows "cmd_evolves c c'"
  using assms leased_moves [of st] by (auto simp: cmd_evolves_def ck_command_def)

lemma command_step_rows:
  assumes "command_step db db'" and ok: "commands_ok db"
  shows "rows_follow db db'"
  using assms(1)
proof cases
  case (step_create p c)
  then show ?thesis
    by (auto simp: Create_def Let_def intro: rows_follow_same rows_follow_append
        split: if_splits option.splits)
next
  case (step_claim locked hostID tok dur c)
  then obtain k cs where
    k: "first_by cmd_age (\<lambda>c. claimable hostID c \<and> cmd_id c \<notin> set locked) (commands db) = Some k"
    and u: "update_commands (\<lambda>c. cmd_id c = cmd_id k) (leased_row tok dur db) db = Inr (c # cs, db')"
    by (rule ClaimNext_InrE)
  show ?thesis
    using first_by_SomeD [OF k] ok key_rows_same
    by (intro rows_follow_update [OF u])
      (fastforce simp: commands_ok_def claimable_def cmd_evolves_def allows_def)
next
  case (step_recover locked c)
  then show ?thesis
  proof (rule RecoverExpiredLease_InrE)
    fix k f cs
    assume k: "k \<in> set (commands db)" "lease_lapsed db k"
      and u: "update_commands (\<lambda>c. cmd_id c = cmd_id k) f db = Inr (c # cs, db')"
      and f: "\<And>x. cmd_status x = CommandLeased \<Longrightarrow> cmd_evolves x (f x)"
    show ?thesis
      using k ok key_rows_same
      by (intro rows_follow_update [OF u] f) (fastforce simp: commands_ok_def lease_lapsed_def)
  qed
next
  case (step_complete ident tok n st res ec retry c)
  then show ?thesis
    unfolding Complete_def update_returning
    by (elim exE) (rule rows_follow_update, assumption,
      rule completed_evolves, auto simp: holds_lease_def)
next
  case (step_extend ident tok n dur c)
  then show ?thesis
    unfolding ExtendLease_def update_returning
    by (elim exE) (rule rows_follow_update, assumption, auto simp: holds_lease_def cmd_evolves_def)
next
  case (step_mark ident pay cs)
  then show ?thesis
    by (rule rows_follow_update) (auto simp: cmd_evolves_def)
next
  case step_other
  then show ?thesis by (rule rows_follow_same)
qed

lemma pending_command_sel [simp]:
  "cmd_id (pending_command p t) = ccp_ID p" "cmd_attempts (pending_command p t) = 0"
  "cmd_created_at (pending_command p t) = t" "cmd_status (pending_command p t) = CommandPending"
  by (simp_all add: pending_command_def)

lemma list_all2_same_ids: "list_all2 cmd_evolves cs cs' \<Longrightarrow> map cmd_id cs' = map cmd_id cs"
  by (induction rule: list_all2_induct) (auto simp: cmd_evolves_def)

lemma list_all2_created:
  "list_all2 cmd_evolves cs cs' \<Longrightarrow> list_all (\<lambda>c. cmd_created_at c \<le> t) cs \<Longrightarrow>
   list_all (\<lambda>c. cmd_created_at c \<le> t) cs'"
  by (induction rule: list_all2_induct) (auto simp: cmd_evolves_def)

lemma list_all_mono_clock:
  "list_all (\<lambda>c. cmd_created_at c \<le> t) cs \<Longrightarrow> t \<le> u \<Longrightarrow> list_all (\<lambda>c. cmd_created_at c \<le> u) cs"
  by (auto simp: list_all_iff)

text \<open>The CHECK constraints hold of the table because every statement checks what it writes.\<close>

lemma update_commands_ck:
  "update_commands P f db = Inr (cs, db') \<Longrightarrow> list_all ck_command (commands db) \<Longrightarrow>
   list_all ck_command (commands db')"
  by (auto simp: update_commands_Inr list_all_iff set_update_where)

lemma command_step_ck:
  assumes "command_step db db'" and "list_all ck_command (commands db)"
  shows "list_all ck_command (commands db')"
  using assms(1)
proof cases
  case (step_create p c)
  with assms(2) show ?thesis
    by (auto simp: Create_def Let_def split: if_splits option.splits)
next
  case (step_claim locked hostID tok dur c)
  then show ?thesis by (rule ClaimNext_InrE) (blast intro: update_commands_ck assms(2))
next
  case (step_recover locked c)
  then show ?thesis by (rule RecoverExpiredLease_InrE) (blast intro: update_commands_ck assms(2))
next
  case (step_complete ident tok n st res ec retry c)
  then show ?thesis
    unfolding Complete_def update_returning by (blast intro: update_commands_ck assms(2))
next
  case (step_extend ident tok n dur c)
  then show ?thesis
    unfolding ExtendLease_def update_returning by (blast intro: update_commands_ck assms(2))
next
  case (step_mark ident pay cs)
  then show ?thesis by (blast intro: update_commands_ck assms(2))
next
  case step_other
  with assms(2) show ?thesis by simp
qed

lemma command_step_ok:
  assumes "command_step db db'" and "commands_ok db"
  shows "commands_ok db'"
proof -
  have "list_all ck_command (commands db')"
    using command_step_ck assms by (auto simp: commands_ok_def)
  moreover from command_step_rows [OF assms] have "distinct (map cmd_id (commands db')) \<and>
      list_all (\<lambda>c. cmd_created_at c \<le> db_clock db') (commands db')"
    unfolding rows_follow_def
  proof (elim conjE disjE exE)
    assume l: "list_all2 cmd_evolves (commands db) (commands db')" and "db_clock db \<le> db_clock db'"
    with assms(2) show ?thesis
      by (auto simp: commands_ok_def list_all2_same_ids [OF l]
          intro: list_all_mono_clock list_all2_created [OF l])
  qed (use assms(2) in \<open>auto simp: commands_ok_def intro: list_all_mono_clock\<close>)
  ultimately show ?thesis by (simp add: commands_ok_def)
qed

section \<open>Fencing\<close>

text \<open>
  What a lease gives its holder, as an interface: a counter that never goes down and goes up
  whenever a resource that was not leased becomes leased.  Then a lease is identified by the counter
  for ever: no later lease has the same number.
\<close>

locale fenced_lease = step_invariant step ok
  for step :: "'s \<Rightarrow> 's \<Rightarrow> bool" and ok :: "'s \<Rightarrow> bool" +
  fixes epoch :: "'s \<Rightarrow> int" and held :: "'s \<Rightarrow> bool"
  assumes epoch_mono: "step s s' \<Longrightarrow> ok s \<Longrightarrow> epoch s \<le> epoch s'"
    and epoch_new: "step s s' \<Longrightarrow> ok s \<Longrightarrow> \<not> held s \<Longrightarrow> held s' \<Longrightarrow> epoch s < epoch s'"
begin

lemma epoch_steps: "step\<^sup>*\<^sup>* s s' \<Longrightarrow> ok s \<Longrightarrow> epoch s \<le> epoch s'"
  by (induction rule: rtranclp_induct) (auto intro: order_trans epoch_mono ok_steps)

lemma never_again: "step\<^sup>*\<^sup>* s s' \<Longrightarrow> ok s \<Longrightarrow> \<not> held s \<Longrightarrow> held s' \<Longrightarrow> epoch s < epoch s'"
proof (induction rule: rtranclp_induct)
  case (step u v)
  have ok: "ok u" using ok_steps [OF step.hyps(1)] step.prems by blast
  show ?case
  proof (cases "held u")
    case True
    with step epoch_mono [OF step.hyps(2) ok] show ?thesis by fastforce
  next
    case False
    with step epoch_new [OF step.hyps(2) ok] epoch_steps [OF step.hyps(1)] show ?thesis by fastforce
  qed
qed blast

end

text \<open>The interface for one command of the table.\<close>

definition command_epoch :: "string \<Rightarrow> farm_db \<Rightarrow> int" where
  "command_epoch ident db =
     (case find_row (\<lambda>c. cmd_id c = ident) (commands db) of None \<Rightarrow> 0 | Some c \<Rightarrow> cmd_attempts c)"

definition command_held :: "string \<Rightarrow> farm_db \<Rightarrow> bool" where
  "command_held ident db =
     (case find_row (\<lambda>c. cmd_id c = ident) (commands db) of
        None \<Rightarrow> False | Some c \<Rightarrow> cmd_status c = CommandLeased)"

lemma find_row_list_all2:
  assumes "list_all2 cmd_evolves cs cs'"
  shows "rel_option cmd_evolves (find_row (\<lambda>c. cmd_id c = ident) cs) (find_row (\<lambda>c. cmd_id c = ident) cs')"
  using assms
proof (induction rule: list_all2_induct)
  case Nil
  then show ?case by (simp add: find_row_def)
next
  case (Cons x xs y ys)
  then have "cmd_id y = cmd_id x" by (simp add: cmd_evolves_def)
  with Cons show ?case by simp
qed

lemma find_row_append:
  "find_row P (t @ u) = (case find_row P t of None \<Rightarrow> find_row P u | Some r \<Rightarrow> Some r)"
  by (induction t) auto

lemma command_follow:
  assumes "rows_follow db db'"
  shows "command_epoch ident db \<le> command_epoch ident db'"
    and "\<not> command_held ident db \<Longrightarrow> command_held ident db' \<Longrightarrow>
       command_epoch ident db < command_epoch ident db'"
proof -
  have "command_epoch ident db \<le> command_epoch ident db' \<and>
    (\<not> command_held ident db \<longrightarrow> command_held ident db' \<longrightarrow>
       command_epoch ident db < command_epoch ident db')"
    using assms unfolding rows_follow_def
  proof (elim conjE disjE exE)
    assume "list_all2 cmd_evolves (commands db) (commands db')"
    from find_row_list_all2 [OF this, of ident] show ?thesis
      by (cases rule: option.rel_cases)
        (simp_all del: find_row_None add: command_epoch_def command_held_def cmd_evolves_def split: if_splits)
  next
    fix p
    assume "commands db' = commands db @ [pending_command p (db_clock db)]"
    then show ?thesis
      by (cases "find_row (\<lambda>c. cmd_id c = ident) (commands db)")
        (simp_all del: find_row_None add: command_epoch_def command_held_def find_row_append)
  qed
  then show "command_epoch ident db \<le> command_epoch ident db'"
    and "\<not> command_held ident db \<Longrightarrow> command_held ident db' \<Longrightarrow>
       command_epoch ident db < command_epoch ident db'" by blast+
qed

interpretation cq: fenced_lease command_step commands_ok "command_epoch ident" "command_held ident"
  for ident
  by unfold_locales
    (blast intro: command_step_ok, blast intro: command_follow command_step_rows,
     blast intro: command_follow command_step_rows)

section \<open>Consequences\<close>

lemma commands_ok_find:
  assumes "commands_ok db" and "c \<in> set (commands db)" and "cmd_id c = ident"
  shows "find_row (\<lambda>c. cmd_id c = ident) (commands db) = Some c"
  using find_row_unique [of cmd_id "commands db" c] assms by (auto simp: commands_ok_def)

lemma holds_lease_held:
  assumes "commands_ok db" and "c \<in> set (commands db)" and "holds_lease ident tok n db c"
  shows "command_held ident db" and "command_epoch ident db = n"
  using commands_ok_find [OF assms(1,2), of ident] assms(3)
  by (auto simp: command_held_def command_epoch_def holds_lease_def)

text \<open>A lease that nobody holds: completion and extension are refused and change nothing.\<close>

lemma lease_conflict:
  assumes "\<And>c. c \<in> set (commands db) \<Longrightarrow> \<not> holds_lease ident tok n db c"
  shows "Complete ident tok n st res ec retry db = Inl RepoErrLeaseConflict"
    and "ExtendLease ident tok n dur db = Inl RepoErrLeaseConflict"
proof -
  have "filter (holds_lease ident tok n db) (commands db) = []"
    using assms by (auto simp: filter_empty_conv)
  then show "Complete ident tok n st res ec retry db = Inl RepoErrLeaseConflict"
    and "ExtendLease ident tok n dur db = Inl RepoErrLeaseConflict"
    by (simp_all add: Complete_def ExtendLease_def tx_bind_def update_commands_def returning_row_def)
qed

lemma Complete_InrD:
  assumes "commands_ok db" and "Complete ident tok n st res ec retry db = Inr (c, db')"
  shows "\<not> command_held ident db'" and "command_epoch ident db' = n"
proof -
  from assms(2) obtain f cs where u: "update_commands (holds_lease ident tok n db) f db = Inr (c # cs, db')"
    and f: "\<And>x. cmd_id (f x) = cmd_id x" "\<And>x. cmd_attempts (f x) = cmd_attempts x"
      "\<And>x. cmd_lease_token (f x) = None"
    unfolding Complete_def update_returning by fastforce
  then obtain x where x: "x \<in> set (commands db)" "holds_lease ident tok n db x" "c = f x"
    by (auto simp only: update_commands_Inr elim!: map_filter_ConsD)
  have ok': "commands_ok db'"
    using command_step_ok [OF step_complete [OF assms(2)] assms(1)] .
  have "c \<in> set (commands db')" using u x by (auto simp: update_commands_Inr set_update_where)
  then have "find_row (\<lambda>c. cmd_id c = ident) (commands db') = Some c"
    using x f by (intro commands_ok_find [OF ok']) (auto simp: holds_lease_def)
  moreover have "ck_command c" using u by (simp add: update_commands_Inr)
  ultimately show "\<not> command_held ident db'" and "command_epoch ident db' = n"
    using x f by (auto simp: command_held_def command_epoch_def holds_lease_def ck_command_def)
qed

lemma command_row_persists:
  assumes "command_step\<^sup>*\<^sup>* db db'" and "commands_ok db" and "c \<in> set (commands db)"
  shows "\<exists>c'\<in>set (commands db'). cmd_id c' = cmd_id c \<and> cmd_max_attempts c' = cmd_max_attempts c"
  using assms(1)
proof (induction rule: rtranclp_induct)
  case (step u v)
  then obtain c' where c': "c' \<in> set (commands u)" "cmd_id c' = cmd_id c"
    "cmd_max_attempts c' = cmd_max_attempts c" by blast
  have "commands_ok u" using cq.ok_steps [OF step.hyps(1) assms(2)] .
  from command_step_rows [OF step.hyps(2) this] show ?case
    unfolding rows_follow_def
  proof (elim conjE disjE exE)
    assume "list_all2 cmd_evolves (commands u) (commands v)"
    with c'(1) obtain x where "x \<in> set (commands v)" "cmd_evolves c' x"
      by (metis in_set_conv_nth list_all2_conv_all_nth)
    with c' show ?thesis by (auto simp: cmd_evolves_def)
  qed (use c' in auto)
qed (use assms(3) in blast)

text \<open>A run in which the command \<open>ident\<close> is claimed \<open>n\<close> times, anything else in between.\<close>

inductive claim_run :: "string \<Rightarrow> nat \<Rightarrow> farm_db \<Rightarrow> farm_db \<Rightarrow> bool" where
  run_start: "claim_run ident 0 db db"
| run_step: "claim_run ident n db db' \<Longrightarrow> command_step db' db'' \<Longrightarrow> claim_run ident n db db''"
| run_claim: "claim_run ident n db db' \<Longrightarrow> ClaimNext locked hostID tok dur db' = Inr (c, db'') \<Longrightarrow>
    cmd_id c = ident \<Longrightarrow> claim_run ident (Suc n) db db''"

lemma claim_run_steps: "claim_run ident n db db' \<Longrightarrow> command_step\<^sup>*\<^sup>* db db'"
  by (induction rule: claim_run.induct) (auto intro: rtranclp.rtrancl_into_rtrancl step_claim)

lemma ClaimNext_epoch:
  assumes "commands_ok db" and "ClaimNext locked hostID tok dur db = Inr (c, db')"
  shows "command_epoch (cmd_id c) db' = command_epoch (cmd_id c) db + 1"
proof -
  obtain k cs where
    k: "first_by cmd_age (\<lambda>c. claimable hostID c \<and> cmd_id c \<notin> set locked) (commands db) = Some k"
    and u: "update_commands (\<lambda>c. cmd_id c = cmd_id k) (leased_row tok dur db) db = Inr (c # cs, db')"
    by (rule ClaimNext_InrE [OF assms(2)])
  have kin: "k \<in> set (commands db)" using first_by_mem [OF k] .
  have "filter (\<lambda>c. cmd_id c = cmd_id k) (commands db) = [k]"
    using filter_key_single [of cmd_id "commands db" k "\<lambda>_. True"] assms(1) kin
    by (simp add: commands_ok_def)
  with u have c: "c = leased_row tok dur db k" by (auto simp: update_commands_Inr)
  moreover have "c \<in> set (commands db')" using u kin c by (auto simp: update_commands_Inr set_update_where)
  ultimately show ?thesis
    using commands_ok_find [OF assms(1) kin] c
      commands_ok_find [OF command_step_ok [OF step_claim [OF assms(2)] assms(1)], of c]
    by (simp add: command_epoch_def)
qed

lemma claim_run_epoch:
  "claim_run ident n db db' \<Longrightarrow> commands_ok db \<Longrightarrow> command_epoch ident db + int n \<le> command_epoch ident db'"
proof (induction rule: claim_run.induct)
  case (run_step ident n db db' db'')
  then show ?case
    using cq.epoch_mono [OF run_step.hyps(2)] cq.ok_steps [OF claim_run_steps [OF run_step.hyps(1)]]
    by (smt (verit))
next
  case (run_claim ident n db db' locked hostID tok dur c db'')
  then show ?case
    using ClaimNext_epoch [OF cq.ok_steps [OF claim_run_steps [OF run_claim.hyps(1)]] run_claim.hyps(2)]
    by auto
qed simp

section \<open>Properties\<close>

text \<open>A table with one leased command, for the witnesses.\<close>

definition sample_host :: host_row where
  "sample_host = \<lparr>host_id = ''host_0123456789a'', host_name = ''host-a'', host_type = ''docker_emulator'', host_address = None,
     host_os = ''linux'', host_arch = ''amd64'', host_status = HostOnline, host_draining = False, host_capacity = [], host_used_capacity = [],
     host_capabilities = [], host_auto_maintenance = False,
     host_failure_started_at = None, host_last_heartbeat_at = None, host_created_at = 1, host_updated_at = 1\<rparr>"

definition sample_params :: create_command_params where
  "sample_params = \<lparr>ccp_ID = ''cmd_0123456789ab'', ccp_HostID = ''host_0123456789a'',
     ccp_CommandType = ''start'', ccp_Payload = [], ccp_MaxAttempts = 2, ccp_IdempotencyKey = ''key''\<rparr>"

definition sample_queue :: farm_db where
  "sample_queue = \<lparr>devices = [], hosts = [sample_host], pools = [], pool_devices = [], images = [],
     pool_images = [], host_image_states = [], reservations = [],
     sessions = [], operations = [], audits = [], commands = [pending_command sample_params 100],
     health_events = [], catalog = [], preparations = [], jobs = [], db_clock = 100\<rparr>"

lemma sample_queue_ok: "commands_ok sample_queue"
  by (simp add: sample_queue_def sample_params_def commands_ok_def pending_command_def ck_command_def
      identifierPattern_def is_word_byte_def byte_def command_types_def validCommandStatus_def)

lemma sample_claim:
  "ClaimNext [] ''host_0123456789a'' ''token'' (10 * second) sample_queue =
     Inr (leased_row ''token'' (10 * second) sample_queue (pending_command sample_params 100),
          sample_queue\<lparr>commands := [leased_row ''token'' (10 * second) sample_queue
             (pending_command sample_params 100)]\<rparr>)"
  by (simp add: ClaimNext_def sample_queue_def sample_params_def pending_command_def first_by_def
      claimable_def tx_bind_def update_commands_def returning_row_def leased_row_def ck_command_def
      identifierPattern_def is_word_byte_def byte_def command_types_def validCommandStatus_def
      update_where_def Let_def)

definition sample_leased :: farm_db where
  "sample_leased = sample_queue\<lparr>commands := [leased_row ''token'' (10 * second) sample_queue
             (pending_command sample_params 100)]\<rparr>"

lemma sample_leased_ok: "commands_ok sample_leased"
  using command_step_ok [OF step_claim [OF sample_claim] sample_queue_ok]
  by (simp add: sample_leased_def)

lemma sample_complete:
  "\<exists>c db'. Complete ''cmd_0123456789ab'' ''token'' 1 CommandFailed (JObj []) None True sample_leased = Inr (c, db')"
  by (simp add: Complete_def update_returning update_commands_Inr retries_def holds_lease_def
      sample_leased_def sample_queue_def sample_params_def pending_command_def leased_row_def
      ck_command_def identifierPattern_def is_word_byte_def byte_def command_types_def
      validCommandStatus_def second_def millisecond_def Milliseconds_def)

text \<open>
  C6: An attempt is finished at most once.  After a successful \<open>Complete\<close> of attempt \<open>n\<close> of a
  command, whatever happens to the queue, every later \<open>Complete\<close> and \<open>ExtendLease\<close> for that attempt
  is refused with a lease conflict, whichever token it presents; a retry of the command is another
  attempt.
\<close>

theorem attempt_finished_once:
  assumes "commands_ok db" and "Complete ident tok n st res ec retry db = Inr (c, db1)"
    and "command_step\<^sup>*\<^sup>* db1 db2"
  shows "Complete ident tok' n st' res' ec' retry' db2 = Inl RepoErrLeaseConflict \<and>
    ExtendLease ident tok' n dur db2 = Inl RepoErrLeaseConflict"
proof -
  have ok1: "commands_ok db1" using command_step_ok [OF step_complete [OF assms(2)] assms(1)] .
  note fin = Complete_InrD [OF assms(1,2)]
  have "\<not> holds_lease ident tok' n db2 x" if "x \<in> set (commands db2)" for x
  proof
    assume "holds_lease ident tok' n db2 x"
    from holds_lease_held [OF cq.ok_steps [OF assms(3) ok1] that this]
    show False using cq.never_again [OF assms(3) ok1 fin(1)] fin(2) by simp
  qed
  from lease_conflict [OF this] show ?thesis by simp
qed

theorem attempt_finished_once_witness:
  "\<exists>c db1. Complete ''cmd_0123456789ab'' ''token'' 1 CommandFailed (JObj []) None True sample_leased = Inr (c, db1) \<and>
     Complete ''cmd_0123456789ab'' ''token'' 1 CommandSucceeded (JObj []) None False db1 = Inl RepoErrLeaseConflict"
proof -
  obtain c db1 where c: "Complete ''cmd_0123456789ab'' ''token'' 1 CommandFailed (JObj []) None True sample_leased
      = Inr (c, db1)" using sample_complete by blast
  have "Complete ''cmd_0123456789ab'' ''token'' 1 CommandSucceeded (JObj []) None False db1
      = Inl RepoErrLeaseConflict"
    using attempt_finished_once [OF sample_leased_ok c rtranclp.rtrancl_refl] by blast
  with c show ?thesis by blast
qed

text \<open>
  C7: Retries are bounded.  In any run of the queue a command is claimed at most
  \<open>max_attempts - attempts\<close> more times, counting from the state the run starts in.
\<close>

theorem claims_bounded:
  assumes "commands_ok db" and "c \<in> set (commands db)" and "claim_run (cmd_id c) n db db'"
  shows "int n \<le> cmd_max_attempts c - cmd_attempts c"
proof -
  have ok': "commands_ok db'" using cq.ok_steps [OF claim_run_steps [OF assms(3)] assms(1)] .
  obtain c' where c': "c' \<in> set (commands db')" "cmd_id c' = cmd_id c"
    "cmd_max_attempts c' = cmd_max_attempts c"
    using command_row_persists [OF claim_run_steps [OF assms(3)] assms(1,2)] by blast
  have "command_epoch (cmd_id c) db = cmd_attempts c"
    using commands_ok_find [OF assms(1,2)] by (simp add: command_epoch_def)
  moreover have "command_epoch (cmd_id c) db' = cmd_attempts c'"
    using commands_ok_find [OF ok' c'(1,2)] by (simp add: command_epoch_def)
  moreover have "cmd_attempts c' \<le> cmd_max_attempts c'"
    using ok' c'(1) by (auto simp: commands_ok_def list_all_iff ck_command_def)
  ultimately show ?thesis using claim_run_epoch [OF assms(3,1)] c'(3) by simp
qed

theorem claims_bounded_witness:
  "claim_run ''cmd_0123456789ab'' 1 sample_queue sample_leased \<and> int 1 \<le> 2 - 0"
proof -
  have r: "claim_run ''cmd_0123456789ab'' (Suc 0) sample_queue sample_leased"
    unfolding sample_leased_def
    by (rule run_claim [OF run_start sample_claim]) (simp add: pending_command_def sample_params_def)
  have "int (Suc 0) \<le> cmd_max_attempts (pending_command sample_params 100)
      - cmd_attempts (pending_command sample_params 100)"
    by (rule claims_bounded [OF sample_queue_ok, of "pending_command sample_params 100" "Suc 0" sample_leased])
      (use r in \<open>simp_all add: sample_queue_def sample_params_def pending_command_def\<close>)
  with r show ?thesis by (simp add: pending_command_def sample_params_def)
qed

text \<open>
  C8: The queue of a host is first in, first out and never refuses work it has.  When some pending
  command of the host has attempts left, \<open>ClaimNext\<close> succeeds with the oldest of them, leased under
  the caller's token with one more attempt, and no other row changes.
\<close>

theorem claim_oldest:
  assumes "commands_ok db" and "c \<in> set (commands db)" and "claimable hostID c"
  shows "\<exists>k\<in>set (commands db). claimable hostID k \<and>
    (\<forall>x\<in>set (commands db). claimable hostID x \<longrightarrow> cmd_age k \<le> cmd_age x) \<and>
    ClaimNext [] hostID tok dur db =
      Inr (leased_row tok dur db k,
           db\<lparr>commands := map (\<lambda>x. if x = k then leased_row tok dur db k else x) (commands db)\<rparr>)"
proof -
  obtain k where k: "first_by cmd_age (\<lambda>c. claimable hostID c \<and> cmd_id c \<notin> set []) (commands db) = Some k"
    using assms(2,3) by (cases "first_by cmd_age (claimable hostID) (commands db)") auto
  note k' = first_by_SomeD [OF k]
  have flt: "filter (\<lambda>x. cmd_id x = cmd_id k) (commands db) = [k]"
    using filter_key_single [of cmd_id "commands db" k "\<lambda>_. True"] assms(1) k' by (simp add: commands_ok_def)
  have upd: "update_where (\<lambda>x. cmd_id x = cmd_id k) (leased_row tok dur db) (commands db) =
      map (\<lambda>x. if x = k then leased_row tok dur db k else x) (commands db)"
    using assms(1) k' by (auto simp: update_where_def commands_ok_def dest: distinct_map_same)
  have "ck_command (leased_row tok dur db k)"
    using assms(1) k' by (auto simp: commands_ok_def list_all_iff ck_command_def claimable_def
        leased_row_def validCommandStatus_def split: option.splits)
  then have "update_commands (\<lambda>x. cmd_id x = cmd_id k) (leased_row tok dur db) db =
      Inr ([leased_row tok dur db k],
           db\<lparr>commands := map (\<lambda>x. if x = k then leased_row tok dur db k else x) (commands db)\<rparr>)"
    by (simp add: update_commands_def flt upd)
  then have "ClaimNext [] hostID tok dur db =
      Inr (leased_row tok dur db k,
           db\<lparr>commands := map (\<lambda>x. if x = k then leased_row tok dur db k else x) (commands db)\<rparr>)"
    unfolding ClaimNext_def k option.simps
    by (simp add: tx_bind_def returning_row_def)
  with k' show ?thesis by auto
qed

theorem claim_oldest_witness:
  "\<exists>r. ClaimNext [] ''host_0123456789a'' ''token'' second sample_queue = Inr r"
  using claim_oldest [OF sample_queue_ok, of "pending_command sample_params 100" "''host_0123456789a''"
      "''token''" second]
  by (auto simp: sample_queue_def claimable_def pending_command_def sample_params_def)

text \<open>
  C9: At every moment a leased command belongs to exactly one party: its holder can complete it as
  long as the recovery sweep does not consider the lease lapsed, and the sweep finds nothing exactly
  when no lease has lapsed.
\<close>

theorem lease_expiry_exact:
  assumes "commands_ok db" and "c \<in> set (commands db)" and "cmd_status c = CommandLeased"
  shows "((\<exists>r. Complete (cmd_id c) (the (cmd_lease_token c)) (cmd_attempts c) CommandSucceeded res ec False db = Inr r)
      \<longleftrightarrow> \<not> lease_lapsed db c) \<and>
    (RecoverExpiredLease [] db = Inl RepoErrNotFound \<longleftrightarrow> (\<forall>x\<in>set (commands db). \<not> lease_lapsed db x))"
proof
  let ?P = "holds_lease (cmd_id c) (the (cmd_lease_token c)) (cmd_attempts c) db"
  have ck: "ck_command c" using assms(1,2) by (auto simp: commands_ok_def list_all_iff)
  have same: "x = c" if "x \<in> set (commands db)" "?P x" for x
    using that assms(1,2) by (auto simp: commands_ok_def holds_lease_def dest: distinct_map_same)
  have live: "?P c \<longleftrightarrow> \<not> lease_lapsed db c"
    using ck assms(3) by (auto simp: holds_lease_def lease_lapsed_def ck_command_def)
  show "(\<exists>r. Complete (cmd_id c) (the (cmd_lease_token c)) (cmd_attempts c) CommandSucceeded res ec False db = Inr r)
      \<longleftrightarrow> \<not> lease_lapsed db c"
  proof (cases "?P c")
    case True
    then have "filter (\<lambda>x. cmd_id x = cmd_id c \<and> ?P x) (commands db) = [c]"
      using filter_key_single [of cmd_id "commands db" c ?P] assms(1,2) by (simp add: commands_ok_def)
    then have "filter ?P (commands db) = [c]"
      by (smt (verit, best) filter_cong holds_lease_def)
    with True live ck assms(1,2) show ?thesis
      by (auto simp: Complete_def tx_bind_def update_commands_def returning_row_def retries_def ck_command_def
          validCommandStatus_def commands_ok_def list_all_iff split: option.splits)
  next
    case False
    with same have "\<And>x. x \<in> set (commands db) \<Longrightarrow> \<not> ?P x" by blast
    from lease_conflict(1) [OF this] False live show ?thesis by simp
  qed
  show "RecoverExpiredLease [] db = Inl RepoErrNotFound \<longleftrightarrow> (\<forall>x\<in>set (commands db). \<not> lease_lapsed db x)"
  proof (cases "first_by (\<lambda>c. ((case cmd_lease_expires_at c of None \<Rightarrow> 0 | Some e \<Rightarrow> e), cmd_id c))
      (\<lambda>c. lease_lapsed db c \<and> cmd_id c \<notin> set []) (commands db)")
    case None
    from None have "\<forall>x\<in>set (commands db). \<not> lease_lapsed db x" by simp
    then show ?thesis unfolding RecoverExpiredLease_def None option.simps by blast
  next
    case (Some k)
    note k = first_by_SomeD [OF Some]
    then have "filter (\<lambda>x. cmd_id x = cmd_id k) (commands db) \<noteq> []" by (auto simp: filter_empty_conv)
    then have "RecoverExpiredLease [] db \<noteq> Inl RepoErrNotFound"
      unfolding RecoverExpiredLease_def Some option.simps tx_bind_def update_commands_def
      by (auto simp: Let_def returning_row_def split: list.splits)
    with k show ?thesis by auto
  qed
qed

theorem lease_expiry_exact_witness:
  "\<exists>r. Complete ''cmd_0123456789ab'' ''token'' 1 CommandSucceeded (JObj []) None False sample_leased = Inr r"
  using lease_expiry_exact [OF sample_leased_ok, of "hd (commands sample_leased)" "JObj []" None]
  by (simp add: sample_leased_def sample_queue_def sample_params_def pending_command_def leased_row_def
      lease_lapsed_def second_def millisecond_def Milliseconds_def)

end
