(* ===== verification/Farm_System.thy ===== *)
theory Farm_System
  imports Service_Effects Command_Repository
begin

text \<open>
  The interleaving of the transactions.  Every transaction of the scheduler, of the reservation
  service and of the reaper is one step of \<open>farm_step\<close>, with any arguments: the model does not
  assume that a caller passes the rows it has just selected, so a transaction may run on data that
  other transactions have changed meanwhile.  The other components (host commands, warm pool,
  reconciliation, management) take part as the step \<open>step_others\<close> under the condition
  \<open>other_components\<close>: they leave reservations and sessions alone, and they neither remove a
  device that a reservation holds nor take it out of the states that its holder expects.
\<close>

section \<open>Steps\<close>

definition other_components :: "farm_db \<Rightarrow> farm_db \<Rightarrow> bool" where
  "other_components db db' \<longleftrightarrow>
     reservations db' = reservations db \<and> sessions db' = sessions db \<and> db_clock db \<le> db_clock db' \<and>
     distinct (map dev_id (devices db')) \<and> list_all (\<lambda>d. identifierPattern (dev_id d)) (devices db') \<and>
     list_all (\<lambda>r. list_all (\<lambda>d. holds r \<and> rsv_device_id r = Some (dev_id d) \<and>
            held_lifecycle (rsv_status r) (dev_lifecycle d) \<longrightarrow>
          list_ex (\<lambda>d'. dev_id d' = dev_id d \<and> held_lifecycle (rsv_status r) (dev_lifecycle d')) (devices db'))
        (devices db)) (reservations db)"

inductive farm_step :: "farm_db \<Rightarrow> farm_db \<Rightarrow> bool" where
  step_insert: "insert_tx actor target p db = Inr (r, db') \<Longrightarrow> farm_step db db'"
| step_reserve: "reserve_tx lockedR lockedD db = Inr (c, db') \<Longrightarrow> farm_step db db'"
| step_activate: "activate_tx c sid wall db = Inr (a, db') \<Longrightarrow> farm_step db db'"
| step_compensate: "compensateClaim c code terminal db = Inr (u, db') \<Longrightarrow> farm_step db db'"
| step_extend_lease: "extend_tx p ident n db = Inr (r, db') \<Longrightarrow> farm_step db db'"
| step_keep_alive: "KeepAliveTargeted rid owner did lease db = Inr (r, db') \<Longrightarrow> farm_step db db'"
| step_release: "release_tx newID p actor ident q reason force db = Inr (r, db') \<Longrightarrow> farm_step db db'"
| step_expire: "reap_tx newID ident grace db = Inr (r, db') \<Longrightarrow> farm_step db db'"
| step_stale: "fail_stale_tx newID ident timeout grace db = Inr (r, db') \<Longrightarrow> farm_step db db'"
| step_orphan: "fail_orphan_tx newID ident grace db = Inr (r, db') \<Longrightarrow> farm_step db db'"
| step_remote: "remote_tx p actor input rid did m db = Inr (x, db') \<Longrightarrow> farm_step db db'"
| step_clear_remote: "ClearRemoteSession rid mid db = Inr (u, db') \<Longrightarrow> farm_step db db'"
| step_audit: "recordSTFFailure env current actor q a n db = Inr (u, db') \<Longrightarrow> farm_step db db'"
| step_others: "other_components db db' \<Longrightarrow> farm_step db db'"

text \<open>A farm before its first reservation.\<close>

definition farm_start :: "farm_db \<Rightarrow> bool" where
  "farm_start db \<longleftrightarrow>
     reservations db = [] \<and> sessions db = [] \<and> 0 < db_clock db \<and>
     distinct (map dev_id (devices db)) \<and> list_all (\<lambda>d. identifierPattern (dev_id d)) (devices db)"

lemma farm_start_inv: "farm_start db \<Longrightarrow> farm_inv db"
  by (simp add: farm_start_def farm_inv_def rows_ok_def farm_core_def core_def exclusive_def guarded_def
      paired_def distinct_map)

lemma other_components_inv:
  assumes "farm_inv db" and "other_components db db'"
  shows "farm_inv db'"
proof -
  from assms(2) have o: "reservations db' = reservations db" "sessions db' = sessions db"
    "db_clock db \<le> db_clock db'" "distinct (map dev_id (devices db'))"
    "list_all (\<lambda>d. identifierPattern (dev_id d)) (devices db')"
    and dev: "\<And>r d. r \<in> set (reservations db) \<Longrightarrow> d \<in> set (devices db) \<Longrightarrow> holds r \<Longrightarrow>
      rsv_device_id r = Some (dev_id d) \<Longrightarrow> held_lifecycle (rsv_status r) (dev_lifecycle d) \<Longrightarrow>
      \<exists>d'\<in>set (devices db'). dev_id d' = dev_id d \<and> held_lifecycle (rsv_status r) (dev_lifecycle d')"
    by (auto simp: other_components_def list_all_iff list_ex_iff)
  have "rows_ok db'"
    using assms(1) o rsv_ok_mono [OF _ o(3)] ses_ok_mono [OF _ o(3)]
    by (auto simp: farm_inv_def rows_ok_def list_all_iff)
  moreover have "core (set (devices db')) (set (reservations db)) (set (sessions db))"
  proof (rule core_devices)
    show "core (set (devices db)) (set (reservations db)) (set (sessions db))"
      using assms(1) by (simp add: farm_inv_def farm_core_def)
    show "inj_on dev_id (set (devices db'))" using o(4) by (simp add: distinct_map)
    fix r d assume "r \<in> set (reservations db)" "holds r" "d \<in> set (devices db)"
      "rsv_device_id r = Some (dev_id d)" "held_lifecycle (rsv_status r) (dev_lifecycle d)"
    then show "\<exists>d'\<in>set (devices db'). dev_id d' = dev_id d \<and> held_lifecycle (rsv_status r) (dev_lifecycle d')"
      by (intro dev)
  qed
  ultimately show ?thesis by (simp add: farm_inv_def farm_core_def o)
qed

lemma farm_step_inv: "farm_step db db' \<Longrightarrow> farm_inv db \<Longrightarrow> farm_inv db'"
proof (induction rule: farm_step.induct)
  case (step_keep_alive rid owner did lease db r db')
  then show ?case by (blast intro: KeepAliveTargeted_inv)
next
  case (step_clear_remote rid mid db u db')
  then show ?case by (blast intro: ClearRemoteSession_inv)
next
  case (step_audit env current actor q a n db u db')
  then show ?case using same_core_inv recordSTFFailure_same by blast
qed (blast intro: insert_tx_inv reserve_tx_inv activate_tx_inv compensateClaim_inv extend_tx_inv
    release_tx_inv reap_tx_inv fail_stale_tx_inv fail_orphan_tx_inv remote_tx_inv other_components_inv)+

interpretation farm: step_invariant farm_step farm_inv
  by unfold_locales (rule farm_step_inv)

lemma run_inv: "farm_start s \<Longrightarrow> farm_step\<^sup>*\<^sup>* s db \<Longrightarrow> farm_inv db"
  by (rule farm.ok_steps) (auto intro: farm_start_inv)

text \<open>The other components of this development satisfy the condition put on them.\<close>

lemma update_commands_others:
  "update_commands P f db = Inr (cs, db') \<Longrightarrow> rows_ok db \<Longrightarrow> other_components db db'"
  by (auto simp: update_commands_Inr other_components_def rows_ok_def list_all_iff list_ex_iff)

section \<open>A run\<close>

text \<open>
  A request is created, the device reserved, the claim activated, the reservation released.
\<close>

definition farm_request :: create_params where
  "farm_request = \<lparr>cp_ID = ''rsv_0123456789ab'', cp_ClientID = ''service'', cp_PoolID = ''pool_0123456789a'',
     cp_OwnerType = ''test_run'', cp_OwnerID = ''run_0123456789ab'', cp_RequestedCapabilities = [],
     cp_LeaseSeconds = 60, cp_IdempotencyKey = ''key_rsv_0123456789ab''\<rparr>"

definition requested_farm :: farm_db where
  "requested_farm = farm_with [farm_pending ''rsv_0123456789ab'' (1000 * second) []]"

definition sample_claim_of :: claim_candidate where
  "sample_claim_of =
     \<lparr>cc_reservation = (farm_pending ''rsv_0123456789ab'' (1000 * second) [])
        \<lparr>rsv_device_id := Some ''dev_0123456789ab''\<rparr>,
      cc_device = to_assignment farm_device\<rparr>"

definition claimed_farm :: farm_db where
  "claimed_farm = snd (run_tx (reserve_tx [] []) requested_farm)"

definition active_farm :: farm_db where
  "active_farm = snd (run_tx (activate_tx sample_claim_of ''ses_0123456789ab'' 1) claimed_farm)"

lemma committed: "(case fst (run_tx m db) of Inr _ \<Rightarrow> True | Inl _ \<Rightarrow> False) \<Longrightarrow> \<exists>a. m db = Inr (a, snd (run_tx m db))"
  by (cases "m db") (auto simp: run_tx_def)

lemma requested_step: "insert_tx System [] farm_request (farm_with []) = Inr (farm_pending ''rsv_0123456789ab'' (1000 * second) [], requested_farm)"
  by code_simp

lemma claimed_step: "reserve_tx [] [] requested_farm = Inr (sample_claim_of, reserved_farm)"
  by code_simp

lemma claimed_farm_explicit: "claimed_farm = reserved_farm"
  by (simp add: claimed_farm_def run_tx_def claimed_step)

lemma active_step:
  "(case activate_tx sample_claim_of ''ses_0123456789ab'' 1 reserved_farm of
      Inl _ \<Rightarrow> False | Inr (a, db) \<Rightarrow> db = leased_farm (leased_device DeviceBusy HealthHealthy None))"
  by code_simp

lemma active_farm_explicit: "active_farm = leased_farm (leased_device DeviceBusy HealthHealthy None)"
  using active_step by (auto simp: active_farm_def run_tx_def claimed_farm_explicit split: sum.splits)

lemma claimed_eq: "\<exists>c. reserve_tx [] [] requested_farm = Inr (c, claimed_farm)"
  by (simp add: claimed_step claimed_farm_explicit)

lemma active_eq: "\<exists>a. activate_tx sample_claim_of ''ses_0123456789ab'' 1 claimed_farm = Inr (a, active_farm)"
  using active_step by (auto simp: claimed_farm_explicit active_farm_explicit split: sum.splits)

lemma sample_start: "farm_start (farm_with [])"
  by (simp add: farm_start_def second_def farm_rows identifierPattern_def is_word_byte_def byte_def)

lemma requested_reached: "farm_step\<^sup>*\<^sup>* (farm_with []) requested_farm"
  by (rule r_into_rtranclp) (rule step_insert [OF requested_step])

lemma active_reached: "farm_step\<^sup>*\<^sup>* (farm_with []) active_farm"
  using requested_reached claimed_eq active_eq
  by (meson rtranclp.rtrancl_into_rtrancl step_activate step_reserve)

section \<open>Properties\<close>


lemma active_farm_row:
  "(case reservations active_farm of
      [r] \<Rightarrow> holds r \<and> rsv_status r = ReservationActive \<and> rsv_id r = ''rsv_0123456789ab''
    | _ \<Rightarrow> False)"
  by (simp add: active_farm_explicit leased_farm_def holds_def farm_pending_def)

lemma active_farm_single:
  obtains r where "reservations active_farm = [r]" and "holds r" and "rsv_status r = ReservationActive"
    and "rsv_id r = ''rsv_0123456789ab''"
  using active_farm_row by (auto split: list.splits)


text \<open>
  C14.  In every reachable state an active reservation has exactly one session; that session is
  active, runs on the device of the reservation, and the lease has started and not been released.
  No session outlives its reservation: an open session belongs to an active reservation.
\<close>

theorem sessions_match_reservations:
  assumes "farm_start s" and "farm_step\<^sup>*\<^sup>* s db"
  shows "(\<forall>r\<in>set (reservations db). rsv_status r = ReservationActive \<longrightarrow>
            (\<exists>!x. x \<in> set (sessions db) \<and> ses_reservation_id x = rsv_id r) \<and>
            (\<exists>x\<in>set (sessions db). ses_reservation_id x = rsv_id r \<and> ses_status x = SessionActive \<and>
               rsv_device_id r = Some (ses_device_id x)) \<and>
            (\<exists>a e. rsv_starts_at r = Some a \<and> rsv_expires_at r = Some e \<and> a \<le> db_clock db \<and> a < e \<and>
               rsv_released_at r = None)) \<and>
         (\<forall>x\<in>set (sessions db). open_session x \<longrightarrow>
            (\<exists>r\<in>set (reservations db). rsv_id r = ses_reservation_id x \<and> rsv_status r = ReservationActive))"
proof (intro conjI ballI impI)
  have inv: "farm_inv db" by (rule run_inv [OF assms])
  have c: "core (set (devices db)) (set (reservations db)) (set (sessions db))"
    using inv by (simp add: farm_inv_def farm_core_def)
  fix r assume r: "r \<in> set (reservations db)" "rsv_status r = ReservationActive"
  from core_dest(6) [OF c r] obtain x where x: "x \<in> set (sessions db)" "ses_reservation_id x = rsv_id r"
    "ses_status x = SessionActive" "rsv_device_id r = Some (ses_device_id x)" by blast
  then show "\<exists>x\<in>set (sessions db). ses_reservation_id x = rsv_id r \<and> ses_status x = SessionActive \<and>
      rsv_device_id r = Some (ses_device_id x)" by blast
  show "\<exists>!x. x \<in> set (sessions db) \<and> ses_reservation_id x = rsv_id r"
    using x core_dest(3) [OF c] by metis
  have "rsv_ok (db_clock db) r" by (rule rows_okD(6) [OF farm_inv_rows [OF inv] r(1)])
  with r(2) show "\<exists>a e. rsv_starts_at r = Some a \<and> rsv_expires_at r = Some e \<and> a \<le> db_clock db \<and> a < e \<and>
      rsv_released_at r = None"
    by (auto simp: rsv_ok_def ck_reservation_def)
next
  have c: "core (set (devices db)) (set (reservations db)) (set (sessions db))"
    using run_inv [OF assms] by (simp add: farm_inv_def farm_core_def)
  fix x assume "x \<in> set (sessions db)" "open_session x"
  with core_dest(7) [OF c, of x] show "\<exists>r\<in>set (reservations db). rsv_id r = ses_reservation_id x \<and>
      rsv_status r = ReservationActive" by blast
qed

theorem sessions_match_reservations_witness:
  "\<exists>r\<in>set (reservations active_farm). rsv_status r = ReservationActive \<and>
     (\<exists>x\<in>set (sessions active_farm). ses_reservation_id x = rsv_id r \<and> ses_status x = SessionActive)"
proof (rule active_farm_single)
  fix r assume r: "reservations active_farm = [r]" "rsv_status r = ReservationActive"
  then show ?thesis
    using sessions_match_reservations [OF sample_start active_reached] by auto
qed

end
