(* ===== verification/Progress.thy ===== *)
theory Progress
  imports Farm_System
begin

text \<open>
  When the transactions succeed.  Under the invariant the statements of an activation and of a close
  cannot fail on a constraint, so what remains are the tests the code makes itself; the theorems say
  that a transaction whose tests hold commits, and in which state it leaves the rows.
\<close>

section \<open>Statements that cannot fail\<close>

lemma update_devices_ok:
  assumes "rows_ok db" and "d \<in> set (devices db)" and "P d" and "\<And>x. P x \<Longrightarrow> dev_id x = dev_id d"
  shows "update_devices P f db = Inr (1, db\<lparr>devices := update_where P f (devices db)\<rparr>)"
  using filter_update_single [of dev_id "devices db" d P, OF rows_okD(2) [OF assms(1)] assms(2-4)] by simp

lemma uq_exclusive:
  assumes "distinct (map rsv_id rs)" and "exclusive (set rs)" and "list_all ck_reservation rs"
  shows "uq_active_device rs"
proof -
  have "inj_on rsv_device_id (set (filter (\<lambda>r. rsv_status r = ReservationActive) rs))"
  proof (rule inj_onI)
    fix x y
    assume "x \<in> set (filter (\<lambda>r. rsv_status r = ReservationActive) rs)"
      "y \<in> set (filter (\<lambda>r. rsv_status r = ReservationActive) rs)" and eq: "rsv_device_id x = rsv_device_id y"
    then have "x \<in> set rs" "y \<in> set rs" "holds x" "holds y"
      using assms(3) by (auto simp: holds_def list_all_iff ck_reservation_def)
    with assms(2) eq show "x = y" unfolding exclusive_def by blast
  qed
  moreover have "distinct rs" using assms(1) by (simp add: distinct_map)
  ultimately show ?thesis by (simp add: uq_active_device_def distinct_map)
qed

lemma update_reservations_ok:
  assumes "rows_ok db" and "r \<in> set (reservations db)" and "P r" and "\<And>x. P x \<Longrightarrow> rsv_id x = rsv_id r"
    and "\<And>x. rsv_id (f x) = rsv_id x" and "ck_reservation (f r)"
    and "exclusive (insert (f r) (set (reservations db) - {r}))"
  shows "update_reservations P f db = Inr ([f r], db\<lparr>reservations := update_where P f (reservations db)\<rparr>)"
proof -
  have one: "filter P (reservations db) = [r]"
    by (rule filter_update_single [of rsv_id "reservations db" r P, OF rows_okD(3) [OF assms(1)] assms(2-4)])
  have s: "set (update_where P f (reservations db)) = insert (f r) (set (reservations db) - {r})"
    by (rule set_update_single [of rsv_id "reservations db" r P f, OF rows_okD(3) [OF assms(1)] assms(2-4)])
  have "uq_active_device (update_where P f (reservations db))"
  proof (rule uq_exclusive)
    show "distinct (map rsv_id (update_where P f (reservations db)))"
      using rows_okD(3) [OF assms(1)] assms(5) by (simp add: map_update_where)
    show "exclusive (set (update_where P f (reservations db)))" using assms(7) s by simp
    show "list_all ck_reservation (update_where P f (reservations db))"
      using assms(1,6) s by (auto simp: rows_ok_def list_all_iff rsv_ok_def)
  qed
  with one assms(6) show ?thesis by (simp add: update_reservations_Inr)
qed

lemma update_sessions_ok:
  assumes "rows_ok db" and "s \<in> set (sessions db)" and "P s"
    and "\<And>x. P x \<Longrightarrow> ses_reservation_id x = ses_reservation_id s" and "ck_session (f s)"
  shows "update_sessions P f db = Inr ([f s], db\<lparr>sessions := update_where P f (sessions db)\<rparr>)"
  using filter_update_single [of ses_reservation_id "sessions db" s P, OF rows_okD(4) [OF assms(1)] assms(2-4)]
    assms(5) by (simp add: update_sessions_Inr)

lemma find_by_id:
  assumes "rows_ok db"
  shows "d \<in> set (devices db) \<Longrightarrow> LockDevice (dev_id d) db = Inr (to_assignment d)"
    and "r \<in> set (reservations db) \<Longrightarrow> LockByID (rsv_id r) db = Inr r"
    and "s \<in> set (sessions db) \<Longrightarrow> LockSession (ses_reservation_id s) db = Inr s"
  using find_row_unique [of dev_id "devices db" d] find_row_unique [of rsv_id "reservations db" r]
    find_row_unique [of ses_reservation_id "sessions db" s] rows_okD(2-4) [OF assms]
  by (simp_all add: LockDevice_def LockByID_def LockSession_def)

section \<open>Activation\<close>

lemma ActivateClaimed_ok:
  assumes inv: "farm_inv db" and d: "d \<in> set (devices db)" "dev_id d = da_ID dev" "dev_lifecycle d = DeviceReserved"
    and r: "r \<in> set (reservations db)" "rsv_id r = rsv_id res" "rsv_status r = ReservationPending"
      "rsv_device_id r = Some (da_ID dev)"
    and s: "identifierPattern sid" "\<And>x. x \<in> set (sessions db) \<Longrightarrow> ses_id x \<noteq> sid"
  shows "\<exists>a db'. ActivateClaimed res dev sid db = Inr (a, db')"
proof -
  let ?P = "\<lambda>d. dev_id d = da_ID dev \<and> dev_lifecycle d = DeviceReserved"
  let ?f = "\<lambda>d. d\<lparr>dev_lifecycle := DeviceBusy, dev_updated_at := db_clock db\<rparr>"
  let ?Q = "\<lambda>r. rsv_id r = rsv_id res \<and> rsv_status r = ReservationPending \<and> rsv_device_id r = Some (da_ID dev)"
  let ?g = "\<lambda>r. r\<lparr>rsv_device_id := Some (da_ID dev), rsv_status := ReservationActive,
       rsv_starts_at := Some (db_clock db),
       rsv_expires_at := Some (db_clock db + rsv_lease_seconds r * second), rsv_updated_at := db_clock db\<rparr>"
  let ?s = "started_session sid (rsv_id res) dev (db_clock db)"
  let ?db1 = "db\<lparr>devices := update_where ?P ?f (devices db)\<rparr>"
  have rows: "rows_ok db" by (rule farm_inv_rows [OF inv])
  have c: "core (set (devices db)) (set (reservations db)) (set (sessions db))"
    using inv by (simp add: farm_inv_def farm_core_def)
  have u1: "update_devices ?P ?f db = Inr (1, ?db1)"
    by (rule update_devices_ok [OF rows d(1)]) (use d in auto)
  have rows1: "rows_ok ?db1" by (rule update_devices_rows [OF rows u1]) simp
  have ok: "rsv_ok (db_clock db) r" by (rule rows_okD(6) [OF rows r(1)])
  have lease: "60 \<le> rsv_lease_seconds r" using ok by (simp add: rsv_ok_def ck_reservation_def)
  have ck: "ck_reservation (?g r)"
    using ok r(3) lease by (auto simp: rsv_ok_def ck_reservation_def validReservationStatus_def second_def)
  have hr: "holds r" using r by (simp add: holds_def)
  have "exclusive (insert (?g r) (set (reservations db) - {r}))"
    by (rule exclusive_hold) (use c core_dest(4) [OF c _ r(1) _ hr] r(4) in \<open>auto simp: core_def\<close>)
  then have u2: "update_reservations ?Q ?g ?db1 =
      Inr ([?g r], ?db1\<lparr>reservations := update_where ?Q ?g (reservations ?db1)\<rparr>)"
    by (intro update_reservations_ok [OF rows1]) (use r ck in auto)
  have fresh: "ses_reservation_id x \<noteq> rsv_id res" if x: "x \<in> set (sessions db)" for x
  proof
    assume "ses_reservation_id x = rsv_id res"
    with core_dest(7) [OF c x] r(2) obtain q where "q \<in> set (reservations db)" "rsv_id q = rsv_id r"
      "rsv_status q \<noteq> ReservationPending" by auto
    with core_dest(2) [OF c, of q r] r(1,3) show False by simp
  qed
  have "ck_session ?s" using s(1) by (simp add: ck_session_def started_session_def validSessionStatus_def)
  then have "insert_session ?s (?db1\<lparr>reservations := update_where ?Q ?g (reservations ?db1)\<rparr>) =
      Inr (?s, ?db1\<lparr>reservations := update_where ?Q ?g (reservations ?db1), sessions := sessions db @ [?s]\<rparr>)"
    unfolding insert_session_Inr using fresh s(2) by (auto simp: started_session_def)
  then show ?thesis
    unfolding ActivateClaimed_def Let_def one_device
    using u1 u2 by (auto simp: tx_bind_def tx_return_def returning_row_def)
qed

lemma check_transition_ok:
  assumes "restored = Inr m" and "sm_valid m to" and "TrimSpace reason \<noteq> []" and "at \<noteq> 0"
    and "allows (sm_transitions m) (sm_status m) to"
  obtains m' where "check_transition restored to reason at = Inr m'" and "sm_status m' = to"
    and "sm_valid m' = sm_valid m" and "sm_transitions m' = sm_transitions m"
proof -
  have "fst (transition to reason at m) = None" using assms(2-5) by (simp add: transition_ok_iff)
  then obtain m' where m': "transition to reason at m = (None, m')" by (metis prod.collapse)
  then have "check_transition restored to reason at = Inr m'" using assms(1) by (simp add: check_transition_Inr)
  moreover have "sm_status m' = to" using transition_status [of to reason at m] m' by simp
  moreover have "sm_valid m' = sm_valid m" "sm_transitions m' = sm_transitions m"
    using transition_frame [of to reason at m] m' by simp_all
  ultimately show ?thesis by (rule that)
qed

lemma check_device_ok:
  assumes "identifierPattern ident" and "validDeviceLifecycleStatus l" and "validHealthStatus h"
    and "to \<noteq> DeviceReady" and "TrimSpace reason \<noteq> []" and "at \<noteq> 0" and "allows deviceTransitions l to"
  shows "\<exists>v. check_device ident l h to reason at = Inr v"
proof -
  obtain v where v: "RestoreDevice ident l h = Inr v" using assms(1-3) by (simp add: RestoreDevice_Inr)
  from RestoreDevice_wf [OF v] have w: "device_wf v" "Lifecycle v = l" "Health v = h" by simp_all
  have "fst (Device_Transition to reason at v) = None"
    using Device_Transition_ok [OF w(1)] assms(4-7) w(2) by simp
  then show ?thesis using v by (cases "Device_Transition to reason at v") (auto simp: check_device_def lift_domain_def)
qed

lemma LockPoolPolicyForHost_active: "LockPoolPolicyForHost h d db = Inr p \<Longrightarrow> pp_Status p = PoolActive"
  by (auto simp: LockPoolPolicyForHost_def Let_def pool_policy_of_def split: option.splits dest: first_by_sat)

lemma activation_reasons:
  "TrimSpace ''device allocation claim succeeded'' \<noteq> []"
  "TrimSpace ''device session started after allocation claim'' \<noteq> []"
  "TrimSpace ''scheduler started session'' \<noteq> []"
  by code_simp+

lemma activate_tx_ok:
  assumes inv: "farm_inv db" and r: "r \<in> set (reservations db)" "rsv_status r = ReservationPending"
      "rsv_device_id r = Some (dev_id d)"
    and d: "d \<in> set (devices db)" "dev_lifecycle d = DeviceReserved" "validHealthStatus (dev_health d)"
    and c: "rsv_id (cc_reservation c) = rsv_id r" "da_ID (cc_device c) = dev_id d"
    and p: "LockPoolPolicyForHost (da_HostID (cc_device c)) (dev_id d) db = Inr p"
      "pp_ActiveReservations p < pp_MaxConcurrency p"
    and s: "identifierPattern sid" "\<And>x. x \<in> set (sessions db) \<Longrightarrow> ses_id x \<noteq> sid" and w: "wall \<noteq> 0"
  shows "\<exists>a db'. activate_tx c sid wall db = Inr (a, db') \<and> ActivateClaimed r (to_assignment d) sid db = Inr (a, db')"
proof -
  have rows: "rows_ok db" by (rule farm_inv_rows [OF inv])
  obtain a db' where act: "ActivateClaimed r (to_assignment d) sid db = Inr (a, db')"
    using ActivateClaimed_ok [OF inv d(1) _ d(2) r(1) refl r(2) _ s] r(3) by (force simp: to_assignment_def)
  have ids: "identifierPattern (rsv_id r)" "identifierPattern (dev_id d)"
    using rows_okD(5,6) [OF rows] d(1) r(1) by (auto simp: rsv_ok_def ck_reservation_def)
  have "\<exists>m. check_transition (RestoreReservation (rsv_id r) (rsv_status r)) ReservationActive
      ''device allocation claim succeeded'' wall = Inr m"
    by (rule check_transition_ok [OF _ _ activation_reasons(1) w])
      (use ids r(2) in \<open>auto simp: RestoreReservation_def newStateMachine_def validReservationStatus_def allows_def\<close>)
  moreover have "\<exists>v. check_device (dev_id d) (dev_lifecycle d) (dev_health d) DeviceBusy
      ''device session started after allocation claim'' wall = Inr v"
    by (rule check_device_ok [OF ids(2)])
      (use d w activation_reasons(2) in \<open>simp_all add: validDeviceLifecycleStatus_def allows_def\<close>)
  moreover have "\<exists>m. check_transition (NewSession sid) SessionActive ''scheduler started session'' wall = Inr m"
    by (rule check_transition_ok [OF _ _ activation_reasons(3) w])
      (use s in \<open>auto simp: NewSession_def RestoreSession_def newStateMachine_def validSessionStatus_def allows_def\<close>)
  moreover have "LockByID (rsv_id r) db = Inr r" "LockDevice (dev_id d) db = Inr (to_assignment d)"
    using find_by_id [OF rows] r(1) d(1) by simp_all
  ultimately have "activate_tx c sid wall db = Inr (a, db')"
    using act r(2,3) c p LockPoolPolicyForHost_active [OF p(1)]
    by (auto simp: activate_tx_def to_assignment_def)
  with act show ?thesis by blast
qed

text \<open>
  C15.  In a reachable state a claimed reservation whose device is still reserved is always activated
  when the host has room: neither the unique index on active devices, nor the unique session per
  reservation, nor a CHECK constraint can fail.  Afterwards the reservation is active for its full
  lease counted from the database clock, the device is busy and a session on it is open.
\<close>

theorem activation_succeeds:
  assumes "farm_start s" and "farm_step\<^sup>*\<^sup>* s db"
    and "r \<in> set (reservations db)" and "rsv_status r = ReservationPending" and "rsv_device_id r = Some (dev_id d)"
    and "d \<in> set (devices db)" and "dev_lifecycle d = DeviceReserved" and "validHealthStatus (dev_health d)"
    and "rsv_id (cc_reservation c) = rsv_id r" and "da_ID (cc_device c) = dev_id d"
    and "LockPoolPolicyForHost (da_HostID (cc_device c)) (dev_id d) db = Inr p"
    and "pp_ActiveReservations p < pp_MaxConcurrency p"
    and "identifierPattern sid" and "sid \<notin> ses_id ` set (sessions db)" and "wall \<noteq> 0"
  shows "\<exists>a x d' db'. activate_tx c sid wall db = Inr ((a, x), db') \<and>
     a \<in> set (reservations db') \<and> rsv_id a = rsv_id r \<and> rsv_status a = ReservationActive \<and>
     rsv_device_id a = Some (dev_id d) \<and>
     rsv_expires_at a = Some (db_clock db + rsv_lease_seconds r * second) \<and>
     x \<in> set (sessions db') \<and> ses_id x = sid \<and> ses_status x = SessionActive \<and>
     d' \<in> set (devices db') \<and> dev_id d' = dev_id d \<and> dev_lifecycle d' = DeviceBusy"
proof -
  have inv: "farm_inv db" by (rule run_inv [OF assms(1,2)])
  have fresh: "ses_id x \<noteq> sid" if "x \<in> set (sessions db)" for x using assms(14) that by auto
  obtain a x db' where tx: "activate_tx c sid wall db = Inr ((a, x), db')"
    and act: "ActivateClaimed r (to_assignment d) sid db = Inr ((a, x), db')"
    using activate_tx_ok [OF inv assms(3-13) fresh assms(15)] by (metis surj_pair)
  have did: "da_ID (to_assignment d) = dev_id d" by (simp add: to_assignment_def)
  obtain d0 d' r0 where e: "d0 \<in> set (devices db)" "dev_id d0 = dev_id d"
    "d' = d0\<lparr>dev_lifecycle := DeviceBusy, dev_updated_at := db_clock db\<rparr>"
    "r0 \<in> set (reservations db)" "rsv_id r0 = rsv_id r"
    "a = r0\<lparr>rsv_device_id := Some (dev_id d), rsv_status := ReservationActive,
       rsv_starts_at := Some (db_clock db),
       rsv_expires_at := Some (db_clock db + rsv_lease_seconds r0 * second), rsv_updated_at := db_clock db\<rparr>"
    "x = started_session sid (rsv_id r) (to_assignment d) (db_clock db)"
    "set (devices db') = insert d' (set (devices db) - {d0})"
    "set (reservations db') = insert a (set (reservations db) - {r0})"
    "set (sessions db') = insert x (set (sessions db))"
    by (rule ActivateClaimed_effect [OF farm_inv_rows [OF inv] act, unfolded did]) (rule that)
  have "r0 = r"
    by (rule distinct_map_same [OF rows_okD(3) [OF farm_inv_rows [OF inv]] e(4) assms(3) e(5)])
  moreover have "d' \<in> set (devices db')" "a \<in> set (reservations db')" "x \<in> set (sessions db')"
    using e(8-10) by blast+
  ultimately show ?thesis
    using tx e(2,3,5-7) by (intro exI [of _ a] exI [of _ x] exI [of _ d'] exI [of _ db'])
      (simp add: started_session_def)
qed

lemma claimed_farm_eq:
  "claimed_farm =
     (farm_with [(farm_pending ''rsv_0123456789ab'' (1000 * second) [])\<lparr>rsv_device_id := Some ''dev_0123456789ab''\<rparr>])
       \<lparr>devices := [farm_device\<lparr>dev_lifecycle := DeviceReserved, dev_updated_at := 1000 * second\<rparr>]\<rparr>"
  by (simp add: claimed_farm_explicit reserved_farm_def)

lemma claimed_reached: "farm_step\<^sup>*\<^sup>* (farm_with []) claimed_farm"
  using requested_reached claimed_eq by (meson rtranclp.rtrancl_into_rtrancl step_reserve)

lemma claimed_policy:
  "(case LockPoolPolicyForHost ''host_0123456789a'' ''dev_0123456789ab'' claimed_farm of
      Inr p \<Rightarrow> pp_ActiveReservations p < pp_MaxConcurrency p | Inl _ \<Rightarrow> False)"
  unfolding claimed_farm_explicit by code_simp

theorem activation_succeeds_witness:
  "\<exists>a x db'. activate_tx sample_claim_of ''ses_0123456789ab'' 1 claimed_farm = Inr ((a, x), db') \<and>
     rsv_status a = ReservationActive \<and> ses_id x = ''ses_0123456789ab''"
proof -
  obtain p where p: "LockPoolPolicyForHost ''host_0123456789a'' ''dev_0123456789ab'' claimed_farm = Inr p"
    "pp_ActiveReservations p < pp_MaxConcurrency p"
    using claimed_policy by (auto split: sum.splits)
  let ?r = "(farm_pending ''rsv_0123456789ab'' (1000 * second) [])\<lparr>rsv_device_id := Some ''dev_0123456789ab''\<rparr>"
  let ?d = "farm_device\<lparr>dev_lifecycle := DeviceReserved, dev_updated_at := 1000 * second\<rparr>"
  have "da_HostID (cc_device sample_claim_of) = ''host_0123456789a''" "dev_id ?d = ''dev_0123456789ab''"
    by (simp_all add: sample_claim_of_def to_assignment_def farm_device_def)
  with p have "LockPoolPolicyForHost (da_HostID (cc_device sample_claim_of)) (dev_id ?d) claimed_farm = Inr p" by simp
  from activation_succeeds [OF sample_start claimed_reached, of ?r ?d sample_claim_of p "''ses_0123456789ab''" 1, OF _ _ _ _ _ _ _ _ this]
  show ?thesis using p(2)
    by (force simp: claimed_farm_eq farm_pending_def farm_device_def sample_claim_of_def to_assignment_def
        validHealthStatus_def identifierPattern_def is_word_byte_def byte_def)
qed

section \<open>Closing\<close>

lemma CloseActive_ok:
  assumes inv: "farm_inv db" and r: "r \<in> set (reservations db)" "rsv_status r = ReservationActive"
    and d: "d \<in> set (devices db)" "dev_lifecycle d \<in> set closable_lifecycles"
    and fin: "terminal \<in> {ReservationReleased, ReservationForceReleased, ReservationExpired}"
  shows "\<exists>closed db'. CloseActive (rsv_id r) (dev_id d) terminal recycle target (db_clock db) db = Inr (closed, db')"
proof -
  let ?t = "db_clock db"
  let ?P1 = "\<lambda>s. ses_reservation_id s = rsv_id r \<and> ses_status s = SessionActive"
  let ?f1 = "\<lambda>s. s\<lparr>ses_status := SessionClosing, ses_updated_at := ?t\<rparr>"
  let ?P2 = "\<lambda>s. ses_reservation_id s = rsv_id r \<and> ses_status s = SessionClosing"
  let ?f2 = "\<lambda>s. s\<lparr>ses_status := SessionClosed, ses_ended_at := Some ?t, ses_updated_at := ?t\<rparr>"
  let ?P = "\<lambda>x. dev_id x = dev_id d \<and> dev_lifecycle x \<in> set closable_lifecycles"
  let ?f = "\<lambda>x. x\<lparr>dev_lifecycle := close_lifecycle recycle target (dev_lifecycle x),
            dev_lifecycle_mode := (if recycle then ''rebuild'' else dev_lifecycle_mode x),
            dev_updated_at := ?t\<rparr>"
  let ?Q = "\<lambda>x. rsv_id x = rsv_id r \<and> rsv_status x = ReservationActive"
  let ?g = "\<lambda>x. x\<lparr>rsv_status := terminal, rsv_released_at := Some ?t, rsv_updated_at := ?t\<rparr>"
  have rows: "rows_ok db" by (rule farm_inv_rows [OF inv])
  have c: "core (set (devices db)) (set (reservations db)) (set (sessions db))"
    using inv by (simp add: farm_inv_def farm_core_def)
  from core_dest(6) [OF c r] obtain s where s: "s \<in> set (sessions db)" "?P1 s" by blast
  have sok: "ses_ok ?t s" by (rule rows_okD(7) [OF rows s(1)])
  have ck1: "ck_session (?f1 s)" and ck2: "ck_session (?f2 (?f1 s))"
    using sok s(2) by (auto simp: ses_ok_def ck_session_def validSessionStatus_def split: option.splits)
  let ?db1 = "db\<lparr>sessions := update_where ?P1 ?f1 (sessions db)\<rparr>"
  let ?db2 = "?db1\<lparr>sessions := update_where ?P2 ?f2 (sessions ?db1)\<rparr>"
  have u1: "update_sessions ?P1 ?f1 db = Inr ([?f1 s], ?db1)"
    by (rule update_sessions_ok [OF rows s(1)]) (use s(2) ck1 in auto)
  have rows1: "rows_ok ?db1" by (rule update_sessions_keep [OF rows u1]) (simp_all add: ses_ok_def)
  have "set (sessions ?db1) = insert (?f1 s) (set (sessions db) - {s})"
    by (rule update_session_one [of db ?P1 ?f1 "[?f1 s]" ?db1 s, OF rows u1 s(1)]) (use s(2) in simp_all)
  then have s1: "?f1 s \<in> set (sessions ?db1)" by blast
  have u2: "update_sessions ?P2 ?f2 ?db1 = Inr ([?f2 (?f1 s)], ?db2)"
    by (rule update_sessions_ok [OF rows1 s1]) (use s(2) ck2 in auto)
  have rows2: "rows_ok ?db2" by (rule update_sessions_keep [OF rows1 u2]) (simp_all add: ses_ok_def)
  let ?db3 = "?db2\<lparr>devices := update_where ?P ?f (devices ?db2)\<rparr>"
  have u3: "update_devices ?P ?f ?db2 = Inr (1, ?db3)"
    by (rule update_devices_ok [OF rows2, of d]) (use d in simp_all)
  have rows3: "rows_ok ?db3" by (rule update_devices_rows [OF rows2 u3]) simp
  have ok: "rsv_ok ?t r" by (rule rows_okD(6) [OF rows r(1)])
  have ck: "ck_reservation (?g r)"
    using ok r(2) fin
    by (auto simp: rsv_ok_def ck_reservation_def validReservationStatus_def not_after_def split: option.splits)
  have "exclusive (insert (?g r) (set (reservations db) - {r}))"
    by (rule exclusive_drop) (use c fin in \<open>auto simp: core_def holds_def\<close>)
  then have "update_reservations ?Q ?g ?db3 = Inr ([?g r], ?db3\<lparr>reservations := update_where ?Q ?g (reservations ?db3)\<rparr>)"
    by (intro update_reservations_ok [OF rows3]) (use r ck in auto)
  then show ?thesis
    unfolding CloseActive_def one_row using u1 u2 u3 by blast
qed

lemma release_target_allowed:
  assumes "device_wf v" and "Lifecycle v \<in> {DeviceBusy, DeviceQuarantined}" and "at \<noteq> 0"
    and "Lifecycle v \<noteq> DeviceQuarantined"
  shows "fst (Device_Transition (fst (release_target b v)) (snd (release_target b v)) at v) = None"
proof -
  have "TrimSpace (snd (release_target b v)) \<noteq> []"
  proof -
    have "TrimSpace ''reservation released; unhealthy device quarantined'' \<noteq> []"
      "TrimSpace ''reservation released; pool requires a fresh VM for the next run'' \<noteq> []"
      "TrimSpace ''reservation released; device data retained'' \<noteq> []" by code_simp+
    then show ?thesis by (simp add: release_target_def)
  qed
  then show ?thesis
    using assms by (auto simp: Device_Transition_ok release_target_def allows_def)
qed

lemma close_ok:
  assumes inv: "farm_inv db" and r: "r \<in> set (reservations db)" "rsv_status r = ReservationActive"
      "rsv_device_id r = Some (dev_id d)"
    and d: "d \<in> set (devices db)" "dev_lifecycle d \<in> {DeviceBusy, DeviceQuarantined}" "validHealthStatus (dev_health d)"
    and fin: "terminal \<in> {ReservationReleased, ReservationForceReleased, ReservationExpired}"
    and audit: "identifierPattern aid" "aid \<notin> aud_id ` set (audits db)"
      "ac_Type actor \<in> {''service'', ''agent'', ''system'', ''console''}"
    and reason: "TrimSpace reason \<noteq> []"
  shows "\<exists>closed db'. closeActiveLocked (Inr aid) r terminal actor action q reason db = Inr (closed, db')"
proof -
  have rows: "rows_ok db" by (rule farm_inv_rows [OF inv])
  have now: "db_clock db \<noteq> 0" using rows_okD(1) [OF rows] by simp
  have c: "core (set (devices db)) (set (reservations db)) (set (sessions db))"
    using inv by (simp add: farm_inv_def farm_core_def)
  from core_dest(6) [OF c r(1,2)] obtain s where s: "s \<in> set (sessions db)" "ses_reservation_id s = rsv_id r"
    "ses_status s = SessionActive" by blast
  have ids: "identifierPattern (rsv_id r)" "identifierPattern (dev_id d)" "identifierPattern (ses_id s)"
    using rows_okD(5-7) [OF rows] d(1) r(1) s(1)
    by (auto simp: rsv_ok_def ck_reservation_def ses_ok_def ck_session_def)
  have t1: "\<exists>m. check_transition (RestoreReservation (rsv_id r) (rsv_status r)) terminal reason (db_clock db) = Inr m"
    by (rule check_transition_ok [where to = terminal, OF _ _ reason now])
      (use ids r(2) fin in \<open>auto simp: RestoreReservation_def newStateMachine_def validReservationStatus_def allows_def\<close>)
  obtain m1 where m1: "RestoreSession (ses_id s) (ses_status s) = Inr m1" "sm_status m1 = SessionActive"
    "sm_valid m1 = validSessionStatus" "sm_transitions m1 = sessionTransitions"
    using ids(3) s(3) by (auto simp: RestoreSession_def newStateMachine_def validSessionStatus_def)
  obtain m2 where m2: "check_transition (RestoreSession (ses_id s) (ses_status s)) SessionClosing reason (db_clock db) = Inr m2"
    "sm_status m2 = SessionClosing" "sm_valid m2 = validSessionStatus" "sm_transitions m2 = sessionTransitions"
    by (rule check_transition_ok [OF m1(1) _ reason now, of SessionClosing])
      (use m1 in \<open>auto simp: validSessionStatus_def allows_def\<close>)
  have t2: "\<exists>m. check_transition (check_transition (RestoreSession (ses_id s) (ses_status s)) SessionClosing reason
      (db_clock db)) SessionClosed reason (db_clock db) = Inr m"
    by (rule check_transition_ok [OF m2(1) _ reason now]) (use m2 in \<open>auto simp: validSessionStatus_def allows_def\<close>)
  obtain v where v: "RestoreDevice (dev_id d) (dev_lifecycle d) (dev_health d) = Inr v"
    using ids(2) d(2,3) by (auto simp: RestoreDevice_Inr validDeviceLifecycleStatus_def)
  from RestoreDevice_wf [OF v] have w: "device_wf v" "Lifecycle v = dev_lifecycle d" by simp_all
  obtain policy where pol: "release_policy (dev_host_id d) (dev_id d) db = Inr (policy, db)"
  proof (cases "LoadPoolPolicyForRelease (dev_host_id d) (dev_id d) db")
    case (Inl e)
    then have "e = RepoErrNotFound" by (auto simp: LoadPoolPolicyForRelease_def Let_def split: option.splits)
    with Inl that show ?thesis by (simp add: release_policy_def)
  next
    case (Inr p)
    with that show ?thesis by (simp add: release_policy_def)
  qed
  let ?recycle = "wants_recycle policy (to_assignment d) v"
  have closable: "dev_lifecycle d \<in> set closable_lifecycles" using d(2) by (auto simp: closable_lifecycles_def)
  obtain closed db1 where ca: "CloseActive (rsv_id r) (dev_id d) terminal ?recycle
      (fst (release_target ?recycle v)) (db_clock db) db = Inr (closed, db1)"
    using CloseActive_ok [OF inv r(1,2) d(1) closable fin] by blast
  have "audits db1 = audits db"
    using ca unfolding CloseActive_def one_row
    by (auto simp: update_sessions_Inr update_reservations_Inr)
  then have au: "\<exists>db2. InsertAudit aid (ac_Type actor) (ac_ID actor) action (rsv_id r) q reason db1 = Inr ((), db2)"
    using audit by (auto simp: InsertAudit_def ck_audit_def Let_def)
  have trans: "Lifecycle v \<noteq> DeviceQuarantined \<Longrightarrow>
      fst (Device_Transition (fst (release_target ?recycle v)) (snd (release_target ?recycle v)) (db_clock db) v) = None"
    by (rule release_target_allowed [OF w(1) _ now]) (use w(2) d(2) in auto)
  have asg: "da_ID (to_assignment d) = dev_id d" "da_HostID (to_assignment d) = dev_host_id d"
    "da_Lifecycle (to_assignment d) = dev_lifecycle d" "da_Health (to_assignment d) = dev_health d"
    by (simp_all add: to_assignment_def)
  have found: "LockSession (rsv_id r) db = Inr s" "LockDevice (dev_id d) db = Inr (to_assignment d)"
    using find_by_id [OF rows] s(1,2) d(1) by metis+
  have pass: "(if Lifecycle v \<noteq> DeviceQuarantined \<and> Lifecycle v \<noteq> fst (release_target ?recycle v)
      then (case Device_Transition (fst (release_target ?recycle v)) (snd (release_target ?recycle v)) (db_clock db) v of
              (Some e, _) \<Rightarrow> Inl (DomainErr e) | (None, _) \<Rightarrow> Inr ())
      else Inr ()) = Inr ()"
    by (cases "Lifecycle v = DeviceQuarantined") (use trans in \<open>auto split: prod.splits option.splits\<close>)
  from t1 t2 au obtain x y db2 where
    "check_transition (RestoreReservation (rsv_id r) (rsv_status r)) terminal reason (db_clock db) = Inr x"
    "check_transition (check_transition (RestoreSession (ses_id s) (ses_status s)) SessionClosing reason
      (db_clock db)) SessionClosed reason (db_clock db) = Inr y"
    "InsertAudit aid (ac_Type actor) (ac_ID actor) action (rsv_id r) q reason db1 = Inr ((), db2)" by blast
  then have "closeActiveLocked (Inr aid) r terminal actor action q reason db = Inr (closed, db2)"
    using found pol v ca pass
    by (simp add: closeActiveLocked_def r(3) ClockNow_def asg tx_bind_def tx_read_def tx_lift_def tx_return_def
        lift_domain_def Let_def)
  then show ?thesis by blast
qed

text \<open>What a close leaves behind, on the device of the reservation.\<close>

lemma close_result:
  assumes inv: "farm_inv db" and r: "r \<in> set (reservations db)"
    and d: "d \<in> set (devices db)" "rsv_device_id r = Some (dev_id d)"
    and fin: "terminal \<in> {ReservationReleased, ReservationForceReleased, ReservationExpired}"
    and st: "closeActiveLocked newID r terminal actor action q reason db = Inr (closed, db')"
  obtains recycle d' x where
    "closed = r\<lparr>rsv_status := terminal, rsv_released_at := Some (db_clock db), rsv_updated_at := db_clock db\<rparr>"
    "closed \<in> set (reservations db')"
    "d' \<in> set (devices db')" "dev_id d' = dev_id d"
    "dev_lifecycle d' = (if dev_lifecycle d = DeviceQuarantined \<or> dev_health d \<noteq> HealthHealthy then DeviceQuarantined
       else if recycle then DeviceRecycling else DeviceReady)"
    "x \<in> set (sessions db')" "ses_reservation_id x = rsv_id r" "ses_status x = SessionClosed"
    "ses_ended_at x = Some (db_clock db)"
proof -
  have rows: "rows_ok db" by (rule farm_inv_rows [OF inv])
  from st obtain did session device policy state db1 aid w where e:
    "rsv_device_id r = Some did" "LockDevice did db = Inr device"
    "RestoreDevice (da_ID device) (da_Lifecycle device) (da_Health device) = Inr state"
    "CloseActive (rsv_id r) did terminal (wants_recycle policy device state)
       (fst (release_target (wants_recycle policy device state) state)) (db_clock db) db = Inr (closed, db1)"
    "InsertAudit aid (ac_Type actor) (ac_ID actor) action (rsv_id r) q reason db1 = Inr (w, db')"
    by (rule closeActiveLocked_Inr)
  have did: "did = dev_id d" and device: "device = to_assignment d"
    using e(1,2) d find_by_id(1) [OF rows d(1)] by simp_all
  have v: "Lifecycle state = dev_lifecycle d" "Health state = dev_health d"
    using RestoreDevice_wf [OF e(3)] by (simp_all add: device to_assignment_def)
  let ?b = "wants_recycle policy device state"
  have fin': "terminal \<notin> {ReservationPending, ReservationActive}" using fin by auto
  obtain d0 d' r0 s s' where f: "d0 \<in> set (devices db)" "dev_id d0 = did"
    "d' = d0\<lparr>dev_lifecycle := close_lifecycle ?b (fst (release_target ?b state)) (dev_lifecycle d0),
            dev_lifecycle_mode := (if ?b then ''rebuild'' else dev_lifecycle_mode d0),
            dev_updated_at := db_clock db\<rparr>"
    "r0 \<in> set (reservations db)" "rsv_id r0 = rsv_id r"
    "closed = r0\<lparr>rsv_status := terminal, rsv_released_at := Some (db_clock db), rsv_updated_at := db_clock db\<rparr>"
    "ses_reservation_id s = rsv_id r"
    "s' = s\<lparr>ses_status := SessionClosed, ses_ended_at := Some (db_clock db), ses_updated_at := db_clock db\<rparr>"
    "set (devices db1) = insert d' (set (devices db) - {d0})"
    "set (reservations db1) = insert closed (set (reservations db) - {r0})"
    "set (sessions db1) = insert s' (set (sessions db) - {s})"
    by (rule CloseActive_effect [OF inv e(4) refl fin']) (rule that)
  have "d0 = d" by (rule distinct_map_same [OF rows_okD(2) [OF rows] f(1) d(1)]) (simp add: f(2) did)
  moreover have "r0 = r" by (rule distinct_map_same [OF rows_okD(3) [OF rows] f(4) r f(5)])
  moreover have "close_lifecycle ?b (fst (release_target ?b state)) (dev_lifecycle d) =
      (if dev_lifecycle d = DeviceQuarantined \<or> dev_health d \<noteq> HealthHealthy then DeviceQuarantined
       else if ?b then DeviceRecycling else DeviceReady)"
    using v by (auto simp: close_lifecycle_def release_target_def wants_recycle_def)
  moreover have "devices db' = devices db1" "reservations db' = reservations db1" "sessions db' = sessions db1"
    using InsertAudit_same [OF e(5)] by (simp_all add: same_core_def)
  ultimately show ?thesis
    by (intro that [of d' ?b s']) (use f in simp_all)
qed

lemma fresh_operation:
  assumes "ck_operation p" and "find_operation p db = None"
  obtains db1 where "BeginOperation p db = Inr (False, db1)" and "same_core db db1" and "audits db1 = audits db"
    and "db1 = db\<lparr>operations := operations db @ [operation_of p]\<rparr>"
  using assms by (auto simp: BeginOperation_def same_core_def)

text \<open>
  C16.  In a reachable state the release of an active reservation commits, under a fresh operation key,
  whatever the pool policy says and whether its device is busy or quarantined.  Afterwards the reservation
  and its session are closed, and the device is quarantined when it was or when it is unhealthy, and
  otherwise recycled or ready again.
\<close>

theorem release_succeeds:
  assumes "farm_start s" and "farm_step\<^sup>*\<^sup>* s db"
    and "r \<in> set (reservations db)" and "rsv_status r = ReservationActive" and "rsv_device_id r = Some (dev_id d)"
    and "d \<in> set (devices db)" and "validHealthStatus (dev_health d)"
    and "ck_operation p" and "find_operation p db = None"
    and "identifierPattern aid" and "aid \<notin> aud_id ` set (audits db)"
    and "ac_Type actor \<in> {''service'', ''agent'', ''system'', ''console''}" and "TrimSpace reason \<noteq> []"
  shows "\<exists>closed d' x db'. release_tx (Inr aid) p actor (rsv_id r) q reason force db = Inr (closed, db') \<and>
     closed \<in> set (reservations db') \<and> rsv_id closed = rsv_id r \<and>
     rsv_status closed = (if force then ReservationForceReleased else ReservationReleased) \<and>
     rsv_released_at closed = Some (db_clock db) \<and>
     x \<in> set (sessions db') \<and> ses_reservation_id x = rsv_id r \<and> ses_status x = SessionClosed \<and>
     d' \<in> set (devices db') \<and> dev_id d' = dev_id d \<and>
     (if dev_lifecycle d = DeviceQuarantined \<or> dev_health d \<noteq> HealthHealthy
      then dev_lifecycle d' = DeviceQuarantined else dev_lifecycle d' \<in> {DeviceReady, DeviceRecycling})"
proof -
  obtain db1 where b: "BeginOperation p db = Inr (False, db1)" "same_core db db1" "audits db1 = audits db"
    by (rule fresh_operation [OF assms(8,9)])
  let ?terminal = "if force then ReservationForceReleased else ReservationReleased"
  let ?action = "if force then ''force_release_device_reservation'' else ''release_device_reservation''"
  have inv: "farm_inv db1" using run_inv [OF assms(1,2)] same_core_inv [OF b(2)] by simp
  have r: "r \<in> set (reservations db1)" and d: "d \<in> set (devices db1)" and now: "db_clock db1 = db_clock db"
    using assms(3,6) b(2) by (simp_all add: same_core_def)
  have busy: "dev_lifecycle d \<in> {DeviceBusy, DeviceQuarantined}"
  proof (rule active_device [OF inv r assms(4)])
    fix e assume e: "e \<in> set (devices db1)" "rsv_device_id r = Some (dev_id e)"
      "dev_lifecycle e \<in> {DeviceBusy, DeviceQuarantined}"
    have "e = d"
      by (rule distinct_map_same [OF rows_okD(2) [OF farm_inv_rows [OF inv]] e(1) d]) (use e(2) assms(5) in simp)
    with e(3) show ?thesis by simp
  qed
  have fin: "?terminal \<in> {ReservationReleased, ReservationForceReleased, ReservationExpired}" by simp
  have fresh: "aid \<notin> aud_id ` set (audits db1)" using assms(11) b(3) by simp
  obtain closed db' where c: "closeActiveLocked (Inr aid) r ?terminal actor ?action q reason db1 = Inr (closed, db')"
    using close_ok [OF inv r assms(4,5) d busy assms(7) fin assms(10) fresh assms(12,13)] by blast
  have "release_locked (Inr aid) actor (rsv_id r) q reason force db1 = Inr (closed, db')"
    using find_by_id(2) [OF farm_inv_rows [OF inv] r] c assms(4) by (auto simp: release_locked_def)
  with b(1) have tx: "release_tx (Inr aid) p actor (rsv_id r) q reason force db = Inr (closed, db')"
    by (auto simp: release_tx_def)
  obtain recycle d' x where f:
    "closed = r\<lparr>rsv_status := ?terminal, rsv_released_at := Some (db_clock db1), rsv_updated_at := db_clock db1\<rparr>"
    "closed \<in> set (reservations db')" "d' \<in> set (devices db')" "dev_id d' = dev_id d"
    "dev_lifecycle d' = (if dev_lifecycle d = DeviceQuarantined \<or> dev_health d \<noteq> HealthHealthy then DeviceQuarantined
       else if recycle then DeviceRecycling else DeviceReady)"
    "x \<in> set (sessions db')" "ses_reservation_id x = rsv_id r" "ses_status x = SessionClosed"
    by (rule close_result [OF inv r d assms(5) fin c])
  show ?thesis
    using tx f now by (intro exI [of _ closed] exI [of _ d'] exI [of _ x] exI [of _ db']) simp
qed

definition sample_operation :: operation_params where
  "sample_operation = \<lparr>opp_ClientID = ''service'', opp_Scope = ''release_device_reservation'', opp_Key = ''key_0001'',
     opp_RequestHash = replicate 64 (CHR ''a''), opp_ResourceType = ''device_reservation'',
     opp_ResourceID = ''rsv_0123456789ab'', opp_ResponseStatus = 200\<rparr>"

lemma active_farm_rows:
  "(case (reservations active_farm, devices active_farm) of
      ([r], [d]) \<Rightarrow> rsv_status r = ReservationActive \<and> rsv_id r = ''rsv_0123456789ab'' \<and>
        rsv_device_id r = Some (dev_id d) \<and> dev_lifecycle d = DeviceBusy \<and> dev_health d = HealthHealthy
    | _ \<Rightarrow> False)"
  "operations active_farm = []" "audits active_farm = []" "ck_operation sample_operation"
  unfolding active_farm_explicit by code_simp+

lemma active_farm_pair:
  obtains r d where "reservations active_farm = [r]" and "devices active_farm = [d]"
    and "rsv_status r = ReservationActive" and "rsv_id r = ''rsv_0123456789ab''"
    and "rsv_device_id r = Some (dev_id d)" and "dev_lifecycle d = DeviceBusy" and "dev_health d = HealthHealthy"
  using active_farm_rows(1) by (auto split: list.splits)

theorem release_succeeds_witness:
  "\<exists>closed db'. release_tx (Inr ''aud_0123456789ab'') sample_operation System ''rsv_0123456789ab'' ''request'' ''done'' False
      active_farm = Inr (closed, db') \<and> rsv_status closed = ReservationReleased"
proof (rule active_farm_pair)
  fix r d
  assume a: "reservations active_farm = [r]" "devices active_farm = [d]" "rsv_status r = ReservationActive"
    "rsv_id r = ''rsv_0123456789ab''" "rsv_device_id r = Some (dev_id d)" "dev_lifecycle d = DeviceBusy"
    "dev_health d = HealthHealthy"
  have "TrimSpace ''done'' \<noteq> []" "identifierPattern ''aud_0123456789ab''" by code_simp+
  with release_succeeds [OF sample_start active_reached, of r d sample_operation "''aud_0123456789ab''" System
      "''done''" "''request''" False] a active_farm_rows(2-4)
  show ?thesis by (force simp: find_operation_def System_def ActorSystem_def validHealthStatus_def)
qed

section \<open>Extending and replaying\<close>

lemma Extend_Inr:
  assumes "rows_ok db" and "Extend ident e db = Inr (r, db')"
  obtains r0 where "r0 \<in> set (reservations db)" and "rsv_id r0 = ident"
    and "r = r0\<lparr>rsv_expires_at := Some e, rsv_updated_at := db_clock db\<rparr>"
    and "r \<in> set (reservations db')" and "rows_ok db'" and "operations db' = operations db"
proof -
  let ?P = "\<lambda>r. rsv_id r = ident \<and> rsv_status r = ReservationActive"
  let ?f = "\<lambda>r. r\<lparr>rsv_expires_at := Some e, rsv_updated_at := db_clock db\<rparr>"
  from assms(2) obtain rest where u: "update_reservations ?P ?f db = Inr (r # rest, db')"
    unfolding Extend_def one_row by blast
  have ok: "rsv_ok (db_clock db) (?f x)" if "?P x" "rsv_ok (db_clock db) x" "ck_reservation (?f x)" for x
    using that by (simp add: rsv_ok_def)
  obtain r0 where
    "r0 \<in> set (reservations db)" "?P r0" "r = ?f r0" "rows_ok db'"
    "set (reservations db') = insert (?f r0) (set (reservations db) - {r0})"
    "db' = db\<lparr>reservations := update_where ?P ?f (reservations db)\<rparr>"
    by (rule update_reservations_one [OF assms(1) u list.distinct(2), of ident])
      (erule conjunct1, simp, erule (2) ok, rule that, (assumption | simp)+)
  then show ?thesis by (intro that [of r0]) auto
qed

lemma next_expiry_bounds:
  assumes "now < expires" and "0 < n" and "n \<le> m"
  shows "now < next_expiry now expires n m" and "next_expiry now expires n m \<le> now + m * second"
    and "expires \<le> now + m * second \<Longrightarrow> expires \<le> next_expiry now expires n m"
  using assms by (auto simp: next_expiry_def second_def Let_def)

lemma GetPoolPolicy_pools: "same_core db db1 \<Longrightarrow> pools db1 = pools db \<Longrightarrow> GetPoolPolicy i db1 = GetPoolPolicy i db"
  by (cases "find_row (\<lambda>p. pool_id p = i) (pools db)")
    (simp_all add: GetPoolPolicy_def same_core_def count_active_in_pool_def del: find_row_None)


lemma extend_sample:
  "(case extend_tx sample_operation ''rsv_0123456789ab'' 60 active_farm of Inr _ \<Rightarrow> True | Inl _ \<Rightarrow> False)"
  "find_operation sample_operation active_farm = None"
  unfolding active_farm_explicit by code_simp+


text \<open>An operation that is recorded is a replay from then on.\<close>

lemma recorded:
  assumes "BeginOperation p db = Inr (b, db1)" and "operations db' = operations db1"
  shows "BeginOperation p db' = Inr (True, db')"
proof (cases "find_operation p db")
  case None
  then have n: "find_row (\<lambda>o'. op_client_id o' = opp_ClientID p \<and> op_scope o' = opp_Scope p \<and> op_key o' = opp_Key p)
      (operations db) = None" by (simp only: find_operation_def)
  from None assms have "ck_operation p" "operations db' = operations db @ [operation_of p]"
    by (auto simp: BeginOperation_def split: if_splits)
  then have "find_operation p db' = Some (operation_of p)"
    using n by (simp add: find_operation_def find_row_def find_Some_iff find_None_iff nth_append operation_of_def)
      (use less_Suc_eq in \<open>auto simp: in_set_conv_nth\<close>)
  with \<open>ck_operation p\<close> show ?thesis by (simp add: BeginOperation_def same_operation_def operation_of_def)
next
  case (Some o')
  with assms have "ck_operation p" "same_operation p o'" "operations db' = operations db"
    by (auto simp: BeginOperation_def split: if_splits)
  with Some show ?thesis by (simp add: BeginOperation_def find_operation_def)
qed

lemma Get_Inr:
  assumes "rows_ok db" and "r \<in> set (reservations db)"
  shows "Get (rsv_id r) db = Inr r"
  using find_by_id(2) [OF assms] by (simp add: Get_def LockByID_def)

lemma Get_InrD: "Get ident db = Inr r \<Longrightarrow> r \<in> set (reservations db) \<and> rsv_id r = ident"
  by (auto simp: Get_def split: option.splits dest: find_row_SomeD)

lemma InsertAudit_operations: "InsertAudit i t a c q m n db = Inr (u, db') \<Longrightarrow> operations db' = operations db"
  by (auto simp: InsertAudit_def Let_def split: if_splits)

lemma closeActiveLocked_row:
  assumes inv: "farm_inv db" and st: "closeActiveLocked newID r terminal actor action q reason db = Inr (closed, db')"
    and r: "r \<in> set (reservations db)"
    and fin: "terminal \<in> {ReservationReleased, ReservationForceReleased, ReservationExpired}"
  shows "closed \<in> set (reservations db') \<and> rsv_id closed = rsv_id r \<and> rsv_status closed = terminal \<and>
     operations db' = operations db"
proof -
  from st obtain did recycle target db1 aid w where e:
    "CloseActive (rsv_id r) did terminal recycle target (db_clock db) db = Inr (closed, db1)"
    "InsertAudit aid (ac_Type actor) (ac_ID actor) action (rsv_id r) q reason db1 = Inr (w, db')"
    by (rule closeActiveLocked_Inr) blast
  have fin': "terminal \<notin> {ReservationPending, ReservationActive}" using fin by auto
  obtain r0 where r0: "rsv_id r0 = rsv_id r"
    "closed = r0\<lparr>rsv_status := terminal, rsv_released_at := Some (db_clock db), rsv_updated_at := db_clock db\<rparr>"
    "set (reservations db1) = insert closed (set (reservations db) - {r0})"
    by (rule CloseActive_effect [OF inv e(1) refl fin']) (rule that)
  have "operations db1 = operations db"
    using e(1) unfolding CloseActive_def one_row by (auto simp: update_sessions_Inr update_reservations_Inr)
  moreover have "reservations db' = reservations db1" using InsertAudit_same [OF e(2)] by (simp add: same_core_def)
  ultimately show ?thesis using r0 InsertAudit_operations [OF e(2)] by simp
qed

lemma CancelPending_row:
  assumes "rows_ok db" and "CancelPending rid code (db_clock db) db = Inr (r, db')"
  shows "r \<in> set (reservations db') \<and> rsv_id r = rid \<and> operations db' = operations db"
proof -
  let ?P = "\<lambda>r. rsv_id r = rid \<and> rsv_status r = ReservationPending \<and> rsv_device_id r = None"
  let ?f = "\<lambda>r. r\<lparr>rsv_status := ReservationFailed, rsv_failure_code := Some code, rsv_updated_at := db_clock db\<rparr>"
  from assms(2) obtain rest where u: "update_reservations ?P ?f db = Inr (r # rest, db')"
    unfolding CancelPending_def one_row by blast
  have ok: "rsv_ok (db_clock db) (?f x)" if "?P x" "rsv_ok (db_clock db) x" "ck_reservation (?f x)" for x
    using that by (simp add: rsv_ok_def)
  obtain r0 where
    "rsv_id r0 = rid" "r = ?f r0" "set (reservations db') = insert (?f r0) (set (reservations db) - {r0})"
    "db' = db\<lparr>reservations := update_where ?P ?f (reservations db)\<rparr>"
    by (rule update_reservations_one [OF assms(1) u list.distinct(2), of rid])
      (erule conjunct1, simp, erule (2) ok, rule that, (assumption | simp)+)
  then show ?thesis by simp
qed

lemma extend_replayed:
  assumes inv: "farm_inv db" and st: "extend_tx p ident n db = Inr (r, db')"
  shows "extend_tx p ident n db' = Inr (r, db')"
proof -
  from st obtain replay db1 where b: "BeginOperation p db = Inr (replay, db1)" by (auto simp: extend_tx_def)
  have rows: "rows_ok db1" using inv same_core_inv [OF BeginOperation_same [OF b]] by (simp add: farm_inv_def)
  have rows': "rows_ok db'" using extend_tx_inv [OF inv st] by (simp add: farm_inv_def)
  have "operations db' = operations db1 \<and> r \<in> set (reservations db') \<and> rsv_id r = ident"
  proof (cases replay)
    case True
    with st b show ?thesis by (auto simp: extend_tx_def dest: Get_InrD)
  next
    case False
    with st b obtain e where "Extend ident e db1 = Inr (r, db')"
      by (auto simp: extend_tx_def status_case split: if_splits)
    then show ?thesis by (rule Extend_Inr [OF rows]) auto
  qed
  then have "Get ident db' = Inr r" "BeginOperation p db' = Inr (True, db')"
    using Get_Inr [OF rows'] recorded [OF b] by auto
  then show ?thesis by (simp add: extend_tx_def tx_bind_def tx_read_def)
qed

lemma release_replayed:
  assumes "farm_inv db" and "release_tx newID p actor ident q reason force db = Inr (r, db')"
  shows "release_tx newID p actor ident q reason force db' = Inr (r, db')"
proof -
  from assms(2) obtain replay db1 where b: "BeginOperation p db = Inr (replay, db1)"
    and k: "(if replay then tx_read (Get ident) else release_locked newID actor ident q reason force) db1 = Inr (r, db')"
    unfolding release_tx_def tx_bind_Inr by blast
  have inv: "farm_inv db1" using assms(1) same_core_inv [OF BeginOperation_same [OF b]] by simp
  have rows': "rows_ok db'" using release_tx_inv [OF assms] by (simp add: farm_inv_def)
  have "operations db' = operations db1 \<and> r \<in> set (reservations db') \<and> rsv_id r = ident"
  proof (cases replay)
    case True
    with k show ?thesis by (auto dest: Get_InrD)
  next
    case False
    with k have "release_locked newID actor ident q reason force db1 = Inr (r, db')" by simp
    then show ?thesis
    proof (cases rule: release_locked_cases)
      case (cancel current)
      from cancel(3) obtain db2 aid w where c: "CancelPending (rsv_id current) ''RESERVATION_CANCELED'' (db_clock db1) db1 = Inr (r, db2)"
        and a: "InsertAudit aid (ac_Type actor) (ac_ID actor) ''cancel_pending_device_reservation'' (rsv_id current) q reason db2
          = Inr (w, db')"
        by (auto simp: cancel_pending_tx_def ClockNow_def split: if_splits)
      show ?thesis
        using CancelPending_row [OF farm_inv_rows [OF inv] c] InsertAudit_same [OF a] InsertAudit_operations [OF a]
          LockByID_Inr [OF cancel(1)] by (simp add: same_core_def)
    next
      case closed
      with LockByID_Inr [OF closed(2)] show ?thesis by simp
    next
      case (close current)
      show ?thesis
        using closeActiveLocked_row [OF inv close(3)] LockByID_Inr [OF close(1)] by simp
    qed
  qed
  then have "Get ident db' = Inr r" "BeginOperation p db' = Inr (True, db')"
    using Get_Inr [OF rows'] recorded [OF b] by auto
  then show ?thesis by (simp add: release_tx_def tx_bind_def tx_read_def)
qed

text \<open>
  C18.  Extending and releasing are idempotent: a second call with the same operation key and the same
  request returns the row of the first call and changes nothing, although the first call has closed
  the reservation or moved its expiry.
\<close>

theorem lease_calls_idempotent:
  assumes "farm_inv db"
  shows "(extend_tx p ident n db = Inr (r, db1) \<longrightarrow> extend_tx p ident n db1 = Inr (r, db1)) \<and>
    (release_tx newID p actor ident q reason force db = Inr (x, db2) \<longrightarrow>
       release_tx newID p actor ident q reason force db2 = Inr (x, db2))"
  using extend_replayed [OF assms] release_replayed [OF assms] by blast

theorem lease_calls_idempotent_witness:
  "\<exists>r db'. release_tx (Inr ''aud_0123456789ab'') sample_operation System ''rsv_0123456789ab'' ''request'' ''done'' False
      active_farm = Inr (r, db') \<and>
    release_tx (Inr ''aud_0123456789ab'') sample_operation System ''rsv_0123456789ab'' ''request'' ''done'' False
      db' = Inr (r, db')"
proof -
  have "(case release_tx (Inr ''aud_0123456789ab'') sample_operation System ''rsv_0123456789ab'' ''request'' ''done'' False
      active_farm of Inr _ \<Rightarrow> True | Inl _ \<Rightarrow> False)" unfolding active_farm_explicit by code_simp
  then obtain r db' where st: "release_tx (Inr ''aud_0123456789ab'') sample_operation System ''rsv_0123456789ab''
      ''request'' ''done'' False active_farm = Inr (r, db')" by (auto split: sum.splits)
  with lease_calls_idempotent [OF run_inv [OF sample_start active_reached]] show ?thesis by blast
qed

end
