(* ===== verification/Sweeps.thy ===== *)
theory Sweeps
  imports Progress
begin

text \<open>
  The sweeps of the reaper, run without interference (\<open>quiet\<close>): what one call changes, that an overdue
  lease is collected, and that the four loops of the reaper end.
\<close>

definition quiet :: "service_env \<Rightarrow> service_env" where
  "quiet env = env\<lparr>sv_others := (\<lambda>db. db)\<rparr>"

lemma quiet_sel [simp]:
  "sv_others (quiet env) db = db" "sv_newID (quiet env) = sv_newID env" "sv_stf (quiet env) = sv_stf env"
  "sv_ios (quiet env) = sv_ios env"
  by (simp_all add: quiet_def)

section \<open>One call\<close>

lemma close_externals_ok:
  "close_externals env r actor q msg db = (Inr u, calls, db1) \<Longrightarrow> db1 = db"
  by (auto simp: close_externals_def split: prod.splits sum.splits)

lemma close_externals_fail:
  assumes "close_externals env r actor q msg db = (Inl e, calls, db1)"
  shows "same_core db db1"
proof (cases "db1 = db")
  case False
  with assms have "db1 = snd (run_tx (recordSTFFailure env r actor q ''stf_release_failed'' msg) db)"
    by (auto simp: close_externals_def split: prod.splits sum.splits)
  then show ?thesis
    by (cases rule: run_tx_cases [of "recordSTFFailure env r actor q ''stf_release_failed'' msg" db])
      (simp add: same_core_def, simp, erule recordSTFFailure_same)
qed (simp add: same_core_def)

lemma result_view_run: "(case run_tx m db of (r, db') \<Rightarrow> (result_view r, db')) = (v, db') \<Longrightarrow>
    (\<exists>e. v = Inl e) \<and> db' = db \<or> (\<exists>a. v = Inr (toView a) \<and> m db = Inr (a, db'))"
  by (cases "m db") (auto simp: run_tx_def result_view_def)

lemma ReapOnce_cases:
  assumes "ReapOnce (quiet env) grace db = (v, calls, db')"
  obtains e where "v = Inl e" and "same_core db db'"
  | q :: reservation_row and r where "v = Inr (toView r)" and "reap_tx (sv_newID env) (rsv_id q) grace db = Inr (r, db')"
proof (cases v)
  case (Inl e)
  have "same_core db db'"
  proof (cases "grace < 0")
    case False
    show ?thesis
    proof (cases "FindNextExpired (whole_seconds grace) db")
      case (Inr q)
      obtain x calls1 db1 where ext: "close_externals (quiet env) q reaperActor (''reaper_'' @ rsv_id q)
          ''STF release failed during expiry; reservation remains active'' db = (x, calls1, db1)"
        by (metis prod_cases3)
      show ?thesis
      proof (cases x)
        case xl: (Inl e')
        with ext assms False Inr have "db' = db1" by (simp add: ReapOnce_def)
        with close_externals_fail ext xl show ?thesis by simp
      next
        case xr: (Inr u)
        with close_externals_ok ext have "db1 = db" by simp
        with ext assms False Inr xr Inl have "db' = db"
          by (auto simp: ReapOnce_def result_view_def run_tx_def split: sum.splits prod.splits)
        then show ?thesis by (simp add: same_core_def)
      qed
    qed (use assms False in \<open>auto simp: ReapOnce_def same_core_def\<close>)
  qed (use assms in \<open>auto simp: ReapOnce_def same_core_def\<close>)
  with Inl that(1) show ?thesis by blast
next
  case (Inr w)
  with assms obtain q where f: "\<not> grace < 0" "FindNextExpired (whole_seconds grace) db = Inr q"
    by (auto simp: ReapOnce_def split: if_splits sum.splits)
  obtain x calls1 db1 where ext: "close_externals (quiet env) q reaperActor (''reaper_'' @ rsv_id q)
      ''STF release failed during expiry; reservation remains active'' db = (x, calls1, db1)"
    by (metis prod_cases3)
  with assms f Inr obtain u where "x = Inr u" by (cases x) (auto simp: ReapOnce_def)
  with close_externals_ok ext have "db1 = db" "x = Inr u" by simp_all
  with ext assms f Inr obtain r where "w = toView r" "reap_tx (sv_newID env) (rsv_id q) grace db = Inr (r, db')"
    by (auto simp: ReapOnce_def result_view_def run_tx_def split: sum.splits prod.splits)
  with Inr that(2) show ?thesis by blast
qed

lemma ReapStalePendingOnce_cases:
  assumes "ReapStalePendingOnce (quiet env) timeout grace db = (v, db')"
  obtains e where "v = Inl e" and "db' = db"
  | q :: reservation_row and r where "v = Inr (toView r)" and "fail_stale_tx (sv_newID env) (rsv_id q) timeout grace db = Inr (r, db')"
proof (cases "timeout \<le> 0 \<or> grace < 0")
  case False
  show ?thesis
  proof (cases "FindNextStalePending (whole_seconds timeout) (whole_seconds grace) db")
    case (Inr q)
    with assms False have "(case run_tx (fail_stale_tx (sv_newID env) (rsv_id q) timeout grace) db of
        (r, db') \<Rightarrow> (result_view r, db')) = (v, db')"
      by (simp add: ReapStalePendingOnce_def)
    from result_view_run [OF this] that show ?thesis by blast
  qed (use assms False that in \<open>auto simp: ReapStalePendingOnce_def\<close>)
qed (use assms that in \<open>auto simp: ReapStalePendingOnce_def\<close>)

lemma ReapOrphanedClaimOnce_cases:
  assumes "ReapOrphanedClaimOnce (quiet env) grace db = (v, db')"
  obtains e where "v = Inl e" and "db' = db"
  | q :: reservation_row and r where "v = Inr (toView r)" and "fail_orphan_tx (sv_newID env) (rsv_id q) grace db = Inr (r, db')"
proof (cases "grace < 0")
  case False
  show ?thesis
  proof (cases "FindNextOrphanedClaim (whole_seconds grace) db")
    case (Inr q)
    with assms False have "(case run_tx (fail_orphan_tx (sv_newID env) (rsv_id q) grace) db of
        (r, db') \<Rightarrow> (result_view r, db')) = (v, db')"
      by (simp add: ReapOrphanedClaimOnce_def)
    from result_view_run [OF this] that show ?thesis by blast
  qed (use assms False that in \<open>auto simp: ReapOrphanedClaimOnce_def\<close>)
qed (use assms that in \<open>auto simp: ReapOrphanedClaimOnce_def\<close>)

lemma ReapRemoteSessionOnce_cases:
  assumes "ReapRemoteSessionOnce (quiet env) db = (v, calls, db')"
  obtains e where "v = Inl e" and "db' = db"
  | w rid mid where "v = Inr w" and "ClearRemoteSession rid mid db = Inr ((), db')"
  using assms
  by (auto simp: ReapRemoteSessionOnce_def run_tx_def split: option.splits sum.splits if_splits prod.splits)

section \<open>Work that a call takes away\<close>

definition active_rows :: "farm_db \<Rightarrow> reservation_row set" where
  "active_rows db = {r \<in> set (reservations db). rsv_status r = ReservationActive}"

definition waiting_rows :: "farm_db \<Rightarrow> reservation_row set" where
  "waiting_rows db = {r \<in> set (reservations db). rsv_status r = ReservationPending \<and> rsv_device_id r = None}"

definition claimed_rows :: "farm_db \<Rightarrow> reservation_row set" where
  "claimed_rows db = {r \<in> set (reservations db). rsv_status r = ReservationPending \<and> rsv_device_id r \<noteq> None}"

definition remote_rows :: "farm_db \<Rightarrow> session_row set" where
  "remote_rows db = {s \<in> set (sessions db). ses_remote s \<noteq> None}"

text \<open>A database with the invariant and at most \<open>n\<close> reservations and sessions.\<close>

definition farm_within :: "nat \<Rightarrow> farm_db \<Rightarrow> bool" where
  "farm_within n db \<longleftrightarrow>
     farm_inv db \<and> card (rsv_id ` set (reservations db)) \<le> n \<and>
     card (ses_reservation_id ` set (sessions db)) \<le> n"

lemma replaced_ids: "r \<in> R \<Longrightarrow> k r' = k r \<Longrightarrow> k ` insert r' (R - {r}) = k ` R"
  by force

lemma fewer:
  assumes "finite R" and "r \<in> R" and "Q r" and "\<not> Q r'"
  shows "card {x \<in> insert r' (R - {r}). Q x} < card {x \<in> R. Q x}"
proof -
  have "{x \<in> insert r' (R - {r}). Q x} = {x \<in> R. Q x} - {r}" using assms(4) by auto
  moreover have "r \<in> {x \<in> R. Q x}" using assms by simp
  moreover have "finite {x \<in> R. Q x}" using assms(1) by simp
  ultimately show ?thesis using card_Diff1_less [of "{x \<in> R. Q x}" r] by (simp only:)
qed

lemma farm_within_same: "same_core db db' \<Longrightarrow> farm_within n db' = farm_within n db"
  using same_core_inv [of db db'] by (simp add: farm_within_def same_core_def)

lemma reap_tx_work:
  assumes "farm_within n db" and "reap_tx newID ident grace db = Inr (r, db')"
  shows "farm_within n db' \<and> card (active_rows db') < card (active_rows db)"
proof -
  have inv: "farm_inv db" using assms(1) by (simp add: farm_within_def)
  from assms(2) obtain current where l: "LockByID ident db = Inr current"
    and c: "closeActiveLocked newID current ReservationExpired reaperActor ''expire_device_reservation''
       (''reaper_'' @ ident) ''reservation lease and grace period expired'' db = Inr (r, db')"
    by (rule reap_tx_Inr)
  from c obtain did recycle target db1 aid w where e:
    "CloseActive (rsv_id current) did ReservationExpired recycle target (db_clock db) db = Inr (r, db1)"
    "InsertAudit aid (ac_Type reaperActor) (ac_ID reaperActor) ''expire_device_reservation'' (rsv_id current)
       (''reaper_'' @ ident) ''reservation lease and grace period expired'' db1 = Inr (w, db')"
    by (rule closeActiveLocked_Inr) blast
  obtain r0 s s' where f: "r0 \<in> set (reservations db)" "rsv_status r0 = ReservationActive"
    "r = r0\<lparr>rsv_status := ReservationExpired, rsv_released_at := Some (db_clock db), rsv_updated_at := db_clock db\<rparr>"
    "s \<in> set (sessions db)"
    "s' = s\<lparr>ses_status := SessionClosed, ses_ended_at := Some (db_clock db), ses_updated_at := db_clock db\<rparr>"
    "set (reservations db1) = insert r (set (reservations db) - {r0})"
    "set (sessions db1) = insert s' (set (sessions db) - {s})"
    by (rule CloseActive_effect [OF inv e(1) refl]) (simp, rule that)
  have db': "set (reservations db') = insert r (set (reservations db) - {r0})"
    "set (sessions db') = insert s' (set (sessions db) - {s})"
    using InsertAudit_same [OF e(2)] f(6,7) by (simp_all add: same_core_def)
  have "card (active_rows db') < card (active_rows db)"
    unfolding active_rows_def db' by (rule fewer) (use f(1-3) in simp_all)
  moreover have "rsv_id ` set (reservations db') = rsv_id ` set (reservations db)"
    "ses_reservation_id ` set (sessions db') = ses_reservation_id ` set (sessions db)"
    unfolding db' by (rule replaced_ids; use f(1,3-5) in simp)+
  moreover have "farm_inv db'" by (rule reap_tx_inv [OF inv assms(2)])
  ultimately show ?thesis using assms(1) by (simp add: farm_within_def)
qed

lemma fail_stale_tx_work:
  assumes "farm_within n db" and "fail_stale_tx newID ident timeout grace db = Inr (r, db')"
  shows "farm_within n db' \<and> card (waiting_rows db') < card (waiting_rows db)"
proof -
  have inv: "farm_inv db" using assms(1) by (simp add: farm_within_def)
  let ?P = "\<lambda>rid r. rsv_id r = rid \<and> rsv_status r = ReservationPending \<and> rsv_device_id r = None"
  let ?f = "\<lambda>r. r\<lparr>rsv_status := ReservationFailed, rsv_failure_code := Some ''PENDING_TIMEOUT'',
    rsv_updated_at := db_clock db\<rparr>"
  from assms(2) obtain current :: reservation_row and db1 where
    "FailPendingReservation (rsv_id current) ''PENDING_TIMEOUT'' (db_clock db) db = Inr ((), db1)"
    and same: "same_core db1 db'"
    by (rule fail_stale_tx_Inr)
  then obtain row where u: "update_reservations (?P (rsv_id current)) ?f db = Inr ([row], db1)"
    unfolding FailPendingReservation_def one_row by blast
  obtain r0 where f: "r0 \<in> set (reservations db)" "?P (rsv_id current) r0"
    "set (reservations db1) = insert (?f r0) (set (reservations db) - {r0})"
    "db1 = db\<lparr>reservations := update_where (?P (rsv_id current)) ?f (reservations db)\<rparr>"
    by (rule update_reservations_one [OF farm_inv_rows [OF inv] u, of "rsv_id current"],
        simp, simp, simp, simp add: rsv_ok_def) (rule that)
  have db': "set (reservations db') = insert (?f r0) (set (reservations db) - {r0})" "sessions db' = sessions db"
    using same f(3,4) by (simp_all add: same_core_def)
  have "card (waiting_rows db') < card (waiting_rows db)"
    unfolding waiting_rows_def db' by (rule fewer) (use f(1,2) in simp_all)
  moreover have "rsv_id ` set (reservations db') = rsv_id ` set (reservations db)"
    unfolding db' by (rule replaced_ids) (use f(1) in simp_all)
  moreover have "farm_inv db'" by (rule fail_stale_tx_inv [OF inv assms(2)])
  ultimately show ?thesis using assms(1) db'(2) by (simp add: farm_within_def)
qed

lemma fail_orphan_tx_work:
  assumes "farm_within n db" and "fail_orphan_tx newID ident grace db = Inr (r, db')"
  shows "farm_within n db' \<and> card (claimed_rows db') < card (claimed_rows db)"
proof -
  have inv: "farm_inv db" using assms(1) by (simp add: farm_within_def)
  from assms(2) obtain current :: reservation_row and did db1 where
    c: "FailPendingClaim (rsv_id current) did ''CLAIM_ABANDONED'' (db_clock db) db = Inr ((), db1)"
    and same: "same_core db1 db'"
    by (rule fail_orphan_tx_Inr)
  obtain r0 r' where f: "r0 \<in> set (reservations db)" "rsv_status r0 = ReservationPending" "rsv_device_id r0 = Some did"
    "r' = r0\<lparr>rsv_device_id := None, rsv_status := ReservationFailed,
            rsv_failure_code := Some ''CLAIM_ABANDONED'', rsv_updated_at := db_clock db\<rparr>"
    "set (reservations db1) = insert r' (set (reservations db) - {r0})" "sessions db1 = sessions db"
    by (rule FailPendingClaim_effect [OF farm_inv_rows [OF inv] c]) (simp, rule that)
  have db': "set (reservations db') = insert r' (set (reservations db) - {r0})" "sessions db' = sessions db"
    using same f(5,6) by (simp_all add: same_core_def)
  have "card (claimed_rows db') < card (claimed_rows db)"
    unfolding claimed_rows_def db' by (rule fewer) (use f(1-4) in simp_all)
  moreover have "rsv_id ` set (reservations db') = rsv_id ` set (reservations db)"
    unfolding db' by (rule replaced_ids) (use f(1,4) in simp_all)
  moreover have "farm_inv db'" by (rule fail_orphan_tx_inv [OF inv assms(2)])
  ultimately show ?thesis using assms(1) db'(2) by (simp add: farm_within_def)
qed

lemma ClearRemoteSession_work:
  assumes "farm_within n db" and "ClearRemoteSession rid mid db = Inr (u, db')"
  shows "farm_within n db' \<and> card (remote_rows db') < card (remote_rows db)"
proof -
  let ?P = "\<lambda>s. ses_reservation_id s = rid \<and> ses_status s = SessionActive \<and>
      (case ses_remote s of None \<Rightarrow> False | Some m \<Rightarrow> rem_id m = mid)"
  let ?f = "\<lambda>s. s\<lparr>ses_remote := None, ses_updated_at := db_clock db\<rparr>"
  have inv: "farm_inv db" using assms(1) by (simp add: farm_within_def)
  from assms(2) obtain row where st: "update_sessions ?P ?f db = Inr ([row], db')"
    unfolding ClearRemoteSession_def one_row by blast
  then have "[row] = map ?f (filter ?P (sessions db))" unfolding update_sessions_Inr by blast
  then obtain s where s: "s \<in> set (sessions db)" "?P s" by (rule map_filter_ConsD)
  have "set (sessions db') = insert (?f s) (set (sessions db) - {s})"
    by (rule update_session_one [of db ?P ?f "[row]" db' s, OF farm_inv_rows [OF inv] st s]) (use s in auto)
  note db' = this
  have res: "reservations db' = reservations db" using st by (simp add: update_sessions_Inr)
  have "card (remote_rows db') < card (remote_rows db)"
    unfolding remote_rows_def db' by (rule fewer) (use s in \<open>auto split: option.splits\<close>)
  moreover have "ses_reservation_id ` set (sessions db') = ses_reservation_id ` set (sessions db)"
    unfolding db' by (rule replaced_ids) (use s(1) in simp_all)
  moreover have "farm_inv db'" by (rule ClearRemoteSession_inv [OF inv assms(2)])
  ultimately show ?thesis using assms(1) res by (simp add: farm_within_def)
qed

section \<open>The loops end\<close>

text \<open>Each loop of the reaper is a \<open>drain_loop\<close>, with the rows it works off as its measure.\<close>

definition expire_step :: "(farm_db \<Rightarrow> service_env) \<Rightarrow> Policy \<Rightarrow> farm_db \<Rightarrow> (farm_error, view) result \<times> farm_db" where
  "expire_step env policy s = without_calls (reaper_RunOnce (quiet (env s)) policy) s"

definition disconnect_step :: "(farm_db \<Rightarrow> service_env) \<Rightarrow> farm_db \<Rightarrow> (farm_error, remote_view) result \<times> farm_db" where
  "disconnect_step env s = without_calls (ReapRemoteSessionOnce (quiet (env s))) s"

definition stale_step :: "(farm_db \<Rightarrow> service_env) \<Rightarrow> Policy \<Rightarrow> farm_db \<Rightarrow> (farm_error, view) result \<times> farm_db" where
  "stale_step env policy s = RunPendingOnce (quiet (env s)) policy s"

definition orphan_step :: "(farm_db \<Rightarrow> service_env) \<Rightarrow> Policy \<Rightarrow> farm_db \<Rightarrow> (farm_error, view) result \<times> farm_db" where
  "orphan_step env policy s = RunOrphanedClaimOnce (quiet (env s)) policy s"

lemma expire_step_cases:
  obtains e db' where "expire_step env policy db = (Inl e, db')" and "same_core db db'"
  | q :: reservation_row and r db' where "expire_step env policy db = (Inr (toView r), db')"
    and "reap_tx (sv_newID (env db)) (rsv_id q) (po_GracePeriod policy) db = Inr (r, db')"
proof -
  obtain v calls db' where st: "ReapOnce (quiet (env db)) (po_GracePeriod policy) db = (v, calls, db')"
    by (metis prod_cases3)
  have e: "expire_step env policy db = (v, db')"
    using st by (simp add: expire_step_def without_calls_def reaper_RunOnce_def)
  from st show ?thesis by (cases rule: ReapOnce_cases) (use e that in auto)
qed

lemma disconnect_step_cases:
  obtains e where "disconnect_step env db = (Inl e, db)"
  | w rid mid db' where "disconnect_step env db = (Inr w, db')" and "ClearRemoteSession rid mid db = Inr ((), db')"
proof -
  obtain v calls db' where st: "ReapRemoteSessionOnce (quiet (env db)) db = (v, calls, db')" by (metis prod_cases3)
  have e: "disconnect_step env db = (v, db')" using st by (simp add: disconnect_step_def without_calls_def)
  from st show ?thesis by (cases rule: ReapRemoteSessionOnce_cases) (use e that in auto)
qed

lemma stale_step_cases:
  obtains e where "stale_step env policy db = (Inl e, db)"
  | q :: reservation_row and r db' where "stale_step env policy db = (Inr (toView r), db')"
    and "fail_stale_tx (sv_newID (env db)) (rsv_id q) (po_PendingTimeout policy) (po_PendingClaimGrace policy) db
      = Inr (r, db')"
proof (cases "po_PendingTimeout policy \<le> 0")
  case False
  obtain v db' where st: "ReapStalePendingOnce (quiet (env db)) (po_PendingTimeout policy)
      (po_PendingClaimGrace policy) db = (v, db')" by (metis surj_pair)
  have e: "stale_step env policy db = (v, db')" using st False by (simp add: stale_step_def RunPendingOnce_def)
  from st show ?thesis by (cases rule: ReapStalePendingOnce_cases) (use e that in auto)
qed (use that in \<open>simp add: stale_step_def RunPendingOnce_def\<close>)

lemma orphan_step_cases:
  obtains e where "orphan_step env policy db = (Inl e, db)"
  | q :: reservation_row and r db' where "orphan_step env policy db = (Inr (toView r), db')"
    and "fail_orphan_tx (sv_newID (env db)) (rsv_id q) (po_PendingClaimGrace policy) db = Inr (r, db')"
proof (cases "po_PendingTimeout policy \<le> 0")
  case False
  obtain v db' where st: "ReapOrphanedClaimOnce (quiet (env db)) (po_PendingClaimGrace policy) db = (v, db')"
    by (metis surj_pair)
  have e: "orphan_step env policy db = (v, db')" using st False by (simp add: orphan_step_def RunOrphanedClaimOnce_def)
  from st show ?thesis by (cases rule: ReapOrphanedClaimOnce_cases) (use e that in auto)
qed (use that in \<open>simp add: orphan_step_def RunOrphanedClaimOnce_def\<close>)

interpretation expire: drain_loop "expire_step env policy" "farm_within n" "\<lambda>db. card (active_rows db)" for env policy n
proof unfold_locales
  fix s a assume ok: "farm_within n s"
  show "farm_within n (snd (expire_step env policy s))"
    by (cases rule: expire_step_cases [of env policy s])
      (use ok farm_within_same reap_tx_work [OF ok] in auto)
  assume "fst (expire_step env policy s) = Inr a"
  then show "card (active_rows (snd (expire_step env policy s))) < card (active_rows s)"
    by (cases rule: expire_step_cases [of env policy s]) (use reap_tx_work [OF ok] in auto)
qed

interpretation disconnect: drain_loop "disconnect_step env" "farm_within n" "\<lambda>db. card (remote_rows db)" for env n
proof unfold_locales
  fix s a assume ok: "farm_within n s"
  show "farm_within n (snd (disconnect_step env s))"
    by (cases rule: disconnect_step_cases [of env s]) (use ok ClearRemoteSession_work [OF ok] in auto)
  assume "fst (disconnect_step env s) = Inr a"
  then show "card (remote_rows (snd (disconnect_step env s))) < card (remote_rows s)"
    by (cases rule: disconnect_step_cases [of env s]) (use ClearRemoteSession_work [OF ok] in auto)
qed

interpretation stale: drain_loop "stale_step env policy" "farm_within n" "\<lambda>db. card (waiting_rows db)" for env policy n
proof unfold_locales
  fix s a assume ok: "farm_within n s"
  show "farm_within n (snd (stale_step env policy s))"
    by (cases rule: stale_step_cases [of env policy s]) (use ok fail_stale_tx_work [OF ok] in auto)
  assume "fst (stale_step env policy s) = Inr a"
  then show "card (waiting_rows (snd (stale_step env policy s))) < card (waiting_rows s)"
    by (cases rule: stale_step_cases [of env policy s]) (use fail_stale_tx_work [OF ok] in auto)
qed

interpretation orphan: drain_loop "orphan_step env policy" "farm_within n" "\<lambda>db. card (claimed_rows db)" for env policy n
proof unfold_locales
  fix s a assume ok: "farm_within n s"
  show "farm_within n (snd (orphan_step env policy s))"
    by (cases rule: orphan_step_cases [of env policy s]) (use ok fail_orphan_tx_work [OF ok] in auto)
  assume "fst (orphan_step env policy s) = Inr a"
  then show "card (claimed_rows (snd (orphan_step env policy s))) < card (claimed_rows s)"
    by (cases rule: orphan_step_cases [of env policy s]) (use fail_orphan_tx_work [OF ok] in auto)
qed

lemma card_where_le:
  assumes "inj_on k (set t)" and "card (k ` set t) \<le> n"
  shows "card {x \<in> set t. P x} \<le> n"
proof -
  have "card {x \<in> set t. P x} \<le> card (set t)" by (intro card_mono) auto
  also have "\<dots> = card (k ` set t)" using card_image [OF assms(1)] by simp
  finally show ?thesis using assms(2) by simp
qed

lemma work_bounds:
  assumes "farm_within n db"
  shows "card (active_rows db) \<le> n" and "card (waiting_rows db) \<le> n" and "card (claimed_rows db) \<le> n"
    and "card (remote_rows db) \<le> n"
proof -
  have "rows_ok db" using assms by (simp add: farm_within_def farm_inv_def)
  then have "inj_on rsv_id (set (reservations db))" "inj_on ses_reservation_id (set (sessions db))"
    using rows_okD(3,4) by (auto simp: distinct_map)
  then show "card (active_rows db) \<le> n" "card (waiting_rows db) \<le> n" "card (claimed_rows db) \<le> n"
    "card (remote_rows db) \<le> n"
    using assms by (auto simp: farm_within_def active_rows_def waiting_rows_def claimed_rows_def remote_rows_def
        intro!: card_where_le)
qed

text \<open>
  C19.  One turn of the reaper ends: without interference, each of its four loops stops after at most as
  many calls as there are reservations, or sessions, whatever the controllers answer and whatever
  identifiers are generated; and the invariant holds afterwards.
\<close>

theorem reaper_cycle_ends:
  assumes "farm_inv db" and "length (reservations db) < fuel" and "length (sessions db) < fuel"
  shows "\<exists>db'. reaper_cycle fuel (\<lambda>s. quiet (env s)) policy db = Some db' \<and> farm_inv db'"
proof -
  obtain n where n: "fuel = Suc n" using assms(2) by (cases fuel) auto
  have "card (rsv_id ` set (reservations db)) \<le> length (reservations db)"
    using card_length [of "map rsv_id (reservations db)"] by simp
  moreover have "card (ses_reservation_id ` set (sessions db)) \<le> length (sessions db)"
    using card_length [of "map ses_reservation_id (sessions db)"] by simp
  ultimately have 0: "farm_within n db" using assms n by (simp add: farm_within_def)
  have less: "m \<le> n \<Longrightarrow> m < fuel" for m using n by simp
  obtain e1 db1 where d1: "drain fuel (expire_step env policy) db = Some (e1, db1)"
    using expire.drain_ends [OF 0 less [OF work_bounds(1) [OF 0]]] by blast
  have 1: "farm_within n db1" by (rule expire.drain_ok [OF 0 d1])
  obtain e2 db2 where d2: "drain fuel (disconnect_step env) db1 = Some (e2, db2)"
    using disconnect.drain_ends [OF 1 less [OF work_bounds(4) [OF 1]]] by blast
  have 2: "farm_within n db2" by (rule disconnect.drain_ok [OF 1 d2])
  obtain e3 db3 where d3: "drain fuel (stale_step env policy) db2 = Some (e3, db3)"
    using stale.drain_ends [OF 2 less [OF work_bounds(2) [OF 2]]] by blast
  have 3: "farm_within n db3" by (rule stale.drain_ok [OF 2 d3])
  obtain e4 db4 where d4: "drain fuel (orphan_step env policy) db3 = Some (e4, db4)"
    using orphan.drain_ends [OF 3 less [OF work_bounds(3) [OF 3]]] by blast
  have 4: "farm_within n db4" by (rule orphan.drain_ok [OF 3 d4])
  have "reaper_cycle fuel (\<lambda>s. quiet (env s)) policy db = Some db4"
    using d1 d2 d3 d4
    by (simp add: reaper_cycle_def expire_step_def [abs_def] disconnect_step_def [abs_def] stale_step_def [abs_def]
        orphan_step_def [abs_def])
  then show ?thesis using 4 by (simp add: farm_within_def)
qed

definition sample_env :: service_env where
  "sample_env = \<lparr>sv_newID = Inr ''aud_0123456789ab'', sv_newID2 = Inr ''aud_0123456789ac'', sv_stf = None,
     sv_ios = None, sv_hash = (\<lambda>_. replicate 64 (CHR ''a'')), sv_now = 1, sv_parse_ts = (\<lambda>_. None),
     sv_others = (\<lambda>db. db)\<rparr>"

definition sample_policy :: Policy where
  "sample_policy = \<lparr>po_GracePeriod = 0, po_PendingTimeout = 60 * second, po_PendingClaimGrace = 0\<rparr>"

theorem reaper_cycle_ends_witness:
  "\<exists>db'. reaper_cycle 2 (\<lambda>s. quiet sample_env) sample_policy active_farm = Some db'"
proof -
  have "length (reservations active_farm) < 2" "length (sessions active_farm) < 2"
    by (simp_all add: active_farm_explicit leased_farm_def)
  from reaper_cycle_ends [OF run_inv [OF sample_start active_reached] this, of "\<lambda>s. sample_env" sample_policy]
  show ?thesis by blast
qed

section \<open>An overdue lease is collected\<close>

lemma whole_seconds_second: "0 \<le> d \<Longrightarrow> whole_seconds d * second \<le> d"
  unfolding whole_seconds_def by (rule whole_seconds_le)

lemma releaseSTF_ok:
  assumes "rows_ok db" and "d \<in> set (devices db)" and "rsv_device_id q = Some (dev_id d)"
    and "\<And>c s. sv_stf env = Some c \<Longrightarrow> stf_Release c s"
  shows "\<exists>calls. releaseSTF env q db = (Inr (), calls)"
  using assms find_by_id(1) [OF assms(1,2)]
  by (auto simp: releaseSTF_def GetDevice_def LockDevice_def split: option.splits)

lemma closeIOSSession_ok:
  assumes "\<And>c i. sv_ios env = Some c \<Longrightarrow> c i"
  shows "\<exists>calls. closeIOSSession env q = (Inr (), calls)"
  using assms by (auto simp: closeIOSSession_def split: option.splits)

text \<open>
  C20.  A lease that is overdue, grace period included, is collected: when the controllers answer and an
  identifier for the audit row is available, one call of the sweep closes the overdue reservation whose
  lease ended first.  In particular the selection in whole seconds never lets the exact test under the
  row lock refuse a lease while a later one is overdue.
\<close>

theorem overdue_lease_collected:
  assumes "farm_start s" and "farm_step\<^sup>*\<^sup>* s db" and "0 \<le> grace"
    and "r \<in> set (reservations db)" and "rsv_status r = ReservationActive" and "rsv_expires_at r = Some e"
    and "e + grace \<le> db_clock db"
    and "\<forall>d\<in>set (devices db). validHealthStatus (dev_health d)"
    and "\<forall>c i. sv_stf env = Some c \<longrightarrow> stf_Release c i" and "\<forall>c i. sv_ios env = Some c \<longrightarrow> c i"
    and "sv_newID env = Inr aid" and "identifierPattern aid" and "aid \<notin> aud_id ` set (audits db)"
  shows "\<exists>q e' closed calls db'. ReapOnce (quiet env) grace db = (Inr (toView closed), calls, db') \<and>
     q \<in> set (reservations db) \<and> rsv_status q = ReservationActive \<and> rsv_expires_at q = Some e' \<and> e' \<le> e \<and>
     closed \<in> set (reservations db') \<and> rsv_id closed = rsv_id q \<and> rsv_status closed = ReservationExpired"
proof -
  have inv: "farm_inv db" by (rule run_inv [OF assms(1,2)])
  have rows: "rows_ok db" by (rule farm_inv_rows [OF inv])
  have whole: "whole_seconds grace * second \<le> grace" by (rule whole_seconds_second [OF assms(3)])
  have over: "lease_expired (whole_seconds grace) db r"
    using assms(5-7) whole by (simp add: lease_expired_def)
  then obtain q where q: "first_by rsv_expiry_order (lease_expired (whole_seconds grace) db) (reservations db) = Some q"
    using assms(4) by (cases "first_by rsv_expiry_order (lease_expired (whole_seconds grace) db) (reservations db)") auto
  have qin: "q \<in> set (reservations db)" and qex: "lease_expired (whole_seconds grace) db q"
    and least: "rsv_expiry_order q \<le> rsv_expiry_order r"
    using first_by_mem [OF q] first_by_sat [OF q] first_by_least [OF q assms(4) over] by simp_all
  obtain e' where e': "rsv_status q = ReservationActive" "rsv_expires_at q = Some e'"
    using qex by (auto simp: lease_expired_def split: option.splits)
  have le: "e' \<le> e" using least e' assms(6) by (auto simp: rsv_expiry_order_def less_eq_prod_def)
  obtain d where d: "d \<in> set (devices db)" "rsv_device_id q = Some (dev_id d)"
    "dev_lifecycle d \<in> {DeviceBusy, DeviceQuarantined}" "validHealthStatus (dev_health d)"
    using active_device [OF inv qin e'(1)] assms(8) by blast
  obtain calls1 where ios: "closeIOSSession (quiet env) q = (Inr (), calls1)"
    using closeIOSSession_ok [of "quiet env" q] assms(10) by auto
  obtain calls2 where stf: "releaseSTF (quiet env) q db = (Inr (), calls2)"
    using releaseSTF_ok [OF rows d(1,2), of "quiet env"] assms(9) by auto
  have "TrimSpace ''reservation lease and grace period expired'' \<noteq> []" by code_simp
  moreover have "ac_Type reaperActor \<in> {''service'', ''agent'', ''system'', ''console''}"
    by (simp add: reaperActor_def System_def ActorSystem_def)
  ultimately obtain closed db' where c: "closeActiveLocked (Inr aid) q ReservationExpired reaperActor
      ''expire_device_reservation'' (''reaper_'' @ rsv_id q) ''reservation lease and grace period expired'' db
      = Inr (closed, db')"
    using close_ok [OF inv qin e'(1) d(2) d(1,3,4), of ReservationExpired aid reaperActor] assms(12,13) by blast
  have "reap_tx (Inr aid) (rsv_id q) grace db = Inr (closed, db')"
    using find_by_id(2) [OF rows qin] e' c le assms(7)
    by (auto simp: reap_tx_def ClockNow_def)
  then have "\<exists>calls. ReapOnce (quiet env) grace db = (Inr (toView closed), calls, db')"
    using assms(3,11) q ios stf
    by (simp add: ReapOnce_def FindNextExpired_def close_externals_def run_tx_def result_view_def)
  moreover have "closed \<in> set (reservations db') \<and> rsv_id closed = rsv_id q \<and> rsv_status closed = ReservationExpired"
    using closeActiveLocked_row [OF inv c qin] by simp
  ultimately show ?thesis using qin e' le by blast
qed

text \<open>The sample farm an hour later.\<close>

definition later_farm :: farm_db where
  "later_farm = active_farm\<lparr>db_clock := 5000 * second\<rparr>"

lemma later_reached: "farm_step\<^sup>*\<^sup>* (farm_with []) later_farm"
proof -
  have "other_components active_farm later_farm"
    by (simp add: other_components_def later_farm_def active_farm_explicit leased_farm_def leased_device_def
        farm_device_def farm_pending_def second_def identifierPattern_def is_word_byte_def byte_def)
  then show ?thesis using active_reached by (meson rtranclp.rtrancl_into_rtrancl step_others)
qed

lemma later_farm_row:
  "(case (reservations later_farm, devices later_farm) of
      ([r], [d]) \<Rightarrow> rsv_status r = ReservationActive \<and> rsv_expires_at r = Some (1060 * second) \<and>
        rsv_device_id r = Some (dev_id d) \<and> dev_lifecycle d = DeviceBusy \<and> dev_health d = HealthHealthy
    | _ \<Rightarrow> False)"
  "audits later_farm = []" "db_clock later_farm = 5000 * second"
  by (simp_all add: later_farm_def active_farm_explicit leased_farm_def leased_device_def farm_device_def
      farm_pending_def)

theorem overdue_lease_collected_witness:
  "\<exists>closed calls db'. ReapOnce (quiet sample_env) second later_farm = (Inr (toView closed), calls, db') \<and>
     rsv_status closed = ReservationExpired"
proof -
  obtain r d where r: "reservations later_farm = [r]" "devices later_farm = [d]" "rsv_status r = ReservationActive"
    "rsv_expires_at r = Some (1060 * second)" "rsv_device_id r = Some (dev_id d)" "dev_lifecycle d = DeviceBusy"
    "dev_health d = HealthHealthy"
    using later_farm_row(1) by (auto split: list.splits)
  have "identifierPattern ''aud_0123456789ab''" by code_simp
  with overdue_lease_collected [OF sample_start later_reached, of second r "1060 * second" sample_env "''aud_0123456789ab''"]
    r later_farm_row(2,3)
  show ?thesis by (force simp: sample_env_def validHealthStatus_def second_def)
qed

end
