(* ===== verification/Scheduling.thy ===== *)
theory Scheduling
  imports Progress
begin

text \<open>
  What one pass of the scheduler guarantees: which reservation it serves and with which device, that a
  claim that fails is undone, and that no activation takes a host over its limit.
\<close>

section \<open>Scanning in order\<close>

lemma scan_first_least:
  assumes "scan_first q rows = Some (Some r)" and "sorted (map k rows)" and "x \<in> set rows" and "q x = Some True"
  shows "k r \<le> k x"
  using assms by (induction rows) (auto split: option.splits if_splits)

lemma reserved_row:
  assumes "LockNextAllocatablePending lockedR db = Inr r"
  shows "r \<in> set (reservations db)" and "allocation_due db r" and "allocatable db (rsv_capabilities r) = Some True"
    and "q \<in> set (reservations db) \<Longrightarrow> allocation_due db q \<Longrightarrow> rsv_id q \<notin> set lockedR \<Longrightarrow>
      allocatable db (rsv_capabilities q) = Some True \<Longrightarrow> rsv_age r \<le> rsv_age q"
proof -
  let ?q = "\<lambda>r. map_option (\<lambda>b. b \<and> rsv_id r \<notin> set lockedR) (allocatable db (rsv_capabilities r))"
  let ?rows = "sort_key rsv_age (filter (allocation_due db) (reservations db))"
  have s: "scan_first ?q ?rows = Some (Some r)"
    using assms by (auto simp: LockNextAllocatablePending_def split: option.splits)
  from scan_first_Some [OF s] show "r \<in> set (reservations db)" "allocation_due db r"
    "allocatable db (rsv_capabilities r) = Some True" by auto
  show "rsv_age r \<le> rsv_age q" if "q \<in> set (reservations db)" "allocation_due db q" "rsv_id q \<notin> set lockedR"
    "allocatable db (rsv_capabilities q) = Some True"
    by (rule scan_first_least [OF s]) (use that in simp_all)
qed

lemma matched_device:
  assumes "LockMatchingDevice lockedD req db = Inr a"
  obtains d pd h p where "(d, pd, h, p) \<in> set (join_device db)" and "a = to_assignment d"
    and "matches_request req (d, pd, h, p) = Some True"
proof -
  let ?q = "\<lambda>j. map_option (\<lambda>b. b \<and> dev_id (fst j) \<notin> set lockedD) (matches_request req j)"
  from assms obtain j where s: "scan_first ?q (sort_key (dev_age \<circ> fst) (join_device db)) = Some (Some j)"
    and a: "a = to_assignment (fst j)"
    by (auto simp: LockMatchingDevice_def split: option.splits)
  obtain d pd h p where j: "j = (d, pd, h, p)" by (cases j)
  from scan_first_Some [OF s] j have "(d, pd, h, p) \<in> set (join_device db)" "matches_request req (d, pd, h, p) = Some True"
    by auto
  with a j that show ?thesis by simp
qed

lemma next_reservation_Inr: "next_reservation l db = Inr r \<longleftrightarrow> LockNextAllocatablePending l db = Inr r"
  by (auto simp: next_reservation_def split: sum.splits farm_error.splits)

lemma matching_device_Inr: "matching_device l req db = Inr d \<longleftrightarrow> LockMatchingDevice l req db = Inr d"
  by (auto simp: matching_device_def split: sum.splits farm_error.splits)

lemma host_policy_Inr: "host_policy h d db = Inr p \<longleftrightarrow> LockPoolPolicyForHost h d db = Inr p"
  by (auto simp: host_policy_def split: sum.splits farm_error.splits)

text \<open>
  C21.  The scheduler serves requests in order and with a fitting device.  The reservation it reserves
  for is the oldest one that is due, not locked and can be served now; the device it takes is a ready,
  healthy member of an active pool on an online host that is not draining, it has the requested
  capabilities, and its API level reaches the requested minimum.
\<close>

theorem allocation_in_order:
  assumes "reserve_tx lockedR lockedD db = Inr (c, db')"
  shows "\<exists>r d pd h p. r \<in> set (reservations db) \<and> rsv_status r = ReservationPending \<and> rsv_device_id r = None \<and>
     cc_reservation c = r\<lparr>rsv_device_id := Some (dev_id d)\<rparr> \<and> cc_device c = to_assignment d \<and>
     (\<forall>q\<in>set (reservations db). allocation_due db q \<longrightarrow> rsv_id q \<notin> set lockedR \<longrightarrow>
        allocatable db (rsv_capabilities q) = Some True \<longrightarrow> rsv_age r \<le> rsv_age q) \<and>
     (d, pd, h, p) \<in> set (join_device db) \<and> dev_lifecycle d = DeviceReady \<and> dev_health d = HealthHealthy \<and>
     pd_enabled pd \<and> pool_status p = PoolActive \<and> host_status h = HostOnline \<and> \<not> host_draining h \<and>
     obj_contains (dev_capabilities d) (device_schedulable_capabilities (rsv_capabilities r)) \<and>
     (\<forall>m. int_or_zero (rsv_capabilities r) ''androidMinSdkLevel'' = Some m \<longrightarrow> m \<noteq> 0 \<longrightarrow>
        (\<exists>a. int_or_zero (dev_capabilities d) ''apiLevel'' = Some a \<and> m \<le> a))"
proof -
  from assms obtain r a pol where e: "next_reservation lockedR db = Inr r"
    "matching_device lockedD (rsv_capabilities r) db = Inr a"
    "c = \<lparr>cc_reservation = r\<lparr>rsv_device_id := Some (da_ID a)\<rparr>, cc_device = a\<rparr>"
    by (rule reserve_tx_Inr) blast
  note r = reserved_row [OF e(1) [unfolded next_reservation_Inr]]
  obtain d pd h p where d: "(d, pd, h, p) \<in> set (join_device db)" "a = to_assignment d"
    "matches_request (rsv_capabilities r) (d, pd, h, p) = Some True"
    by (rule matched_device [OF e(2) [unfolded matching_device_Inr]])
  have "schedulable_row (rsv_capabilities r) (d, pd, h, p)"
    and "min_sdk_ok (rsv_capabilities r) (dev_capabilities d) = Some True"
    using d(3) by (auto simp: matches_request_def split: if_splits)
  then show ?thesis
    using r(1,2,4) d(1,2) e(3)
    by (intro exI [of _ r] exI [of _ d] exI [of _ pd] exI [of _ h] exI [of _ p])
      (auto simp: schedulable_row_def min_sdk_ok_def allocation_due_def to_assignment_def
        split: option.splits if_splits)
qed

theorem allocation_in_order_witness:
  "\<exists>c r d. reserve_tx [] [] requested_farm = Inr (c, claimed_farm) \<and> r \<in> set (reservations requested_farm) \<and>
     cc_reservation c = r\<lparr>rsv_device_id := Some (dev_id d)\<rparr> \<and> dev_lifecycle (d :: device_row) = DeviceReady"
proof -
  obtain c where c: "reserve_tx [] [] requested_farm = Inr (c, claimed_farm)" using claimed_eq by blast
  show ?thesis using allocation_in_order [OF c] c by blast
qed

section \<open>Undoing a failed claim\<close>

lemma CompensateClaim_ok:
  assumes inv: "farm_inv db" and d: "d \<in> set (devices db)" "dev_lifecycle d = DeviceReserved" "dev_health d = HealthHealthy"
    and r: "r \<in> set (reservations db)" "rsv_status r = ReservationPending" "rsv_device_id r = Some (dev_id d)"
  shows "\<exists>db'. CompensateClaim (rsv_id r) (dev_id d) code terminal (db_clock db) db = Inr ((), db')"
proof -
  let ?t = "db_clock db"
  let ?P = "\<lambda>x. dev_id x = dev_id d \<and> dev_lifecycle x = DeviceReserved"
  let ?f = "\<lambda>x. x\<lparr>dev_lifecycle := DeviceRecycling, dev_updated_at := ?t\<rparr>"
  let ?P' = "\<lambda>x. dev_id x = dev_id d \<and> dev_lifecycle x = DeviceRecycling \<and> dev_health x = HealthHealthy"
  let ?f' = "\<lambda>x. x\<lparr>dev_lifecycle := DeviceReady, dev_updated_at := ?t\<rparr>"
  let ?Q = "\<lambda>x. rsv_id x = rsv_id r \<and> rsv_status x = ReservationPending \<and> rsv_device_id x = Some (dev_id d)"
  let ?g = "\<lambda>x. x\<lparr>rsv_device_id := None,
       rsv_status := (if terminal then ReservationFailed else ReservationPending),
       rsv_failure_code := Some code, rsv_updated_at := ?t\<rparr>"
  let ?db1 = "db\<lparr>devices := update_where ?P ?f (devices db)\<rparr>"
  let ?db2 = "?db1\<lparr>devices := update_where ?P' ?f' (devices ?db1)\<rparr>"
  have rows: "rows_ok db" by (rule farm_inv_rows [OF inv])
  have u1: "update_devices ?P ?f db = Inr (1, ?db1)"
    by (rule update_devices_ok [OF rows d(1)]) (use d in simp_all)
  have rows1: "rows_ok ?db1" by (rule update_devices_rows [OF rows u1]) simp
  have "set (devices ?db1) = insert (?f d) (set (devices db) - {d})"
    using set_update_single [of dev_id "devices db" d ?P ?f, OF rows_okD(2) [OF rows] d(1)] d(2) by simp
  then have "?f d \<in> set (devices ?db1)" by blast
  then have u2: "update_devices ?P' ?f' ?db1 = Inr (1, ?db2)"
    by (rule update_devices_ok [OF rows1]) (use d in simp_all)
  have rows2: "rows_ok ?db2" by (rule update_devices_rows [OF rows1 u2]) simp
  have ok: "rsv_ok ?t r" by (rule rows_okD(6) [OF rows r(1)])
  have ck: "ck_reservation (?g r)"
    using ok r(2) by (auto simp: rsv_ok_def ck_reservation_def validReservationStatus_def split: option.splits)
  have "exclusive (insert (?g r) (set (reservations db) - {r}))"
    by (rule exclusive_drop) (use inv in \<open>auto simp: farm_inv_def farm_core_def core_def holds_def\<close>)
  then have "update_reservations ?Q ?g ?db2 = Inr ([?g r], ?db2\<lparr>reservations := update_where ?Q ?g (reservations ?db2)\<rparr>)"
    by (intro update_reservations_ok [OF rows2]) (use r ck in auto)
  then show ?thesis unfolding CompensateClaim_def one_row using u1 u2 by blast
qed


definition failing_env :: scheduler_env where
  "failing_env = \<lparr>se_locked_reservations = [], se_locked_devices = [],
     se_claimer = Some \<lparr>dc_Claim = (\<lambda>_ _. Some True), dc_Release = (\<lambda>_. True)\<rparr>,
     se_newID = Inr ''ses_0123456789ab'', se_now = 1, se_others = (\<lambda>s. s)\<rparr>"

lemma claimed_exact: "reserve_tx [] [] requested_farm = Inr (sample_claim_of, claimed_farm)"
  by (simp add: claimed_step claimed_farm_explicit)


section \<open>Capacity\<close>

definition active_on_host :: "string \<Rightarrow> farm_db \<Rightarrow> reservation_row set" where
  "active_on_host hostID db =
     {r \<in> set (reservations db). rsv_status r = ReservationActive \<and>
        (\<exists>d\<in>set (devices db). rsv_device_id r = Some (dev_id d) \<and> dev_host_id d = hostID)}"

lemma count_active_card:
  assumes "rows_ok db"
  shows "count_active_on_host hostID db = int (card (active_on_host hostID db))"
proof -
  let ?P = "\<lambda>(r, d). rsv_device_id r = Some (dev_id d) \<and> rsv_status r = ReservationActive \<and> dev_host_id d = hostID"
  let ?pairs = "filter ?P (List.product (reservations db) (devices db))"
  have "distinct (reservations db)" "distinct (devices db)"
    using rows_okD(2,3) [OF assms] by (simp_all add: distinct_map)
  then have "distinct ?pairs" by (simp add: distinct_product)
  then have len: "length ?pairs = card (set ?pairs)" by (rule distinct_card [symmetric])
  have inj: "inj_on fst (set ?pairs)"
  proof (rule inj_onI)
    fix x y assume xy: "x \<in> set ?pairs" "y \<in> set ?pairs" "fst x = fst y"
    then have "snd x \<in> set (devices db)" "snd y \<in> set (devices db)" "dev_id (snd x) = dev_id (snd y)" by auto
    then have "snd x = snd y" by (rule distinct_map_same [OF rows_okD(2) [OF assms]])
    with xy(3) show "x = y" by (simp add: prod_eq_iff)
  qed
  have img: "fst ` set ?pairs = active_on_host hostID db"
  proof (intro equalityI subsetI)
    fix x assume "x \<in> active_on_host hostID db"
    then obtain d where "d \<in> set (devices db)" "x \<in> set (reservations db)" "?P (x, d)"
      by (auto simp: active_on_host_def)
    then have "(x, d) \<in> set ?pairs" by simp
    then show "x \<in> fst ` set ?pairs" by (rule image_eqI [rotated]) simp
  next
    fix x assume "x \<in> fst ` set ?pairs"
    then obtain y where y: "y \<in> set ?pairs" "x = fst y" by blast
    have "(x, snd y) \<in> set ?pairs" using y(1) unfolding y(2) prod.collapse .
    then have "x \<in> set (reservations db)" "snd y \<in> set (devices db)" "?P (x, snd y)" by simp_all
    then show "x \<in> active_on_host hostID db" unfolding active_on_host_def by blast
  qed
  have "length ?pairs = card (active_on_host hostID db)"
    unfolding len img [symmetric] by (rule card_image [OF inj, symmetric])
  then show ?thesis unfolding count_active_on_host_def by (rule arg_cong)
qed

text \<open>
  C23.  Activation respects the limit of the host: after an activation the active reservations on the
  devices of the host are at most the concurrency limit of the pool that governs the host, read in the
  same transaction.
\<close>

theorem host_limit_respected:
  assumes "farm_inv db" and "activate_tx c sid wall db = Inr (a, db')"
  shows "\<exists>p. LockPoolPolicyForHost (da_HostID (cc_device c)) (da_ID (cc_device c)) db = Inr p \<and>
     count_active_on_host (da_HostID (cc_device c)) db' \<le> pp_MaxConcurrency p"
proof -
  let ?h = "da_HostID (cc_device c)"
  from assms(2) obtain r dev p where t: "LockByID (rsv_id (cc_reservation c)) db = Inr r"
    "LockPoolPolicyForHost ?h (da_ID (cc_device c)) db = Inr p"
    "pp_ActiveReservations p < pp_MaxConcurrency p" "ActivateClaimed r dev sid db = Inr (a, db')"
    by (rule activate_tx_Inr)
  have rows: "rows_ok db" by (rule farm_inv_rows [OF assms(1)])
  have rows': "rows_ok db'" using activate_tx_inv [OF assms] by (rule farm_inv_rows)
  obtain active session where a: "a = (active, session)" by (cases a)
  obtain d r0 d' where e: "d \<in> set (devices db)" "dev_id d = da_ID dev" 
    "d' = d\<lparr>dev_lifecycle := DeviceBusy, dev_updated_at := db_clock db\<rparr>"
    "r0 \<in> set (reservations db)"
    "set (devices db') = insert d' (set (devices db) - {d})"
    "set (reservations db') = insert active (set (reservations db) - {r0})"
    by (rule ActivateClaimed_effect [OF rows t(4) [unfolded a]]) (rule that)
  have "active_on_host ?h db' \<subseteq> insert active (active_on_host ?h db)"
    using e(1,3) unfolding active_on_host_def e(5,6) by auto
  then have "card (active_on_host ?h db') \<le> card (insert active (active_on_host ?h db))"
    by (rule card_mono [rotated]) (simp add: active_on_host_def)
  also have "\<dots> \<le> Suc (card (active_on_host ?h db))" by (simp add: card_insert_if active_on_host_def)
  finally have "count_active_on_host ?h db' \<le> count_active_on_host ?h db + 1"
    by (simp add: count_active_card [OF rows] count_active_card [OF rows'])
  moreover have "pp_ActiveReservations p = count_active_on_host ?h db"
    using t(2) by (auto simp: LockPoolPolicyForHost_def Let_def pool_policy_of_def split: option.splits)
  ultimately show ?thesis using t(2,3) by auto
qed

theorem host_limit_respected_witness:
  "\<exists>a p. activate_tx sample_claim_of ''ses_0123456789ab'' 1 claimed_farm = Inr (a, active_farm) \<and>
     count_active_on_host (da_HostID (cc_device sample_claim_of)) active_farm \<le> pp_MaxConcurrency (p :: pool_policy)"
proof -
  obtain a where a: "activate_tx sample_claim_of ''ses_0123456789ab'' 1 claimed_farm = Inr (a, active_farm)"
    using active_eq by blast
  show ?thesis using host_limit_respected [OF run_inv [OF sample_start claimed_reached] a] a by blast
qed

end
