(* ===== verification/Go_Float.thy ===== *)
theory Go_Float
  imports Complex_Main "HOL-Library.Log_Nat" Farm_Json
begin

text \<open>
  Go's \<open>float64\<close> as far as the resource arithmetic uses it: finite values as the rational numbers
  they stand for, rounding to nearest with ties to even, infinities and NaN with their comparisons,
  and \<open>strconv.ParseFloat\<close>.
\<close>

section \<open>Values\<close>

datatype float64 = Fin rat | PosInf | NegInf | NaN

fun float_less :: "float64 \<Rightarrow> float64 \<Rightarrow> bool" where
  "float_less (Fin x) (Fin y) \<longleftrightarrow> x < y"
| "float_less (Fin x) y \<longleftrightarrow> y = PosInf"
| "float_less NegInf y \<longleftrightarrow> y \<noteq> NegInf \<and> y \<noteq> NaN"
| "float_less x y \<longleftrightarrow> False"

section \<open>Rounding\<close>

definition pow2 :: "int \<Rightarrow> rat" where
  "pow2 k = power_int 2 k"

definition round_half_even :: "rat \<Rightarrow> int" where
  "round_half_even q =
     (let f = \<lfloor>q\<rfloor>; r = q - of_int f
      in if r < 1 / 2 then f else if 1 / 2 < r then f + 1 else if even f then f else f + 1)"

text \<open>The exponent of a positive number: the greatest \<open>e\<close> with \<open>2 ^ e \<le> x\<close>.\<close>

definition binary_exponent :: "rat \<Rightarrow> int" where
  "binary_exponent x =
     (case quotient_of x of (n, d) \<Rightarrow>
        let k = bitlen n - bitlen d in if pow2 k \<le> x then k else k - 1)"

text \<open>
  The distance of neighbouring floats at \<open>x\<close>: 53 significant bits, and \<open>2 ^ -1074\<close> at least.
\<close>

definition float_ulp :: "rat \<Rightarrow> rat" where
  "float_ulp x = pow2 (max (binary_exponent \<bar>x\<bar> - 52) (- 1074))"

definition round64 :: "rat \<Rightarrow> rat" where
  "round64 x = (if x = 0 then 0 else of_int (round_half_even (x / float_ulp x)) * float_ulp x)"

definition max_float64 :: rat where
  "max_float64 = (2 - 1 / 2 ^ 52) * 2 ^ 1023"

text \<open>The result of a finite operation: values beyond the largest float become infinite.\<close>

definition float_of_rat :: "rat \<Rightarrow> float64" where
  "float_of_rat x =
     (let r = round64 x
      in if max_float64 < r then PosInf else if r < - max_float64 then NegInf else Fin r)"

fun float_add :: "float64 \<Rightarrow> float64 \<Rightarrow> float64" where
  "float_add (Fin x) (Fin y) = float_of_rat (x + y)"
| "float_add NaN y = NaN"
| "float_add x NaN = NaN"
| "float_add PosInf y = (if y = NegInf then NaN else PosInf)"
| "float_add NegInf y = (if y = PosInf then NaN else NegInf)"
| "float_add (Fin x) y = y"

fun float_neg :: "float64 \<Rightarrow> float64" where
  "float_neg (Fin x) = Fin (- x)"
| "float_neg PosInf = NegInf"
| "float_neg NegInf = PosInf"
| "float_neg NaN = NaN"

definition float_sub :: "float64 \<Rightarrow> float64 \<Rightarrow> float64" where
  "float_sub x y = float_add x (float_neg y)"

fun float_mul :: "float64 \<Rightarrow> float64 \<Rightarrow> float64" where
  "float_mul (Fin x) (Fin y) = float_of_rat (x * y)"
| "float_mul x y =
     (if x = NaN \<or> y = NaN \<or> x = Fin 0 \<or> y = Fin 0 then NaN
      else if float_less x (Fin 0) = float_less y (Fin 0) then PosInf else NegInf)"

text \<open>Division; the sign of a zero divisor is taken to be positive.\<close>

fun float_div :: "float64 \<Rightarrow> float64 \<Rightarrow> float64" where
  "float_div (Fin x) (Fin y) =
     (if y = 0 then (if x = 0 then NaN else if 0 < x then PosInf else NegInf) else float_of_rat (x / y))"
| "float_div (Fin x) y = (if y = NaN then NaN else Fin 0)"
| "float_div x (Fin y) =
     (if x = NaN then NaN else if float_less x (Fin 0) = (y < 0) then PosInf else NegInf)"
| "float_div x y = NaN"

text \<open>\<open>math.Max\<close>\<close>

definition float_max :: "float64 \<Rightarrow> float64 \<Rightarrow> float64" where
  "float_max x y =
     (if x = PosInf \<or> y = PosInf then PosInf else if x = NaN \<or> y = NaN then NaN
      else if float_less x y then y else x)"

text \<open>Conversion to \<open>int64\<close>; where the value does not fit, the result of amd64.\<close>

definition int64_of_float :: "rat \<Rightarrow> int" where
  "int64_of_float x =
     (let i = (if x < 0 then \<lceil>x\<rceil> else \<lfloor>x\<rfloor>) in if - (2 ^ 63) \<le> i \<and> i < 2 ^ 63 then i else - (2 ^ 63))"

definition floor_int :: "float64 \<Rightarrow> int" where
  "floor_int v = (case v of Fin x \<Rightarrow> int64_of_float (of_int \<lfloor>x\<rfloor>) | _ \<Rightarrow> - (2 ^ 63))"

definition ceil_int :: "float64 \<Rightarrow> int" where
  "ceil_int v = (case v of Fin x \<Rightarrow> int64_of_float (of_int \<lceil>x\<rceil>) | _ \<Rightarrow> - (2 ^ 63))"

definition trunc_int :: "float64 \<Rightarrow> int" where
  "trunc_int v = (case v of Fin x \<Rightarrow> int64_of_float x | _ \<Rightarrow> - (2 ^ 63))"

lemma round_half_even_of_int [simp]: "round_half_even (of_int i) = i"
  by (simp add: round_half_even_def)

lemma round_half_even_mono: "x \<le> y \<Longrightarrow> round_half_even x \<le> round_half_even y"
proof -
  assume le: "x \<le> y"
  then have f: "\<lfloor>x\<rfloor> \<le> \<lfloor>y\<rfloor>" by (rule floor_mono)
  show ?thesis
  proof (cases "\<lfloor>x\<rfloor> = \<lfloor>y\<rfloor>")
    case True
    with le show ?thesis by (auto simp: round_half_even_def Let_def)
  next
    case False
    then show ?thesis using f by (auto simp: round_half_even_def Let_def)
  qed
qed

lemma pow2_pos [simp]: "0 < pow2 k"
  by (simp add: pow2_def)

lemma pow2_nonzero [simp]: "pow2 k \<noteq> 0"
  by (simp add: pow2_def)

lemma float_ulp_pos [simp]: "0 < float_ulp x"
  by (simp add: float_ulp_def)

lemma float_ulp_nonzero [simp]: "float_ulp x \<noteq> 0"
  by (simp add: float_ulp_def)

lemma pow2_add: "pow2 (a + b) = pow2 a * pow2 b"
  by (simp add: pow2_def power_int_add)

lemma pow2_nat: "0 \<le> k \<Longrightarrow> pow2 k = of_int (2 ^ nat k)"
  by (simp add: pow2_def power_int_def)

lemma pow2_strict: "a < b \<Longrightarrow> pow2 a < pow2 b"
  by (simp add: pow2_def power_int_strict_increasing)

lemma pow2_mono: "a \<le> b \<Longrightarrow> pow2 a \<le> pow2 b"
  by (simp add: pow2_def power_int_increasing)

text \<open>The exponent brackets its argument, and is determined by that.\<close>

lemma bitlen_bracket: "0 < n \<Longrightarrow> pow2 (bitlen n - 1) \<le> of_int n \<and> of_int n < pow2 (bitlen n)"
proof -
  assume n: "0 < n"
  then have b: "2 ^ nat (bitlen n - 1) \<le> n" "n < 2 ^ nat (bitlen n)" "0 < bitlen n"
    using bitlen_bounds [OF n] bitlen_eq_zero_iff [of n] bitlen_nonneg [of n] n by linarith+
  have "pow2 (bitlen n - 1) = of_int (2 ^ nat (bitlen n - 1))" "pow2 (bitlen n) = of_int (2 ^ nat (bitlen n))"
    using b(3) by (simp_all add: pow2_nat)
  with b(1,2) show ?thesis by (simp only: of_int_le_iff of_int_less_iff)
qed

lemma binary_exponent_bounds:
  assumes "0 < x"
  shows "pow2 (binary_exponent x) \<le> x" and "x < pow2 (binary_exponent x + 1)"
proof -
  obtain n d where q: "quotient_of x = (n, d)" by (cases "quotient_of x")
  have d: "0 < d" by (rule quotient_of_denom_pos [OF q])
  have x: "x = of_int n / of_int d" by (rule quotient_of_div [OF q])
  have n: "0 < n" using assms d by (simp add: x zero_less_divide_iff)
  let ?k = "bitlen n - bitlen d"
  note bn = bitlen_bracket [OF n] and bd = bitlen_bracket [OF d]
  have d': "0 < (of_int d :: rat)" using d by simp
  have "pow2 (?k - 1) * of_int d \<le> pow2 (?k - 1) * pow2 (bitlen d)"
    using bd by (intro mult_left_mono) (auto intro: less_imp_le)
  also have "\<dots> = pow2 (bitlen n - 1)" by (simp flip: pow2_add)
  also have "\<dots> \<le> of_int n" using bn by simp
  finally have lo: "pow2 (?k - 1) \<le> x" using d' by (simp add: x pos_le_divide_eq)
  have "of_int n < pow2 (bitlen n)" using bn by simp
  also have "\<dots> = pow2 (?k + 1) * pow2 (bitlen d - 1)" by (simp flip: pow2_add)
  also have "\<dots> \<le> pow2 (?k + 1) * of_int d"
    using bd by (intro mult_left_mono) (auto intro: less_imp_le)
  finally have hi: "x < pow2 (?k + 1)" using d' by (simp add: x pos_divide_less_eq)
  show "pow2 (binary_exponent x) \<le> x" and "x < pow2 (binary_exponent x + 1)"
    using lo hi by (auto simp: binary_exponent_def q Let_def)
qed

lemma binary_exponent_less: "0 < x \<Longrightarrow> x < pow2 k \<Longrightarrow> binary_exponent x < k"
  using binary_exponent_bounds(1) [of x] pow2_mono [of k "binary_exponent x"] by (meson leD le_less_trans not_less)

text \<open>Rounding keeps every number that has 53 significant bits.\<close>

lemma round64_exact:
  assumes x: "x = of_int m * pow2 e" and m: "\<bar>m\<bar> \<le> 2 ^ 53" and e: "- 1074 \<le> e"
  shows "round64 x = x"
proof (cases "m = 0")
  case False
  let ?b = "binary_exponent \<bar>x\<bar>"
  have pos: "0 < \<bar>x\<bar>" using False by (simp add: x)
  have ax: "\<bar>x\<bar> = of_int \<bar>m\<bar> * pow2 e"
    using pow2_pos [of e] by (simp add: x abs_mult abs_of_pos del: pow2_pos)
  have "\<exists>i. x / float_ulp x = of_int i"
  proof (cases "\<bar>m\<bar> = 2 ^ 53")
    case True
    have p53: "of_int \<bar>m\<bar> = pow2 53" using True by (simp add: pow2_nat)
    have a: "\<bar>x\<bar> = pow2 (e + 53)" using ax p53 by (simp add: pow2_add mult.commute)
    have "?b < e + 54" by (rule binary_exponent_less [OF pos]) (simp add: a pow2_strict)
    then have u: "float_ulp x = pow2 (max (?b - 52) (- 1074))" "max (?b - 52) (- 1074) \<le> e + 1"
      using e by (auto simp: float_ulp_def)
    let ?u = "max (?b - 52) (- 1074)"
    have "\<bar>x\<bar> = pow2 (e + 53 - ?u) * pow2 ?u" using a by (simp flip: pow2_add)
    moreover have "0 \<le> e + 53 - ?u" using u(2) by linarith
    ultimately have "\<bar>x\<bar> = of_int (2 ^ nat (e + 53 - ?u)) * float_ulp x" using u(1) by (simp add: pow2_nat)
    then have "x = of_int (2 ^ nat (e + 53 - ?u)) * float_ulp x \<or> x = of_int (- (2 ^ nat (e + 53 - ?u))) * float_ulp x"
      by (simp add: abs_if split: if_splits)
    then show ?thesis by (metis nonzero_mult_div_cancel_right float_ulp_pos less_numeral_extra(3))
  next
    case False
    then have "\<bar>m\<bar> < 2 ^ 53" using m by simp
    then have "(of_int \<bar>m\<bar> :: rat) < pow2 53" by (simp add: pow2_nat del: of_int_abs)
    then have "\<bar>x\<bar> < pow2 (53 + e)" by (simp only: ax pow2_add) (rule mult_strict_right_mono, simp_all)
    then have "?b < 53 + e" by (rule binary_exponent_less [OF pos])
    then have u: "float_ulp x = pow2 (max (?b - 52) (- 1074))" "max (?b - 52) (- 1074) \<le> e"
      using e by (auto simp: float_ulp_def)
    let ?u = "max (?b - 52) (- 1074)"
    have "x = of_int m * (pow2 (e - ?u) * pow2 ?u)" by (simp add: x flip: pow2_add)
    then have "x = of_int (m * 2 ^ nat (e - ?u)) * float_ulp x"
      using u by (simp only: u(1) pow2_nat [of "e - ?u"] of_int_mult of_int_power mult.assoc)
    then show ?thesis by (metis nonzero_mult_div_cancel_right float_ulp_pos less_numeral_extra(3))
  qed
  then obtain i where i: "x / float_ulp x = of_int i" by blast
  have "round64 x = of_int i * float_ulp x" using i pos by (simp add: round64_def)
  also have "\<dots> = x" using i float_ulp_pos [of x] by (metis less_numeral_extra(3) nonzero_divide_eq_eq)
  finally show ?thesis .
qed (simp add: x round64_def)

text \<open>A number that is at least 1 does not round below 1.\<close>

lemma round64_ge_1:
  assumes "1 \<le> x"
  shows "1 \<le> round64 x"
proof -
  let ?b = "binary_exponent x"
  have pos: "0 < x" using assms by simp
  have b0: "0 \<le> ?b"
  proof (rule ccontr)
    assume "\<not> 0 \<le> ?b"
    then have "pow2 (?b + 1) \<le> pow2 0" by (intro pow2_mono) simp
    with binary_exponent_bounds(2) [OF pos] assms show False by (simp add: pow2_def)
  qed
  then have u: "float_ulp x = pow2 (?b - 52)" using pos by (simp add: float_ulp_def)
  have "pow2 52 * pow2 (?b - 52) \<le> x" using binary_exponent_bounds(1) [OF pos] by (simp flip: pow2_add)
  then have "of_int (2 ^ 52) \<le> x / float_ulp x" by (simp add: u pos_le_divide_eq pow2_nat)
  then have "2 ^ 52 \<le> round_half_even (x / float_ulp x)"
    using round_half_even_mono [of "of_int (2 ^ 52)"] by (simp only: round_half_even_of_int)
  then have "(of_int (2 ^ 52) :: rat) \<le> of_int (round_half_even (x / float_ulp x))" by (simp only: of_int_le_iff)
  then have "of_int (2 ^ 52) * float_ulp x \<le> of_int (round_half_even (x / float_ulp x)) * float_ulp x"
    by (rule mult_right_mono) (simp add: less_imp_le)
  then have "pow2 52 * pow2 (?b - 52) \<le> round64 x" using pos by (simp add: round64_def u pow2_nat)
  moreover have "1 \<le> pow2 52 * pow2 (?b - 52)"
    using pow2_mono [OF b0] by (simp flip: pow2_add) (simp add: pow2_def)
  ultimately show ?thesis by linarith
qed

lemma round_half_even_le: "of_int (round_half_even q) \<le> q + 1 / 2"
  by (simp add: round_half_even_def Let_def) linarith

lemma round64_le_double:
  assumes "1 \<le> x"
  shows "round64 x \<le> 2 * x"
proof -
  let ?b = "binary_exponent x" and ?u = "float_ulp x"
  have pos: "0 < x" using assms by simp
  have u: "?u \<le> x"
  proof -
    have "- 1 < ?b"
    proof (rule ccontr)
      assume "\<not> - 1 < ?b"
      then have "pow2 (?b + 1) \<le> pow2 0" by (intro pow2_mono) simp
      with binary_exponent_bounds(2) [OF pos] assms show False by (simp add: pow2_def)
    qed
    then have "?u \<le> pow2 ?b" using pos unfolding float_ulp_def by (intro pow2_mono) simp
    also have "\<dots> \<le> x" by (rule binary_exponent_bounds(1) [OF pos])
    finally show ?thesis .
  qed
  have "round64 x \<le> (x / ?u + 1 / 2) * ?u"
    using pos round_half_even_le [of "x / ?u"] by (simp add: round64_def mult_right_mono less_imp_le)
  also have "\<dots> = x + ?u / 2" using float_ulp_pos [of x] by (simp add: distrib_right)
  also have "\<dots> \<le> 2 * x" using u pos by linarith
  finally show ?thesis .
qed

lemma floor_of_ratio:
  assumes "1 \<le> x" and "x \<le> 2 ^ 53"
  shows "1 \<le> floor_int (float_of_rat x)"
proof -
  have r: "1 \<le> round64 x" "round64 x \<le> 2 ^ 54"
    using round64_ge_1 [OF assms(1)] round64_le_double [OF assms(1)] assms(2) by simp_all
  moreover have "(2::rat) ^ 54 \<le> max_float64" by (simp add: max_float64_def)
  ultimately have f: "float_of_rat x = Fin (round64 x)" by (auto simp: float_of_rat_def Let_def)
  have "1 \<le> \<lfloor>round64 x\<rfloor>" "\<lfloor>round64 x\<rfloor> \<le> 2 ^ 54"
    using r by (simp add: le_floor_iff, simp add: floor_le_iff)
  then show ?thesis by (simp add: f floor_int_def int64_of_float_def)
qed

lemma round64_of_int [simp]: "\<bar>i\<bar> \<le> 2 ^ 53 \<Longrightarrow> round64 (of_int i) = of_int i"
  by (rule round64_exact [of _ i 0]) (simp_all add: pow2_nat)

lemma float_of_int:
  assumes "\<bar>i\<bar> \<le> 2 ^ 53"
  shows "float_of_rat (of_int i) = Fin (of_int i)"
proof -
  have "(2::rat) ^ 53 \<le> max_float64" by (simp add: max_float64_def)
  moreover have "of_int \<bar>i\<bar> \<le> (of_int (2 ^ 53) :: rat)" using assms by (simp only: of_int_le_iff)
  ultimately have "\<bar>of_int i\<bar> \<le> max_float64" by simp
  then show ?thesis using assms by (auto simp: float_of_rat_def Let_def abs_le_iff)
qed

section \<open>Parsing\<close>

text \<open>
  \<open>strconv.ParseFloat(s, 64)\<close>.  Digits with underscores between them, a decimal point, a decimal
  exponent; after \<open>0x\<close> hexadecimal digits and a mandatory binary exponent; or a name of an infinity
  or of NaN.  \<open>None\<close> is an error, syntax or range.
\<close>

definition strip_sign :: "string \<Rightarrow> bool \<times> string" where
  "strip_sign s =
     (case s of c # r \<Rightarrow> if c = CHR ''-'' then (True, r) else if c = CHR ''+'' then (False, r) else (False, s)
      | [] \<Rightarrow> (False, s))"

definition mantissa_char :: "nat \<Rightarrow> char \<Rightarrow> bool" where
  "mantissa_char base c \<longleftrightarrow> c = CHR ''_'' \<or> digit_value c < base"

text \<open>\<open>underscoreOK\<close>: an underscore stands between digits, or between the base prefix and a digit.\<close>

fun underscores_ok :: "bool \<Rightarrow> bool \<Rightarrow> string \<Rightarrow> bool" where
  "underscores_ok hex prev [] \<longleftrightarrow> True"
| "underscores_ok hex prev (c # s) \<longleftrightarrow>
     (if c = CHR ''_''
      then prev \<and> s \<noteq> [] \<and> hd s \<noteq> CHR ''_'' \<and> digit_value (hd s) < (if hex then 16 else 10) \<and>
           underscores_ok hex False s
      else underscores_ok hex (digit_value c < (if hex then 16 else 10)) s)"

definition without_underscores :: "string \<Rightarrow> string" where
  "without_underscores s = filter (\<lambda>c. c \<noteq> CHR ''_'') s"

definition parse_exponent :: "string \<Rightarrow> int option" where
  "parse_exponent s =
     (case strip_sign s of (neg, ds) \<Rightarrow>
        if ds = [] \<or> \<not> is_digit (hd ds) \<or> \<not> list_all (\<lambda>c. is_digit c \<or> c = CHR ''_'') ds then None
        else let v = digits_value 10 (without_underscores ds) in Some (if neg then - v else v))"

definition parse_magnitude :: "nat \<Rightarrow> string \<Rightarrow> rat option" where
  "parse_magnitude base s =
     (let whole = takeWhile (mantissa_char base) s;
          r1 = dropWhile (mantissa_char base) s;
          dot = (r1 \<noteq> [] \<and> hd r1 = CHR ''.'');
          frac = (if dot then takeWhile (mantissa_char base) (tl r1) else []);
          r2 = (if dot then dropWhile (mantissa_char base) (tl r1) else r1);
          ds = without_underscores whole; fs = without_underscores frac;
          m = rat_of_int (digits_value base (ds @ fs)) / rat_of_int (int base ^ length fs);
          mark = (if base = 16 then CHR ''p'' else CHR ''e'')
      in if ds @ fs = [] then None
         else if r2 = [] then (if base = 16 then None else Some m)
         else if lower_char (hd r2) = mark
         then map_option (\<lambda>e. m * (if base = 16 then pow2 e
                else if 0 \<le> e then 10 ^ nat e else 1 / 10 ^ nat (- e))) (parse_exponent (tl r2))
         else None)"

definition ParseFloat :: "string \<Rightarrow> float64 option" where
  "ParseFloat s =
     (case strip_sign s of (neg, t) \<Rightarrow>
        let l = ToLower t;
            hex = (case t of z # x # r \<Rightarrow> z = CHR ''0'' \<and> lower_char x = CHR ''x'' | _ \<Rightarrow> False)
        in if l = ''inf'' \<or> l = ''infinity'' then Some (if neg then NegInf else PosInf)
           else if ToLower s = ''nan'' then Some NaN
           else if \<not> (if hex then underscores_ok True True (drop 2 t) else underscores_ok False False t) then None
           else case (if hex then parse_magnitude 16 (drop 2 t) else parse_magnitude 10 t) of
             None \<Rightarrow> None
           | Some x \<Rightarrow> (case float_of_rat (if neg then - x else x) of Fin r \<Rightarrow> Some (Fin r) | _ \<Rightarrow> None))"

text \<open>The decimal text of a JSON number that is not integral.\<close>

definition float_of_text :: "string \<Rightarrow> float64" where
  "float_of_text t = (case ParseFloat t of Some x \<Rightarrow> x | None \<Rightarrow> Fin 0)"

section \<open>Printing\<close>

text \<open>
  The exact decimal text of a finite float whose fraction has at most \<open>k\<close> binary places.  Go prints
  the shortest text that reads back as the same float; both denote the same value.
\<close>

definition pad_left :: "nat \<Rightarrow> string \<Rightarrow> string" where
  "pad_left n s = replicate (n - length s) (CHR ''0'') @ s"

definition decimal_text :: "nat \<Rightarrow> rat \<Rightarrow> string" where
  "decimal_text k x =
     (let n = \<lfloor>\<bar>x\<bar> * 10 ^ k\<rfloor>
      in (if x < 0 then ''-'' else []) @ int_text (n div 10 ^ k) @ ''.'' @ pad_left k (int_text (n mod 10 ^ k)))"

definition fraction_bits :: "rat \<Rightarrow> nat" where
  "fraction_bits x = nat (bitlen (snd (quotient_of x)) - 1)"

definition float_json :: "float64 \<Rightarrow> json" where
  "float_json v =
     (case v of Fin x \<Rightarrow> if x = of_int \<lfloor>x\<rfloor> then JNum \<lfloor>x\<rfloor> else JReal (decimal_text (fraction_bits x) x)
      | _ \<Rightarrow> JNull)"

section \<open>A printed float reads back\<close>

text \<open>The rationals that are floats: 53 bits over a power of two.\<close>

definition is_float :: "rat \<Rightarrow> bool" where
  "is_float x \<longleftrightarrow>
     (case quotient_of x of (n, d) \<Rightarrow>
        \<bar>n\<bar> \<le> 2 ^ 53 \<and> d = 2 ^ fraction_bits x \<and> fraction_bits x \<le> 1074)"

lemma is_float_round:
  assumes "is_float x" and "\<bar>x\<bar> \<le> 2 ^ 53"
  shows "float_of_rat x = Fin x"
proof -
  obtain n d where q: "quotient_of x = (n, d)" by (cases "quotient_of x")
  have x: "x = of_int n / of_int d" by (rule quotient_of_div [OF q])
  from assms(1) q have d: "\<bar>n\<bar> \<le> 2 ^ 53" "d = 2 ^ fraction_bits x" "fraction_bits x \<le> 1074"
    by (simp_all add: is_float_def)
  have "x = of_int n * pow2 (- int (fraction_bits x))"
    using x d(2) by (simp add: pow2_def power_int_minus divide_inverse)
  then have "round64 x = x" by (rule round64_exact) (use d in simp_all)
  moreover have "(2::rat) ^ 53 \<le> max_float64" by (simp add: max_float64_def)
  ultimately show ?thesis using assms(2) by (auto simp: float_of_rat_def Let_def abs_le_iff)
qed

lemma digits_value_append:
  "digits_value 10 (a @ b) = digits_value 10 a * 10 ^ length b + digits_value 10 b"
proof (induction b rule: rev_induct)
  case (snoc c b)
  then show ?case
    unfolding append_assoc [symmetric] by (simp add: digits_value_def algebra_simps)
qed (simp add: digits_value_def)

lemma digits_value_zeros: "digits_value 10 (replicate n (CHR ''0'')) = 0"
  by (induction n) (simp_all add: digits_value_def digit_value_def is_digit_def lower_char_def byte_def)

lemma nat_text_length: "n < 10 ^ k \<Longrightarrow> 0 < k \<Longrightarrow> length (nat_text n) \<le> k"
proof (induction k arbitrary: n)
  case (Suc k)
  show ?case
  proof (cases "n < 10")
    case False
    then have "n div 10 < 10 ^ k" "0 < k" using Suc.prems(1) by (auto intro: gr0I)
    from Suc.IH [OF this] False show ?thesis by (simp add: nat_text.simps [of n])
  qed (simp add: nat_text.simps [of n])
qed simp

lemma digit_char_zero: "digit_char (CHR ''0'')"
  by (simp add: digit_char_def is_digit_def byte_def sql_space_def)

lemma pad_left_digits:
  assumes "n < 10 ^ k" and "0 < k"
  shows "list_all digit_char (pad_left k (nat_text n))" and "length (pad_left k (nat_text n)) = k"
    and "digits_value 10 (pad_left k (nat_text n)) = int n"
  using nat_text_digits [of n] nat_text_length [OF assms] digit_char_zero
  by (auto simp: pad_left_def digits_value_append digits_value_zeros list_all_iff)

lemma digit_mantissa: "digit_char c \<Longrightarrow> mantissa_char 10 c \<and> c \<noteq> CHR ''_'' \<and> c \<noteq> CHR ''.'' \<and> lower_char c = c"
  by (auto simp: digit_char_def mantissa_char_def is_digit_def digit_value_def byte_def lower_char_def)

lemma dot_no_mantissa: "\<not> mantissa_char 10 (CHR ''.'')"
  by (simp add: mantissa_char_def digit_value_def is_digit_def byte_def lower_char_def)

lemma underscores_ok_none: "CHR ''_'' \<notin> set t \<Longrightarrow> underscores_ok h p t"
  by (induction h p t rule: underscores_ok.induct) auto

lemma parse_decimal:
  assumes w: "list_all digit_char w" "w \<noteq> []" and f: "list_all digit_char fs"
  shows "parse_magnitude 10 (w @ CHR ''.'' # fs) =
    Some (rat_of_int (digits_value 10 (w @ fs)) / 10 ^ length fs)"
proof -
  have m: "list_all (mantissa_char 10) w" "list_all (mantissa_char 10) fs"
    using w(1) f digit_mantissa by (auto simp: list_all_iff)
  have n: "without_underscores w = w" "without_underscores fs = fs"
    using w(1) f digit_mantissa by (auto simp: without_underscores_def list_all_iff intro!: filter_True)
  have t: "takeWhile (mantissa_char 10) (w @ CHR ''.'' # fs) = w"
    "dropWhile (mantissa_char 10) (w @ CHR ''.'' # fs) = CHR ''.'' # fs"
    "takeWhile (mantissa_char 10) fs = fs" "dropWhile (mantissa_char 10) fs = []"
    using m dot_no_mantissa by (auto simp: list_all_iff takeWhile_append dropWhile_append takeWhile_eq_all_conv)
  have "parse_magnitude 10 (w @ CHR ''.'' # fs) =
      Some (rat_of_int (digits_value 10 (w @ fs)) / of_int (int 10 ^ length fs))"
    unfolding parse_magnitude_def Let_def t list.sel n using w(2) by (simp add: n)
  then show ?thesis by simp
qed

lemma ParseFloat_decimal:
  assumes w: "list_all digit_char w" "w \<noteq> []" and f: "list_all digit_char fs"
    and r: "float_of_rat (rat_of_int (digits_value 10 (w @ fs)) / 10 ^ length fs) = Fin x"
  shows "ParseFloat (w @ CHR ''.'' # fs) = Some (Fin x)"
proof -
  obtain c t where c: "w = c # t" using w(2) by (cases w) auto
  let ?s = "w @ CHR ''.'' # fs"
  have dc: "digit_char c" using w(1) c by simp
  have sign: "strip_sign ?s = (False, ?s)" using dc c by (simp add: strip_sign_def digit_char_def)
  have "lower_char c = c" using digit_mantissa [OF dc] by simp
  moreover have "c \<noteq> CHR ''i''" "c \<noteq> CHR ''n''" using dc by (auto simp: digit_char_def is_digit_def byte_def)
  ultimately have name: "ToLower ?s \<noteq> ''inf''" "ToLower ?s \<noteq> ''infinity''" "ToLower ?s \<noteq> ''nan''"
    using c by (simp_all add: ToLower_def)
  have "lower_char (hd (t @ CHR ''.'' # fs)) \<noteq> CHR ''x''"
  proof (cases t)
    case (Cons b u)
    then have "digit_char b" using w(1) c by simp
    then show ?thesis using Cons digit_mantissa [of b] by (auto simp: digit_char_def is_digit_def byte_def)
  qed (simp add: lower_char_def byte_def)
  then have hex: "\<not> (case ?s of z # x # r \<Rightarrow> z = CHR ''0'' \<and> lower_char x = CHR ''x'' | _ \<Rightarrow> False)"
    using c by (auto split: list.splits)
  have "CHR ''_'' \<notin> set ?s" using w(1) f digit_mantissa by (auto simp: list_all_iff)
  then have "underscores_ok False False ?s" by (rule underscores_ok_none)
  then show ?thesis
    using name hex r parse_decimal [OF w f] by (simp add: ParseFloat_def sign Let_def)
qed

lemma decimal_text_reads:
  assumes x: "x = of_int n / 2 ^ k" and k: "0 < k" and "0 \<le> x" and r: "float_of_rat x = Fin x"
  shows "float_of_text (decimal_text k x) = Fin x"
proof -
  have ten: "(10::rat) ^ j = 2 ^ j * 5 ^ j" for j by (simp flip: power_mult_distrib)
  have "x * 10 ^ k = of_int n * 5 ^ k" by (simp add: x ten)
  then have "x * 10 ^ k = of_int (n * 5 ^ k)" by simp
  then have N: "x * 10 ^ k = of_int \<lfloor>x * 10 ^ k\<rfloor>" by (metis floor_of_int)
  define m where "m = nat \<lfloor>x * 10 ^ k\<rfloor>"
  have m: "\<lfloor>x * 10 ^ k\<rfloor> = int m" using assms(3) by (simp add: m_def)
  have parts: "int m div 10 ^ k = int (m div 10 ^ k)" "int m mod 10 ^ k = int (m mod 10 ^ k)"
    by (simp_all add: zdiv_int zmod_int)
  let ?w = "nat_text (m div 10 ^ k)" and ?f = "pad_left k (nat_text (m mod 10 ^ k))"
  have printed: "decimal_text k x = ?w @ CHR ''.'' # ?f"
    using assms(3) by (simp add: decimal_text_def m parts int_text_def Let_def)
  have "m mod 10 ^ k < 10 ^ k" by simp
  note f = pad_left_digits [OF this k]
  have w: "list_all digit_char ?w" "?w \<noteq> []" "digits_value 10 ?w = int (m div 10 ^ k)"
    using nat_text_digits [of "m div 10 ^ k"] by simp_all
  have "int (m div 10 ^ k) * 10 ^ k + int (m mod 10 ^ k) = int (m div 10 ^ k * 10 ^ k + m mod 10 ^ k)" by simp
  also have "\<dots> = int m" by (simp only: div_mult_mod_eq)
  finally have "digits_value 10 (?w @ ?f) = int m" by (simp only: digits_value_append w(3) f(2,3))
  then have "rat_of_int (digits_value 10 (?w @ ?f)) / 10 ^ length ?f = x"
    using N m f(2) by (simp add: divide_eq_eq)
  then have "ParseFloat (?w @ CHR ''.'' # ?f) = Some (Fin x)"
    by (intro ParseFloat_decimal w(1,2) f(1)) (simp only: r)
  then show ?thesis by (simp add: float_of_text_def printed)
qed

text \<open>A float that fits the resource limits, as a JSON value and back.\<close>

lemma float_json_reads:
  assumes "is_float x" and "0 \<le> x" and "x \<le> 2 ^ 53"
  shows "float_json (Fin x) = JNum \<lfloor>x\<rfloor> \<and> float_of_rat (of_int \<lfloor>x\<rfloor>) = Fin x \<or>
    (\<exists>t. float_json (Fin x) = JReal t \<and> float_of_text t = Fin x)"
proof (cases "x = of_int \<lfloor>x\<rfloor>")
  case True
  then show ?thesis using is_float_round [OF assms(1)] assms(2,3) by (simp add: float_json_def)
next
  case False
  obtain n d where q: "quotient_of x = (n, d)" by (cases "quotient_of x")
  have x: "x = of_int n / of_int d" by (rule quotient_of_div [OF q])
  from assms(1) q have d: "d = 2 ^ fraction_bits x" by (simp add: is_float_def)
  have k: "0 < fraction_bits x"
  proof (rule gr0I)
    assume "fraction_bits x = 0"
    then have "d = 1" using d by simp
    with x have "x = of_int n" by simp
    then show False using False by (metis floor_of_int)
  qed
  note x
  also have "rat_of_int d = 2 ^ fraction_bits x" using d by (metis of_int_numeral of_int_power)
  finally have "x = of_int n / 2 ^ fraction_bits x" .
  from decimal_text_reads [OF this k assms(2)] is_float_round [OF assms(1)] assms(2,3) False
  show ?thesis by (simp add: float_json_def)
qed

end
