(* ===== verification/Runtime_Profile.thy ===== *)
theory Runtime_Profile
  imports Go_Float
begin

text \<open>
  \<open>internal/runtimeprofile\<close>: the resource contract of an emulator, read from a JSON object with
  defaults and aliases, validated, and written back as an object.  Every number of the object is a
  \<open>float64\<close>, because \<open>encoding/json\<close> decodes it so; error texts are not modelled.
\<close>

record Profile =
  pf_ContainerCPUCores :: float64
  pf_ContainerMemoryMB :: int
  pf_GuestCPUCores :: int
  pf_GuestMemoryMB :: int
  pf_DataDiskMB :: int
  pf_ImageDiskMB :: int
  pf_Width :: int
  pf_Height :: int
  pf_DensityDPI :: int
  pf_VMHeapMB :: int
  pf_Graphics :: string

definition Default :: Profile where
  "Default =
     \<lparr>pf_ContainerCPUCores = Fin 4, pf_ContainerMemoryMB = 5120, pf_GuestCPUCores = 4,
      pf_GuestMemoryMB = 4096, pf_DataDiskMB = 4096, pf_ImageDiskMB = 0, pf_Width = 1080,
      pf_Height = 2400, pf_DensityDPI = 420, pf_VMHeapMB = 512, pf_Graphics = ''auto''\<rparr>"

definition Validate :: "Profile \<Rightarrow> bool" where
  "Validate p \<longleftrightarrow>
     \<not> (float_less (pf_ContainerCPUCores p) (Fin 1) \<or> float_less (Fin 64) (pf_ContainerCPUCores p) \<or>
        pf_ContainerMemoryMB p < 2048 \<or> pf_ContainerMemoryMB p > 262144 \<or>
        pf_GuestCPUCores p < 1 \<or> pf_GuestCPUCores p > 32 \<or>
        pf_GuestMemoryMB p < 1536 \<or> pf_GuestMemoryMB p > pf_ContainerMemoryMB p - 512 \<or>
        pf_DataDiskMB p < 2048 \<or> pf_DataDiskMB p > 1048576 \<or> pf_ImageDiskMB p < 0 \<or>
        pf_Width p < 320 \<or> pf_Width p > 4320 \<or> pf_Height p < 480 \<or> pf_Height p > 7680 \<or>
        pf_DensityDPI p < 120 \<or> pf_DensityDPI p > 960 \<or> pf_VMHeapMB p < 128 \<or>
        pf_VMHeapMB p > trunc_div (pf_GuestMemoryMB p) 2) \<and>
     pf_Graphics p \<in> {''auto'', ''host'', ''software''}"

text \<open>\<open>floatValue\<close>: the first key present decides; anything not numeric is an error.\<close>

definition numeric :: "json \<Rightarrow> float64 option" where
  "numeric v =
     (case v of
        JNum i \<Rightarrow> Some (float_of_rat (of_int i))
      | JReal t \<Rightarrow> Some (float_of_text t)
      | JStr s \<Rightarrow> ParseFloat (TrimSpace s)
      | _ \<Rightarrow> None)"

fun floatValue :: "json_obj \<Rightarrow> float64 \<Rightarrow> string list \<Rightarrow> float64 option" where
  "floatValue values fallback [] = Some fallback"
| "floatValue values fallback (k # ks) =
     (case obj_get values k of None \<Rightarrow> floatValue values fallback ks | Some v \<Rightarrow> numeric v)"

text \<open>
  \<open>int64Value\<close>.  The bound \<open>value > math.MaxInt64\<close> compares with the float \<open>2 ^ 63\<close>, so \<open>2 ^ 63\<close>
  itself passes; its conversion is the amd64 one, the least \<open>int64\<close>.
\<close>

definition int64Value :: "json_obj \<Rightarrow> int \<Rightarrow> string list \<Rightarrow> int option" where
  "int64Value values fallback keys =
     (case floatValue values (float_of_rat (of_int fallback)) keys of
        Some (Fin x) \<Rightarrow>
          if x \<noteq> of_int \<lfloor>x\<rfloor> \<or> 2 ^ 63 < x \<or> x < - (2 ^ 63) then None else Some (int64_of_float x)
      | _ \<Rightarrow> None)"

definition hasAny :: "json_obj \<Rightarrow> string list \<Rightarrow> bool" where
  "hasAny values keys \<longleftrightarrow> list_ex (obj_has values) keys"

definition default_guest_cpu :: "json_obj \<Rightarrow> Profile \<Rightarrow> Profile" where
  "default_guest_cpu values p =
     (if hasAny values [''guest_cpu_cores''] then p
      else p\<lparr>pf_GuestCPUCores := max 1 (min (pf_GuestCPUCores p) (floor_int (pf_ContainerCPUCores p)))\<rparr>)"

definition default_guest_memory :: "json_obj \<Rightarrow> Profile \<Rightarrow> Profile" where
  "default_guest_memory values p =
     (if hasAny values [''guest_memory_mb''] then p
      else let m = max 1536 (min (pf_GuestMemoryMB p) (pf_ContainerMemoryMB p - 1024))
           in p\<lparr>pf_GuestMemoryMB :=
                  (if m > pf_ContainerMemoryMB p - 512 then pf_ContainerMemoryMB p - 512 else m)\<rparr>)"

definition parse_graphics :: "json_obj \<Rightarrow> Profile \<Rightarrow> Profile option" where
  "parse_graphics values p =
     (case obj_get values ''graphics'' of
        None \<Rightarrow> Some p
      | Some (JStr t) \<Rightarrow> Some (p\<lparr>pf_Graphics := ToLower (TrimSpace t)\<rparr>)
      | Some _ \<Rightarrow> None)"

definition Parse :: "json_obj \<Rightarrow> Profile option" where
  "Parse values =
     Option.bind (floatValue values (pf_ContainerCPUCores Default) [''container_cpu_cores'', ''cpu'']) (\<lambda>cpu.
     Option.bind (int64Value values (pf_ContainerMemoryMB Default) [''container_memory_mb'', ''memory_mb'']) (\<lambda>memory.
     Option.bind (int64Value values (pf_GuestMemoryMB Default) [''guest_memory_mb'']) (\<lambda>guest.
     Option.bind (int64Value values (pf_DataDiskMB Default) [''data_disk_mb'']) (\<lambda>data.
     Option.bind (int64Value values (pf_ImageDiskMB Default) [''image_disk_mb'']) (\<lambda>image.
     Option.bind (int64Value values (pf_VMHeapMB Default) [''vm_heap_mb'']) (\<lambda>heap.
     Option.bind (int64Value values (pf_GuestCPUCores Default) [''guest_cpu_cores'']) (\<lambda>cores.
     Option.bind (int64Value values (pf_Width Default) [''width'']) (\<lambda>width.
     Option.bind (int64Value values (pf_Height Default) [''height'']) (\<lambda>height.
     Option.bind (int64Value values (pf_DensityDPI Default) [''density_dpi'']) (\<lambda>density.
     Option.bind (parse_graphics values (default_guest_memory values (default_guest_cpu values
         \<lparr>pf_ContainerCPUCores = cpu, pf_ContainerMemoryMB = memory, pf_GuestCPUCores = cores,
          pf_GuestMemoryMB = guest, pf_DataDiskMB = data, pf_ImageDiskMB = image, pf_Width = width,
          pf_Height = height, pf_DensityDPI = density, pf_VMHeapMB = heap,
          pf_Graphics = pf_Graphics Default\<rparr>))) (\<lambda>p.
     if Validate p then Some p else None)))))))))))"

text \<open>The members in key order.\<close>

definition Profile_Map :: "Profile \<Rightarrow> json_obj" where
  "Profile_Map p =
     [(''container_cpu_cores'', float_json (pf_ContainerCPUCores p)),
      (''container_memory_mb'', JNum (pf_ContainerMemoryMB p)),
      (''data_disk_mb'', JNum (pf_DataDiskMB p)),
      (''density_dpi'', JNum (pf_DensityDPI p)),
      (''graphics'', JStr (pf_Graphics p)),
      (''guest_cpu_cores'', JNum (pf_GuestCPUCores p)),
      (''guest_memory_mb'', JNum (pf_GuestMemoryMB p)),
      (''height'', JNum (pf_Height p)),
      (''image_disk_mb'', JNum (pf_ImageDiskMB p)),
      (''vm_heap_mb'', JNum (pf_VMHeapMB p)),
      (''width'', JNum (pf_Width p))]"

section \<open>What Parse guarantees\<close>

lemma numeric_JNum: "\<bar>i\<bar> \<le> 2 ^ 53 \<Longrightarrow> numeric (JNum i) = Some (Fin (of_int i))"
  by (simp add: numeric_def float_of_int)

lemma int64Value_JNum:
  assumes "obj_get values k = Some (JNum i)" and "\<bar>i\<bar> \<le> 2 ^ 53"
  shows "int64Value values fallback [k] = Some i"
proof -
  have i: "- (2 ^ 63) \<le> i" "i < 2 ^ 63" using assms(2) by (simp_all add: abs_le_iff)
  then have r: "- (2 ^ 63) \<le> rat_of_int i" "rat_of_int i \<le> 2 ^ 63"
    by (metis of_int_le_iff of_int_minus of_int_numeral of_int_power,
        metis less_imp_le of_int_le_iff of_int_numeral of_int_power)
  then show ?thesis
    using assms i by (simp add: int64Value_def numeric_JNum int64_of_float_def not_less)
qed

lemma int64Value_alias:
  "obj_get values k = Some v \<Longrightarrow> int64Value values fallback (k # ks) = int64Value values fallback [k]"
  by (simp add: int64Value_def)

lemma Validate_bounds:
  assumes "Validate p" and "pf_ContainerCPUCores p = Fin x"
  shows "1 \<le> x" "x \<le> 64"
  using assms by (auto simp: Validate_def not_less)

lemma numeric_float_json: "is_float x \<Longrightarrow> 0 \<le> x \<Longrightarrow> x \<le> 2 ^ 53 \<Longrightarrow> numeric (float_json (Fin x)) = Some (Fin x)"
  using float_json_reads [of x] by (auto simp: numeric_def)

lemma Profile_Map_get:
  "obj_get (Profile_Map p) ''container_cpu_cores'' = Some (float_json (pf_ContainerCPUCores p))"
  "obj_get (Profile_Map p) ''container_memory_mb'' = Some (JNum (pf_ContainerMemoryMB p))"
  "obj_get (Profile_Map p) ''guest_memory_mb'' = Some (JNum (pf_GuestMemoryMB p))"
  "obj_get (Profile_Map p) ''data_disk_mb'' = Some (JNum (pf_DataDiskMB p))"
  "obj_get (Profile_Map p) ''image_disk_mb'' = Some (JNum (pf_ImageDiskMB p))"
  "obj_get (Profile_Map p) ''vm_heap_mb'' = Some (JNum (pf_VMHeapMB p))"
  "obj_get (Profile_Map p) ''guest_cpu_cores'' = Some (JNum (pf_GuestCPUCores p))"
  "obj_get (Profile_Map p) ''width'' = Some (JNum (pf_Width p))"
  "obj_get (Profile_Map p) ''height'' = Some (JNum (pf_Height p))"
  "obj_get (Profile_Map p) ''density_dpi'' = Some (JNum (pf_DensityDPI p))"
  "obj_get (Profile_Map p) ''graphics'' = Some (JStr (pf_Graphics p))"
  by (simp_all add: Profile_Map_def obj_get_def)

lemma Validate_sizes:
  assumes "Validate p"
  shows "\<bar>pf_ContainerMemoryMB p\<bar> \<le> 2 ^ 53" "\<bar>pf_GuestMemoryMB p\<bar> \<le> 2 ^ 53" "\<bar>pf_DataDiskMB p\<bar> \<le> 2 ^ 53"
    "\<bar>pf_VMHeapMB p\<bar> \<le> 2 ^ 53" "\<bar>pf_GuestCPUCores p\<bar> \<le> 2 ^ 53" "\<bar>pf_Width p\<bar> \<le> 2 ^ 53"
    "\<bar>pf_Height p\<bar> \<le> 2 ^ 53" "\<bar>pf_DensityDPI p\<bar> \<le> 2 ^ 53"
  using assms by (auto simp: Validate_def trunc_div_def not_less abs_le_iff split: if_splits)

lemma graphics_canonical:
  assumes "g \<in> {''auto'', ''host'', ''software''}"
  shows "ToLower (TrimSpace g) = g"
proof -
  have "ToLower (TrimSpace ''auto'') = ''auto''" "ToLower (TrimSpace ''host'') = ''host''"
    "ToLower (TrimSpace ''software'') = ''software''" by code_simp+
  then show ?thesis using assms by auto
qed

text \<open>
  C24.  A valid profile survives being written to an object and parsed again, when its CPU limit is a
  finite \<open>float64\<close> and its image size is exact in one: the numbers pass through floats and, for a
  fractional CPU limit, through decimal text, without loss.
\<close>

theorem profile_roundtrip:
  assumes "Validate p" and "pf_ContainerCPUCores p = Fin x" and "is_float x" and "pf_ImageDiskMB p \<le> 2 ^ 53"
  shows "Parse (Profile_Map p) = Some p"
proof -
  note b = Validate_bounds [OF assms(1,2)] and size = Validate_sizes [OF assms(1)]
  have image: "\<bar>pf_ImageDiskMB p\<bar> \<le> 2 ^ 53" using assms(1,4) by (simp add: Validate_def)
  have cpu: "floatValue (Profile_Map p) d [''container_cpu_cores'', ''cpu''] = Some (pf_ContainerCPUCores p)" for d
    using numeric_float_json [OF assms(3)] b assms(2) by (simp add: Profile_Map_get)
  note ints = int64Value_JNum [OF Profile_Map_get(3) size(2)] int64Value_JNum [OF Profile_Map_get(4) size(3)]
    int64Value_JNum [OF Profile_Map_get(5) image] int64Value_JNum [OF Profile_Map_get(6) size(4)]
    int64Value_JNum [OF Profile_Map_get(7) size(5)] int64Value_JNum [OF Profile_Map_get(8) size(6)]
    int64Value_JNum [OF Profile_Map_get(9) size(7)] int64Value_JNum [OF Profile_Map_get(10) size(8)]
    trans [OF int64Value_alias [OF Profile_Map_get(2)] int64Value_JNum [OF Profile_Map_get(2) size(1)]]
  have has: "hasAny (Profile_Map p) [''guest_cpu_cores'']" "hasAny (Profile_Map p) [''guest_memory_mb'']"
    by (simp_all add: hasAny_def obj_get_has Profile_Map_get)
  have g: "ToLower (TrimSpace (pf_Graphics p)) = pf_Graphics p"
    using assms(1) by (intro graphics_canonical) (simp add: Validate_def)
  have "parse_graphics (Profile_Map p) q = Some (q\<lparr>pf_Graphics := pf_Graphics p\<rparr>)" for q :: Profile
    by (simp add: parse_graphics_def Profile_Map_get g)
  moreover have "default_guest_memory (Profile_Map p) (default_guest_cpu (Profile_Map p) q) = q" for q :: Profile
    by (simp only: default_guest_cpu_def default_guest_memory_def has if_True)
  moreover have "\<lparr>pf_ContainerCPUCores = pf_ContainerCPUCores p, pf_ContainerMemoryMB = pf_ContainerMemoryMB p,
      pf_GuestCPUCores = pf_GuestCPUCores p, pf_GuestMemoryMB = pf_GuestMemoryMB p,
      pf_DataDiskMB = pf_DataDiskMB p, pf_ImageDiskMB = pf_ImageDiskMB p, pf_Width = pf_Width p,
      pf_Height = pf_Height p, pf_DensityDPI = pf_DensityDPI p, pf_VMHeapMB = pf_VMHeapMB p,
      pf_Graphics = g\<rparr>\<lparr>pf_Graphics := pf_Graphics p\<rparr> = p" for g
    by simp
  ultimately show ?thesis
    using assms(1) by (simp only: Parse_def cpu ints bind.simps if_True)
qed

theorem profile_roundtrip_witness:
  "Parse (Profile_Map (Default\<lparr>pf_ContainerCPUCores := Fin (5 / 2)\<rparr>)) = Some (Default\<lparr>pf_ContainerCPUCores := Fin (5 / 2)\<rparr>)"
proof (rule profile_roundtrip [of _ "5 / 2"])
  show "Validate (Default\<lparr>pf_ContainerCPUCores := Fin (5 / 2)\<rparr>)" by (simp add: Validate_def Default_def trunc_div_def)
  show "is_float (5 / 2)" by code_simp
qed (simp_all add: Default_def)

text \<open>
  A CPU limit of NaN is accepted: every comparison of the validation is false for it, so an
  object with \<open>"cpu": "nan"\<close> parses although NaN lies in no range.
\<close>

theorem nan_cpu_accepted:
  "\<exists>p. Parse [(''cpu'', JStr ''nan'')] = Some p \<and> pf_ContainerCPUCores p = NaN \<and> Validate p"
proof -
  let ?v = "[(''cpu'', JStr ''nan'')]"
  have trim: "TrimSpace ''nan'' = ''nan''" and nan: "ParseFloat ''nan'' = Some NaN" by code_simp+
  have cpu: "floatValue ?v d [''container_cpu_cores'', ''cpu''] = Some NaN" for d
    by (simp add: obj_get_def numeric_def trim nan)
  have int: "int64Value ?v i [k] = Some i" if "obj_get ?v k = None" "\<bar>i\<bar> \<le> 2 ^ 53" for i k
  proof -
    have "int64Value [(k, JNum i)] 0 [k] = Some i" by (rule int64Value_JNum [OF _ that(2)]) (simp add: obj_get_def)
    then show ?thesis using that by (simp add: int64Value_def obj_get_def numeric_JNum float_of_int)
  qed
  have mem: "int64Value ?v 5120 [''container_memory_mb'', ''memory_mb''] = Some 5120"
    using int [of "''memory_mb''" 5120] by (simp add: int64Value_def obj_get_def)
  let ?q = "Default\<lparr>pf_ContainerCPUCores := NaN\<rparr>"
  have none: "obj_get ?v k = None" if "k \<noteq> ''cpu''" for k using that by (simp add: obj_get_def)
  have q: "parse_graphics ?v (default_guest_memory ?v (default_guest_cpu ?v ?q)) = Some (?q\<lparr>pf_GuestCPUCores := 1\<rparr>)"
    by (simp add: Default_def default_guest_cpu_def default_guest_memory_def hasAny_def obj_has_def
        floor_int_def parse_graphics_def obj_get_def)
  have valid: "Validate (?q\<lparr>pf_GuestCPUCores := 1\<rparr>)"
    by (simp add: Default_def Validate_def trunc_div_def)
  have "Parse ?v = Option.bind (parse_graphics ?v (default_guest_memory ?v (default_guest_cpu ?v ?q)))
      (\<lambda>p. if Validate p then Some p else None)"
    by (simp add: Parse_def Default_def cpu mem int none del: floatValue.simps)
  with q valid have "Parse ?v = Some (?q\<lparr>pf_GuestCPUCores := 1\<rparr>)" by simp
  then show ?thesis using valid by simp
qed

end
