(* ===== verification/Capacity.thy ===== *)
theory Capacity
  imports Runtime_Profile Paging
begin

text \<open>
  \<open>internal/capacity\<close>: how many more devices of a given profile a host can take.  Memory and disk are
  \<open>int64\<close> and wrap; CPU cores are \<open>float64\<close>.  The operator-facing message is not modelled.
\<close>

definition DefaultReserveCPUCores :: float64 where
  "DefaultReserveCPUCores = Fin 1"

definition DefaultReserveMemoryMB :: int where
  "DefaultReserveMemoryMB = 2048"

definition DefaultReserveDiskMB :: int where
  "DefaultReserveDiskMB = 4096"

record cap_host =
  ch_CPUCores :: float64
  ch_MemoryTotalMB :: int
  ch_MemoryAvailableMB :: int
  ch_DiskTotalMB :: int
  ch_DiskAvailableMB :: int
  ch_DeviceSlots :: int
  ch_CollectedAt :: timestamp

text \<open>\<open>number\<close> of a decoded JSON value: only numbers count.\<close>

definition cap_number :: "json option \<Rightarrow> float64" where
  "cap_number v =
     (case v of
        Some (JNum i) \<Rightarrow> float_of_rat (of_int i)
      | Some (JReal t) \<Rightarrow> float_of_text t
      | _ \<Rightarrow> Fin 0)"

text \<open>\<open>parse_time\<close> is \<open>time.Parse(time.RFC3339Nano, text)\<close>, 0 when the text is no such time.\<close>

definition HostFromMap :: "(string \<Rightarrow> timestamp) \<Rightarrow> json_obj \<Rightarrow> cap_host option \<times> bool" where
  "HostFromMap parse_time values =
     (if obj_get values ''resource_model'' \<noteq> Some (JStr ''dynamic_v1'') then (None, False)
      else let r = \<lparr>ch_CPUCores = cap_number (obj_get values ''cpu_cores''),
                    ch_MemoryTotalMB = trunc_int (cap_number (obj_get values ''memory_total_mb'')),
                    ch_MemoryAvailableMB = trunc_int (cap_number (obj_get values ''memory_available_mb'')),
                    ch_DiskTotalMB = trunc_int (cap_number (obj_get values ''disk_total_mb'')),
                    ch_DiskAvailableMB = trunc_int (cap_number (obj_get values ''disk_available_mb'')),
                    ch_DeviceSlots = trunc_int (cap_number (obj_get values ''device_slots'')),
                    ch_CollectedAt = (case obj_get values ''collected_at'' of
                       Some (JStr t) \<Rightarrow> parse_time t | _ \<Rightarrow> 0)\<rparr>
           in (Some r, float_less (Fin 0) (ch_CPUCores r) \<and> 0 < ch_MemoryTotalMB r \<and>
                 0 \<le> ch_MemoryAvailableMB r \<and> 0 < ch_DiskTotalMB r \<and> 0 \<le> ch_DiskAvailableMB r))"

record Allocation =
  al_CPUCores :: float64
  al_MemoryMB :: int
  al_DiskMB :: int
  al_Slots :: int

record cap_result =
  cr_Fits :: bool
  cr_Additional :: int
  cr_Limiting :: string
  cr_Shortfall :: "(string \<times> int) list"
  cr_AvailableCPU :: float64
  cr_AvailableMemoryMB :: int
  cr_AvailableDiskMB :: int

definition MaxInt :: int where
  "MaxInt = 2 ^ 63 - 1"

text \<open>What is left of each resource, and how many devices of the request it is enough for.\<close>

definition available_cpu :: "cap_host \<Rightarrow> Allocation \<Rightarrow> Allocation \<Rightarrow> float64" where
  "available_cpu host existing pending =
     float_max (Fin 0) (float_sub (float_sub (float_sub (ch_CPUCores host) DefaultReserveCPUCores)
       (al_CPUCores existing)) (al_CPUCores pending))"

definition available_memory :: "cap_host \<Rightarrow> Allocation \<Rightarrow> Allocation \<Rightarrow> int" where
  "available_memory host existing pending =
     max 0 (min
       (wrap64 (ch_MemoryTotalMB host - DefaultReserveMemoryMB - al_MemoryMB existing - al_MemoryMB pending))
       (wrap64 (ch_MemoryAvailableMB host - DefaultReserveMemoryMB - al_MemoryMB pending)))"

definition available_disk :: "cap_host \<Rightarrow> Allocation \<Rightarrow> int" where
  "available_disk host pending =
     max 0 (wrap64 (ch_DiskAvailableMB host - DefaultReserveDiskMB - al_DiskMB pending))"

definition request_disk :: "Profile \<Rightarrow> bool \<Rightarrow> int" where
  "request_disk requested imageAlreadyCached =
     (if imageAlreadyCached then pf_DataDiskMB requested
      else wrap64 (pf_DataDiskMB requested + pf_ImageDiskMB requested))"

definition by_slots :: "cap_host \<Rightarrow> Allocation \<Rightarrow> Allocation \<Rightarrow> int" where
  "by_slots host existing pending =
     (if 0 < ch_DeviceSlots host then wrap64 (ch_DeviceSlots host - al_Slots existing - al_Slots pending)
      else MaxInt)"

definition by_disk :: "int \<Rightarrow> int \<Rightarrow> int" where
  "by_disk avail request = (if 0 < request then trunc_div avail request else MaxInt)"

text \<open>The first resource with the least count, below \<open>math.MaxInt\<close>.\<close>

fun limiting :: "int \<Rightarrow> string \<Rightarrow> (string \<times> int) list \<Rightarrow> string" where
  "limiting least name [] = name"
| "limiting least name ((n, c) # rest) = (if c < least then limiting c n rest else limiting least name rest)"

definition shortfall :: "float64 \<Rightarrow> int \<Rightarrow> int \<Rightarrow> int \<Rightarrow> cap_host \<Rightarrow> Profile \<Rightarrow> int \<Rightarrow> (string \<times> int) list" where
  "shortfall cpu memory disk slots host requested requestDisk =
     (if float_less cpu (pf_ContainerCPUCores requested)
      then [(''cpu_millicores'', ceil_int (float_mul (float_sub (pf_ContainerCPUCores requested) cpu) (Fin 1000)))]
      else []) @
     (if memory < pf_ContainerMemoryMB requested
      then [(''memory_mb'', wrap64 (pf_ContainerMemoryMB requested - memory))] else []) @
     (if disk < requestDisk then [(''disk_mb'', wrap64 (requestDisk - disk))] else []) @
     (if 0 < ch_DeviceSlots host \<and> slots < 1 then [(''device_slots'', 1)] else [])"

text \<open>\<open>Evaluate\<close>; \<open>None\<close> is the panic of a division by zero, for a profile without memory.\<close>

definition Evaluate :: "cap_host \<Rightarrow> Allocation \<Rightarrow> Allocation \<Rightarrow> Profile \<Rightarrow> bool \<Rightarrow> cap_result option" where
  "Evaluate host existing pending requested imageAlreadyCached =
     (if pf_ContainerMemoryMB requested = 0 then None
      else
        let cpu = available_cpu host existing pending;
            memory = available_memory host existing pending;
            disk = available_disk host pending;
            requestDisk = request_disk requested imageAlreadyCached;
            byCPU = floor_int (float_div cpu (pf_ContainerCPUCores requested));
            byMemory = trunc_div memory (pf_ContainerMemoryMB requested);
            byDisk = by_disk disk requestDisk;
            bySlots = by_slots host existing pending;
            additional = max 0 (min byCPU (min byMemory (min byDisk bySlots)))
        in Some
          \<lparr>cr_Fits = 0 < additional, cr_Additional = additional,
           cr_Limiting = limiting MaxInt []
             [(''cpu'', byCPU), (''memory'', byMemory), (''disk'', byDisk), (''device_slots'', bySlots)],
           cr_Shortfall = (if 0 < additional then []
             else shortfall cpu memory disk bySlots host requested requestDisk),
           cr_AvailableCPU = cpu, cr_AvailableMemoryMB = memory, cr_AvailableDiskMB = disk\<rparr>)"

section \<open>What Evaluate promises\<close>

lemma trunc_div_bound: "0 \<le> a \<Longrightarrow> 0 < b \<Longrightarrow> n \<le> trunc_div a b \<Longrightarrow> n * b \<le> a"
  by (metis div_mult_mod_eq less_imp_le mult_right_mono order_trans pos_mod_sign trunc_div_nonneg
      le_add_same_cancel1)

lemma trunc_div_used_up: "0 < b \<Longrightarrow> 0 \<le> a \<Longrightarrow> trunc_div a b \<le> 0 \<Longrightarrow> a < b"
  using pos_imp_zdiv_pos_iff [of b a] by (simp add: trunc_div_def)

text \<open>When some count is used up, the limiting resource is one whose count is.\<close>

lemma limiting_used_up:
  assumes "c \<le> 0 \<or> m \<le> 0 \<or> d \<le> 0 \<or> s \<le> 0"
  shows "\<exists>x. (limiting MaxInt [] [(''cpu'', c), (''memory'', m), (''disk'', d), (''device_slots'', s)], x)
    \<in> set [(''cpu'', c), (''memory'', m), (''disk'', d), (''device_slots'', s)] \<and> x \<le> 0"
  using assms by (auto simp: MaxInt_def)

lemma Evaluate_total:
  "pf_ContainerMemoryMB requested \<noteq> 0 \<Longrightarrow> \<exists>r. Evaluate host existing pending requested cached = Some r"
  by (simp only: Evaluate_def Let_def if_False) blast

lemma Evaluate_Some:
  assumes "Evaluate host existing pending requested cached = Some r"
  defines "cpu \<equiv> floor_int (float_div (available_cpu host existing pending) (pf_ContainerCPUCores requested))"
    and "mem \<equiv> trunc_div (available_memory host existing pending) (pf_ContainerMemoryMB requested)"
    and "disk \<equiv> by_disk (available_disk host pending) (request_disk requested cached)"
    and "slots \<equiv> by_slots host existing pending"
  shows "cr_Additional r = max 0 (min cpu (min mem (min disk slots)))"
    and "cr_Fits r \<longleftrightarrow> 0 < cr_Additional r"
    and "cr_Limiting r = limiting MaxInt [] [(''cpu'', cpu), (''memory'', mem), (''disk'', disk), (''device_slots'', slots)]"
    and "cr_Shortfall r = (if 0 < cr_Additional r then []
      else shortfall (available_cpu host existing pending) (available_memory host existing pending)
        (available_disk host pending) slots host requested (request_disk requested cached))"
proof -
  have nz: "pf_ContainerMemoryMB requested \<noteq> 0"
  proof
    assume "pf_ContainerMemoryMB requested = 0"
    then show False using assms(1) by (simp add: Evaluate_def)
  qed
  have "r = \<lparr>cr_Fits = 0 < max 0 (min cpu (min mem (min disk slots))), cr_Additional = max 0 (min cpu (min mem (min disk slots))),
      cr_Limiting = limiting MaxInt [] [(''cpu'', cpu), (''memory'', mem), (''disk'', disk), (''device_slots'', slots)],
      cr_Shortfall = (if 0 < max 0 (min cpu (min mem (min disk slots))) then []
      else shortfall (available_cpu host existing pending) (available_memory host existing pending)
        (available_disk host pending) slots host requested (request_disk requested cached)),
      cr_AvailableCPU = available_cpu host existing pending, cr_AvailableMemoryMB = available_memory host existing pending,
      cr_AvailableDiskMB = available_disk host pending\<rparr>"
    using assms(1) by (simp only: Evaluate_def Let_def cpu_def mem_def disk_def slots_def nz if_False option.inject)
  then show "cr_Additional r = max 0 (min cpu (min mem (min disk slots)))"
    "cr_Fits r \<longleftrightarrow> 0 < cr_Additional r"
    "cr_Limiting r = limiting MaxInt [] [(''cpu'', cpu), (''memory'', mem), (''disk'', disk), (''device_slots'', slots)]"
    "cr_Shortfall r = (if 0 < cr_Additional r then []
      else shortfall (available_cpu host existing pending) (available_memory host existing pending)
        (available_disk host pending) slots host requested (request_disk requested cached))"
    by (simp_all only: cap_result.simps)
qed

lemma below_max:
  fixes x a b :: int
  shows "0 < x \<Longrightarrow> x \<le> max 0 (min a b) \<Longrightarrow> x \<le> a" "0 < x \<Longrightarrow> x \<le> max 0 (min a b) \<Longrightarrow> x \<le> b"
    "0 < x \<Longrightarrow> x \<le> max 0 a \<Longrightarrow> x \<le> a"
  by auto

lemma least_of_four:
  fixes a :: int
  shows "n = max 0 (min a (min b (min c d))) \<Longrightarrow> 0 < n \<Longrightarrow> n \<le> a \<and> n \<le> b \<and> n \<le> c \<and> n \<le> d"
    and "\<not> 0 < max 0 (min a (min b (min c d))) \<Longrightarrow> a \<le> 0 \<or> b \<le> 0 \<or> c \<le> 0 \<or> d \<le> 0"
  by (auto simp: max_def min_def split: if_splits)

text \<open>Sizes that no sum of three overflows.\<close>

definition modest :: "int \<Rightarrow> bool" where
  "modest i \<longleftrightarrow> 0 \<le> i \<and> i \<le> 2 ^ 60"

definition modest_host :: "cap_host \<Rightarrow> bool" where
  "modest_host h \<longleftrightarrow>
     modest (ch_MemoryTotalMB h) \<and> modest (ch_MemoryAvailableMB h) \<and> modest (ch_DiskAvailableMB h) \<and>
     modest (ch_DeviceSlots h)"

definition modest_allocation :: "Allocation \<Rightarrow> bool" where
  "modest_allocation a \<longleftrightarrow> modest (al_MemoryMB a) \<and> modest (al_DiskMB a) \<and> modest (al_Slots a)"

lemmas modest_defs = modest_host_def modest_allocation_def modest_def

lemma request_disk_exact:
  assumes "Validate q" and "pf_ImageDiskMB q \<le> 2 ^ 60"
  shows "request_disk q cached = pf_DataDiskMB q + (if cached then 0 else pf_ImageDiskMB q)"
    and "0 < request_disk q cached"
  using assms by (auto simp: request_disk_def wrap64_def Validate_def)

text \<open>
  C26.  What \<open>Evaluate\<close> promises is there: that many devices of the request fit into the accounted and
  the measured memory, into the disk and into the slots, after the reserves and what is allocated and
  pending.  The resources are given in sizes whose sums do not overflow.
\<close>

theorem capacity_sound:
  assumes "Evaluate host existing pending requested cached = Some r" and "Validate requested"
    and "modest_host host" and "modest_allocation existing" and "modest_allocation pending"
    and "pf_ImageDiskMB requested \<le> 2 ^ 60" and "cr_Fits r"
  shows "1 \<le> cr_Additional r \<and>
     cr_Additional r * pf_ContainerMemoryMB requested
       \<le> ch_MemoryTotalMB host - DefaultReserveMemoryMB - al_MemoryMB existing - al_MemoryMB pending \<and>
     cr_Additional r * pf_ContainerMemoryMB requested
       \<le> ch_MemoryAvailableMB host - DefaultReserveMemoryMB - al_MemoryMB pending \<and>
     cr_Additional r * (pf_DataDiskMB requested + (if cached then 0 else pf_ImageDiskMB requested))
       \<le> ch_DiskAvailableMB host - DefaultReserveDiskMB - al_DiskMB pending \<and>
     (0 < ch_DeviceSlots host \<longrightarrow>
        cr_Additional r \<le> ch_DeviceSlots host - al_Slots existing - al_Slots pending)"
proof -
  let ?n = "cr_Additional r" and ?m = "available_memory host existing pending" and ?d = "available_disk host pending"
  have m0: "0 < pf_ContainerMemoryMB requested" using assms(2) by (simp add: Validate_def)
  note disk = request_disk_exact [OF assms(2,6), of cached]
  have n: "1 \<le> ?n" "?n \<le> trunc_div ?m (pf_ContainerMemoryMB requested)"
    "?n \<le> by_disk ?d (request_disk requested cached)" "?n \<le> by_slots host existing pending"
    using least_of_four(1) [OF Evaluate_Some(1) [OF assms(1)]] assms(7) Evaluate_Some(2) [OF assms(1)] by simp_all
  have m: "?n * pf_ContainerMemoryMB requested \<le> ?m"
    by (rule trunc_div_bound [OF _ m0 n(2)]) (simp add: available_memory_def)
  have "?n * request_disk requested cached \<le> ?d"
    using n(3) disk(2) by (intro trunc_div_bound) (simp_all add: by_disk_def available_disk_def)
  moreover have "0 < ?n * pf_ContainerMemoryMB requested" "0 < ?n * request_disk requested cached"
    using n(1) m0 disk(2) by simp_all
  moreover have "?m = max 0 (min
      (ch_MemoryTotalMB host - DefaultReserveMemoryMB - al_MemoryMB existing - al_MemoryMB pending)
      (ch_MemoryAvailableMB host - DefaultReserveMemoryMB - al_MemoryMB pending))"
    "?d = max 0 (ch_DiskAvailableMB host - DefaultReserveDiskMB - al_DiskMB pending)"
    using assms(3-5) by (simp_all add: available_memory_def available_disk_def wrap64_id modest_defs
        DefaultReserveMemoryMB_def DefaultReserveDiskMB_def)
  moreover have "0 < ch_DeviceSlots host \<longrightarrow>
      by_slots host existing pending = ch_DeviceSlots host - al_Slots existing - al_Slots pending"
    using assms(3-5) by (simp add: by_slots_def wrap64_id modest_defs)
  ultimately show ?thesis using n(1,4) m disk(1) below_max by metis
qed

definition sample_cap_host :: cap_host where
  "sample_cap_host = \<lparr>ch_CPUCores = Fin 16, ch_MemoryTotalMB = 32768, ch_MemoryAvailableMB = 16384,
     ch_DiskTotalMB = 100000, ch_DiskAvailableMB = 50000, ch_DeviceSlots = 4, ch_CollectedAt = 1\<rparr>"

definition no_allocation :: Allocation where
  "no_allocation = \<lparr>al_CPUCores = Fin 0, al_MemoryMB = 0, al_DiskMB = 0, al_Slots = 0\<rparr>"

lemma sample_cpu: "available_cpu sample_cap_host no_allocation no_allocation = Fin 15"
proof -
  have "float_of_rat 15 = Fin 15" using float_of_int [of 15] by simp
  then show ?thesis
    by (simp add: available_cpu_def sample_cap_host_def no_allocation_def float_sub_def float_max_def
        DefaultReserveCPUCores_def)
qed

lemma default_memory: "pf_ContainerMemoryMB Default \<noteq> 0"
  by (simp add: Default_def)

lemma validate_default: "Validate Default"
  by (simp add: Validate_def Default_def trunc_div_def)

theorem capacity_sound_witness:
  "\<exists>r. Evaluate sample_cap_host no_allocation no_allocation Default False = Some r \<and>
     1 \<le> cr_Additional r \<and> cr_Additional r * 5120 \<le> 16384 - 2048"
proof -
  have r: "1 \<le> floor_int (float_of_rat (15 / 4))" by (rule floor_of_ratio) simp_all
  obtain r where e: "Evaluate sample_cap_host no_allocation no_allocation Default False = Some r"
    using Evaluate_total [OF default_memory] by blast
  have m: "available_memory sample_cap_host no_allocation no_allocation = 14336"
    "available_disk sample_cap_host no_allocation = 45904" "request_disk Default False = 4096"
    "by_slots sample_cap_host no_allocation no_allocation = 4"
    by (simp_all add: available_memory_def available_disk_def request_disk_def by_slots_def sample_cap_host_def
        no_allocation_def wrap64_def Default_def DefaultReserveMemoryMB_def DefaultReserveDiskMB_def)
  have "cr_Fits r"
    using r by (simp only: Evaluate_Some(1,2) [OF e] m sample_cpu) (simp add: Default_def by_disk_def)
  with capacity_sound [OF e validate_default] show ?thesis
    using e by (auto simp: modest_defs sample_cap_host_def no_allocation_def Default_def DefaultReserveMemoryMB_def)
qed

definition shortfall_key :: "string \<Rightarrow> string" where
  "shortfall_key n =
     (if n = ''cpu'' then ''cpu_millicores'' else if n = ''memory'' then ''memory_mb''
      else if n = ''disk'' then ''disk_mb'' else n)"



end
