(* ===== verification/Device_Statements.thy ===== *)
theory Device_Statements
  imports Command_Repository Reservation_Repository
begin

text \<open>
  The statements on devices and hosts that the host command service, the reconciler and the device
  management share: updates under the CHECK constraints and the partial unique indexes of the schema,
  health events, the subqueries on host commands and reservations, and the calls on a device
  aggregate with the error returned as a value.
\<close>

section \<open>Device and host rows\<close>

text \<open>
  The CHECK constraints of \<open>devices\<close> on the columns that change after the row is created.
\<close>

definition ck_device :: "device_row \<Rightarrow> bool" where
  "ck_device d \<longleftrightarrow>
     validDeviceLifecycleStatus (dev_lifecycle d) \<and> validHealthStatus (dev_health d) \<and> 0 \<le> dev_failures d \<and>
     dev_reimage_status d \<in> {''idle'', ''pending'', ''failed''} \<and>
     (dev_reimage_status d = ''pending'' \<longrightarrow>
        dev_profile_update_status d \<noteq> ''pending'' \<and> dev_pending_image_id d \<noteq> None \<and> dev_pending_profile d \<noteq> None) \<and>
     dev_profile_update_status d \<in> {''idle'', ''pending'', ''failed''} \<and>
     (dev_profile_update_status d = ''pending'' \<longrightarrow>
        dev_reimage_status d \<noteq> ''pending'' \<and> dev_pending_image_id d = None \<and> dev_pending_profile d \<noteq> None) \<and>
     dev_created_at d \<le> dev_updated_at d"

definition live_identity :: "device_row \<Rightarrow> bool" where
  "live_identity d \<longleftrightarrow> dev_lifecycle d \<notin> {DeviceQuarantined, DeviceDeleted}"

definition unique_present :: "'a option list \<Rightarrow> bool" where
  "unique_present xs \<longleftrightarrow> distinct (filter (\<lambda>x. x \<noteq> None) xs)"

text \<open>
  The unique indexes: the provider reference of every device, and the connection identities of the
  devices that are neither quarantined nor deleted.
\<close>

definition uq_devices :: "device_row list \<Rightarrow> bool" where
  "uq_devices ds \<longleftrightarrow>
     (let live = filter live_identity ds
      in distinct (map (\<lambda>d. (dev_provider_type d, dev_provider_ref d)) ds) \<and>
         distinct (map dev_serial live) \<and>
         unique_present (map dev_stf_serial live) \<and> unique_present (map dev_adb_endpoint live) \<and>
         unique_present (map dev_appium_endpoint (filter (\<lambda>d. dev_platform d = ''android'') live)))"

definition write_devices :: "(device_row \<Rightarrow> bool) \<Rightarrow> (device_row \<Rightarrow> device_row) \<Rightarrow> nat farm_tx" where
  "write_devices P f db =
     (let ds = update_where P f (devices db)
      in if \<not> list_all ck_device (map f (filter P (devices db))) then Inl (SqlError ''23514'')
         else if \<not> uq_devices ds then Inl (SqlError ''23505'')
         else Inr (length (filter P (devices db)), db\<lparr>devices := ds\<rparr>))"

text \<open>\<open>UPDATE devices SET ... WHERE id=$1 AND lifecycle_status=$n\<close>, the lifecycle being the one that was read.\<close>

definition update_as_read :: "device_row \<Rightarrow> (device_row \<Rightarrow> device_row) \<Rightarrow> unit farm_tx" where
  "update_as_read x f =
     tx_bind (write_devices (\<lambda>y. dev_id y = dev_id x \<and> dev_lifecycle y = dev_lifecycle x) f) (\<lambda>_. tx_return ())"

definition ck_host :: "host_row \<Rightarrow> bool" where
  "ck_host h \<longleftrightarrow>
     host_os h \<in> {''linux'', ''macos'', ''windows''} \<and>
     (host_type h = ''appium_device_farm_ios'' \<longrightarrow> host_os h = ''macos'') \<and>
     validHostStatus (host_status h) \<and> host_draining h = (host_status h = HostDraining) \<and>
     host_created_at h \<le> host_updated_at h"

definition write_hosts :: "(host_row \<Rightarrow> bool) \<Rightarrow> (host_row \<Rightarrow> host_row) \<Rightarrow> nat farm_tx" where
  "write_hosts P f db =
     (if \<not> list_all ck_host (map f (filter P (hosts db))) then Inl (SqlError ''23514'')
      else Inr (length (filter P (hosts db)), db\<lparr>hosts := update_where P f (hosts db)\<rparr>))"

definition ck_pool :: "pool_row \<Rightarrow> bool" where
  "ck_pool p \<longleftrightarrow>
     0 < pool_max_concurrency p \<and> 0 \<le> pool_min_ready p \<and> pool_min_ready p \<le> pool_total_target p \<and>
     pool_created_at p \<le> pool_updated_at p"

definition write_pools :: "(pool_row \<Rightarrow> bool) \<Rightarrow> (pool_row \<Rightarrow> pool_row) \<Rightarrow> nat farm_tx" where
  "write_pools P f db =
     (if \<not> list_all ck_pool (map f (filter P (pools db))) then Inl (SqlError ''23514'')
      else Inr (length (filter P (pools db)), db\<lparr>pools := update_where P f (pools db)\<rparr>))"

lemma write_devices_Inr:
  "write_devices P f db = Inr (n, db') \<longleftrightarrow>
     list_all ck_device (map f (filter P (devices db))) \<and> uq_devices (update_where P f (devices db)) \<and>
     n = length (filter P (devices db)) \<and> db' = db\<lparr>devices := update_where P f (devices db)\<rparr>"
  by (auto simp: write_devices_def Let_def)

lemma write_hosts_Inr:
  "write_hosts P f db = Inr (n, db') \<longleftrightarrow>
     list_all ck_host (map f (filter P (hosts db))) \<and>
     n = length (filter P (hosts db)) \<and> db' = db\<lparr>hosts := update_where P f (hosts db)\<rparr>"
  by (auto simp: write_hosts_def)

lemma write_pools_Inr:
  "write_pools P f db = Inr (n, db') \<longleftrightarrow>
     list_all ck_pool (map f (filter P (pools db))) \<and>
     n = length (filter P (pools db)) \<and> db' = db\<lparr>pools := update_where P f (pools db)\<rparr>"
  by (auto simp: write_pools_def)

section \<open>Health events\<close>

definition ck_health_event :: "health_event_row \<Rightarrow> bool" where
  "ck_health_event e \<longleftrightarrow>
     identifierPattern (he_id e) \<and>
     he_source e \<in> {''agent'', ''provider'', ''adb'', ''appium'', ''stf'', ''reconciler'', ''session_fence''} \<and>
     he_severity e \<in> {''info'', ''warning'', ''error'', ''critical''}"

definition insert_health_event ::
  "string \<Rightarrow> string \<Rightarrow> string \<Rightarrow> string \<Rightarrow> string \<Rightarrow> string \<Rightarrow> json_obj \<Rightarrow> timestamp \<Rightarrow> health_event_row farm_tx" where
  "insert_health_event ident deviceID source eventType severity reason payload observed db =
     (let row = \<lparr>he_id = ident, he_device_id = deviceID, he_source = source, he_event_type = eventType,
                 he_severity = severity, he_reason = reason, he_payload = payload, he_observed_at = observed,
                 he_created_at = db_clock db\<rparr>
      in if \<not> ck_health_event row then Inl (SqlError ''23514'')
         else if find_row (\<lambda>e. he_id e = ident) (health_events db) \<noteq> None then Inl (SqlError ''23505'')
         else if find_row (\<lambda>d. dev_id d = deviceID) (devices db) = None then Inl (SqlError ''23503'')
         else Inr (row, db\<lparr>health_events := health_events db @ [row]\<rparr>))"

lemma insert_health_event_Inr:
  "insert_health_event ident deviceID source eventType severity reason payload observed db = Inr (e, db') \<Longrightarrow>
   db' = db\<lparr>health_events := health_events db @ [e]\<rparr> \<and> he_device_id e = deviceID \<and> he_reason e = reason \<and>
   he_event_type e = eventType"
  by (auto simp: insert_health_event_def Let_def split: if_splits)

section \<open>Subqueries\<close>

text \<open>\<open>c.payload->>'device_id' = id\<close>, and a command that is not finished.\<close>

definition command_on :: "string \<Rightarrow> command_row \<Rightarrow> bool" where
  "command_on deviceID c \<longleftrightarrow> arrow_text (cmd_payload c) ''device_id'' = Some deviceID"

definition unfinished :: "command_row \<Rightarrow> bool" where
  "unfinished c \<longleftrightarrow> cmd_status c \<in> {CommandPending, CommandLeased}"

text \<open>
  What an open reservation expects of the device: \<open>busy\<close> for an active one, \<open>reserved\<close> for a pending
  one, and the empty text when there is none; an active reservation comes first.
\<close>

definition assignment_target :: "farm_db \<Rightarrow> string \<Rightarrow> string" where
  "assignment_target db deviceID =
     (case first_by (\<lambda>r. (if rsv_status r = ReservationActive then 0 else 1 :: int, - rsv_updated_at r, rsv_id r))
             (\<lambda>r. rsv_device_id r = Some deviceID \<and> rsv_status r \<in> {ReservationPending, ReservationActive})
             (reservations db) of
        None \<Rightarrow> []
      | Some r \<Rightarrow> if rsv_status r = ReservationActive then ''busy'' else ''reserved'')"

section \<open>Devices with their host and image\<close>

text \<open>A device joined with its host.\<close>

definition host_of :: "farm_db \<Rightarrow> device_row \<Rightarrow> host_row option" where
  "host_of db x = find_row (\<lambda>h. host_id h = dev_host_id x) (hosts db)"

definition effective_profile :: "farm_db \<Rightarrow> device_row \<Rightarrow> json_obj" where
  "effective_profile db x =
     (case dev_profile_override x of
        Some p \<Rightarrow> p
      | None \<Rightarrow> (case dev_image_id x of
            None \<Rightarrow> []
          | Some i \<Rightarrow> (case find_row (\<lambda>r. img_id r = i) (images db) of None \<Rightarrow> [] | Some r \<Rightarrow> img_resource_config r)))"

text \<open>The last row of an ordering: \<open>ORDER BY k DESC LIMIT 1\<close>.\<close>

definition last_by :: "('r \<Rightarrow> 'k::linorder) \<Rightarrow> ('r \<Rightarrow> bool) \<Rightarrow> 'r list \<Rightarrow> 'r option" where
  "last_by k P t = (case rev (sort_key k (filter P t)) of [] \<Rightarrow> None | r # _ \<Rightarrow> Some r)"

lemma last_by_SomeD:
  assumes "last_by k P t = Some r"
  shows "r \<in> set t \<and> P r \<and> (\<forall>x\<in>set t. P x \<longrightarrow> k x \<le> k r)"
proof -
  from assms obtain xs where s: "sort_key k (filter P t) = rev xs @ [r]"
    by (auto simp: last_by_def split: list.splits)
  have "set (rev xs @ [r]) = {x \<in> set t. P x}" using arg_cong [OF s, of set] by simp
  moreover have "sorted (map k (rev xs @ [r]))" using sorted_sort_key [of k "filter P t"] s by simp
  ultimately show ?thesis by (auto simp: sorted_append)
qed

lemma last_by_None: "last_by k P t = None \<longleftrightarrow> (\<forall>x\<in>set t. \<not> P x)"
proof -
  have "sort_key k (filter P t) = [] \<longleftrightarrow> filter P t = []" by (metis length_0_conv length_sort)
  then show ?thesis by (auto simp: last_by_def filter_empty_conv split: list.splits)
qed

section \<open>Audit rows\<close>

definition insert_audit_row ::
  "string \<Rightarrow> string \<Rightarrow> string \<Rightarrow> string \<Rightarrow> string \<Rightarrow> string \<Rightarrow> string \<Rightarrow> string \<Rightarrow> unit farm_tx" where
  "insert_audit_row resourceType ident actorType actorID action resourceID requestID reason db =
     (let row = \<lparr>aud_id = ident, aud_actor_type = actorType, aud_actor_id = actorID, aud_action = action,
                 aud_resource_type = resourceType, aud_resource_id = resourceID, aud_request_id = requestID,
                 aud_reason = reason, aud_created_at = db_clock db\<rparr>
      in if \<not> ck_audit row then Inl (SqlError ''23514'')
         else if find_row (\<lambda>a. aud_id a = ident) (audits db) \<noteq> None then Inl (SqlError ''23505'')
         else Inr ((), db\<lparr>audits := audits db @ [row]\<rparr>))"

section \<open>Queued commands\<close>

text \<open>A plain INSERT of a pending command, under the constraints and the two unique keys of the table.\<close>

definition insert_command :: "create_command_params \<Rightarrow> unit farm_tx" where
  "insert_command p db =
     (let row = pending_command p (db_clock db)
      in if \<not> ck_command row then Inl (SqlError ''23514'')
         else if find_row (\<lambda>c. cmd_id c = ccp_ID p \<or>
                  (cmd_host_id c = ccp_HostID p \<and> cmd_key c = ccp_IdempotencyKey p)) (commands db) \<noteq> None
         then Inl (SqlError ''23505'')
         else if find_row (\<lambda>h. host_id h = ccp_HostID p) (hosts db) = None then Inl (SqlError ''23503'')
         else Inr ((), db\<lparr>commands := commands db @ [row]\<rparr>))"

section \<open>Status texts\<close>

text \<open>The conversion of a text to a Go status type, which keeps every text.\<close>

definition status_of :: "('s \<Rightarrow> string) \<Rightarrow> 's list \<Rightarrow> (string \<Rightarrow> 's) \<Rightarrow> string \<Rightarrow> 's" where
  "status_of show_status named other t = (case find_row (\<lambda>s. show_status s = t) named of None \<Rightarrow> other t | Some s \<Rightarrow> s)"

definition lifecycle_of :: "string \<Rightarrow> device_lifecycle_status" where
  "lifecycle_of = status_of device_lifecycle_string
     [DeviceProvisioning, DeviceBooting, DeviceReady, DeviceReserved, DeviceBusy, DeviceRecycling,
      DeviceStopped, DeviceQuarantined, DeviceDeleted] DeviceOther"

lemma lifecycle_of_string: "validDeviceLifecycleStatus l \<Longrightarrow> lifecycle_of (device_lifecycle_string l) = l"
  by (cases l) (auto simp: lifecycle_of_def status_of_def validDeviceLifecycleStatus_def)

lemma string_of_lifecycle: "device_lifecycle_string (lifecycle_of t) = t"
  by (auto simp: lifecycle_of_def status_of_def split: option.splits dest: find_row_SomeD)

section \<open>Calls on a device\<close>

text \<open>A call on the aggregate as a value: the error, or the aggregate after the call.\<close>

definition move :: "device_lifecycle_status \<Rightarrow> string \<Rightarrow> timestamp \<Rightarrow> Device \<Rightarrow> (farm_error, Device) result" where
  "move target reason now d =
     (case Device_Transition target reason now d of (Some e, _) \<Rightarrow> Inl (DomainErr e) | (None, d') \<Rightarrow> Inr d')"

text \<open>\<open>if aggregate.Health() != target { aggregate.UpdateHealth(...) }\<close>\<close>

definition set_health :: "health_status \<Rightarrow> string \<Rightarrow> timestamp \<Rightarrow> Device \<Rightarrow> (farm_error, Device) result" where
  "set_health target reason now d =
     (if Health d = target then Inr d
      else case UpdateHealth target reason now d of (Some e, _) \<Rightarrow> Inl (DomainErr e) | (None, d') \<Rightarrow> Inr d')"

fun move_all ::
  "device_lifecycle_status list \<Rightarrow> string \<Rightarrow> timestamp \<Rightarrow> Device \<Rightarrow> (farm_error, Device) result" where
  "move_all [] reason now d = Inr d"
| "move_all (t # ts) reason now d = result_bind (move t reason now d) (move_all ts reason now)"

definition restore_device :: "device_row \<Rightarrow> (farm_error, Device) result" where
  "restore_device row = lift_domain (RestoreDevice (dev_id row) (dev_lifecycle row) (dev_health row))"

lemma move_Inr:
  assumes "move t reason now d = Inr d'"
  shows "Lifecycle d' = t" "Health d' = Health d" "t = DeviceReady \<longrightarrow> Health d = HealthHealthy"
    "device_wf d \<Longrightarrow> device_wf d'" "device_wf d \<Longrightarrow> allows deviceTransitions (Lifecycle d) t"
proof -
  have e: "fst (Device_Transition t reason now d) = None" and d': "d' = snd (Device_Transition t reason now d)"
    using assms by (auto simp: move_def split: prod.splits option.splits)
  show "Lifecycle d' = t" "Health d' = Health d"
    using e by (simp_all add: d' Device_Transition_result)
  show "t = DeviceReady \<longrightarrow> Health d = HealthHealthy"
    using e by (auto simp: Device_Transition_def Health_def split: if_splits)
  show "device_wf d \<Longrightarrow> device_wf d'" by (simp add: d' Device_Transition_wf)
  show "device_wf d \<Longrightarrow> allows deviceTransitions (Lifecycle d) t"
    using Device_Transition_ok e by blast
qed

lemma UpdateHealth_done: "UpdateHealth t reason now d = (None, d') \<Longrightarrow> Health d' = t \<and> Lifecycle d' = Lifecycle d"
  by (auto simp: UpdateHealth_def Let_def Health_def Lifecycle_def split: if_splits)

lemma set_health_Inr:
  assumes "set_health t reason now d = Inr d'"
  shows "Lifecycle d' = Lifecycle d" "Health d' = t" "device_wf d \<Longrightarrow> device_wf d'"
proof -
  show "Lifecycle d' = Lifecycle d" "Health d' = t"
    using assms by (auto simp: set_health_def dest: UpdateHealth_done split: if_splits prod.splits option.splits)
  show "device_wf d \<Longrightarrow> device_wf d'"
    using assms UpdateHealth_wf [of d t reason now]
    by (auto simp: set_health_def split: if_splits prod.splits option.splits)
qed

lemma move_done: "move t reason now d = Inr d' \<Longrightarrow> Lifecycle d' = t \<and> Health d' = Health d"
  using move_Inr(1,2) by blast

lemma set_health_done: "set_health t reason now d = Inr d' \<Longrightarrow> Lifecycle d' = Lifecycle d \<and> Health d' = t"
  using set_health_Inr(1,2) by blast

lemma restore_device_Inr:
  assumes "restore_device row = Inr d"
  shows "Lifecycle d = dev_lifecycle row" "Health d = dev_health row" "device_wf d"
  using assms RestoreDevice_wf by (auto simp: restore_device_def)

text \<open>When a call succeeds.\<close>

lemma move_total:
  assumes "device_wf d" and "TrimSpace reason \<noteq> []" and "now \<noteq> 0" and "allows deviceTransitions (Lifecycle d) t"
    and "t = DeviceReady \<longrightarrow> Health d = HealthHealthy"
  shows "\<exists>d'. move t reason now d = Inr d' \<and> device_wf d' \<and> Lifecycle d' = t \<and> Health d' = Health d"
proof -
  have "fst (Device_Transition t reason now d) = None" using assms Device_Transition_ok by blast
  then have "move t reason now d = Inr (snd (Device_Transition t reason now d))"
    by (cases "Device_Transition t reason now d") (simp add: move_def)
  with move_Inr [OF this] assms(1) show ?thesis by blast
qed

lemma move_not_healthy: "t = DeviceReady \<Longrightarrow> Health d \<noteq> HealthHealthy \<Longrightarrow> move t reason now d = Inl (DomainErr ErrDeviceNotHealthy)"
  by (simp add: move_def Device_Transition_def Health_def)

lemma set_health_total:
  assumes "device_wf d" and "TrimSpace reason \<noteq> []" and "now \<noteq> 0" and "validHealthStatus t"
  shows "\<exists>d'. set_health t reason now d = Inr d' \<and> device_wf d' \<and> Lifecycle d' = Lifecycle d \<and> Health d' = t"
proof (cases "Health d = t")
  case True
  with assms(1) show ?thesis by (simp add: set_health_def)
next
  case False
  have "allows healthTransitions (Health d) t"
    using assms(1,4) False
    by (cases "Health d"; cases t) (auto simp: device_wf_def validHealthStatus_def allows_def)
  then have "fst (UpdateHealth t reason now d) = None"
    using assms by (simp add: UpdateHealth_def Let_def is_zero_time_def Health_def)
  with False have "set_health t reason now d = Inr (snd (UpdateHealth t reason now d))"
    by (cases "UpdateHealth t reason now d") (simp add: set_health_def)
  with set_health_Inr [OF this] assms(1) show ?thesis by blast
qed

section \<open>Loops over rows\<close>

text \<open>\<open>for ... { if err := step(...); err != nil { return err } }\<close>, the step knowing its index.\<close>

fun tx_each :: "(nat \<Rightarrow> 'x \<Rightarrow> ('s, 'e, unit) tx) \<Rightarrow> nat \<Rightarrow> 'x list \<Rightarrow> ('s, 'e, unit) tx" where
  "tx_each f i [] = tx_return ()"
| "tx_each f i (x # xs) = tx_bind (f i x) (\<lambda>_. tx_each f (Suc i) xs)"

text \<open>A transitive relation that every step respects holds across the loop.\<close>

lemma tx_each_relates:
  assumes "tx_each f i xs s = Inr (u, s')" and "R s s"
    and "\<And>j x t v t'. R s t \<Longrightarrow> x \<in> set xs \<Longrightarrow> f j x t = Inr (v, t') \<Longrightarrow> R s t'"
  shows "R s s'"
proof -
  have "R s s'" if "tx_each f i ys t = Inr (u, s')" "R s t" "set ys \<subseteq> set xs" for ys t i
    using that
  proof (induction ys arbitrary: i t)
    case (Cons y ys)
    from Cons.prems obtain v t' where t': "f i y t = Inr (v, t')" "tx_each f (Suc i) ys t' = Inr (u, s')" by auto
    from assms(3) [OF Cons.prems(2) _ t'(1)] Cons.prems(3) have "R s t'" by simp
    with Cons.IH [OF t'(2)] Cons.prems(3) show ?case by simp
  qed simp
  from this [OF assms(1,2)] show ?thesis by simp
qed

end
