(* ===== verification/Host_Heartbeat.thy ===== *)
theory Host_Heartbeat
  imports Device_Statements Scheduler Capacity
begin

text \<open>
  The heartbeat of a host agent (\<open>internal/hostcommand/service.go\<close>): validation and normalisation of
  the report, the new state of the host, the convergence of every reported device, and the quarantine
  of iOS simulators that a complete inventory no longer lists.  The parser of URLs is an argument.
\<close>

section \<open>The report\<close>

record discovered_device =
  dd_ProviderRef :: string
  dd_Serial :: string
  dd_Platform :: string
  dd_DeviceKind :: string
  dd_ProviderType :: string
  dd_LifecycleStatus :: device_lifecycle_status
  dd_HealthStatus :: health_status
  dd_Connection :: json_obj
  dd_Capabilities :: json_obj
  dd_Components :: "(string \<times> string) list"
  dd_RuntimeProfile :: json_obj

record heartbeat_input =
  hb_AgentTime :: timestamp
  hb_Capacity :: "json_obj option"
  hb_Environment :: json_obj
  hb_Devices :: "discovered_device list"

record heartbeat_result =
  hr_HostID :: string
  hr_Status :: host_status
  hr_ReceivedAt :: timestamp
  hr_Devices :: nat

definition normalize_device :: "discovered_device \<Rightarrow> discovered_device" where
  "normalize_device d =
     d\<lparr>dd_ProviderRef := TrimSpace (dd_ProviderRef d), dd_Serial := TrimSpace (dd_Serial d),
       dd_Platform := ToLower (TrimSpace (dd_Platform d)),
       dd_DeviceKind := ToLower (TrimSpace (dd_DeviceKind d)),
       dd_ProviderType := ToLower (TrimSpace (dd_ProviderType d))\<rparr>"

definition validDiscoveredLifecycle :: "device_lifecycle_status \<Rightarrow> bool" where
  "validDiscoveredLifecycle s \<longleftrightarrow> s \<in> {DeviceBooting, DeviceReady, DeviceStopped}"

definition validDiscoveredHealth :: "health_status \<Rightarrow> bool" where
  "validDiscoveredHealth s \<longleftrightarrow> s \<in> {HealthUnknown, HealthHealthy, HealthDegraded, HealthUnhealthy}"

definition validComponents :: "(string \<times> string) list \<Rightarrow> bool" where
  "validComponents components \<longleftrightarrow>
     list_all (\<lambda>(name, status).
       name \<in> {''transport'', ''os_ready'', ''automation'', ''router'', ''remote_control''} \<and>
       status \<in> {''passed'', ''failed'', ''unknown'', ''unsupported''}) components"

definition optionalConnectionValue :: "json_obj \<Rightarrow> string \<Rightarrow> (farm_error, string option) result" where
  "optionalConnectionValue connection key =
     (case obj_get connection key of
        None \<Rightarrow> Inr None
      | Some JNull \<Rightarrow> Inr None
      | Some (JStr s) \<Rightarrow> Inr (if TrimSpace s = [] then None else Some (TrimSpace s))
      | _ \<Rightarrow> Inl ErrInvalidArgument)"

definition discoveredConnection ::
  "json_obj \<Rightarrow> (farm_error, string option \<times> string option \<times> string option) result" where
  "discoveredConnection connection =
     result_bind (optionalConnectionValue connection ''adb_endpoint'') (\<lambda>adb.
     result_bind (optionalConnectionValue connection ''appium_endpoint'') (\<lambda>appium.
     result_bind (optionalConnectionValue connection ''appium_udid'') (\<lambda>udid.
       Inr (adb, appium, udid))))"

text \<open>The checks on one device, given the references and the serials before it.\<close>

definition acceptable :: "string list \<Rightarrow> string list \<Rightarrow> discovered_device \<Rightarrow> bool" where
  "acceptable seenRefs seenSerials d \<longleftrightarrow>
     dd_ProviderRef d \<noteq> [] \<and> dd_ProviderRef d \<notin> set seenRefs \<and>
     validDiscoveredLifecycle (dd_LifecycleStatus d) \<and> validDiscoveredHealth (dd_HealthStatus d) \<and>
     \<not> (dd_LifecycleStatus d = DeviceReady \<and> dd_HealthStatus d \<noteq> HealthHealthy) \<and>
     dd_Platform d \<in> {[], ''android'', ''ios''} \<and>
     dd_DeviceKind d \<in> {[], ''emulator'', ''simulator'', ''physical''} \<and>
     dd_ProviderType d \<in> {[], ''mock'', ''docker_emulator'', ''usb_android'', ''appium_device_farm_ios''} \<and>
     validComponents (dd_Components d) \<and>
     \<not> (dd_Serial d = [] \<and> dd_LifecycleStatus d \<noteq> DeviceStopped) \<and>
     \<not> (dd_Serial d \<noteq> [] \<and> dd_Serial d \<in> set seenSerials) \<and>
     \<not> isl (discoveredConnection (dd_Connection d)) \<and>
     (if dd_RuntimeProfile d = [] then True else Parse (dd_RuntimeProfile d) \<noteq> None)"

fun check_devices ::
  "string list \<Rightarrow> string list \<Rightarrow> discovered_device list \<Rightarrow> (farm_error, discovered_device list) result" where
  "check_devices seenRefs seenSerials [] = Inr []"
| "check_devices seenRefs seenSerials (raw # rest) =
     (let d = normalize_device raw
      in if \<not> acceptable seenRefs seenSerials d then Inl ErrInvalidArgument
         else result_bind
           (check_devices (dd_ProviderRef d # seenRefs)
              (if dd_Serial d = [] then seenSerials else dd_Serial d # seenSerials) rest)
           (\<lambda>ds. Inr (d # ds)))"

section \<open>The environment\<close>

definition reportedHostReadiness :: "json_obj \<Rightarrow> (farm_error, bool option) result" where
  "reportedHostReadiness environment =
     (case obj_get environment ''host_readiness'' of
        None \<Rightarrow> Inr None
      | Some (JObj readiness) \<Rightarrow>
          (case obj_get readiness ''ready'' of Some (JBool b) \<Rightarrow> Inr (Some b) | _ \<Rightarrow> Inl ErrInvalidArgument)
      | Some _ \<Rightarrow> Inl ErrInvalidArgument)"

definition reportedInventoryComplete :: "json_obj \<Rightarrow> (farm_error, bool) result" where
  "reportedInventoryComplete environment =
     (case obj_get environment ''provider_inventory_complete'' of
        None \<Rightarrow> Inr False
      | Some (JBool b) \<Rightarrow> Inr b
      | Some _ \<Rightarrow> Inl ErrInvalidArgument)"

definition hostArchPattern :: "string \<Rightarrow> bool" where
  "hostArchPattern s \<longleftrightarrow>
     1 \<le> length s \<and> length s \<le> 32 \<and> list_all (\<lambda>c. is_word_byte c \<or> byte c \<in> {45, 46}) s"

definition reportedHostIdentity :: "json_obj \<Rightarrow> (farm_error, string option \<times> string option) result" where
  "reportedHostIdentity environment =
     result_bind
       (case obj_get environment ''host_os'' of
          None \<Rightarrow> Inr None
        | Some (JStr s) \<Rightarrow>
            (let v = ToLower (TrimSpace s)
             in if v \<in> {''linux'', ''macos'', ''windows''} then Inr (Some v) else Inl ErrInvalidArgument)
        | Some _ \<Rightarrow> Inl ErrInvalidArgument) (\<lambda>hostOS.
     result_bind
       (case obj_get environment ''host_arch'' of
          None \<Rightarrow> Inr None
        | Some (JStr s) \<Rightarrow> if hostArchPattern (TrimSpace s) then Inr (Some (TrimSpace s)) else Inl ErrInvalidArgument
        | Some _ \<Rightarrow> Inl ErrInvalidArgument) (\<lambda>hostArch.
       Inr (hostOS, hostArch)))"

text \<open>
  What the code uses of a parsed URL: \<open>url_String\<close> prints it with the given path, and \<open>url_Loopback\<close>
  is the test of the host name (lower case) for a loopback address.
\<close>

record parsed_url =
  url_Scheme :: string
  url_Host :: string
  url_Hostname :: string
  url_HasUser :: bool
  url_RawQuery :: string
  url_Fragment :: string
  url_Path :: string
  url_Loopback :: bool
  url_String :: "string \<Rightarrow> string"

definition trim_slashes :: "string \<Rightarrow> string" where
  "trim_slashes s = rev (dropWhile (\<lambda>c. c = CHR ''/'') (rev s))"

definition reportedSessionFenceEndpoint ::
  "(string \<Rightarrow> parsed_url option) \<Rightarrow> json_obj \<Rightarrow> string option \<Rightarrow> (farm_error, string option) result" where
  "reportedSessionFenceEndpoint parse_url environment hostOS =
     (case obj_get environment ''session_fence_endpoint'' of
        None \<Rightarrow> Inr None
      | Some (JStr v) \<Rightarrow>
          if TrimSpace v = [] \<or> hostOS \<noteq> Some ''macos'' then Inl ErrInvalidArgument
          else (case parse_url (TrimSpace v) of
             None \<Rightarrow> Inl ErrInvalidArgument
           | Some u \<Rightarrow>
               if url_Host u = [] \<or> url_HasUser u \<or> url_RawQuery u \<noteq> [] \<or> url_Fragment u \<noteq> [] \<or>
                  url_Scheme u \<notin> {''http'', ''https''} \<or>
                  url_Scheme u \<noteq> ''https'' \<and> \<not> (ToLower (url_Hostname u) = ''localhost'' \<or> url_Loopback u)
               then Inl ErrInvalidArgument
               else Inr (Some (trim_slashes (url_String u (trim_slashes (url_Path u))))))
      | Some _ \<Rightarrow> Inl ErrInvalidArgument)"

section \<open>Used capacity\<close>

definition discoveredCountsAsUsed :: "discovered_device \<Rightarrow> bool" where
  "discoveredCountsAsUsed d \<longleftrightarrow>
     dd_Platform d \<noteq> ''ios'' \<or> obj_get (dd_Capabilities d) ''allowlisted'' = Some (JBool True)"

record used_capacity =
  uc_slots :: int
  uc_cpu :: float64
  uc_memory :: int
  uc_disk :: int

definition add_used :: "discovered_device \<Rightarrow> used_capacity \<Rightarrow> used_capacity" where
  "add_used d u =
     (let u = (if discoveredCountsAsUsed d then u\<lparr>uc_slots := uc_slots u + 1\<rparr> else u)
      in if dd_RuntimeProfile d = [] then u
         else case Parse (dd_RuntimeProfile d) of
           None \<Rightarrow> u
         | Some p \<Rightarrow>
             u\<lparr>uc_cpu := float_add (uc_cpu u) (pf_ContainerCPUCores p),
               uc_memory := wrap64 (uc_memory u + pf_ContainerMemoryMB p),
               uc_disk := wrap64 (uc_disk u + pf_DataDiskMB p)\<rparr>)"

definition used_by :: "discovered_device list \<Rightarrow> used_capacity" where
  "used_by ds = fold add_used ds \<lparr>uc_slots = 0, uc_cpu = Fin 0, uc_memory = 0, uc_disk = 0\<rparr>"

text \<open>The encoded object; \<open>None\<close> when \<open>json.Marshal\<close> fails, as it does for a CPU sum that is not finite.\<close>

definition used_json :: "used_capacity \<Rightarrow> json_obj option" where
  "used_json u =
     (case uc_cpu u of
        Fin x \<Rightarrow> Some [(''cpu_cores'', float_json (Fin x)), (''data_disk_mb'', JNum (uc_disk u)),
                       (''device_slots'', JNum (uc_slots u)), (''memory_mb'', JNum (uc_memory u))]
      | _ \<Rightarrow> None)"

section \<open>The host\<close>

text \<open>
  The new status from the reported readiness: a host that is not ready goes into maintenance by
  itself, and only a maintenance entered this way ends by itself.
\<close>

definition readiness_target ::
  "host_status \<Rightarrow> bool \<Rightarrow> timestamp option \<Rightarrow> bool option \<Rightarrow> timestamp \<Rightarrow> host_status \<times> bool \<times> timestamp option" where
  "readiness_target status auto started readiness now =
     (if status \<noteq> HostDraining \<and> readiness \<noteq> None then
        (if readiness = Some False then
           (let auto' = (status \<noteq> HostMaintenance \<or> auto)
            in (HostMaintenance, auto', if auto' \<and> started = None then Some now else started))
         else if status \<in> {HostOffline, HostOnline} \<or> status = HostMaintenance \<and> auto
         then (HostOnline, False, None)
         else (status, auto, started))
      else if status = HostOffline then (HostOnline, auto, started)
      else (status, auto, started))"

definition host_transition :: "host_row \<Rightarrow> host_status \<Rightarrow> timestamp \<Rightarrow> (farm_error, unit) result" where
  "host_transition h target now =
     (if target = host_status h then Inr ()
      else result_bind (lift_domain (check_transition (RestoreHost (host_id h) (host_status h)) target
             ''agent heartbeat readiness observation'' now)) (\<lambda>_. Inr ()))"

definition merged_capacity :: "json_obj \<Rightarrow> json_obj \<Rightarrow> json_obj" where
  "merged_capacity old reported =
     (if arrow_text reported ''resource_model'' = Some ''dynamic_v1'' then reported
      else obj_merge old (obj_remove ''device_slots'' reported))"

definition merged_environment :: "json_obj \<Rightarrow> json_obj \<Rightarrow> json_obj" where
  "merged_environment old reported =
     obj_remove ''host_readiness_auto_maintenance'' (obj_remove ''host_readiness_failure_started_at''
       (obj_merge old (obj_remove ''provider'' (obj_remove ''host_os'' (obj_remove ''host_arch'' reported)))))"

definition update_host ::
  "host_row \<Rightarrow> json_obj \<Rightarrow> json_obj \<Rightarrow> json_obj option \<Rightarrow> string option \<times> string option \<Rightarrow> bool option \<Rightarrow>
   timestamp \<Rightarrow> host_status farm_tx" where
  "update_host h reported environment used identity readiness now =
     (case readiness_target (host_status h) (host_auto_maintenance h) (host_failure_started_at h) readiness now of
        (target, auto, started) \<Rightarrow>
          tx_bind (tx_lift (host_transition h target now)) (\<lambda>_.
          tx_bind (case used of None \<Rightarrow> tx_fail (SqlError ''23502'') | Some u \<Rightarrow> tx_return u) (\<lambda>u.
          tx_bind (write_hosts (\<lambda>x. host_id x = host_id h)
            (\<lambda>x. x\<lparr>host_status := target, host_draining := (target = HostDraining),
                   host_capacity := merged_capacity (host_capacity x) reported,
                   host_capabilities := merged_environment (host_capabilities x) environment,
                   host_auto_maintenance := auto, host_failure_started_at := started,
                   host_used_capacity := u,
                   host_os := (case fst identity of None \<Rightarrow> host_os x | Some v \<Rightarrow> v),
                   host_arch := (case snd identity of None \<Rightarrow> host_arch x | Some v \<Rightarrow> v),
                   host_last_heartbeat_at := Some now, host_updated_at := now\<rparr>)) (\<lambda>_.
            tx_return target))))"

section \<open>A reported device\<close>

text \<open>A command that recreates the device or restarts it for a new profile is under way.\<close>

definition heartbeat_operation :: "command_row \<Rightarrow> bool" where
  "heartbeat_operation c \<longleftrightarrow>
     cmd_type c \<in> {''create'', ''rebuild'', ''delete''} \<or>
     cmd_type c = ''restart'' \<and> arrow_text (cmd_payload c) ''operation_kind'' = Some ''runtime_profile_update''"

definition operation_in_flight :: "farm_db \<Rightarrow> string \<Rightarrow> bool" where
  "operation_in_flight db deviceID \<longleftrightarrow>
     list_ex (\<lambda>c. command_on deviceID c \<and> heartbeat_operation c \<and> unfinished c) (commands db)"

definition recoverFromHostOutage :: "string \<Rightarrow> timestamp \<Rightarrow> Device \<Rightarrow> (farm_error, Device) result" where
  "recoverFromHostOutage assignment now d =
     result_bind (set_health HealthHealthy ''host and provider heartbeat recovered'' now d) (\<lambda>d.
     result_bind (move_all [DeviceProvisioning, DeviceBooting, DeviceReady]
       ''host and provider heartbeat recovered'' now d) (\<lambda>d.
     result_bind (if assignment \<in> {''reserved'', ''busy''}
                  then move DeviceReserved ''existing reservation restored after host recovery'' now d
                  else Inr d) (\<lambda>d.
       if assignment = ''busy'' then move DeviceBusy ''active session restored after host recovery'' now d
       else Inr d)))"

definition applyDiscoveredLifecycle :: "device_lifecycle_status \<Rightarrow> timestamp \<Rightarrow> Device \<Rightarrow> (farm_error, Device) result" where
  "applyDiscoveredLifecycle incoming now d =
     (if Lifecycle d = incoming then Inr d
      else if incoming = DeviceBooting then
        (if Lifecycle d \<in> {DeviceProvisioning, DeviceStopped}
         then move DeviceBooting ''agent discovered booting device'' now d else Inr d)
      else if incoming = DeviceReady then
        result_bind
          (if Lifecycle d \<in> {DeviceProvisioning, DeviceStopped}
           then move DeviceBooting ''agent discovered running device'' now d else Inr d)
          (\<lambda>d. if Lifecycle d = DeviceBooting then move DeviceReady ''agent health checks passed'' now d else Inr d)
      else if incoming = DeviceStopped then
        (if Lifecycle d \<in> {DeviceBooting, DeviceReady}
         then move DeviceStopped ''agent discovered stopped device'' now d else Inr d)
      else Inr d)"

text \<open>
  The decisions on a device row \<open>x\<close>, with \<open>busy\<close> for an operation in flight: leaving a quarantine that
  the system itself imposed, taking over the report at all, and keeping an STF failure.
\<close>

definition recovered_automatically :: "device_row \<Rightarrow> bool \<Rightarrow> discovered_device \<Rightarrow> bool" where
  "recovered_automatically x busy d \<longleftrightarrow>
     dev_lifecycle x = DeviceQuarantined \<and>
     (case dev_health_reason x of None \<Rightarrow> False
      | Some r \<Rightarrow> IsSystemRecoverableHealthReason r \<and> \<not> IsSTFFailureReason r) \<and>
     dd_HealthStatus d = HealthHealthy \<and> \<not> busy"

definition takes_report :: "device_row \<Rightarrow> bool \<Rightarrow> discovered_device \<Rightarrow> bool" where
  "takes_report x busy d \<longleftrightarrow>
     (dev_lifecycle x \<noteq> DeviceQuarantined \<or> recovered_automatically x busy d) \<and>
     dev_lifecycle x \<noteq> DeviceDeleted \<and> \<not> busy"

definition preserve_stf_health :: "device_row \<Rightarrow> bool \<Rightarrow> discovered_device \<Rightarrow> bool" where
  "preserve_stf_health x busy d \<longleftrightarrow>
     takes_report x busy d \<and> dd_HealthStatus d = HealthHealthy \<and>
     (case dev_health_reason x of None \<Rightarrow> False | Some r \<Rightarrow> IsSTFFailureReason r)"

definition converge_device ::
  "device_row \<Rightarrow> bool \<Rightarrow> string \<Rightarrow> discovered_device \<Rightarrow> timestamp \<Rightarrow> (farm_error, Device) result" where
  "converge_device x busy assignment d now =
     result_bind (restore_device x) (\<lambda>a.
     result_bind (if recovered_automatically x busy d then recoverFromHostOutage assignment now a else Inr a) (\<lambda>a.
       if \<not> takes_report x busy d then Inr a
       else result_bind
         (if preserve_stf_health x busy d then Inr a
          else set_health (dd_HealthStatus d) ''agent heartbeat health observation'' now a) (\<lambda>a.
           if dev_lifecycle x \<in> {DeviceReserved, DeviceBusy, DeviceRecycling} then Inr a
           else applyDiscoveredLifecycle (dd_LifecycleStatus d) now a)))"

definition converged_reason :: "device_row \<Rightarrow> bool \<Rightarrow> discovered_device \<Rightarrow> Device \<Rightarrow> string option" where
  "converged_reason x busy d a =
     (if takes_report x busy d \<and> \<not> preserve_stf_health x busy d
      then (if Health a = HealthHealthy then None
            else Some (''agent heartbeat reported '' @ health_string (Health a)))
      else dev_health_reason x)"

definition resets_failures :: "device_row \<Rightarrow> bool \<Rightarrow> discovered_device \<Rightarrow> Device \<Rightarrow> bool" where
  "resets_failures x busy d a \<longleftrightarrow>
     recovered_automatically x busy d \<or>
     \<not> preserve_stf_health x busy d \<and> Health a = HealthHealthy \<and> dev_lifecycle x \<noteq> DeviceQuarantined \<and>
     dev_lifecycle x \<noteq> DeviceDeleted \<and> \<not> busy"

definition discovery_capabilities :: "discovered_device \<Rightarrow> json_obj" where
  "discovery_capabilities d =
     (let caps = RedactMap (dd_Capabilities d)
      in if dd_Components d = [] then caps
         else obj_put ''componentHealth'' (JObj (map (\<lambda>(n, s). (n, JStr s)) (dd_Components d))) caps)"

definition identity_conflict :: "device_row \<Rightarrow> discovered_device \<Rightarrow> bool" where
  "identity_conflict x d \<longleftrightarrow>
     dd_Platform d \<noteq> [] \<and> dd_Platform d \<noteq> dev_platform x \<or>
     dd_DeviceKind d \<noteq> [] \<and> dd_DeviceKind d \<noteq> dev_kind x \<or>
     dd_ProviderType d \<noteq> [] \<and> dd_ProviderType d \<noteq> dev_provider_type x"

definition reported_row ::
  "device_row \<Rightarrow> bool \<Rightarrow> discovered_device \<Rightarrow> Device \<Rightarrow> string option \<times> string option \<times> string option \<Rightarrow>
   timestamp \<Rightarrow> device_row \<Rightarrow> device_row" where
  "reported_row x busy d a connection now y =
     (let caps = obj_merge (dev_capabilities y) (discovery_capabilities d)
      in y\<lparr>dev_serial := (if dd_Serial d = [] then dev_serial y else dd_Serial d),
           dev_adb_endpoint := (case fst connection of None \<Rightarrow> dev_adb_endpoint y | v \<Rightarrow> v),
           dev_appium_endpoint := (case fst (snd connection) of None \<Rightarrow> dev_appium_endpoint y | v \<Rightarrow> v),
           dev_capabilities :=
             (case snd (snd connection) of None \<Rightarrow> caps | Some u \<Rightarrow> obj_put ''appiumUdid'' (JStr u) caps),
           dev_lifecycle := Lifecycle a, dev_health := Health a,
           dev_health_reason := converged_reason x busy d a,
           dev_failures := (if resets_failures x busy d a then 0 else dev_failures y),
           dev_last_seen_at := Some now, dev_updated_at := now\<rparr>)"

text \<open>The first healthy managed simulator becomes the template of the pools that have none.\<close>

definition adopt_template :: "device_row \<Rightarrow> Device \<Rightarrow> timestamp \<Rightarrow> unit farm_tx" where
  "adopt_template x a now db =
     (if dev_platform x = ''ios'' \<and> dev_kind x = ''simulator'' \<and> dev_provider_type x = ''appium_device_farm_ios'' \<and>
         Lifecycle a = DeviceReady \<and> Health a = HealthHealthy
      then tx_bind
        (write_pools
          (\<lambda>p. pool_platform p = ''ios'' \<and> pool_status p = PoolActive \<and> pool_base_device_id p = None \<and>
               list_ex (\<lambda>pd. pd_pool_id pd = pool_id p \<and> pd_device_id pd = dev_id x \<and> pd_enabled pd) (pool_devices db))
          (\<lambda>p. p\<lparr>pool_base_device_id := Some (dev_id x), pool_updated_at := now\<rparr>))
        (\<lambda>_. tx_return ()) db
      else Inr ((), db))"

definition updateDiscoveredDevice :: "string \<Rightarrow> timestamp \<Rightarrow> discovered_device \<Rightarrow> unit farm_tx" where
  "updateDiscoveredDevice hostID now d db =
     (case find_row (\<lambda>x. dev_host_id x = hostID \<and> dev_provider_ref x = dd_ProviderRef d) (devices db) of
        None \<Rightarrow> Inr ((), db)
      | Some x \<Rightarrow>
          (let busy = operation_in_flight db (dev_id x); assignment = assignment_target db (dev_id x)
           in if identity_conflict x d then Inl ErrDeviceIdentityConflict
              else tx_bind (tx_lift (discoveredConnection (dd_Connection d))) (\<lambda>connection.
                   tx_bind (tx_lift (converge_device x busy assignment d now)) (\<lambda>a.
                   tx_bind (write_devices (\<lambda>y. dev_id y = dev_id x) (reported_row x busy d a connection now)) (\<lambda>_.
                     adopt_template x a now))) db))"

section \<open>Simulators that a complete inventory does not list\<close>

definition iosInventoryMissingGrace :: duration where
  "iosInventoryMissingGrace = 30 * second"

definition missing_reason :: string where
  "missing_reason = ''IOS_PROVIDER_DEVICE_MISSING: complete inventory no longer contains the registered Simulator''"

definition missing_candidate :: "farm_db \<Rightarrow> string \<Rightarrow> string list \<Rightarrow> timestamp \<Rightarrow> device_row \<Rightarrow> bool" where
  "missing_candidate db hostID seenRefs now d \<longleftrightarrow>
     dev_host_id d = hostID \<and> dev_platform d = ''ios'' \<and> dev_kind d = ''simulator'' \<and>
     dev_provider_type d = ''appium_device_farm_ios'' \<and>
     dev_lifecycle d \<notin> {DeviceQuarantined, DeviceDeleted} \<and>
     \<not> list_ex (\<lambda>c. command_on (dev_id d) c \<and> cmd_type c \<in> {''create'', ''rebuild'', ''delete''} \<and> unfinished c)
       (commands db) \<and>
     dev_provider_ref d \<notin> set seenRefs \<and>
     iosInventoryMissingGrace \<le> now - (case dev_last_seen_at d of None \<Rightarrow> dev_created_at d | Some t \<Rightarrow> t)"

definition quarantine_missing ::
  "(nat \<Rightarrow> (farm_error, string) result) \<Rightarrow> string \<Rightarrow> timestamp \<Rightarrow> nat \<Rightarrow> device_row \<Rightarrow> unit farm_tx" where
  "quarantine_missing newID hostID now i x =
     tx_bind (tx_lift (restore_device x)) (\<lambda>a.
     tx_bind (tx_lift (set_health HealthUnhealthy missing_reason now a)) (\<lambda>a.
     tx_bind (tx_lift (if Lifecycle a = DeviceQuarantined then Inr a else move DeviceQuarantined missing_reason now a)) (\<lambda>a.
     tx_bind (write_devices (\<lambda>y. dev_id y = dev_id x)
       (\<lambda>y. y\<lparr>dev_lifecycle := Lifecycle a, dev_health := Health a, dev_health_reason := Some missing_reason,
              dev_failures := dev_failures y + 1, dev_updated_at := now\<rparr>)) (\<lambda>_.
     tx_bind (tx_lift (newID i)) (\<lambda>eventID.
     tx_bind (insert_health_event eventID (dev_id x) ''agent'' ''ios_provider_device_missing'' ''critical''
       missing_reason [(''host_id'', JStr hostID), (''inventory_complete'', JBool True)] now) (\<lambda>_.
       tx_return ()))))))"

definition quarantineMissingIOSDevices ::
  "(nat \<Rightarrow> (farm_error, string) result) \<Rightarrow> string \<Rightarrow> string list \<Rightarrow> timestamp \<Rightarrow> unit farm_tx" where
  "quarantineMissingIOSDevices newID hostID seenRefs now db =
     tx_each (quarantine_missing newID hostID now) 0
       (sort_key dev_id (filter (missing_candidate db hostID seenRefs now) (devices db))) db"

section \<open>The heartbeat\<close>

definition heartbeat_tx ::
  "(nat \<Rightarrow> (farm_error, string) result) \<Rightarrow> string \<Rightarrow> discovered_device list \<Rightarrow> json_obj \<Rightarrow> json_obj \<Rightarrow>
   bool option \<Rightarrow> bool \<Rightarrow> string option \<times> string option \<Rightarrow> heartbeat_result farm_tx" where
  "heartbeat_tx newID hostID ds capacity environment readiness inventoryComplete identity db =
     (case find_row (\<lambda>h. host_id h = hostID) (hosts db) of
        None \<Rightarrow> Inl ErrNotFound
      | Some h \<Rightarrow>
          tx_bind (tx_read ClockNow) (\<lambda>now.
          tx_bind (update_host h (RedactMap capacity) (RedactMap environment) (used_json (used_by ds))
             identity readiness now) (\<lambda>target.
          tx_bind (tx_each (\<lambda>_. updateDiscoveredDevice hostID now) 0 ds) (\<lambda>_.
          tx_bind (if inventoryComplete
                   then quarantineMissingIOSDevices newID hostID (map dd_ProviderRef ds) now
                   else tx_return ()) (\<lambda>_.
            tx_return \<lparr>hr_HostID = hostID, hr_Status = target, hr_ReceivedAt = now,
                       hr_Devices = length ds\<rparr>)))) db)"

text \<open>The report after the checks: its devices, the readiness, whether it is complete, the identity and the environment.\<close>

definition checked_report ::
  "(string \<Rightarrow> parsed_url option) \<Rightarrow> string \<Rightarrow> heartbeat_input \<Rightarrow>
   (farm_error, discovered_device list \<times> json_obj \<times> json_obj \<times> bool option \<times> bool \<times> (string option \<times> string option)) result" where
  "checked_report parse_url hostID input =
     (let environment = hb_Environment input in
      case hb_Capacity input of
        None \<Rightarrow> Inl ErrInvalidArgument
      | Some capacity \<Rightarrow>
          if length hostID < 16 \<or> is_zero_time (hb_AgentTime input) then Inl ErrInvalidArgument
          else
            result_bind (check_devices [] [] (hb_Devices input)) (\<lambda>ds.
            result_bind (reportedHostReadiness environment) (\<lambda>readiness.
            result_bind (reportedInventoryComplete environment) (\<lambda>authoritative.
            result_bind (reportedHostIdentity environment) (\<lambda>identity.
            result_bind (reportedSessionFenceEndpoint parse_url environment (fst identity)) (\<lambda>endpoint.
              Inr (ds, capacity,
                   case endpoint of None \<Rightarrow> environment
                   | Some e \<Rightarrow> obj_put ''session_fence_endpoint'' (JStr e) environment,
                   readiness, authoritative, identity)))))))"

definition heartbeat_error :: "farm_error \<Rightarrow> farm_error" where
  "heartbeat_error e = (if e = SqlError ''23505'' then ErrDeviceIdentityConflict else e)"

definition Heartbeat ::
  "(nat \<Rightarrow> (farm_error, string) result) \<Rightarrow> (string \<Rightarrow> parsed_url option) \<Rightarrow> string \<Rightarrow> heartbeat_input \<Rightarrow> farm_db \<Rightarrow>
   (farm_error, heartbeat_result) result \<times> farm_db" where
  "Heartbeat newID parse_url hostID input db =
     (case checked_report parse_url hostID input of
        Inl e \<Rightarrow> (Inl e, db)
      | Inr (ds, capacity, environment, readiness, authoritative, identity) \<Rightarrow>
          (case run_tx (heartbeat_tx newID hostID ds capacity environment readiness authoritative identity) db of
             (Inl e, db') \<Rightarrow> (Inl (heartbeat_error e), db')
           | (Inr r, db') \<Rightarrow> (Inr r, db')))"

end
