(* ===== verification/Hold_Contract.thy ===== *)
theory Hold_Contract
  imports Farm_System Device_Statements
begin

text \<open>
  The contract between the scheduling core and every other component, \<open>other_components\<close> of the
  system: it composes, single statements satisfy it under simple conditions, and a transaction that
  satisfies it is a step of the system.  The components prove it for their transactions.
\<close>

lemma other_refl: "farm_inv db \<Longrightarrow> other_components db db"
  by (auto simp: other_components_def farm_inv_def rows_ok_def list_all_iff list_ex_iff)

lemma other_trans:
  assumes "other_components a b" and "other_components b c"
  shows "other_components a c"
proof -
  note ab = assms(1) [unfolded other_components_def list_all_iff list_ex_iff]
    and bc = assms(2) [unfolded other_components_def list_all_iff list_ex_iff]
  have eq: "reservations b = reservations a" "sessions b = sessions a" using ab by simp_all
  have held: "\<exists>d'\<in>set (devices c). dev_id d' = dev_id d \<and> held_lifecycle (rsv_status r) (dev_lifecycle d')"
    if r: "r \<in> set (reservations a)" and d: "d \<in> set (devices a)"
      and h: "holds r \<and> rsv_device_id r = Some (dev_id d) \<and> held_lifecycle (rsv_status r) (dev_lifecycle d)" for r d
  proof -
    from ab r d h obtain e where e: "e \<in> set (devices b)" "dev_id e = dev_id d"
      "held_lifecycle (rsv_status r) (dev_lifecycle e)" by blast
    moreover have "r \<in> set (reservations b)" using r eq by simp
    moreover have "holds r \<and> rsv_device_id r = Some (dev_id e)" using h e(2) by simp
    ultimately obtain e' where "e' \<in> set (devices c)" "dev_id e' = dev_id e"
      "held_lifecycle (rsv_status r) (dev_lifecycle e')" using bc by blast
    with e(2) show ?thesis by auto
  qed
  have "db_clock a \<le> db_clock c" using ab bc by linarith
  with held bc eq show ?thesis unfolding other_components_def list_all_iff list_ex_iff by simp
qed

text \<open>A statement on other tables.\<close>

lemma other_same:
  assumes "farm_inv db" and "devices db' = devices db" and "reservations db' = reservations db"
    and "sessions db' = sessions db" and "db_clock db' = db_clock db"
  shows "other_components db db'"
  using other_refl [OF assms(1)] assms(2-5) by (simp add: other_components_def)

text \<open>An update of one device that keeps its key and what a holder of the device expects.\<close>

lemma other_update:
  assumes "farm_inv db" and "x \<in> set (devices db)"
    and db': "db' = db\<lparr>devices := update_where (\<lambda>y. dev_id y = dev_id x) f (devices db)\<rparr>"
    and "dev_id (f x) = dev_id x"
    and "\<And>r. r \<in> set (reservations db) \<Longrightarrow> holds r \<Longrightarrow> rsv_device_id r = Some (dev_id x) \<Longrightarrow>
       held_lifecycle (rsv_status r) (dev_lifecycle x) \<Longrightarrow> held_lifecycle (rsv_status r) (dev_lifecycle (f x))"
  shows "other_components db db'"
proof -
  have d: "distinct (map dev_id (devices db))" "list_all (\<lambda>d. identifierPattern (dev_id d)) (devices db)"
    using other_refl [OF assms(1)] by (simp_all add: other_components_def)
  have one: "y = x" if "y \<in> set (devices db)" "dev_id y = dev_id x" for y
    using distinct_map_same [OF d(1) that(1) assms(2) that(2)] .
  have ids: "map dev_id (devices db') = map dev_id (devices db)"
    using one assms(4) by (auto simp: db' update_where_def)
  have fx: "f x \<in> set (devices db')" using assms(2) by (auto simp: db' set_update_where)
  have rest: "y \<in> set (devices db')" if "y \<in> set (devices db)" "y \<noteq> x" for y
    using that one by (auto simp: db' set_update_where)
  show ?thesis
    unfolding other_components_def
  proof (intro conjI)
    show "distinct (map dev_id (devices db'))" using d(1) ids by simp
    show "list_all (\<lambda>d. identifierPattern (dev_id d)) (devices db')"
      using d(2) arg_cong [OF ids, of "list_all identifierPattern"] by (simp add: list_all_iff)
    show "list_all (\<lambda>r. list_all (\<lambda>d. holds r \<and> rsv_device_id r = Some (dev_id d) \<and>
            held_lifecycle (rsv_status r) (dev_lifecycle d) \<longrightarrow>
          list_ex (\<lambda>d'. dev_id d' = dev_id d \<and> held_lifecycle (rsv_status r) (dev_lifecycle d')) (devices db'))
        (devices db)) (reservations db)"
      unfolding list_all_iff list_ex_iff
    proof (intro ballI impI)
      fix r y assume r: "r \<in> set (reservations db)" and y: "y \<in> set (devices db)"
        and h: "holds r \<and> rsv_device_id r = Some (dev_id y) \<and> held_lifecycle (rsv_status r) (dev_lifecycle y)"
      show "\<exists>d'\<in>set (devices db'). dev_id d' = dev_id y \<and> held_lifecycle (rsv_status r) (dev_lifecycle d')"
      proof (cases "y = x")
        case True
        with h assms(4) assms(5) [OF r] fx show ?thesis by auto
      next
        case False
        with h rest [OF y] show ?thesis by auto
      qed
    qed
  qed (simp_all add: db')
qed

lemma other_write:
  assumes "write_devices (\<lambda>y. dev_id y = dev_id x) f db = Inr (n, db')" and "farm_inv db" and "x \<in> set (devices db)"
    and "dev_id (f x) = dev_id x"
    and "\<And>r. r \<in> set (reservations db) \<Longrightarrow> holds r \<Longrightarrow> rsv_device_id r = Some (dev_id x) \<Longrightarrow>
       held_lifecycle (rsv_status r) (dev_lifecycle x) \<Longrightarrow> held_lifecycle (rsv_status r) (dev_lifecycle (f x))"
  shows "other_components db db'"
proof -
  have db': "db' = db\<lparr>devices := update_where (\<lambda>y. dev_id y = dev_id x) f (devices db)\<rparr>"
    using assms(1) by (simp add: write_devices_Inr)
  show ?thesis
    by (rule other_update [OF assms(2,3) db' assms(4)]) (rule assms(5))
qed

text \<open>The subquery finds the one reservation that holds a device.\<close>

lemma assignment_of_holder:
  assumes "farm_inv db" and "r \<in> set (reservations db)" and "holds r" and "rsv_device_id r = Some k"
  shows "assignment_target db k = (if rsv_status r = ReservationActive then ''busy'' else ''reserved'')"
proof -
  have c: "core (set (devices db)) (set (reservations db)) (set (sessions db))"
    using assms(1) by (simp add: farm_inv_def farm_core_def)
  let ?key = "\<lambda>r. (if rsv_status r = ReservationActive then 0 else 1 :: int, - rsv_updated_at r, rsv_id r)"
  let ?P = "\<lambda>r. rsv_device_id r = Some k \<and> rsv_status r \<in> {ReservationPending, ReservationActive}"
  obtain q where q: "first_by ?key ?P (reservations db) = Some q"
    using assms(2-4) by (cases "first_by ?key ?P (reservations db)") (auto simp: holds_def)
  from first_by_SomeD [OF q] have "q \<in> set (reservations db)" "holds q" "rsv_device_id q = rsv_device_id r"
    using assms(4) by (auto simp: holds_def)
  then have "q = r" using core_dest(4) [OF c _ assms(2) _ assms(3)] by simp
  then show ?thesis unfolding assignment_target_def q option.simps by simp
qed

lemma assignment_of_none:
  "(\<And>r. r \<in> set (reservations db) \<Longrightarrow> holds r \<Longrightarrow> rsv_device_id r \<noteq> Some k) \<Longrightarrow> assignment_target db k = []"
proof -
  assume free: "\<And>r. r \<in> set (reservations db) \<Longrightarrow> holds r \<Longrightarrow> rsv_device_id r \<noteq> Some k"
  have none: "first_by (\<lambda>r. (if rsv_status r = ReservationActive then 0 else 1 :: int, - rsv_updated_at r, rsv_id r))
      (\<lambda>r. rsv_device_id r = Some k \<and> rsv_status r \<in> {ReservationPending, ReservationActive}) (reservations db) = None"
    using free by (auto simp: holds_def)
  show ?thesis unfolding assignment_target_def none option.simps ..
qed

section \<open>The contract as an interface\<close>

text \<open>
  A transaction of another component.  Its effects never break the invariant of the scheduling core,
  and the states after it are reachable states of the system.
\<close>

locale respects_holds =
  fixes tx :: "'a farm_tx"
  assumes respects: "farm_inv db \<Longrightarrow> tx db = Inr (a, db') \<Longrightarrow> other_components db db'"
begin

lemma reachable:
  assumes "farm_start s" and "farm_step\<^sup>*\<^sup>* s db" and "tx db = Inr (a, db')"
  shows "farm_step\<^sup>*\<^sup>* s db'"
  using assms(2) step_others [OF respects [OF run_inv [OF assms(1,2)] assms(3)]]
  by (rule rtranclp.rtrancl_into_rtrancl)

lemma preserves: "farm_inv db \<Longrightarrow> tx db = Inr (a, db') \<Longrightarrow> farm_inv db'"
  using other_components_inv respects by blast

lemma run_reachable:
  assumes "farm_start s" and "farm_step\<^sup>*\<^sup>* s db"
  shows "farm_step\<^sup>*\<^sup>* s (snd (run_tx tx db))"
  by (cases "tx db") (auto simp: run_tx_def assms intro: reachable [OF assms])

end

text \<open>The contract along a loop.\<close>

lemma each_others:
  assumes "tx_each f i xs db = Inr (u, db')" and "farm_inv db"
    and "\<And>j x t v t'. farm_inv t \<Longrightarrow> x \<in> set xs \<Longrightarrow> f j x t = Inr (v, t') \<Longrightarrow> other_components t t'"
  shows "other_components db db'"
proof (rule tx_each_relates [where R = other_components, OF assms(1) other_refl [OF assms(2)]])
  fix j x t v t'
  assume "other_components db t" "x \<in> set xs" "f j x t = Inr (v, t')"
  then show "other_components db t'"
    using other_components_inv [OF assms(2)] assms(3) other_trans by blast
qed

end
