(* ===== verification/Heartbeat_Effects.thy ===== *)
theory Heartbeat_Effects
  imports Host_Heartbeat Hold_Contract
begin

text \<open>
  What a heartbeat does and does not do: it respects the holds of open reservations, leaves the devices
  of other hosts and the quarantines of operators alone, and treats the status of the host as its
  operator set it.
\<close>

section \<open>Devices that a reservation holds\<close>

lemma recoverFromHostOutage_Inr:
  assumes "recoverFromHostOutage assignment now d = Inr a"
  shows "Lifecycle a = (if assignment = ''busy'' then DeviceBusy
    else if assignment = ''reserved'' then DeviceReserved else DeviceReady)" "Health a = HealthHealthy"
  using assms by (auto simp: recoverFromHostOutage_def dest!: move_done set_health_done split: if_splits)

lemma applyDiscoveredLifecycle_held:
  assumes "applyDiscoveredLifecycle incoming now d = Inr a" and "Lifecycle d \<in> {DeviceReserved, DeviceBusy}"
  shows "a = d"
  using assms by (auto simp: applyDiscoveredLifecycle_def split: if_splits)

lemma takes_report_quarantined:
  "takes_report x busy d \<Longrightarrow> dev_lifecycle x = DeviceQuarantined \<Longrightarrow> recovered_automatically x busy d"
  by (auto simp: takes_report_def)

lemma converge_held:
  assumes "converge_device x busy (if s = ReservationActive then ''busy'' else ''reserved'') d now = Inr a"
    and "held_lifecycle s (dev_lifecycle x)"
  shows "held_lifecycle s (Lifecycle a)"
proof -
  let ?as = "if s = ReservationActive then ''busy'' else ''reserved''"
  let ?want = "if s = ReservationActive then DeviceBusy else DeviceReserved"
  from assms(1) obtain a0 a1 where a0: "restore_device x = Inr a0"
    and a1: "(if recovered_automatically x busy d then recoverFromHostOutage ?as now a0 else Inr a0) = Inr a1"
    and a: "(if \<not> takes_report x busy d then Inr a1
       else result_bind
         (if preserve_stf_health x busy d then Inr a1
          else set_health (dd_HealthStatus d) ''agent heartbeat health observation'' now a1) (\<lambda>a.
           if dev_lifecycle x \<in> {DeviceReserved, DeviceBusy, DeviceRecycling} then Inr a
           else applyDiscoveredLifecycle (dd_LifecycleStatus d) now a)) = Inr a"
    unfolding converge_device_def result_bind_Inr_iff by blast
  note l0 = restore_device_Inr(1) [OF a0]
  show ?thesis
  proof (cases "recovered_automatically x busy d")
    case True
    with a1 have "recoverFromHostOutage ?as now a0 = Inr a1" by simp
    from recoverFromHostOutage_Inr(1) [OF this] have l1: "Lifecycle a1 = ?want" by auto
    then have "Lifecycle a = ?want"
      using a by (auto dest!: applyDiscoveredLifecycle_held dest!: set_health_done split: if_splits)
    then show ?thesis by (simp add: held_lifecycle_def)
  next
    case False
    with a1 have "a1 = a0" by simp
    show ?thesis
    proof (cases "takes_report x busy d")
      case True
      with False assms(2) have "dev_lifecycle x \<in> {DeviceReserved, DeviceBusy}"
        using takes_report_quarantined by (auto simp: held_lifecycle_def split: if_splits)
      with a \<open>a1 = a0\<close> l0 True have "Lifecycle a = dev_lifecycle x"
        by (auto dest!: set_health_done split: if_splits)
      with assms(2) show ?thesis by simp
    next
      case False
      with a \<open>a1 = a0\<close> l0 assms(2) show ?thesis by simp
    qed
  qed
qed

lemma adopt_template_same:
  "adopt_template x a now db = Inr (u, db') \<Longrightarrow>
   devices db' = devices db \<and> reservations db' = reservations db \<and> sessions db' = sessions db \<and>
   db_clock db' = db_clock db \<and> hosts db' = hosts db"
  by (auto simp: adopt_template_def write_pools_Inr split: if_splits)

lemma updateDiscoveredDevice_cases:
  assumes "updateDiscoveredDevice hostID now d db = Inr (u, db')"
  obtains "db' = db"
  | x c a n t where "x \<in> set (devices db)" and "dev_host_id x = hostID"
    and "dev_provider_ref x = dd_ProviderRef d"
    and "converge_device x (operation_in_flight db (dev_id x)) (assignment_target db (dev_id x)) d now = Inr a"
    and "write_devices (\<lambda>y. dev_id y = dev_id x)
      (reported_row x (operation_in_flight db (dev_id x)) d a c now) db = Inr (n, t)"
    and "adopt_template x a now t = Inr (u, db')"
proof (cases "find_row (\<lambda>x. dev_host_id x = hostID \<and> dev_provider_ref x = dd_ProviderRef d) (devices db)")
  case None
  with assms that(1) show ?thesis by (simp only: updateDiscoveredDevice_def option.simps) simp
next
  case (Some x)
  from find_row_SomeD [OF Some] have x: "x \<in> set (devices db)" "dev_host_id x = hostID"
    "dev_provider_ref x = dd_ProviderRef d" by simp_all
  from assms show ?thesis
    unfolding updateDiscoveredDevice_def Some option.simps Let_def
    by (auto split: if_splits intro: that(2) [OF x])
qed

lemma reported_row_sel [simp]:
  "dev_id (reported_row x busy d a c now y) = dev_id y"
  "dev_lifecycle (reported_row x busy d a c now y) = Lifecycle a"
  "dev_health (reported_row x busy d a c now y) = Health a"
  "dev_health_reason (reported_row x busy d a c now y) = converged_reason x busy d a"
  "dev_host_id (reported_row x busy d a c now y) = dev_host_id y"
  by (simp_all add: reported_row_def Let_def)

lemma updateDiscoveredDevice_others:
  assumes "updateDiscoveredDevice hostID now d db = Inr (u, db')" and inv: "farm_inv db"
  shows "other_components db db'"
  using assms(1)
proof (cases rule: updateDiscoveredDevice_cases)
  case 1
  then show ?thesis using other_refl [OF inv] by simp
next
  case (2 x c a n t)
  let ?f = "reported_row x (operation_in_flight db (dev_id x)) d a c now"
  have "other_components db t"
  proof (rule other_write [OF 2(5) inv 2(1)])
    fix r assume r: "r \<in> set (reservations db)" "holds r" "rsv_device_id r = Some (dev_id x)"
      "held_lifecycle (rsv_status r) (dev_lifecycle x)"
    show "held_lifecycle (rsv_status r) (dev_lifecycle (?f x))"
      using converge_held [OF 2(4) [unfolded assignment_of_holder [OF inv r(1-3)]] r(4)] by simp
  qed simp
  moreover have "other_components t db'"
    using adopt_template_same [OF 2(6)] other_components_inv [OF inv calculation]
    by (intro other_same) simp_all
  ultimately show ?thesis by (rule other_trans)
qed

lemma quarantine_missing_cases:
  assumes "quarantine_missing newID hostID now i x db = Inr (u, db')"
  obtains a n t e where "Lifecycle a = DeviceQuarantined" and "Health a = HealthUnhealthy"
    and "write_devices (\<lambda>y. dev_id y = dev_id x)
       (\<lambda>y. y\<lparr>dev_lifecycle := Lifecycle a, dev_health := Health a, dev_health_reason := Some missing_reason,
              dev_failures := dev_failures y + 1, dev_updated_at := now\<rparr>) db = Inr (n, t)"
    and "db' = t\<lparr>health_events := health_events t @ [e]\<rparr>" and "he_device_id e = dev_id x"
proof -
  from assms obtain a0 a1 a n t eid e where
    a1: "set_health HealthUnhealthy missing_reason now a0 = Inr a1"
    and a: "(if Lifecycle a1 = DeviceQuarantined then Inr a1 else move DeviceQuarantined missing_reason now a1) = Inr a"
    and w: "write_devices (\<lambda>y. dev_id y = dev_id x)
       (\<lambda>y. y\<lparr>dev_lifecycle := Lifecycle a, dev_health := Health a, dev_health_reason := Some missing_reason,
              dev_failures := dev_failures y + 1, dev_updated_at := now\<rparr>) db = Inr (n, t)"
    and e: "insert_health_event eid (dev_id x) ''agent'' ''ios_provider_device_missing'' ''critical''
       missing_reason [(''host_id'', JStr hostID), (''inventory_complete'', JBool True)] now t = Inr (e, db')"
    by (auto simp only: quarantine_missing_def tx_bind_Inr tx_lift_Inr tx_return_Inr)
  have "Lifecycle a = DeviceQuarantined" "Health a = HealthUnhealthy"
    using a set_health_done [OF a1] by (auto dest: move_done split: if_splits)
  from that [OF this w] insert_health_event_Inr [OF e] show ?thesis by simp
qed

lemma quarantineMissing_others:
  assumes "quarantineMissingIOSDevices newID hostID refs now db = Inr (u, db')" and inv: "farm_inv db"
  shows "other_components db db'"
proof -
  let ?xs = "sort_key dev_id (filter (missing_candidate db hostID refs now) (devices db))"
  have ids: "dev_id ` set ?xs \<subseteq> dev_id ` set (devices db)" by auto
  have step: "other_components t t'"
    if t: "farm_inv t" "other_components db t" and x: "x \<in> set ?xs"
      and s: "quarantine_missing newID hostID now j x t = Inr (v, t')" for j x t v t'
    using s
  proof (cases rule: quarantine_missing_cases)
    case (1 a n t1 e)
    have o1: "other_components t t1"
    proof (cases "\<exists>y\<in>set (devices t). dev_id y = dev_id x")
      case True
      then obtain y where y: "y \<in> set (devices t)" "dev_id x = dev_id y" by metis
      show ?thesis
        by (rule other_write [OF 1(3) [unfolded y(2)] t(1) y(1)]) (simp_all add: 1)
    next
      case False
      then have "devices t1 = devices t" using 1(3) by (auto simp: write_devices_Inr intro: update_where_none)
      with 1(3) show ?thesis by (intro other_same [OF t(1)]) (simp_all add: write_devices_Inr)
    qed
    moreover have "other_components t1 t'"
      using other_components_inv [OF t(1) o1] by (intro other_same) (simp_all add: 1)
    ultimately show ?thesis by (rule other_trans)
  qed
  show ?thesis
  proof (rule tx_each_relates [where R = other_components])
    show "tx_each (quarantine_missing newID hostID now) 0 ?xs db = Inr (u, db')"
      using assms(1) by (simp only: quarantineMissingIOSDevices_def)
    show "other_components db db" by (rule other_refl [OF inv])
    fix j x t v t'
    assume "other_components db t" "x \<in> set ?xs" "quarantine_missing newID hostID now j x t = Inr (v, t')"
    then show "other_components db t'"
      using step other_components_inv [OF inv] other_trans by blast
  qed
qed

section \<open>The transaction\<close>

lemma update_host_Inr:
  assumes "update_host h cap env used identity readiness now db = Inr (target, db')"
  obtains u auto started n where "readiness_target (host_status h) (host_auto_maintenance h) (host_failure_started_at h)
      readiness now = (target, auto, started)" and "used = Some u"
    and "write_hosts (\<lambda>x. host_id x = host_id h)
            (\<lambda>x. x\<lparr>host_status := target, host_draining := (target = HostDraining),
                   host_capacity := merged_capacity (host_capacity x) cap,
                   host_capabilities := merged_environment (host_capabilities x) env,
                   host_auto_maintenance := auto, host_failure_started_at := started,
                   host_used_capacity := u,
                   host_os := (case fst identity of None \<Rightarrow> host_os x | Some v \<Rightarrow> v),
                   host_arch := (case snd identity of None \<Rightarrow> host_arch x | Some v \<Rightarrow> v),
                   host_last_heartbeat_at := Some now, host_updated_at := now\<rparr>) db = Inr (n, db')"
  using assms by (auto simp: update_host_def split: prod.splits option.splits)

lemma heartbeat_tx_cases:
  assumes "heartbeat_tx newID hostID ds cap env readiness authoritative identity db = Inr (r, db')"
  obtains h t1 t2 where "find_row (\<lambda>h. host_id h = hostID) (hosts db) = Some h"
    and "update_host h (RedactMap cap) (RedactMap env) (used_json (used_by ds)) identity readiness (db_clock db) db
      = Inr (hr_Status r, t1)"
    and "tx_each (\<lambda>_. updateDiscoveredDevice hostID (db_clock db)) 0 ds t1 = Inr ((), t2)"
    and "(if authoritative then quarantineMissingIOSDevices newID hostID (map dd_ProviderRef ds) (db_clock db)
          else tx_return ()) t2 = Inr ((), db')"
    and "hr_HostID r = hostID" and "hr_ReceivedAt r = db_clock db" and "hr_Devices r = length ds"
proof (cases "find_row (\<lambda>h. host_id h = hostID) (hosts db)")
  case None
  with assms show ?thesis by (simp only: heartbeat_tx_def option.simps) simp
next
  case (Some h)
  with assms show ?thesis
    unfolding heartbeat_tx_def Some option.simps
    by (auto simp: ClockNow_def intro: that [OF Some])
qed

lemma update_host_same:
  "update_host h cap env used identity readiness now db = Inr (target, db') \<Longrightarrow>
   devices db' = devices db \<and> reservations db' = reservations db \<and> sessions db' = sessions db \<and> db_clock db' = db_clock db"
  by (erule update_host_Inr) (simp add: write_hosts_Inr)

lemma heartbeat_others:
  assumes "farm_inv db" and "heartbeat_tx newID hostID ds cap env readiness authoritative identity db = Inr (r, db')"
  shows "other_components db db'"
  using assms(2)
proof (cases rule: heartbeat_tx_cases)
  case (1 h t1 t2)
  have o1: "other_components db t1" using update_host_same [OF 1(2)] by (intro other_same [OF assms(1)]) simp_all
  have o2: "other_components t1 t2"
    by (rule each_others [OF 1(3) other_components_inv [OF assms(1) o1]]) (rule updateDiscoveredDevice_others)
  have i2: "farm_inv t2" using other_components_inv [OF other_components_inv [OF assms(1) o1] o2] .
  have "other_components t2 db'"
    using 1(4) quarantineMissing_others [OF _ i2] other_refl [OF i2] by (cases authoritative) auto
  with o1 o2 show ?thesis by (blast intro: other_trans)
qed

lemma updateDiscoveredDevice_hosts: "updateDiscoveredDevice hostID now d db = Inr (u, db') \<Longrightarrow> hosts db' = hosts db"
  by (erule updateDiscoveredDevice_cases) (auto dest: adopt_template_same simp: write_devices_Inr)

lemma quarantineMissing_hosts:
  assumes "quarantineMissingIOSDevices newID hostID refs now db = Inr (u, db')"
  shows "hosts db' = hosts db"
proof (rule tx_each_relates [where R = "\<lambda>a b. hosts b = hosts a"])
  show "tx_each (quarantine_missing newID hostID now) 0
      (sort_key dev_id (filter (missing_candidate db hostID refs now) (devices db))) db = Inr (u, db')"
    using assms by (simp only: quarantineMissingIOSDevices_def)
  fix j x t v t'
  assume "hosts t = hosts db" "quarantine_missing newID hostID now j x t = Inr (v, t')"
  then show "hosts t' = hosts db"
    by - (erule quarantine_missing_cases, simp add: write_devices_Inr)
qed simp

interpretation heartbeat: respects_holds "heartbeat_tx newID hostID ds cap env readiness authoritative identity"
  for newID hostID ds cap env readiness authoritative identity
  by unfold_locales (rule heartbeat_others)

text \<open>A device that no statement of the heartbeat selects keeps its row.\<close>

definition holds_device :: "(device_row \<Rightarrow> bool) \<Rightarrow> farm_db \<Rightarrow> bool" where
  "holds_device Q db \<longleftrightarrow> (\<exists>y\<in>set (devices db). Q y)"

lemma write_keeps:
  assumes "write_devices (\<lambda>y. dev_id y = k) f db = Inr (n, db')" and "holds_device Q db"
    and "\<And>y. y \<in> set (devices db) \<Longrightarrow> Q y \<Longrightarrow> dev_id y = k \<Longrightarrow> Q (f y)"
  shows "holds_device Q db'"
proof -
  from assms(2) obtain y where y: "y \<in> set (devices db)" "Q y" by (auto simp: holds_device_def)
  let ?z = "if dev_id y = k then f y else y"
  have "?z \<in> set (devices db')" using assms(1) y(1) by (auto simp: write_devices_Inr set_update_where)
  moreover have "Q ?z" using y assms(3) by simp
  ultimately show ?thesis by (auto simp: holds_device_def)
qed

lemma heartbeat_keeps:
  assumes "heartbeat_tx newID hostID ds cap env readiness authoritative identity db = Inr (r, db')" and "farm_inv db"
    and "holds_device Q db"
    and report: "\<And>x busy assignment d a c t. farm_inv t \<Longrightarrow> x \<in> set (devices t) \<Longrightarrow> dev_host_id x = hostID \<Longrightarrow> Q x \<Longrightarrow>
      converge_device x busy assignment d (db_clock db) = Inr a \<Longrightarrow> Q (reported_row x busy d a c (db_clock db) x)"
    and missing: "\<And>y. Q y \<Longrightarrow> dev_host_id y = hostID \<Longrightarrow> dev_lifecycle y \<noteq> DeviceQuarantined \<Longrightarrow> False"
    and key: "\<And>x y. Q x \<Longrightarrow> Q y \<Longrightarrow> dev_id x = dev_id y"
  shows "holds_device Q db'"
  using assms(1)
proof (cases rule: heartbeat_tx_cases)
  case (1 h t1 t2)
  let ?now = "db_clock db"
  have o1: "other_components db t1" using update_host_same [OF 1(2)] by (intro other_same [OF assms(2)]) simp_all
  have i1: "farm_inv t1" by (rule other_components_inv [OF assms(2) o1])
  have step: "farm_inv t' \<and> holds_device Q t'"
    if t: "farm_inv t" "holds_device Q t" and s: "updateDiscoveredDevice hostID ?now d t = Inr (v, t')" for d t v t'
  proof -
    have inv': "farm_inv t'" by (rule other_components_inv [OF t(1) updateDiscoveredDevice_others [OF s t(1)]])
    from s have "holds_device Q t'"
    proof (cases rule: updateDiscoveredDevice_cases)
      case 1
      with t(2) show ?thesis by simp
    next
      case (2 x c a n t1)
      have "holds_device Q t1"
      proof (rule write_keeps [OF 2(5) t(2)])
        fix y assume y: "y \<in> set (devices t)" "Q y" "dev_id y = dev_id x"
        have "y = x" using t(1) y(1,3) 2(1) other_refl [OF t(1)] distinct_map_same
          by (metis other_components_def)
        then show "Q (reported_row x (operation_in_flight t (dev_id x)) d a c ?now y)"
          using report [OF t(1) 2(1,2) _ 2(4)] y(2) by simp
      qed
      then show ?thesis using adopt_template_same [OF 2(6)] by (simp add: holds_device_def)
    qed
    with inv' show ?thesis by simp
  qed
  have s2: "farm_inv t2 \<and> holds_device Q t2"
  proof (rule tx_each_relates [where R = "\<lambda>_ t. farm_inv t \<and> holds_device Q t", OF 1(3)])
    show "farm_inv t1 \<and> holds_device Q t1"
      using i1 assms(3) update_host_same [OF 1(2)] by (simp add: holds_device_def)
  qed (use step in blast)
  show ?thesis
  proof (cases authoritative)
    case False
    with 1(4) s2 show ?thesis by simp
  next
    case True
    let ?xs = "sort_key dev_id (filter (missing_candidate t2 hostID (map dd_ProviderRef ds) ?now) (devices t2))"
    from True 1(4) have loop: "tx_each (quarantine_missing newID hostID ?now) 0 ?xs t2 = Inr ((), db')"
      by (simp add: quarantineMissingIOSDevices_def)
    obtain y0 where y0: "y0 \<in> set (devices t2)" "Q y0" using s2 by (auto simp: holds_device_def)
    show ?thesis
    proof (rule tx_each_relates [where R = "\<lambda>_ t. holds_device Q t", OF loop])
      show "holds_device Q t2" using s2 by simp
      fix j x t v t'
      assume t: "holds_device Q t" and x: "x \<in> set ?xs" and s: "quarantine_missing newID hostID ?now j x t = Inr (v, t')"
      then have x2: "x \<in> set (devices t2)" "dev_host_id x = hostID" "dev_lifecycle x \<noteq> DeviceQuarantined"
        by (auto simp: missing_candidate_def)
      have other: "dev_id y \<noteq> dev_id x" if "Q y" for y
      proof
        assume "dev_id y = dev_id x"
        with key [OF that y0(2)] have "dev_id x = dev_id y0" by simp
        then have "x = y0" using s2 other_refl distinct_map_same x2(1) y0(1) by (metis other_components_def)
        with missing y0(2) x2 show False by blast
      qed
      show "holds_device Q t'"
        using s
      proof (cases rule: quarantine_missing_cases)
        case (1 a n t1 e)
        have "holds_device Q t1" by (rule write_keeps [OF 1(3) t]) (use other in blast)
        then show ?thesis by (simp add: holds_device_def 1(4))
      qed
    qed
  qed
qed

lemma write_hosts_row:
  "write_hosts (\<lambda>x. host_id x = k) f db = Inr (n, t) \<Longrightarrow> h \<in> set (hosts db) \<Longrightarrow> host_id h = k \<Longrightarrow> f h \<in> set (hosts t)"
  by (auto simp: write_hosts_Inr set_update_where)

section \<open>Reports that converge\<close>

lemma agent_reasons:
  "TrimSpace ''host and provider heartbeat recovered'' \<noteq> []"
  "TrimSpace ''existing reservation restored after host recovery'' \<noteq> []"
  "TrimSpace ''active session restored after host recovery'' \<noteq> []"
  "TrimSpace ''agent discovered booting device'' \<noteq> []" "TrimSpace ''agent discovered running device'' \<noteq> []"
  "TrimSpace ''agent health checks passed'' \<noteq> []" "TrimSpace ''agent discovered stopped device'' \<noteq> []"
  "TrimSpace ''agent heartbeat health observation'' \<noteq> []"
  by code_simp+

lemma recoverFromHostOutage_total:
  assumes "device_wf d" and "now \<noteq> 0" and "Lifecycle d = DeviceQuarantined"
  shows "\<exists>a. recoverFromHostOutage assignment now d = Inr a \<and> device_wf a"
proof -
  note m = move_total [OF _ agent_reasons(1) assms(2)]
  obtain d0 where d0: "set_health HealthHealthy ''host and provider heartbeat recovered'' now d = Inr d0"
    "device_wf d0" "Lifecycle d0 = DeviceQuarantined" "Health d0 = HealthHealthy"
    using set_health_total [OF assms(1) agent_reasons(1) assms(2), of HealthHealthy] assms(3)
    by (auto simp: validHealthStatus_def)
  obtain d1 where d1: "move DeviceProvisioning ''host and provider heartbeat recovered'' now d0 = Inr d1"
    "device_wf d1" "Lifecycle d1 = DeviceProvisioning" "Health d1 = HealthHealthy"
    using m [OF d0(2), of DeviceProvisioning] d0 by (auto simp: allows_def)
  obtain d2 where d2: "move DeviceBooting ''host and provider heartbeat recovered'' now d1 = Inr d2"
    "device_wf d2" "Lifecycle d2 = DeviceBooting" "Health d2 = HealthHealthy"
    using m [OF d1(2), of DeviceBooting] d1 by (auto simp: allows_def)
  obtain d3 where d3: "move DeviceReady ''host and provider heartbeat recovered'' now d2 = Inr d3"
    "device_wf d3" "Lifecycle d3 = DeviceReady"
    using m [OF d2(2), of DeviceReady] d2 by (auto simp: allows_def)
  obtain d4 where d4: "move DeviceReserved ''existing reservation restored after host recovery'' now d3 = Inr d4"
    "device_wf d4" "Lifecycle d4 = DeviceReserved"
    using move_total [OF d3(2) agent_reasons(2) assms(2), of DeviceReserved] d3 by (auto simp: allows_def)
  obtain d5 where d5: "move DeviceBusy ''active session restored after host recovery'' now d4 = Inr d5" "device_wf d5"
    using move_total [OF d4(2) agent_reasons(3) assms(2), of DeviceBusy] d4 by (auto simp: allows_def)
  have moved: "move_all [DeviceProvisioning, DeviceBooting, DeviceReady] ''host and provider heartbeat recovered'' now d0 = Inr d3"
    by (simp add: d1 d2 d3)
  show ?thesis
    by (cases "assignment = ''busy''"; cases "assignment = ''reserved''")
      (simp_all add: recoverFromHostOutage_def d0 moved d3 d4 d5 del: move_all.simps)
qed

lemma applyDiscoveredLifecycle_total:
  assumes "device_wf d" and "now \<noteq> 0" and "validDiscoveredLifecycle incoming"
    and "incoming = DeviceReady \<longrightarrow> Health d = HealthHealthy \<or> Lifecycle d \<notin> {DeviceProvisioning, DeviceBooting, DeviceStopped}"
  shows "\<exists>a. applyDiscoveredLifecycle incoming now d = Inr a"
proof -
  note b = move_total [OF assms(1) agent_reasons(4) assms(2), of DeviceBooting]
    and s = move_total [OF assms(1) agent_reasons(7) assms(2), of DeviceStopped]
    and r = move_total [OF assms(1) agent_reasons(5) assms(2), of DeviceBooting]
    and k = move_total [OF assms(1) agent_reasons(6) assms(2), of DeviceReady]
  have k': "\<exists>a. move DeviceReady ''agent health checks passed'' now d' = Inr a"
    if "device_wf d'" "Lifecycle d' = DeviceBooting" "Health d' = HealthHealthy" for d'
    using move_total [OF that(1) agent_reasons(6) assms(2), of DeviceReady] that by (auto simp: allows_def)
  consider "incoming = DeviceBooting" | "incoming = DeviceReady" | "incoming = DeviceStopped"
    using assms(3) by (auto simp: validDiscoveredLifecycle_def)
  then show ?thesis
  proof cases
    case 1
    then show ?thesis using b by (auto simp: applyDiscoveredLifecycle_def allows_def)
  next
    case 2
    then consider "Lifecycle d \<notin> {DeviceProvisioning, DeviceBooting, DeviceStopped}"
      | "Health d = HealthHealthy" "Lifecycle d \<in> {DeviceProvisioning, DeviceStopped}"
      | "Health d = HealthHealthy" "Lifecycle d = DeviceBooting" using assms(4) by auto
    then show ?thesis
    proof cases
      case 2
      with r obtain d' where d': "move DeviceBooting ''agent discovered running device'' now d = Inr d'" "device_wf d'"
        "Lifecycle d' = DeviceBooting" "Health d' = HealthHealthy" by (auto simp: allows_def)
      with k' [OF d'(2-4)] 2 \<open>incoming = DeviceReady\<close> show ?thesis by (auto simp: applyDiscoveredLifecycle_def)
    next
      case 3
      with k' [OF assms(1)] \<open>incoming = DeviceReady\<close> show ?thesis by (auto simp: applyDiscoveredLifecycle_def)
    qed (use 2 in \<open>auto simp: applyDiscoveredLifecycle_def\<close>)
  next
    case 3
    then show ?thesis using s by (auto simp: applyDiscoveredLifecycle_def allows_def)
  qed
qed

lemma applyDiscoveredLifecycle_blocked:
  assumes "device_wf d" and "now \<noteq> 0" and "Health d \<noteq> HealthHealthy"
    and "Lifecycle d \<in> {DeviceProvisioning, DeviceBooting, DeviceStopped}"
  shows "applyDiscoveredLifecycle DeviceReady now d = Inl (DomainErr ErrDeviceNotHealthy)"
proof (cases "Lifecycle d = DeviceBooting")
  case True
  with assms(3) show ?thesis by (simp add: applyDiscoveredLifecycle_def move_not_healthy)
next
  case False
  with assms(4) move_total [OF assms(1) agent_reasons(5) assms(2), of DeviceBooting]
  obtain d' where "move DeviceBooting ''agent discovered running device'' now d = Inr d'" "Lifecycle d' = DeviceBooting"
    "Health d' = Health d" by (auto simp: allows_def)
  with False assms(3,4) show ?thesis by (auto simp: applyDiscoveredLifecycle_def move_not_healthy)
qed

lemma restore_device_total:
  "identifierPattern (dev_id x) \<Longrightarrow> validDeviceLifecycleStatus (dev_lifecycle x) \<Longrightarrow> validHealthStatus (dev_health x) \<Longrightarrow>
   \<exists>a. restore_device x = Inr a"
  by (auto simp: restore_device_def RestoreDevice_Inr)

lemma preserve_not_recovered:
  "preserve_stf_health x busy d \<Longrightarrow> \<not> recovered_automatically x busy d \<and> takes_report x busy d"
  by (auto simp: preserve_stf_health_def recovered_automatically_def split: option.splits)

text \<open>After the recovery and the health of the report, the lifecycle is the only thing left to converge.\<close>

lemma converge_reaches_lifecycle:
  assumes "identifierPattern (dev_id x)" and "validDeviceLifecycleStatus (dev_lifecycle x)"
    and "validHealthStatus (dev_health x)" and now: "now \<noteq> 0" and "validHealthStatus (dd_HealthStatus d)"
    and takes: "takes_report x busy d"
  obtains a where "device_wf a" and "Health a = (if preserve_stf_health x busy d then dev_health x else dd_HealthStatus d)"
    and "\<not> recovered_automatically x busy d \<Longrightarrow> Lifecycle a = dev_lifecycle x"
    and "converge_device x busy assignment d now =
      (if dev_lifecycle x \<in> {DeviceReserved, DeviceBusy, DeviceRecycling} then Inr a
       else applyDiscoveredLifecycle (dd_LifecycleStatus d) now a)"
proof -
  obtain a0 where a0: "restore_device x = Inr a0" using restore_device_total [OF assms(1-3)] by blast
  note r0 = restore_device_Inr [OF a0]
  obtain a1 where a1: "device_wf a1" "\<not> recovered_automatically x busy d \<Longrightarrow> a1 = a0"
    "(if recovered_automatically x busy d then recoverFromHostOutage assignment now a0 else Inr a0) = Inr a1"
  proof (cases "recovered_automatically x busy d")
    case True
    then have "Lifecycle a0 = DeviceQuarantined" by (simp add: r0 recovered_automatically_def)
    with recoverFromHostOutage_total [OF r0(3) now] True that show ?thesis by (metis (full_types))
  next
    case False
    with that [of a0] r0(3) show ?thesis by simp
  qed
  have pre: "preserve_stf_health x busy d \<Longrightarrow> a1 = a0" using a1(2) preserve_not_recovered by blast
  obtain a2 where a2: "device_wf a2" "Lifecycle a2 = Lifecycle a1"
    "Health a2 = (if preserve_stf_health x busy d then dev_health x else dd_HealthStatus d)"
    "(if preserve_stf_health x busy d then Inr a1
      else set_health (dd_HealthStatus d) ''agent heartbeat health observation'' now a1) = Inr a2"
  proof (cases "preserve_stf_health x busy d")
    case True
    with that [of a1] a1(1) pre r0 show ?thesis by simp
  next
    case False
    with set_health_total [OF a1(1) agent_reasons(8) now assms(5)] that show ?thesis by auto
  qed
  show ?thesis
  proof (rule that [OF a2(1,3)])
    show "\<not> recovered_automatically x busy d \<Longrightarrow> Lifecycle a2 = dev_lifecycle x" using a2(2) a1(2) r0(1) by simp
    show "converge_device x busy assignment d now =
      (if dev_lifecycle x \<in> {DeviceReserved, DeviceBusy, DeviceRecycling} then Inr a2
       else applyDiscoveredLifecycle (dd_LifecycleStatus d) now a2)"
      unfolding converge_device_def a0 result_bind.simps(2) a1(3) using takes a2(4) by simp
  qed
qed

section \<open>Properties\<close>

lemma checked_report_Inr:
  "checked_report parse_url hostID input = Inr (ds, cap, env, readiness, authoritative, identity) \<Longrightarrow>
   check_devices [] [] (hb_Devices input) = Inr ds \<and> reportedHostReadiness (hb_Environment input) = Inr readiness"
  by (auto simp: checked_report_def Let_def split: option.splits if_splits)

lemma Heartbeat_cases:
  obtains e where "Heartbeat newID parse_url hostID input db = (Inl e, db)" and "checked_report parse_url hostID input = Inl e"
  | ds cap env readiness authoritative identity where
    "checked_report parse_url hostID input = Inr (ds, cap, env, readiness, authoritative, identity)"
    and "Heartbeat newID parse_url hostID input db =
      (case run_tx (heartbeat_tx newID hostID ds cap env readiness authoritative identity) db of
         (Inl e, db') \<Rightarrow> (Inl (heartbeat_error e), db') | (Inr r, db') \<Rightarrow> (Inr r, db'))"
proof (cases "checked_report parse_url hostID input")
  case (Inl e)
  with that(1) show ?thesis by (simp add: Heartbeat_def)
next
  case (Inr c)
  with that(2) show ?thesis by (cases c) (simp add: Heartbeat_def)
qed

lemma committed_result:
  "(case x of (Inl e, d) \<Rightarrow> (Inl (f e), d) | (Inr r, d) \<Rightarrow> (Inr r, d)) = (Inr r, d') \<longleftrightarrow> x = (Inr r, d')"
  by (auto split: prod.splits sum.splits)

lemma Heartbeat_Inr:
  assumes "Heartbeat newID parse_url hostID input db = (Inr r, db')"
  obtains ds cap env readiness authoritative identity where
    "checked_report parse_url hostID input = Inr (ds, cap, env, readiness, authoritative, identity)"
    and "heartbeat_tx newID hostID ds cap env readiness authoritative identity db = Inr (r, db')"
proof (rule Heartbeat_cases [of newID parse_url hostID input db])
  fix e assume "Heartbeat newID parse_url hostID input db = (Inl e, db)"
  with assms show ?thesis by simp
next
  fix ds cap env readiness authoritative identity
  assume c: "checked_report parse_url hostID input = Inr (ds, cap, env, readiness, authoritative, identity)"
    and h: "Heartbeat newID parse_url hostID input db =
      (case run_tx (heartbeat_tx newID hostID ds cap env readiness authoritative identity) db of
         (Inl e, db') \<Rightarrow> (Inl (heartbeat_error e), db') | (Inr r, db') \<Rightarrow> (Inr r, db'))"
  have "heartbeat_tx newID hostID ds cap env readiness authoritative identity db = Inr (r, db')"
    using assms unfolding h committed_result run_tx_Inr .
  with c show ?thesis by (rule that)
qed

text \<open>
  C28.  A heartbeat respects the leases.  In a reachable state of the system it leads to a reachable
  state, so a device that a reservation holds stays held as C13 says, a device that comes back from an
  outage included; it changes no reservation and no session, and no device of another host.
\<close>

theorem heartbeat_respects_leases:
  assumes "farm_start s" and "farm_step\<^sup>*\<^sup>* s db" and "Heartbeat newID parse_url hostID input db = (Inr r, db')"
  shows "farm_step\<^sup>*\<^sup>* s db' \<and> reservations db' = reservations db \<and> sessions db' = sessions db \<and>
    (\<forall>d\<in>set (devices db). dev_host_id d \<noteq> hostID \<longrightarrow> d \<in> set (devices db'))"
  using assms(3)
proof (rule Heartbeat_Inr)
  fix ds cap env readiness authoritative identity
  assume t: "heartbeat_tx newID hostID ds cap env readiness authoritative identity db = Inr (r, db')"
  have inv: "farm_inv db" by (rule run_inv [OF assms(1,2)])
  have o: "other_components db db'" by (rule heartbeat_others [OF inv t])
  have "d \<in> set (devices db')" if "d \<in> set (devices db)" "dev_host_id d \<noteq> hostID" for d
  proof -
    have "holds_device (\<lambda>y. y = d) db'"
      by (rule heartbeat_keeps [OF t inv]) (use that in \<open>auto simp: holds_device_def\<close>)
    then show ?thesis by (simp add: holds_device_def)
  qed
  with o heartbeat.reachable [OF assms(1,2) t] show ?thesis by (auto simp: other_components_def)
qed

definition sample_report :: discovered_device where
  "sample_report = \<lparr>dd_ProviderRef = ''emulator-01'', dd_Serial = ''emulator-5554'', dd_Platform = ''android'',
     dd_DeviceKind = ''emulator'', dd_ProviderType = ''docker_emulator'', dd_LifecycleStatus = DeviceReady,
     dd_HealthStatus = HealthHealthy, dd_Connection = [], dd_Capabilities = [], dd_Components = [],
     dd_RuntimeProfile = []\<rparr>"

definition sample_heartbeat :: "json_obj \<Rightarrow> heartbeat_input" where
  "sample_heartbeat environment = \<lparr>hb_AgentTime = 1, hb_Capacity = Some [], hb_Environment = environment,
     hb_Devices = [sample_report]\<rparr>"

text \<open>The leased device has an outage, and the agent reports it running again.\<close>

definition outage_farm :: farm_db where
  "outage_farm = leased_farm (leased_device DeviceQuarantined HealthUnhealthy (Some AgentReportedUnhealthyReason))"

lemma outage_reached: "farm_step\<^sup>*\<^sup>* (farm_with []) outage_farm"
proof -
  have "other_components (leased_farm (leased_device DeviceBusy HealthHealthy None)) outage_farm"
    by (simp add: other_components_def outage_farm_def leased_farm_def leased_device_def farm_device_def
        farm_pending_def identifierPattern_def is_word_byte_def byte_def)
  then show ?thesis
    using active_reached unfolding active_farm_explicit by (meson rtranclp.rtrancl_into_rtrancl step_others)
qed

lemma outage_heartbeat:
  "(case Heartbeat (\<lambda>_. Inl ErrIDGeneration) (\<lambda>_. None) ''host_0123456789a'' (sample_heartbeat []) outage_farm of
      (Inr r, db) \<Rightarrow> map dev_lifecycle (devices db) = [DeviceBusy] | _ \<Rightarrow> False)"
  by code_simp

theorem heartbeat_respects_leases_witness:
  "\<exists>r db'. Heartbeat (\<lambda>_. Inl ErrIDGeneration) (\<lambda>_. None) ''host_0123456789a'' (sample_heartbeat []) outage_farm
       = (Inr r, db') \<and> map dev_lifecycle (devices db') = [DeviceBusy] \<and> farm_step\<^sup>*\<^sup>* (farm_with []) db'"
proof -
  obtain r db' where h: "Heartbeat (\<lambda>_. Inl ErrIDGeneration) (\<lambda>_. None) ''host_0123456789a'' (sample_heartbeat []) outage_farm
       = (Inr r, db')" and b: "map dev_lifecycle (devices db') = [DeviceBusy]"
    using outage_heartbeat by (auto split: prod.splits sum.splits)
  have "farm_step\<^sup>*\<^sup>* (farm_with []) db'"
    using heartbeat_respects_leases [OF sample_start outage_reached h] by simp
  with h b show ?thesis by (intro exI [of _ r] exI [of _ db'] conjI)
qed

text \<open>
  C29.  A quarantine that the system did not impose by itself, or that a missing STF device caused,
  outlives every heartbeat: the device stays quarantined with its health and its reason, whatever the
  agent reports.
\<close>

theorem operator_quarantine_sticks:
  assumes "farm_inv db" and "Heartbeat newID parse_url hostID input db = (Inr r, db')"
    and "d \<in> set (devices db)" and "dev_lifecycle d = DeviceQuarantined"
    and "\<forall>reason. dev_health_reason d = Some reason \<longrightarrow>
      \<not> IsSystemRecoverableHealthReason reason \<or> IsSTFFailureReason reason"
  shows "\<exists>d'\<in>set (devices db'). dev_id d' = dev_id d \<and> dev_lifecycle d' = DeviceQuarantined \<and>
    dev_health d' = dev_health d \<and> dev_health_reason d' = dev_health_reason d"
  using assms(2)
proof (rule Heartbeat_Inr)
  fix ds cap env readiness authoritative identity
  assume t: "heartbeat_tx newID hostID ds cap env readiness authoritative identity db = Inr (r, db')"
  let ?Q = "\<lambda>y. dev_id y = dev_id d \<and> dev_lifecycle y = DeviceQuarantined \<and> dev_health y = dev_health d \<and>
    dev_health_reason y = dev_health_reason d"
  have "holds_device ?Q db'"
  proof (rule heartbeat_keeps [OF t assms(1)])
    show "holds_device ?Q db" using assms(3,4) by (auto simp: holds_device_def)
    fix x busy assignment e a c
    assume q: "?Q x" and a: "converge_device x busy assignment e (db_clock db) = Inr a"
    have no: "\<not> recovered_automatically x busy e"
      using q assms(5) by (auto simp: recovered_automatically_def split: option.splits)
    then have "\<not> takes_report x busy e" using q by (simp add: takes_report_def)
    then have same: "restore_device x = Inr a"
      using a no by (auto simp: converge_device_def)
    show "?Q (reported_row x busy e a c (db_clock db) x)"
      using q restore_device_Inr [OF same] \<open>\<not> takes_report x busy e\<close> by (simp add: converged_reason_def)
  qed auto
  then show ?thesis by (auto simp: holds_device_def)
qed

lemma operator_heartbeat:
  "(case Heartbeat (\<lambda>_. Inl ErrIDGeneration) (\<lambda>_. None) ''host_0123456789a'' (sample_heartbeat [])
       (leased_farm (leased_device DeviceQuarantined HealthUnhealthy (Some ''broken screen''))) of
      (Inr r, db) \<Rightarrow> True | _ \<Rightarrow> False)"
  by code_simp

theorem operator_quarantine_sticks_witness:
  "\<exists>r db'. Heartbeat (\<lambda>_. Inl ErrIDGeneration) (\<lambda>_. None) ''host_0123456789a'' (sample_heartbeat [])
       (leased_farm (leased_device DeviceQuarantined HealthUnhealthy (Some ''broken screen''))) = (Inr r, db') \<and>
     (\<exists>d'\<in>set (devices db'). dev_lifecycle d' = DeviceQuarantined \<and> dev_health_reason d' = Some ''broken screen'')"
proof -
  let ?d = "leased_device DeviceQuarantined HealthUnhealthy (Some ''broken screen'')"
  obtain r db' where h: "Heartbeat (\<lambda>_. Inl ErrIDGeneration) (\<lambda>_. None) ''host_0123456789a'' (sample_heartbeat [])
       (leased_farm ?d) = (Inr r, db')"
    using operator_heartbeat by (auto split: prod.splits sum.splits)
  have inv: "farm_inv (leased_farm ?d)"
  proof -
    have "other_components active_farm (leased_farm ?d)"
      unfolding active_farm_explicit
      by (simp add: other_components_def leased_farm_def leased_device_def farm_device_def
          farm_pending_def identifierPattern_def is_word_byte_def byte_def)
    then show ?thesis using other_components_inv run_inv [OF sample_start active_reached] by blast
  qed
  have "\<not> IsSystemRecoverableHealthReason ''broken screen''" by code_simp
  then have "\<exists>d'\<in>set (devices db'). dev_id d' = dev_id ?d \<and> dev_lifecycle d' = DeviceQuarantined \<and>
    dev_health d' = dev_health ?d \<and> dev_health_reason d' = dev_health_reason ?d"
    by (intro operator_quarantine_sticks [OF inv h]) (simp_all add: leased_farm_def leased_device_def)
  then have "\<exists>d'\<in>set (devices db'). dev_lifecycle d' = DeviceQuarantined \<and> dev_health_reason d' = Some ''broken screen''"
    by (simp add: leased_device_def) blast
  with h show ?thesis by blast
qed


lemma unready_heartbeat:
  "(case Heartbeat (\<lambda>_. Inl ErrIDGeneration) (\<lambda>_. None) ''host_0123456789a''
       (sample_heartbeat [(''host_readiness'', JObj [(''ready'', JBool False)])]) (farm_with []) of
      (Inr r, db) \<Rightarrow> hr_Status r = HostMaintenance | _ \<Rightarrow> False)"
  by code_simp


lemma acceptable_status:
  assumes "acceptable refs serials d"
  shows "validDiscoveredLifecycle (dd_LifecycleStatus d) \<and> validHealthStatus (dd_HealthStatus d) \<and>
    (dd_LifecycleStatus d = DeviceReady \<longrightarrow> dd_HealthStatus d = HealthHealthy)"
proof -
  have "validDiscoveredLifecycle (dd_LifecycleStatus d)" "validDiscoveredHealth (dd_HealthStatus d)"
    "dd_LifecycleStatus d = DeviceReady \<longrightarrow> dd_HealthStatus d = HealthHealthy"
    using assms unfolding acceptable_def by blast+
  then show ?thesis by (auto simp: validDiscoveredHealth_def validHealthStatus_def)
qed



end
