(* ===== verification/Tx_Relations.thy ===== *)
theory Tx_Relations
  imports Hold_Contract
begin

text \<open>
  What a transaction does to the tables as a relation between the states before and after it.  A
  relation that is reflexive and transitive follows a transaction along its binds, branches and loops;
  the interface \<open>tx_relation\<close> has the rules.  Its instances are the frame of the scheduling core,
  the freedom of a device that no reservation holds, and two facts on what is not created.
\<close>

definition relates :: "('s \<Rightarrow> 's \<Rightarrow> bool) \<Rightarrow> ('s, 'e, 'a) tx \<Rightarrow> bool" where
  "relates R m \<longleftrightarrow> (\<forall>s a s'. m s = Inr (a, s') \<longrightarrow> R s s')"

lemma relatesI: "(\<And>s a s'. m s = Inr (a, s') \<Longrightarrow> R s s') \<Longrightarrow> relates R m"
  by (simp add: relates_def)

lemma relatesD: "relates R m \<Longrightarrow> m s = Inr (a, s') \<Longrightarrow> R s s'"
  by (simp add: relates_def)

lemma relates_if: "(b \<Longrightarrow> relates R m) \<Longrightarrow> (\<not> b \<Longrightarrow> relates R n) \<Longrightarrow> relates R (if b then m else n)"
  by simp

lemma relates_option:
  "(v = None \<Longrightarrow> relates R m) \<Longrightarrow> (\<And>x. v = Some x \<Longrightarrow> relates R (f x)) \<Longrightarrow>
   relates R (case v of None \<Rightarrow> m | Some x \<Rightarrow> f x)"
  by (cases v) simp_all

lemma relates_fail: "relates R (tx_fail e)"
  by (simp add: relates_def)

lemma relates_bind_lift: "(\<And>a. r = Inr a \<Longrightarrow> relates R (f a)) \<Longrightarrow> relates R (tx_bind (tx_lift r) f)"
  by (auto simp: relates_def)

locale tx_relation =
  fixes R :: "'s \<Rightarrow> 's \<Rightarrow> bool"
  assumes refl: "R s s" and trans: "R s t \<Longrightarrow> R t u \<Longrightarrow> R s u"
begin

lemma bind: "relates R m \<Longrightarrow> (\<And>a. relates R (f a)) \<Longrightarrow> relates R (tx_bind m f)"
  using trans by (fastforce simp: relates_def)

lemma return: "relates R (tx_return a)"
  by (simp add: relates_def tx_return_def refl)

lemma lift: "relates R (tx_lift r)"
  by (simp add: relates_def refl)

lemma read: "relates R (tx_read q)"
  by (simp add: relates_def refl)

lemma guard: "relates R (tx_guard b e)"
  by (simp add: relates_def refl)

lemma each: "(\<And>j x. x \<in> set xs \<Longrightarrow> relates R (f j x)) \<Longrightarrow> relates R (tx_each f i xs)"
proof (induction xs arbitrary: i)
  case (Cons x xs)
  then show ?case by (simp add: bind)
qed (simp add: return)

lemmas rules = bind return lift read guard each relates_fail relates_if relates_option

end

section \<open>The frame of the scheduling core\<close>

interpretation core: tx_relation same_core
  by unfold_locales (simp_all add: same_core_def)

lemma write_health_event_core: "relates same_core (insert_health_event i d s t v q p c)"
  by (rule relatesI) (auto simp: same_core_def dest: insert_health_event_Inr)

lemma insert_audit_core: "relates same_core (insert_audit_row t i ty a act k q reason)"
  by (rule relatesI) (auto simp: insert_audit_row_def Let_def same_core_def split: if_splits)

section \<open>A device that no reservation holds\<close>

definition unheld :: "string \<Rightarrow> farm_db \<Rightarrow> bool" where
  "unheld k db \<longleftrightarrow> list_all (\<lambda>r. \<not> (holds r \<and> rsv_device_id r = Some k)) (reservations db)"

text \<open>Whatever happens to the device \<open>k\<close>, the leases are respected as long as nobody holds it.\<close>

definition spares :: "string \<Rightarrow> farm_db \<Rightarrow> farm_db \<Rightarrow> bool" where
  "spares k db db' \<longleftrightarrow> (farm_inv db \<longrightarrow> unheld k db \<longrightarrow> other_components db db')"

lemma spares_trans: "spares k a b \<Longrightarrow> spares k b c \<Longrightarrow> spares k a c"
proof -
  assume ab: "spares k a b" and bc: "spares k b c"
  show "spares k a c"
    unfolding spares_def
  proof (intro impI)
    assume i: "farm_inv a" "unheld k a"
    with ab have o: "other_components a b" by (simp add: spares_def)
    have "unheld k b" using i(2) o by (simp add: unheld_def other_components_def)
    with bc other_components_inv [OF i(1) o] have "other_components b c" by (simp add: spares_def)
    with o show "other_components a c" by (rule other_trans)
  qed
qed

interpretation spared: tx_relation "spares k" for k
  by unfold_locales (simp add: spares_def other_refl, erule (1) spares_trans)

lemma same_core_spares: "relates same_core m \<Longrightarrow> relates (spares k) m"
  by (auto simp: relates_def spares_def same_core_def intro: other_same)

lemma write_devices_spares:
  assumes "\<And>y. P y \<Longrightarrow> dev_id y = k" and "\<And>y. dev_id (f y) = dev_id y"
  shows "relates (spares k) (write_devices P f)"
proof (rule relatesI)
  fix db n db'
  assume "write_devices P f db = Inr (n, db')"
  then have db': "db' = db\<lparr>devices := update_where P f (devices db)\<rparr>" by (simp add: write_devices_Inr)
  show "spares k db db'"
    unfolding spares_def
  proof (intro impI)
    assume inv: "farm_inv db" and free: "unheld k db"
    have d: "distinct (map dev_id (devices db))" "list_all (\<lambda>d. identifierPattern (dev_id d)) (devices db)"
      using other_refl [OF inv] by (simp_all add: other_components_def)
    have ids: "map dev_id (devices db') = map dev_id (devices db)"
      using assms(2) by (simp add: db' update_where_def)
    show "other_components db db'"
      unfolding other_components_def
    proof (intro conjI)
      show "distinct (map dev_id (devices db'))" using d(1) ids by simp
      show "list_all (\<lambda>d. identifierPattern (dev_id d)) (devices db')"
        using d(2) arg_cong [OF ids, of "list_all identifierPattern"] by (simp add: list_all_iff)
      show "list_all (\<lambda>r. list_all (\<lambda>d. holds r \<and> rsv_device_id r = Some (dev_id d) \<and>
              held_lifecycle (rsv_status r) (dev_lifecycle d) \<longrightarrow>
            list_ex (\<lambda>d'. dev_id d' = dev_id d \<and> held_lifecycle (rsv_status r) (dev_lifecycle d')) (devices db'))
          (devices db)) (reservations db)"
        unfolding list_all_iff list_ex_iff
      proof (intro ballI impI)
        fix r y
        assume "r \<in> set (reservations db)" and y: "y \<in> set (devices db)"
          and h: "holds r \<and> rsv_device_id r = Some (dev_id y) \<and> held_lifecycle (rsv_status r) (dev_lifecycle y)"
        then have "\<not> P y" using free assms(1) by (auto simp: unheld_def list_all_iff)
        then have "y \<in> set (devices db')" using y by (simp add: db' set_update_where)
        with h show "\<exists>d'\<in>set (devices db'). dev_id d' = dev_id y \<and> held_lifecycle (rsv_status r) (dev_lifecycle d')"
          by blast
      qed
    qed (simp_all add: db')
  qed
qed

lemma update_as_read_spares:
  "(\<And>y. dev_id (f y) = dev_id y) \<Longrightarrow> relates (spares (dev_id x)) (update_as_read x f)"
  unfolding update_as_read_def by (intro spared.rules write_devices_spares) simp_all

text \<open>A device in a lifecycle that no reservation gives is not held.\<close>

lemma free_lifecycle_unheld:
  assumes "farm_inv db" and "d \<in> set (devices db)"
    and "dev_lifecycle d \<notin> {DeviceReserved, DeviceBusy, DeviceQuarantined}"
  shows "unheld (dev_id d) db"
proof -
  have c: "core (set (devices db)) (set (reservations db)) (set (sessions db))"
    using assms(1) by (simp add: farm_inv_def farm_core_def)
  have ids: "distinct (map dev_id (devices db))"
    using other_refl [OF assms(1)] by (simp add: other_components_def)
  show ?thesis
    unfolding unheld_def list_all_iff
  proof (intro ballI notI)
    fix r
    assume r: "r \<in> set (reservations db)" "holds r \<and> rsv_device_id r = Some (dev_id d)"
    obtain e where e: "e \<in> set (devices db)" "dev_id e = dev_id d" "held_lifecycle (rsv_status r) (dev_lifecycle e)"
      using core_dest(5) [OF c r(1)] r(2) by auto
    have "e = d" by (rule distinct_map_same [OF ids e(1) assms(2) e(2)])
    with e(3) assms(3) show False by (auto simp: held_lifecycle_def split: if_splits)
  qed
qed

section \<open>No device becomes ready\<close>

definition no_new_ready :: "farm_db \<Rightarrow> farm_db \<Rightarrow> bool" where
  "no_new_ready db db' \<longleftrightarrow>
     list_all (\<lambda>d'. dev_lifecycle d' = DeviceReady \<longrightarrow>
       list_ex (\<lambda>d. dev_id d = dev_id d' \<and> dev_lifecycle d = DeviceReady) (devices db)) (devices db')"

interpretation no_ready: tx_relation no_new_ready
  by unfold_locales (fastforce simp: no_new_ready_def list_all_iff list_ex_iff)+

lemma same_core_no_ready: "relates same_core m \<Longrightarrow> relates no_new_ready m"
  by (auto simp: relates_def same_core_def no_new_ready_def list_all_iff list_ex_iff)

lemma write_devices_no_ready:
  assumes "\<And>y. dev_id (f y) = dev_id y"
    and "\<And>y. P y \<Longrightarrow> dev_lifecycle (f y) = DeviceReady \<Longrightarrow> dev_lifecycle y = DeviceReady"
  shows "relates no_new_ready (write_devices P f)"
  using assms by (auto simp: relates_def write_devices_Inr no_new_ready_def list_all_iff list_ex_iff set_update_where)

section \<open>No command is leased\<close>

definition leased_commands :: "farm_db \<Rightarrow> nat" where
  "leased_commands db = length (filter (\<lambda>c. cmd_status c = CommandLeased) (commands db))"

definition no_new_lease :: "farm_db \<Rightarrow> farm_db \<Rightarrow> bool" where
  "no_new_lease db db' \<longleftrightarrow> leased_commands db' \<le> leased_commands db"

interpretation no_lease: tx_relation no_new_lease
  by unfold_locales (auto simp: no_new_lease_def)

lemma write_devices_no_lease: "relates no_new_lease (write_devices P f)"
  by (auto simp: relates_def write_devices_Inr no_new_lease_def leased_commands_def)

lemma insert_health_event_no_lease: "relates no_new_lease (insert_health_event i d s t v q p c)"
  by (rule relatesI) (auto simp: no_new_lease_def leased_commands_def dest: insert_health_event_Inr)

lemma Create_no_lease: "relates no_new_lease (Command_Repository.Create p)"
  by (rule relatesI)
    (auto simp: Command_Repository.Create_def Let_def no_new_lease_def leased_commands_def pending_command_def
      split: if_splits option.splits)

lemma Create_same_core: "relates same_core (Command_Repository.Create p)"
  by (rule relatesI) (auto simp: Command_Repository.Create_def Let_def same_core_def split: if_splits option.splits)

end
