(* ===== verification/Go_Decode.thy ===== *)
theory Go_Decode
  imports Farm_Json
begin

text \<open>
  What the code uses of \<open>strings\<close> beyond the prelude, and the decoding of a JSON object into a Go
  struct: a member sets the field whose name it equals up to case, \<open>null\<close> sets nothing, a member of
  another type is an error, and a missing member leaves the zero value.
\<close>

section \<open>Strings\<close>

fun LastIndex :: "string \<Rightarrow> string \<Rightarrow> nat option" where
  "LastIndex [] sub = (if sub = [] then Some 0 else None)"
| "LastIndex (c # s) sub =
     (case LastIndex s sub of Some i \<Rightarrow> Some (Suc i) | None \<Rightarrow> if has_prefix (c # s) sub then Some 0 else None)"

text \<open>
  \<open>strings.EqualFold\<close> with an ASCII text: the letters s and k also fold with U+017F and U+212A.
\<close>

fun fold_letters :: "string \<Rightarrow> string" where
  "fold_letters s =
     (case s of
        [] \<Rightarrow> []
      | c # r \<Rightarrow>
          if byte c = 197 \<and> (case r of d # _ \<Rightarrow> byte d = 191 | [] \<Rightarrow> False) then CHR ''s'' # fold_letters (drop 1 r)
          else if byte c = 226 \<and> map byte (take 2 r) = [132, 170] then CHR ''k'' # fold_letters (drop 2 r)
          else lower_char c # fold_letters r)"

declare fold_letters.simps [simp del]

definition EqualFold :: "string \<Rightarrow> string \<Rightarrow> bool" where
  "EqualFold s t \<longleftrightarrow> fold_letters s = fold_letters t"

lemma fold_letters_ascii: "byte c < 128 \<Longrightarrow> fold_letters (c # s) = lower_char c # fold_letters s"
  by (subst fold_letters.simps) simp

lemma EqualFold_code [code]:
  "EqualFold [] [] = True"
  "EqualFold [] (d # t) = (fold_letters (d # t) = [])"
  "EqualFold (c # s) [] = (fold_letters (c # s) = [])"
  "EqualFold (c # s) (d # t) =
     (if digit7 c \<or> digit7 d then fold_letters (c # s) = fold_letters (d # t)
      else if lower_char c = lower_char d then EqualFold s t else False)"
  by (auto simp: EqualFold_def fold_letters_ascii fold_letters.simps [of "[]"] digit7_byte not_le)

section \<open>Structs\<close>

text \<open>\<open>None\<close> is the error of \<open>json.Unmarshal\<close>.\<close>

definition decode_field :: "json_obj \<Rightarrow> string \<Rightarrow> 'a \<Rightarrow> (json \<Rightarrow> 'a option) \<Rightarrow> 'a option" where
  "decode_field values name zero decode =
     fold (\<lambda>(k, v) acc. if \<not> EqualFold k name \<or> v = JNull then acc
                        else case acc of None \<Rightarrow> None | Some _ \<Rightarrow> decode v) values (Some zero)"

definition decode_string :: "json \<Rightarrow> string option" where
  "decode_string v = (case v of JStr s \<Rightarrow> Some s | _ \<Rightarrow> None)"

definition decode_bool :: "json \<Rightarrow> bool option" where
  "decode_bool v = (case v of JBool b \<Rightarrow> Some b | _ \<Rightarrow> None)"

definition decode_int :: "json \<Rightarrow> int option" where
  "decode_int v = (case v of JNum i \<Rightarrow> if - (2 ^ 63) \<le> i \<and> i < 2 ^ 63 then Some i else None | _ \<Rightarrow> None)"

definition decode_list :: "(json \<Rightarrow> 'a option) \<Rightarrow> json \<Rightarrow> 'a list option" where
  "decode_list decode v = (case v of JArr vs \<Rightarrow> those (map decode vs) | _ \<Rightarrow> None)"

definition decode_strings :: "json \<Rightarrow> (string \<times> string) list option" where
  "decode_strings v =
     (case v of
        JObj ms \<Rightarrow> those (map (\<lambda>(k, w). case w of JStr s \<Rightarrow> Some (k, s) | JNull \<Rightarrow> Some (k, []) | _ \<Rightarrow> None) ms)
      | _ \<Rightarrow> None)"

definition decode_object :: "(json_obj \<Rightarrow> 'a option) \<Rightarrow> json \<Rightarrow> 'a option" where
  "decode_object decode v = (case v of JObj ms \<Rightarrow> decode ms | _ \<Rightarrow> None)"

text \<open>
  A field that is itself a struct or a map: the members of every object that sets it, in order, so that
  a later one overrides.  \<open>null\<close> empties a map and leaves a struct as it is.
\<close>

definition nested_members :: "bool \<Rightarrow> json_obj \<Rightarrow> string \<Rightarrow> json_obj option" where
  "nested_members is_map values name =
     fold (\<lambda>(k, v) acc. if \<not> EqualFold k name then acc
            else case acc of None \<Rightarrow> None | Some ms \<Rightarrow>
              (case v of JNull \<Rightarrow> Some (if is_map then [] else ms) | JObj ns \<Rightarrow> Some (ms @ ns) | _ \<Rightarrow> None))
       values (Some [])"

text \<open>A whole document, where \<open>null\<close> gives the zero value and no document is an error.\<close>

definition decode_document :: "'a \<Rightarrow> (json_obj \<Rightarrow> 'a option) \<Rightarrow> json option \<Rightarrow> 'a option" where
  "decode_document zero decode v =
     (case v of None \<Rightarrow> None | Some JNull \<Rightarrow> Some zero | Some w \<Rightarrow> decode_object decode w)"

end
