(* ===== verification/Providers.thy ===== *)
theory Providers
  imports Runtime_Profile Go_Decode
begin

text \<open>
  \<open>internal/providers\<close>: the interface that a host agent drives devices through (\<open>provider.go\<close>) and
  its in-memory implementation (\<open>mock/mock.go\<close>) with its failure scenarios.  The map of devices is an
  association list; the sleep before each operation is an argument, since it only matters whether it
  was interrupted.  Error texts are not modelled, error codes are.
\<close>

section \<open>The interface\<close>

datatype Operation =
    OperationDiscover | OperationCreate | OperationStart | OperationStop | OperationRestart |
    OperationRebuild | OperationDelete | OperationInspectHealth | OperationConnectionInfo |
    OperationValidateImage

datatype State = StateUnset | StateCreated | StateRunning | StateStopped

datatype Platform = PlatformUnset | PlatformAndroid | PlatformIOS | PlatformOther string

datatype ProbeStatus = ProbeUnset | ProbePassed | ProbeFailed | ProbeUnknown | ProbeUnsupported

record provider_error =
  pe_Operation :: Operation
  pe_Code :: string
  pe_Retryable :: bool

type_synonym 'a provided = "provider_error + 'a"

record create_request =
  rq_DeviceID :: string
  rq_HostID :: string
  rq_ImageID :: string
  rq_Platform :: Platform
  rq_DeviceKind :: string
  rq_RuntimeImage :: string
  rq_ProviderRef :: string
  rq_Serial :: string
  rq_Capabilities :: json_obj
  rq_RuntimeProfile :: "Profile option"

record provider_health =
  hl_Platform :: Platform
  hl_Components :: "(string \<times> ProbeStatus) list"
  hl_Online :: bool
  hl_ADBOnline :: bool
  hl_BootCompleted :: bool
  hl_AppiumHealthy :: bool

definition Health_Ready :: "provider_health \<Rightarrow> bool" where
  "Health_Ready h \<longleftrightarrow>
     (if hl_Components h \<noteq> []
      then list_all (\<lambda>c. map_of (hl_Components h) c = Some ProbePassed)
             [''transport'', ''os_ready'', ''automation'', ''router'']
      else hl_Online h \<and> hl_ADBOnline h \<and> hl_BootCompleted h \<and> hl_AppiumHealthy h)"

record connection_info =
  cn_Platform :: Platform
  cn_Serial :: string
  cn_DeviceUDID :: string
  cn_ProviderID :: string
  cn_ADBEndpoint :: string
  cn_AppiumEndpoint :: string
  cn_AppiumUDID :: string

record snapshot =
  sn_DeviceID :: string
  sn_HostID :: string
  sn_ImageID :: string
  sn_Platform :: Platform
  sn_ProviderRef :: string
  sn_State :: State
  sn_Generation :: int
  sn_Capabilities :: json_obj
  sn_RuntimeProfile :: "Profile option"
  sn_Health :: provider_health
  sn_Connection :: connection_info

definition Snapshot_Ready :: "snapshot \<Rightarrow> bool" where
  "Snapshot_Ready s \<longleftrightarrow> sn_State s = StateRunning \<and> Health_Ready (sn_Health s)"

definition lower_hex :: "char \<Rightarrow> bool" where
  "lower_hex c \<longleftrightarrow> (48 \<le> byte c \<and> byte c \<le> 57) \<or> (97 \<le> byte c \<and> byte c \<le> 102)"

text \<open>An immutable digest reference, or an explicit tag other than \<open>latest\<close>.\<close>

definition ValidRuntimeImageReference :: "string \<Rightarrow> bool" where
  "ValidRuntimeImageReference raw \<longleftrightarrow>
     (let v = TrimSpace raw in
      if v = [] \<or> contains_string v ''://'' then False
      else case LastIndex v ''@sha256:'' of
        Some i \<Rightarrow>
          i \<noteq> 0 \<and> length (filter (\<lambda>c. c = CHR ''@'') v) = 1 \<and> length (drop (i + 8) v) = 64 \<and>
          list_all lower_hex (drop (i + 8) v)
      | None \<Rightarrow>
          if contains_string v ''@'' then False
          else case LastIndex v '':'' of
            None \<Rightarrow> False
          | Some colon \<Rightarrow>
              (case LastIndex v ''/'' of None \<Rightarrow> True | Some slash \<Rightarrow> slash < colon) \<and>
              (let tag = TrimSpace (drop (colon + 1) v) in tag \<noteq> [] \<and> \<not> EqualFold tag ''latest''))"

section \<open>The mock provider\<close>

record Scenario =
  sc_CreateFailure :: bool
  sc_StartFailure :: bool
  sc_Offline :: bool
  sc_BootTimeout :: bool
  sc_AppiumUnhealthy :: bool
  sc_DeleteFailure :: bool

record mock_device =
  md_request :: create_request
  md_state :: State
  md_generation :: int
  md_connection :: connection_info

record mock_provider =
  mp_devices :: "(string \<times> mock_device) list"
  mp_nextPortOffset :: int
  mp_baseADBPort :: int
  mp_baseAppiumPort :: int
  mp_sharedAppiumEndpoint :: string
  mp_scenario :: Scenario

text \<open>How the sleep before an operation ended.\<close>

datatype sleep = Slept | SleepCanceled | SleepTimedOut

definition providerError :: "Operation \<Rightarrow> string \<Rightarrow> bool \<Rightarrow> provider_error" where
  "providerError op code retryable = \<lparr>pe_Operation = op, pe_Code = code, pe_Retryable = retryable\<rparr>"

definition before :: "sleep \<Rightarrow> Operation \<Rightarrow> provider_error option" where
  "before slept op =
     (case slept of
        Slept \<Rightarrow> None
      | SleepCanceled \<Rightarrow> Some (providerError op ''PROVIDER_OPERATION_CANCELED'' True)
      | SleepTimedOut \<Rightarrow> Some (providerError op ''PROVIDER_OPERATION_TIMEOUT'' True))"

definition deviceLocked :: "mock_provider \<Rightarrow> Operation \<Rightarrow> string \<Rightarrow> mock_device provided" where
  "deviceLocked p op ref =
     (case map_of (mp_devices p) ref of
        None \<Rightarrow> Inl (providerError op ''PROVIDER_DEVICE_NOT_FOUND'' False)
      | Some d \<Rightarrow> Inr d)"

definition iosHealthLocked :: "mock_provider \<Rightarrow> provider_health" where
  "iosHealthLocked p =
     (let os = (if sc_BootTimeout (mp_scenario p) then ProbeFailed else ProbePassed);
          router = (if sc_AppiumUnhealthy (mp_scenario p) then ProbeFailed else ProbePassed)
      in \<lparr>hl_Platform = PlatformIOS,
          hl_Components = [(''transport'', ProbePassed), (''os_ready'', os), (''automation'', ProbePassed),
            (''router'', router), (''remote_control'', ProbeUnsupported)],
          hl_Online = True, hl_ADBOnline = False, hl_BootCompleted = (os = ProbePassed),
          hl_AppiumHealthy = (router = ProbePassed)\<rparr>)"

definition iosHealthErrorLocked :: "mock_provider \<Rightarrow> provider_error option" where
  "iosHealthErrorLocked p =
     (if sc_BootTimeout (mp_scenario p) then Some (providerError OperationInspectHealth ''DEVICE_BOOT_TIMEOUT'' True)
      else if sc_AppiumUnhealthy (mp_scenario p) then Some (providerError OperationInspectHealth ''APPIUM_UNHEALTHY'' True)
      else None)"

definition snapshot_health :: "mock_provider \<Rightarrow> mock_device \<Rightarrow> provider_health" where
  "snapshot_health p d =
     (let none = \<lparr>hl_Platform = rq_Platform (md_request d), hl_Components = [], hl_Online = False,
                  hl_ADBOnline = False, hl_BootCompleted = False, hl_AppiumHealthy = False\<rparr>
      in if md_state d = StateRunning \<and> \<not> sc_Offline (mp_scenario p) then
           (if rq_Platform (md_request d) = PlatformIOS then iosHealthLocked p
            else none\<lparr>hl_Online := True, hl_ADBOnline := True,
                      hl_BootCompleted := \<not> sc_BootTimeout (mp_scenario p),
                      hl_AppiumHealthy := \<not> sc_BootTimeout (mp_scenario p) \<and> \<not> sc_AppiumUnhealthy (mp_scenario p)\<rparr>)
         else none)"

definition snapshotLocked :: "mock_provider \<Rightarrow> mock_device \<Rightarrow> snapshot" where
  "snapshotLocked p d =
     (let q = md_request d
      in \<lparr>sn_DeviceID = rq_DeviceID q, sn_HostID = rq_HostID q, sn_ImageID = rq_ImageID q,
          sn_Platform = rq_Platform q, sn_ProviderRef = rq_ProviderRef q, sn_State = md_state d,
          sn_Generation = md_generation d, sn_Capabilities = rq_Capabilities q,
          sn_RuntimeProfile = rq_RuntimeProfile q, sn_Health = snapshot_health p d,
          sn_Connection = md_connection d\<rparr>)"

definition put_device :: "string \<Rightarrow> mock_device \<Rightarrow> mock_provider \<Rightarrow> mock_provider" where
  "put_device ref d p = p\<lparr>mp_devices := (ref, d) # filter (\<lambda>m. fst m \<noteq> ref) (mp_devices p)\<rparr>"

definition Discover :: "sleep \<Rightarrow> string \<Rightarrow> mock_provider \<Rightarrow> snapshot list provided" where
  "Discover slept hostID p =
     (case before slept OperationDiscover of
        Some e \<Rightarrow> Inl e
      | None \<Rightarrow>
          if sc_Offline (mp_scenario p) then Inl (providerError OperationDiscover ''HOST_OFFLINE'' True)
          else Inr (sort_key sn_ProviderRef
            (map (snapshotLocked p) (filter (\<lambda>d. rq_HostID (md_request d) = hostID) (map snd (mp_devices p))))))"

definition completed_request :: "create_request \<Rightarrow> create_request" where
  "completed_request q =
     (let q = (if rq_Platform q = PlatformUnset then q\<lparr>rq_Platform := PlatformAndroid\<rparr> else q);
          q = (if rq_DeviceKind q = []
               then q\<lparr>rq_DeviceKind := (if rq_Platform q = PlatformIOS then ''simulator'' else ''emulator'')\<rparr> else q)
      in if rq_Platform q = PlatformAndroid \<and> rq_RuntimeProfile q = None
         then q\<lparr>rq_RuntimeProfile := Some Default\<rparr> else q)"

text \<open>\<open>rq_RuntimeProfile\<close> is None for the zero profile.\<close>

definition invalid_request :: "create_request \<Rightarrow> bool" where
  "invalid_request q \<longleftrightarrow>
     rq_DeviceID q = [] \<or> rq_HostID q = [] \<or> rq_ProviderRef q = [] \<or>
     rq_Platform q = PlatformAndroid \<and> rq_ImageID q = [] \<or>
     rq_Platform q \<notin> {PlatformAndroid, PlatformIOS} \<or>
     rq_Platform q = PlatformAndroid \<and> (case rq_RuntimeProfile q of None \<Rightarrow> True | Some r \<Rightarrow> \<not> Validate r)"

definition new_connection :: "mock_provider \<Rightarrow> create_request \<Rightarrow> connection_info" where
  "new_connection p q =
     (let offset = mp_nextPortOffset p
      in \<lparr>cn_Platform = rq_Platform q, cn_Serial = rq_Serial q, cn_DeviceUDID = rq_Serial q,
          cn_ProviderID = rq_ProviderRef q,
          cn_ADBEndpoint = (if rq_Platform q = PlatformIOS then []
            else ''127.0.0.1:'' @ int_text (mp_baseADBPort p + offset * 2)),
          cn_AppiumEndpoint = (if rq_Platform q = PlatformIOS \<and> mp_sharedAppiumEndpoint p \<noteq> []
            then mp_sharedAppiumEndpoint p
            else ''http://127.0.0.1:'' @ int_text (mp_baseAppiumPort p + offset)),
          cn_AppiumUDID = rq_Serial q\<rparr>)"

definition mock_Create :: "sleep \<Rightarrow> create_request \<Rightarrow> mock_provider \<Rightarrow> snapshot provided \<times> mock_provider" where
  "mock_Create slept request p =
     (case before slept OperationCreate of
        Some e \<Rightarrow> (Inl e, p)
      | None \<Rightarrow>
          (let q = completed_request request in
           if invalid_request q then (Inl (providerError OperationCreate ''INVALID_ARGUMENT'' False), p)
           else if sc_CreateFailure (mp_scenario p)
           then (Inl (providerError OperationCreate ''EMULATOR_CREATE_FAILED'' True), p)
           else if map_of (mp_devices p) (rq_ProviderRef q) \<noteq> None
           then (Inl (providerError OperationCreate ''PROVIDER_REF_CONFLICT'' False), p)
           else
             let q = (if rq_Serial q = [] then q\<lparr>rq_Serial := ''mock-'' @ rq_ProviderRef q\<rparr> else q);
                 d = \<lparr>md_request = q, md_state = StateCreated, md_generation = 1,
                      md_connection = new_connection p q\<rparr>;
                 p' = put_device (rq_ProviderRef q) d (p\<lparr>mp_nextPortOffset := mp_nextPortOffset p + 1\<rparr>)
             in (Inr (snapshotLocked p' d), p')))"

definition mock_Start :: "sleep \<Rightarrow> string \<Rightarrow> mock_provider \<Rightarrow> snapshot provided \<times> mock_provider" where
  "mock_Start slept ref p =
     (case before slept OperationStart of
        Some e \<Rightarrow> (Inl e, p)
      | None \<Rightarrow>
          if sc_Offline (mp_scenario p) then (Inl (providerError OperationStart ''HOST_OFFLINE'' True), p)
          else if sc_StartFailure (mp_scenario p)
          then (Inl (providerError OperationStart ''EMULATOR_START_FAILED'' True), p)
          else (case deviceLocked p OperationStart ref of
             Inl e \<Rightarrow> (Inl e, p)
           | Inr d \<Rightarrow>
               (let d' = d\<lparr>md_state := StateRunning\<rparr>; p' = put_device ref d' p in (Inr (snapshotLocked p' d'), p'))))"

definition setState ::
  "sleep \<Rightarrow> Operation \<Rightarrow> string \<Rightarrow> State \<Rightarrow> bool \<Rightarrow> mock_provider \<Rightarrow> snapshot provided \<times> mock_provider" where
  "setState slept op ref state incrementGeneration p =
     (case before slept op of
        Some e \<Rightarrow> (Inl e, p)
      | None \<Rightarrow>
          if sc_Offline (mp_scenario p) then (Inl (providerError op ''HOST_OFFLINE'' True), p)
          else (case deviceLocked p op ref of
             Inl e \<Rightarrow> (Inl e, p)
           | Inr d \<Rightarrow>
               (let d' = d\<lparr>md_state := state,
                           md_generation := md_generation d + (if incrementGeneration then 1 else 0)\<rparr>;
                    p' = put_device ref d' p
                in (Inr (snapshotLocked p' d'), p'))))"

definition mock_Stop :: "sleep \<Rightarrow> string \<Rightarrow> mock_provider \<Rightarrow> snapshot provided \<times> mock_provider" where
  "mock_Stop slept ref = setState slept OperationStop ref StateStopped False"

definition mock_Restart :: "sleep \<Rightarrow> string \<Rightarrow> mock_provider \<Rightarrow> snapshot provided \<times> mock_provider" where
  "mock_Restart slept ref = setState slept OperationRestart ref StateRunning False"

definition mock_Rebuild :: "sleep \<Rightarrow> string \<Rightarrow> mock_provider \<Rightarrow> snapshot provided \<times> mock_provider" where
  "mock_Rebuild slept ref = setState slept OperationRebuild ref StateRunning True"

definition mock_Delete :: "sleep \<Rightarrow> string \<Rightarrow> mock_provider \<Rightarrow> unit provided \<times> mock_provider" where
  "mock_Delete slept ref p =
     (case before slept OperationDelete of
        Some e \<Rightarrow> (Inl e, p)
      | None \<Rightarrow>
          if sc_DeleteFailure (mp_scenario p)
          then (Inl (providerError OperationDelete ''EMULATOR_DELETE_FAILED'' True), p)
          else (Inr (), p\<lparr>mp_devices := filter (\<lambda>m. fst m \<noteq> ref) (mp_devices p)\<rparr>))"

text \<open>The health and the error come together: a failing probe still returns what it saw.\<close>

definition InspectHealth :: "sleep \<Rightarrow> string \<Rightarrow> mock_provider \<Rightarrow> provider_health option \<times> provider_error option" where
  "InspectHealth slept ref p =
     (case before slept OperationInspectHealth of
        Some e \<Rightarrow> (None, Some e)
      | None \<Rightarrow>
          (case deviceLocked p OperationInspectHealth ref of
             Inl e \<Rightarrow> (None, Some e)
           | Inr d \<Rightarrow>
               (let seen = \<lambda>boot appium. \<lparr>hl_Platform = PlatformUnset, hl_Components = [], hl_Online = True,
                                          hl_ADBOnline = True, hl_BootCompleted = boot, hl_AppiumHealthy = appium\<rparr>;
                    failed = \<lambda>code. Some (providerError OperationInspectHealth code True)
                in if sc_Offline (mp_scenario p) then (None, failed ''DEVICE_OFFLINE'')
                   else if md_state d \<noteq> StateRunning then (None, failed ''DEVICE_NOT_RUNNING'')
                   else if rq_Platform (md_request d) = PlatformIOS
                   then (Some (iosHealthLocked p), iosHealthErrorLocked p)
                   else if sc_BootTimeout (mp_scenario p) then (Some (seen False False), failed ''DEVICE_BOOT_TIMEOUT'')
                   else if sc_AppiumUnhealthy (mp_scenario p) then (Some (seen True False), failed ''APPIUM_UNHEALTHY'')
                   else (Some (seen True True), None))))"

definition GetConnectionInfo :: "sleep \<Rightarrow> string \<Rightarrow> mock_provider \<Rightarrow> connection_info provided" where
  "GetConnectionInfo slept ref p =
     (case before slept OperationConnectionInfo of
        Some e \<Rightarrow> Inl e
      | None \<Rightarrow>
          (case deviceLocked p OperationConnectionInfo ref of Inl e \<Rightarrow> Inl e | Inr d \<Rightarrow> Inr (md_connection d)))"

definition new_mock :: "int \<Rightarrow> int \<Rightarrow> string \<Rightarrow> Scenario \<Rightarrow> mock_provider" where
  "new_mock adb appium shared sc =
     \<lparr>mp_devices = [], mp_nextPortOffset = 0, mp_baseADBPort = (if adb = 0 then 5555 else adb),
      mp_baseAppiumPort = (if appium = 0 then 4723 else appium), mp_sharedAppiumEndpoint = shared,
      mp_scenario = sc\<rparr>"

section \<open>Health\<close>

lemma iosHealth_Ready: "Health_Ready (iosHealthLocked p) \<longleftrightarrow> iosHealthErrorLocked p = None"
  by (simp add: Health_Ready_def iosHealthLocked_def iosHealthErrorLocked_def Let_def)

lemma snapshot_health_Ready:
  "Health_Ready (snapshot_health p d) \<longleftrightarrow>
     md_state d = StateRunning \<and> \<not> sc_Offline (mp_scenario p) \<and>
     (if rq_Platform (md_request d) = PlatformIOS then iosHealthErrorLocked p = None
      else \<not> sc_BootTimeout (mp_scenario p) \<and> \<not> sc_AppiumUnhealthy (mp_scenario p))"
  by (auto simp: snapshot_health_def Let_def iosHealth_Ready) (simp_all add: Health_Ready_def)

text \<open>
  C32.  The two ways to ask the provider agree: the snapshot of a device is ready exactly when
  \<open>InspectHealth\<close> reports no error, and the health that comes without an error is ready, on both
  platforms and in every failure scenario.
\<close>

theorem snapshot_agrees_with_inspection:
  assumes "map_of (mp_devices p) ref = Some d"
  shows "(Snapshot_Ready (snapshotLocked p d) \<longleftrightarrow> snd (InspectHealth Slept ref p) = None) \<and>
    (snd (InspectHealth Slept ref p) = None \<longrightarrow> (\<exists>h. fst (InspectHealth Slept ref p) = Some h \<and> Health_Ready h))"
proof -
  have i: "deviceLocked p OperationInspectHealth ref = Inr d" using assms by (simp add: deviceLocked_def)
  have "Snapshot_Ready (snapshotLocked p d) \<longleftrightarrow> snd (InspectHealth Slept ref p) = None"
    by (auto simp: Snapshot_Ready_def snapshotLocked_def Let_def snapshot_health_Ready InspectHealth_def before_def i)
  moreover have "snd (InspectHealth Slept ref p) = None \<longrightarrow>
      (\<exists>h. fst (InspectHealth Slept ref p) = Some h \<and> Health_Ready h)"
    by (auto simp: InspectHealth_def before_def i Let_def iosHealth_Ready split: if_splits)
      (simp_all add: Health_Ready_def)
  ultimately show ?thesis ..
qed

definition sample_request :: create_request where
  "sample_request = \<lparr>rq_DeviceID = ''dev_0123456789ab'', rq_HostID = ''host_0123456789a'', rq_ImageID = [],
     rq_Platform = PlatformIOS, rq_DeviceKind = [], rq_RuntimeImage = [], rq_ProviderRef = ''sim-1'',
     rq_Serial = [], rq_Capabilities = [], rq_RuntimeProfile = None\<rparr>"

definition sample_mock_device :: mock_device where
  "sample_mock_device = \<lparr>md_request = sample_request, md_state = StateRunning, md_generation = 1,
     md_connection = \<lparr>cn_Platform = PlatformIOS, cn_Serial = ''mock-sim-1'', cn_DeviceUDID = ''mock-sim-1'',
       cn_ProviderID = ''sim-1'', cn_ADBEndpoint = [], cn_AppiumEndpoint = ''http://127.0.0.1:4723'',
       cn_AppiumUDID = ''mock-sim-1''\<rparr>\<rparr>"

definition sample_provider :: mock_provider where
  "sample_provider = put_device ''sim-1'' sample_mock_device
     (new_mock 0 0 [] \<lparr>sc_CreateFailure = False, sc_StartFailure = False, sc_Offline = False,
        sc_BootTimeout = False, sc_AppiumUnhealthy = False, sc_DeleteFailure = False\<rparr>)"

theorem snapshot_agrees_with_inspection_witness:
  "Snapshot_Ready (snapshotLocked sample_provider sample_mock_device) \<and>
   snd (InspectHealth Slept ''sim-1'' sample_provider) = None"
proof -
  have d: "map_of (mp_devices sample_provider) ''sim-1'' = Some sample_mock_device"
    by (simp add: sample_provider_def put_device_def)
  have "snd (InspectHealth Slept ''sim-1'' sample_provider) = None"
    by (simp add: InspectHealth_def before_def deviceLocked_def d Let_def sample_mock_device_def sample_request_def
        iosHealthErrorLocked_def) (simp add: sample_provider_def put_device_def new_mock_def)
  with snapshot_agrees_with_inspection [OF d] show ?thesis by simp
qed

end
