(* ===== verification/Image_Catalog.thy ===== *)
theory Image_Catalog
  imports Device_Statements Providers Audit_Actor Scheduler
begin

text \<open>
  \<open>internal/imagecatalog\<close>: the catalogue of Android system images that a build agent reports, and the
  preparations that turn an entry into a verified device image.  Two host commands belong to a
  preparation, the build and the validation; \<open>ReconcileCommand\<close> runs in the transaction that completes
  one of them.  The SHA-256 fingerprint of a profile is an argument.
\<close>

section \<open>Tables\<close>

definition reference_char :: "char \<Rightarrow> bool" where
  "reference_char c \<longleftrightarrow> is_word_byte c \<or> byte c \<in> {45, 46, 47, 58, 64}"

definition tag_char :: "char \<Rightarrow> bool" where
  "tag_char c \<longleftrightarrow> is_word_byte c \<or> byte c \<in> {45, 46}"

definition any_hex :: "char \<Rightarrow> bool" where
  "any_hex c \<longleftrightarrow> lower_hex c \<or> (65 \<le> byte c \<and> byte c \<le> 70)"

definition last_chars :: "nat \<Rightarrow> string \<Rightarrow> string" where
  "last_chars n s = drop (length s - n) s"

definition digest_suffix :: "string \<Rightarrow> bool" where
  "digest_suffix s \<longleftrightarrow>
     72 \<le> length s \<and> has_prefix (last_chars 72 s) ''@sha256:'' \<and> list_all any_hex (last_chars 64 s)"

definition tag_suffix :: "string \<Rightarrow> bool" where
  "tag_suffix s \<longleftrightarrow>
     takeWhile tag_char (rev s) \<noteq> [] \<and>
     (case dropWhile tag_char (rev s) of c # _ \<Rightarrow> c = CHR '':'' | [] \<Rightarrow> False)"

text \<open>The CHECK constraint \<open>ck_device_images_runtime_reference\<close>.\<close>

definition ck_runtime_reference :: "string \<Rightarrow> bool" where
  "ck_runtime_reference s \<longleftrightarrow>
     s \<noteq> [] \<and> list_all reference_char s \<and> ToLower (last_chars 7 s) \<noteq> '':latest'' \<and>
     (digest_suffix s \<or> CHR ''@'' \<notin> set s \<and> tag_suffix s)"

definition ck_image :: "image_row \<Rightarrow> bool" where
  "ck_image i \<longleftrightarrow>
     identifierPattern (img_id i) \<and> length (img_docker_digest i) = 71 \<and>
     has_prefix (img_docker_digest i) ''sha256:'' \<and> list_all any_hex (last_chars 64 (img_docker_digest i)) \<and>
     21 \<le> img_api_level i \<and> img_abi i \<in> {''x86_64'', ''arm64-v8a''} \<and> validImageStatus (img_status i) \<and>
     (case img_docker_image i of None \<Rightarrow> img_status i \<in> {ImageDraft, ImageFailed, ImageDisabled}
      | Some r \<Rightarrow> ck_runtime_reference r)"

definition ck_preparation :: "preparation_row \<Rightarrow> bool" where
  "ck_preparation p \<longleftrightarrow>
     identifierPattern (prep_id p) \<and>
     prep_status p \<in> {''queued'', ''building'', ''validating'', ''cached'', ''failed''} \<and>
     (case (prep_docker_image p, prep_docker_digest p, prep_image_disk_mb p) of
        (None, None, None) \<Rightarrow> True
      | (Some _, Some digest, Some mb) \<Rightarrow>
          length digest = 71 \<and> has_prefix digest ''sha256:'' \<and> list_all lower_hex (last_chars 64 digest) \<and> 0 < mb
      | _ \<Rightarrow> False) \<and>
     (prep_validation_command_id p \<noteq> None \<longrightarrow>
        prep_docker_image p \<noteq> None \<and> prep_status p \<in> {''validating'', ''cached'', ''failed''}) \<and>
     (prep_status p = ''cached'' \<longrightarrow> prep_image_id p \<noteq> None) \<and>
     prep_created_at p \<le> prep_updated_at p"

definition update_preparation :: "string \<Rightarrow> (preparation_row \<Rightarrow> preparation_row) \<Rightarrow> unit farm_tx" where
  "update_preparation ident f db =
     (let ps = update_where (\<lambda>p. prep_id p = ident) (\<lambda>p. (f p)\<lparr>prep_updated_at := db_clock db\<rparr>) (preparations db)
      in if \<not> list_all ck_preparation (filter (\<lambda>p. prep_id p = ident) ps) then Inl (SqlError ''23514'')
         else if \<not> unique_present (map prep_validation_command_id ps) then Inl (SqlError ''23505'')
         else Inr ((), db\<lparr>preparations := ps\<rparr>))"

definition failPreparation :: "string \<Rightarrow> string \<Rightarrow> unit farm_tx" where
  "failPreparation ident code =
     update_preparation ident (\<lambda>p. p\<lparr>prep_status := ''failed'', prep_error_code := Some code\<rparr>)"

section \<open>Checks on what the agent reports\<close>

definition validDigest :: "string \<Rightarrow> bool" where
  "validDigest v \<longleftrightarrow> length v = 71 \<and> has_prefix v ''sha256:'' \<and> list_all lower_hex (drop 7 v)"

definition validRevision :: "string \<Rightarrow> bool" where
  "validRevision raw \<longleftrightarrow>
     (let v = TrimSpace raw
      in v \<noteq> [] \<and> length v \<le> 64 \<and> list_all (\<lambda>c. is_word_byte c \<or> byte c \<in> {45, 46}) v)"

record catalog_item =
  ci_PackageName :: string
  ci_APILevel :: int
  ci_ImageType :: string
  ci_ABI :: string
  ci_Revision :: string

definition validEntry :: "catalog_item \<Rightarrow> bool" where
  "validEntry i \<longleftrightarrow>
     26 \<le> ci_APILevel i \<and> ci_APILevel i \<le> 99 \<and> ci_ImageType i \<in> {''default'', ''google_apis'', ''google_play''} \<and>
     ci_ABI i = ''x86_64'' \<and> validRevision (ci_Revision i) \<and>
     ci_PackageName i = ''system-images;android-'' @ int_text (ci_APILevel i) @ '';'' @ ci_ImageType i @ '';'' @ ci_ABI i"

definition decode_item :: "json_obj \<Rightarrow> catalog_item option" where
  "decode_item o' =
     Option.bind (decode_field o' ''package_name'' [] decode_string) (\<lambda>name.
     Option.bind (decode_field o' ''api_level'' 0 decode_int) (\<lambda>api.
     Option.bind (decode_field o' ''image_type'' [] decode_string) (\<lambda>type.
     Option.bind (decode_field o' ''abi'' [] decode_string) (\<lambda>abi.
     Option.bind (decode_field o' ''revision'' [] decode_string) (\<lambda>revision.
       Some \<lparr>ci_PackageName = name, ci_APILevel = api, ci_ImageType = type, ci_ABI = abi, ci_Revision = revision\<rparr>)))))"

section \<open>Completed commands\<close>

definition upsert_entry :: "string \<Rightarrow> catalog_item \<Rightarrow> unit farm_tx" where
  "upsert_entry ident i db =
     (let now = db_clock db in
      if \<not> identifierPattern ident then Inl (SqlError ''23514'')
      else if list_ex (\<lambda>c. cat_package_name c = ci_PackageName i) (catalog db) then
        Inr ((), db\<lparr>catalog := update_where (\<lambda>c. cat_package_name c = ci_PackageName i)
          (\<lambda>c. c\<lparr>cat_api_level := ci_APILevel i, cat_image_type := ci_ImageType i, cat_abi := ci_ABI i,
                 cat_source_updated_at := (if cat_revision c \<noteq> ci_Revision i then now else cat_source_updated_at c),
                 cat_revision := ci_Revision i, cat_last_seen_at := now, cat_updated_at := now\<rparr>) (catalog db)\<rparr>)
      else if list_ex (\<lambda>c. cat_id c = ident) (catalog db) then Inl (SqlError ''23505'')
      else Inr ((), db\<lparr>catalog := catalog db @
        [\<lparr>cat_id = ident, cat_package_name = ci_PackageName i, cat_api_level = ci_APILevel i,
          cat_image_type = ci_ImageType i, cat_abi = ci_ABI i, cat_revision = ci_Revision i,
          cat_source_updated_at = now, cat_last_seen_at = now, cat_created_at = now, cat_updated_at = now\<rparr>]\<rparr>))"

definition sync_entry :: "(nat \<Rightarrow> (farm_error, string) result) \<Rightarrow> nat \<Rightarrow> catalog_item \<Rightarrow> unit farm_tx" where
  "sync_entry newID n i =
     tx_bind (tx_guard (validEntry i) ErrInvalidArgument) (\<lambda>_.
     tx_bind (tx_lift (newID n)) (\<lambda>ident. upsert_entry ident i))"

definition reconcileSync :: "(nat \<Rightarrow> (farm_error, string) result) \<Rightarrow> command_row \<Rightarrow> unit farm_tx" where
  "reconcileSync newID c =
     (if cmd_status c \<noteq> CommandSucceeded then tx_return ()
      else case decode_document [] (\<lambda>o'. decode_field o' ''entries'' [] (decode_list (decode_object decode_item)))
                  (cmd_result c) of
        None \<Rightarrow> tx_fail ErrInvalidArgument
      | Some entries \<Rightarrow>
          if entries = [] then tx_fail ErrInvalidArgument else tx_each (sync_entry newID) 0 entries)"

definition command_error_code :: "string \<Rightarrow> command_row \<Rightarrow> string" where
  "command_error_code fallback c =
     (case cmd_error_code c of None \<Rightarrow> fallback | Some code \<Rightarrow> if code = [] then fallback else code)"

record build_output =
  bo_DockerImage :: string
  bo_DockerDigest :: string
  bo_ImageDiskMB :: int

definition decode_build :: "json_obj \<Rightarrow> build_output option" where
  "decode_build o' =
     Option.bind (decode_field o' ''docker_image'' [] decode_string) (\<lambda>docker.
     Option.bind (decode_field o' ''docker_digest'' [] decode_string) (\<lambda>digest.
     Option.bind (decode_field o' ''image_disk_mb'' 0 decode_int) (\<lambda>disk.
       Some \<lparr>bo_DockerImage = docker, bo_DockerDigest = digest, bo_ImageDiskMB = disk\<rparr>)))"

definition valid_build :: "build_output \<Rightarrow> bool" where
  "valid_build o' \<longleftrightarrow>
     validDigest (bo_DockerDigest o') \<and> ValidRuntimeImageReference (bo_DockerImage o') \<and> 1 \<le> bo_ImageDiskMB o'"

text \<open>\<open>profile.Map()\<close> with the size of the image.\<close>

definition image_config :: "Profile \<Rightarrow> int \<Rightarrow> json_obj" where
  "image_config p disk = obj_put ''image_disk_mb'' (JNum disk) (Profile_Map p)"

definition resolution_text :: "Profile \<Rightarrow> string" where
  "resolution_text p = int_text (pf_Width p) @ ''x'' @ int_text (pf_Height p)"

definition validation_payload :: "string \<Rightarrow> preparation_row \<Rightarrow> catalog_row \<Rightarrow> Profile \<Rightarrow> build_output \<Rightarrow> json_obj" where
  "validation_payload commandID job entry p out =
     (let mapped = image_config p (bo_ImageDiskMB out) in
      [(''capabilities'', JObj (obj_merge [(''abi'', JStr (cat_abi entry)), (''apiLevel'', JNum (cat_api_level entry)),
          (''platformName'', JStr ''Android''), (''resolution'', JStr (resolution_text p))] mapped)),
       (''device_id'', JStr (''validation-'' @ commandID)),
       (''docker_digest'', JStr (bo_DockerDigest out)),
       (''docker_image'', JStr (bo_DockerImage out)),
       (''image_id'', JStr (''prepared-'' @ prep_id job)),
       (''operation_source'', JStr ''android_catalog''),
       (''preparation_id'', JStr (prep_id job)),
       (''provider_ref'', JStr (''validation-'' @ commandID)),
       (''runtime_profile'', JObj mapped)])"

definition with_build :: "build_output \<Rightarrow> preparation_row \<Rightarrow> preparation_row" where
  "with_build out p =
     p\<lparr>prep_docker_image := Some (bo_DockerImage out), prep_docker_digest := Some (bo_DockerDigest out),
       prep_image_disk_mb := Some (bo_ImageDiskMB out), prep_error_code := None\<rparr>"

definition accept_build ::
  "(nat \<Rightarrow> (farm_error, string) result) \<Rightarrow> command_row \<Rightarrow> preparation_row \<Rightarrow> build_output \<Rightarrow> Profile \<Rightarrow> unit farm_tx" where
  "accept_build newID c job out p db =
     (case find_row (\<lambda>e. cat_id e = prep_catalog_id job) (catalog db) of
        None \<Rightarrow> Inl (SqlError ''02000'')
      | Some entry \<Rightarrow>
          (case find_row (\<lambda>i. img_docker_digest i = bo_DockerDigest out \<and>
                   img_resource_config i = image_config p (bo_ImageDiskMB out) \<and> img_status i = ImageReady) (images db) of
             Some i \<Rightarrow>
               update_preparation (prep_id job)
                 (\<lambda>x. (with_build out x)\<lparr>prep_image_id := Some (img_id i), prep_status := ''cached''\<rparr>) db
           | None \<Rightarrow>
               tx_bind (tx_lift (newID 0)) (\<lambda>commandID.
               tx_bind (Create \<lparr>ccp_ID = commandID, ccp_HostID = cmd_host_id c, ccp_CommandType = ''validate_image'',
                   ccp_Payload = validation_payload commandID job entry p out, ccp_MaxAttempts = 3,
                   ccp_IdempotencyKey = ''catalog-validate-'' @ prep_id job\<rparr>) (\<lambda>created.
                 update_preparation (prep_id job)
                   (\<lambda>x. (with_build out x)\<lparr>prep_validation_command_id := Some (cmd_id created),
                                           prep_status := ''validating''\<rparr>))) db))"

definition reconcilePreparation ::
  "(nat \<Rightarrow> (farm_error, string) result) \<Rightarrow> command_row \<Rightarrow> unit farm_tx" where
  "reconcilePreparation newID c db =
     (case find_row (\<lambda>p. prep_build_command_id p = cmd_id c) (preparations db) of
        None \<Rightarrow> Inr ((), db)
      | Some job \<Rightarrow>
          if cmd_status c \<noteq> CommandSucceeded
          then failPreparation (prep_id job) (command_error_code ''IMAGE_PREPARATION_FAILED'' c) db
          else if prep_validation_command_id job \<notin> {None, Some []} then Inr ((), db)
          else
            let zero = \<lparr>bo_DockerImage = [], bo_DockerDigest = [], bo_ImageDiskMB = 0\<rparr>
            in case decode_document zero decode_build (cmd_result c) of
              None \<Rightarrow> failPreparation (prep_id job) ''INVALID_IMAGE_BUILD_RESULT'' db
            | Some out \<Rightarrow>
                if \<not> valid_build out then failPreparation (prep_id job) ''INVALID_IMAGE_BUILD_RESULT'' db
                else case Parse (prep_runtime_profile job) of
                  None \<Rightarrow> failPreparation (prep_id job) ''INVALID_RUNTIME_PROFILE'' db
                | Some p \<Rightarrow> accept_build newID c job out p db)"

definition decode_validation :: "json_obj \<Rightarrow> (bool \<times> bool) option" where
  "decode_validation o' =
     Option.bind (decode_field o' ''digest_verified'' False decode_bool) (\<lambda>verified.
     Option.bind (decode_field o' ''ready'' False decode_bool) (\<lambda>ready.
     Option.bind (decode_field o' ''stf_registered'' False decode_bool) (\<lambda>_.
       Some (verified, ready))))"

text \<open>
  The image row, written under its key of digest and configuration; \<open>fingerprint\<close> is the hexadecimal
  SHA-256 of the encoded configuration.
\<close>

definition image_name :: "(json_obj \<Rightarrow> string) \<Rightarrow> catalog_row \<Rightarrow> string \<Rightarrow> json_obj \<Rightarrow> string" where
  "image_name fingerprint entry digest config =
     ''android-api'' @ int_text (cat_api_level entry) @ ''-'' @ cat_image_type entry @ ''-'' @ cat_abi entry @ ''-'' @
     take 12 (if has_prefix digest ''sha256:'' then drop 7 digest else digest) @ ''-'' @ take 10 (fingerprint config)"

definition upsert_image :: "image_row \<Rightarrow> string farm_tx" where
  "upsert_image row db =
     (let same = (\<lambda>i. img_docker_digest i = img_docker_digest row \<and> img_resource_config i = img_resource_config row);
          revived = (\<lambda>i. i\<lparr>img_docker_image := img_docker_image row, img_status := ImageReady,
                           img_validation_error := None, img_updated_at := db_clock db\<rparr>)
      in if \<not> ck_image row then Inl (SqlError ''23514'')
         else case find_row same (images db) of
           Some i \<Rightarrow> if ck_image (revived i) then Inr (img_id i, db\<lparr>images := update_where same revived (images db)\<rparr>)
                     else Inl (SqlError ''23514'')
         | None \<Rightarrow>
             if list_ex (\<lambda>i. img_id i = img_id row \<or> img_name i = img_name row) (images db) then Inl (SqlError ''23505'')
             else Inr (img_id row, db\<lparr>images := images db @ [row]\<rparr>))"

definition new_image ::
  "(json_obj \<Rightarrow> string) \<Rightarrow> string \<Rightarrow> catalog_row \<Rightarrow> string \<Rightarrow> string \<Rightarrow> Profile \<Rightarrow> int \<Rightarrow> timestamp \<Rightarrow> image_row" where
  "new_image fingerprint ident entry docker digest p disk now =
     \<lparr>img_id = ident, img_name = image_name fingerprint entry digest (image_config p disk),
      img_docker_image = Some docker, img_docker_digest = digest, img_api_level = cat_api_level entry,
      img_abi = cat_abi entry, img_resolution = resolution_text p, img_resource_config = image_config p disk,
      img_status = ImageReady, img_validation_error = None, img_created_at = now, img_updated_at = now\<rparr>"

text \<open>The columns of the build are present, because the schema requires them with a validation command.\<close>

definition reconcileValidation ::
  "(nat \<Rightarrow> (farm_error, string) result) \<Rightarrow> (json_obj \<Rightarrow> string) \<Rightarrow> command_row \<Rightarrow> unit farm_tx" where
  "reconcileValidation newID fingerprint c db =
     (case find_row (\<lambda>p. prep_validation_command_id p = Some (cmd_id c)) (preparations db) of
        None \<Rightarrow> Inr ((), db)
      | Some job \<Rightarrow>
         (case (prep_docker_image job, prep_docker_digest job, prep_image_disk_mb job) of
            (Some docker, Some digest, Some disk) \<Rightarrow>
              if cmd_status c \<noteq> CommandSucceeded
              then failPreparation (prep_id job) (command_error_code ''IMAGE_VALIDATION_FAILED'' c) db
              else if decode_document (False, False) decode_validation (cmd_result c) \<noteq> Some (True, True)
              then failPreparation (prep_id job) ''IMAGE_VALIDATION_INCOMPLETE'' db
              else (case Parse (prep_runtime_profile job) of
                None \<Rightarrow> failPreparation (prep_id job) ''INVALID_RUNTIME_PROFILE'' db
              | Some p \<Rightarrow>
                  (case find_row (\<lambda>e. cat_id e = prep_catalog_id job) (catalog db) of
                     None \<Rightarrow> Inl (SqlError ''02000'')
                   | Some entry \<Rightarrow>
                       tx_bind (tx_lift (newID 0)) (\<lambda>ident.
                       tx_bind (upsert_image (new_image fingerprint ident entry docker digest p disk (db_clock db))) (\<lambda>imageID.
                         update_preparation (prep_id job)
                           (\<lambda>x. x\<lparr>prep_image_id := Some imageID, prep_status := ''cached'', prep_error_code := None\<rparr>)))
                       db))
          | _ \<Rightarrow> Inl JsonError))"

definition ReconcileCommand ::
  "(nat \<Rightarrow> (farm_error, string) result) \<Rightarrow> (json_obj \<Rightarrow> string) \<Rightarrow> command_row \<Rightarrow> unit farm_tx" where
  "ReconcileCommand newID fingerprint c =
     (if obj_get (cmd_payload c) ''operation_source'' \<noteq> Some (JStr ''android_catalog'') \<or> unfinished c then tx_return ()
      else if cmd_type c = ''sync_android_catalog'' then reconcileSync newID c
      else if cmd_type c = ''prepare_android_image'' then reconcilePreparation newID c
      else if cmd_type c = ''validate_image'' then reconcileValidation newID fingerprint c
      else tx_return ())"

end
