(* ===== verification/Host_Commands.thy ===== *)
theory Host_Commands
  imports Host_Heartbeat Image_Catalog
begin

text \<open>
  \<open>internal/hostcommand/service.go\<close> apart from the heartbeat: creating, claiming, completing and
  extending commands, the recovery of expired leases, and what the end of a management command does to
  its device.  Identifiers are arguments.  The fields of a decoded result are those the code reads.
\<close>

section \<open>Inputs and views\<close>

record claim_input =
  cl_LeaseSeconds :: int
  cl_MaxCommands :: int
  cl_WaitSeconds :: int

record completion_error =
  ce_Code :: string
  ce_Retryable :: bool

record completion_input =
  co_LeaseToken :: string
  co_Attempt :: int
  co_Status :: string
  co_Result :: json_obj
  co_Error :: "completion_error option"

record extension_input =
  le_LeaseToken :: string
  le_Attempt :: int
  le_LeaseSeconds :: int

record command_view =
  cv_ID :: string
  cv_HostID :: string
  cv_CommandType :: string
  cv_Payload :: json_obj
  cv_Status :: command_status
  cv_LeaseToken :: "string option"
  cv_LeaseExpiresAt :: "timestamp option"
  cv_Attempt :: int
  cv_MaxAttempts :: int
  cv_Result :: "json_obj option"
  cv_ErrorCode :: "string option"
  cv_CompletedAt :: "timestamp option"

definition toCommand :: "command_row \<Rightarrow> (farm_error, command_view) result" where
  "toCommand c =
     result_bind
       (case cmd_result c of None \<Rightarrow> Inr None | Some JNull \<Rightarrow> Inr None | Some (JObj o') \<Rightarrow> Inr (Some o')
        | Some _ \<Rightarrow> Inl JsonError)
       (\<lambda>result. Inr
         \<lparr>cv_ID = cmd_id c, cv_HostID = cmd_host_id c, cv_CommandType = cmd_type c, cv_Payload = cmd_payload c,
          cv_Status = cmd_status c, cv_LeaseToken = cmd_lease_token c, cv_LeaseExpiresAt = cmd_lease_expires_at c,
          cv_Attempt = cmd_attempts c, cv_MaxAttempts = cmd_max_attempts c, cv_Result = result,
          cv_ErrorCode = cmd_error_code c, cv_CompletedAt = cmd_completed_at c\<rparr>)"

definition translate :: "farm_error \<Rightarrow> farm_error" where
  "translate e =
     (if e = RepoErrNotFound then ErrNotFound
      else if e \<in> {RepoErrIdempotencyConflict, RepoErrLeaseConflict} then ErrConflict else e)"

definition commandPayloadString :: "json_obj \<Rightarrow> string \<Rightarrow> string" where
  "commandPayloadString payload key = TrimSpace (case obj_get payload key of Some (JStr s) \<Rightarrow> s | _ \<Rightarrow> [])"

definition mapValue :: "json_obj \<Rightarrow> string \<Rightarrow> json_obj option" where
  "mapValue values key = (case obj_get values key of Some (JObj o') \<Rightarrow> Some o' | _ \<Rightarrow> None)"

definition validCommandType :: "string \<Rightarrow> bool" where
  "validCommandType t \<longleftrightarrow>
     t \<in> {''create'', ''start'', ''stop'', ''restart'', ''rebuild'', ''delete'', ''inspect'', ''validate_image'',
          ''sync_android_catalog'', ''prepare_android_image''}"

definition errorCodePattern :: "string \<Rightarrow> bool" where
  "errorCodePattern s \<longleftrightarrow>
     3 \<le> length s \<and> length s \<le> 64 \<and> 65 \<le> byte (hd s) \<and> byte (hd s) \<le> 90 \<and>
     list_all (\<lambda>c. (65 \<le> byte c \<and> byte c \<le> 90) \<or> (48 \<le> byte c \<and> byte c \<le> 57) \<or> byte c = 95) s"

section \<open>Results of management commands\<close>

record management_result =
  mr_Platform :: string
  mr_State :: string
  mr_Generation :: int
  mr_ReimageApplied :: bool
  mr_ProfileApplied :: bool
  mr_RollbackRestored :: bool
  mr_Serial :: string
  mr_ProviderID :: string
  mr_ADBEndpoint :: string
  mr_AppiumEndpoint :: string
  mr_AppiumUDID :: string
  mr_Online :: bool
  mr_ADBOnline :: bool
  mr_BootCompleted :: bool
  mr_AppiumHealthy :: bool
  mr_Components :: "(string \<times> string) list"

definition zero_result :: management_result where
  "zero_result =
     \<lparr>mr_Platform = [], mr_State = [], mr_Generation = 0, mr_ReimageApplied = False, mr_ProfileApplied = False,
      mr_RollbackRestored = False, mr_Serial = [], mr_ProviderID = [], mr_ADBEndpoint = [], mr_AppiumEndpoint = [],
      mr_AppiumUDID = [], mr_Online = False, mr_ADBOnline = False, mr_BootCompleted = False,
      mr_AppiumHealthy = False, mr_Components = []\<rparr>"

definition text_field :: "json_obj \<Rightarrow> string \<Rightarrow> string option" where
  "text_field o' name = decode_field o' name [] decode_string"

definition flag_field :: "json_obj \<Rightarrow> string \<Rightarrow> bool option" where
  "flag_field o' name = decode_field o' name False decode_bool"

definition decode_connection :: "json_obj \<Rightarrow> management_result \<Rightarrow> management_result option" where
  "decode_connection o' r =
     Option.bind (text_field o' ''serial'') (\<lambda>serial.
     Option.bind (text_field o' ''provider_id'') (\<lambda>provider.
     Option.bind (text_field o' ''adb_endpoint'') (\<lambda>adb.
     Option.bind (text_field o' ''appium_endpoint'') (\<lambda>appium.
     Option.bind (text_field o' ''appium_udid'') (\<lambda>udid.
       Some (r\<lparr>mr_Serial := serial, mr_ProviderID := provider, mr_ADBEndpoint := adb,
               mr_AppiumEndpoint := appium, mr_AppiumUDID := udid\<rparr>))))))"

definition decode_health :: "json_obj \<Rightarrow> management_result \<Rightarrow> management_result option" where
  "decode_health o' r =
     Option.bind (flag_field o' ''online'') (\<lambda>online.
     Option.bind (flag_field o' ''adb_online'') (\<lambda>adb.
     Option.bind (flag_field o' ''boot_completed'') (\<lambda>boot.
     Option.bind (flag_field o' ''appium_healthy'') (\<lambda>appium.
     Option.bind (Option.bind (nested_members True o' ''components'') (\<lambda>ms. decode_strings (JObj ms))) (\<lambda>components.
       Some (r\<lparr>mr_Online := online, mr_ADBOnline := adb, mr_BootCompleted := boot,
               mr_AppiumHealthy := appium, mr_Components := components\<rparr>))))))"

definition decode_management :: "json_obj \<Rightarrow> management_result option" where
  "decode_management o' =
     Option.bind (text_field o' ''platform'') (\<lambda>platform.
     Option.bind (text_field o' ''state'') (\<lambda>state.
     Option.bind (decode_field o' ''generation'' 0 decode_int) (\<lambda>generation.
     Option.bind (flag_field o' ''reimage_applied'') (\<lambda>reimaged.
     Option.bind (flag_field o' ''runtime_profile_update_applied'') (\<lambda>profiled.
     Option.bind (flag_field o' ''rollback_restored'') (\<lambda>restored.
     Option.bind (nested_members False o' ''connection'') (\<lambda>connection.
     Option.bind (nested_members False o' ''health'') (\<lambda>health.
     Option.bind (decode_connection connection
       (zero_result\<lparr>mr_Platform := platform, mr_State := state, mr_Generation := generation,
          mr_ReimageApplied := reimaged, mr_ProfileApplied := profiled, mr_RollbackRestored := restored\<rparr>))
       (decode_health health)))))))))"

definition component :: "management_result \<Rightarrow> string \<Rightarrow> string" where
  "component r name = (case map_of (rev (mr_Components r)) name of None \<Rightarrow> [] | Some s \<Rightarrow> s)"

definition validManagementOperationResult :: "management_result \<Rightarrow> bool" where
  "validManagementOperationResult r \<longleftrightarrow>
     0 < mr_Generation r \<and> mr_Serial r \<noteq> [] \<and> mr_AppiumEndpoint r \<noteq> [] \<and> mr_AppiumUDID r \<noteq> [] \<and>
     mr_Online r \<and> mr_BootCompleted r \<and> mr_AppiumHealthy r \<and>
     (if EqualFold (mr_Platform r) ''ios''
      then mr_State r = ''running'' \<and>
           list_all (\<lambda>n. component r n = ''passed'') [''transport'', ''os_ready'', ''automation'', ''router'']
      else mr_ADBEndpoint r \<noteq> [] \<and> mr_ADBOnline r)"

text \<open>The result that \<open>json.Unmarshal\<close> reads; \<open>None\<close> is its error.\<close>

definition command_result :: "command_row \<Rightarrow> management_result option" where
  "command_result c = decode_document zero_result decode_management (cmd_result c)"

definition valid_result :: "command_row \<Rightarrow> management_result option" where
  "valid_result c = (case command_result c of None \<Rightarrow> None
     | Some r \<Rightarrow> if validManagementOperationResult r then Some r else None)"

section \<open>Shared steps of the reconciliation\<close>

definition failure_code :: "command_row \<Rightarrow> string" where
  "failure_code c =
     command_error_code (if cmd_status c = CommandSucceeded then ''COMMAND_RESULT_INVALID'' else ''AGENT_COMMAND_FAILED'') c"

text \<open>
  The device after a failed command: unhealthy and quarantined; \<open>skip\<close> where a device that is
  quarantined already may stay so.
\<close>

definition failed_device :: "bool \<Rightarrow> string \<Rightarrow> timestamp \<Rightarrow> Device \<Rightarrow> (farm_error, Device) result" where
  "failed_device skip reason now a =
     result_bind (set_health HealthUnhealthy reason now a) (\<lambda>a.
       if skip \<and> Lifecycle a = DeviceQuarantined then Inr a else move DeviceQuarantined reason now a)"

definition failed_row :: "string \<Rightarrow> timestamp \<Rightarrow> Device \<Rightarrow> device_row \<Rightarrow> device_row" where
  "failed_row reason now a y =
     y\<lparr>dev_lifecycle := Lifecycle a, dev_health := Health a, dev_health_reason := Some reason,
       dev_failures := dev_failures y + 1, dev_updated_at := now\<rparr>"

definition quarantine_failed ::
  "bool \<Rightarrow> device_row \<Rightarrow> string \<Rightarrow> timestamp \<Rightarrow> (device_row \<Rightarrow> device_row) \<Rightarrow> unit farm_tx" where
  "quarantine_failed skip x reason now extra =
     tx_bind (tx_lift (restore_device x)) (\<lambda>a.
     tx_bind (tx_lift (failed_device skip reason now a)) (\<lambda>a.
       update_as_read x (\<lambda>y. extra (failed_row reason now a y))))"

text \<open>
  The connection of the new device, and what a device that answers again gets; \<open>adb\<close> is the stored ADB
  endpoint.
\<close>

definition connected_row ::
  "management_result \<Rightarrow> string option \<Rightarrow> string option \<Rightarrow> timestamp \<Rightarrow> Device \<Rightarrow> device_row \<Rightarrow> device_row" where
  "connected_row r adb reason now a y =
     y\<lparr>dev_serial := mr_Serial r, dev_adb_endpoint := adb, dev_appium_endpoint := Some (mr_AppiumEndpoint r),
       dev_capabilities := obj_put ''appiumUdid'' (JStr (mr_AppiumUDID r)) (dev_capabilities y),
       dev_lifecycle := Lifecycle a, dev_health := Health a, dev_health_reason := reason, dev_failures := 0,
       dev_last_seen_at := Some now, dev_updated_at := now\<rparr>"

definition record_outcome ::
  "(nat \<Rightarrow> (farm_error, string) result) \<Rightarrow> string \<Rightarrow> bool \<Rightarrow> string \<Rightarrow> string \<Rightarrow> json_obj \<Rightarrow> timestamp \<Rightarrow> unit farm_tx" where
  "record_outcome newID deviceID ok event reason payload now =
     tx_bind (tx_lift (newID 0)) (\<lambda>eventID.
     tx_bind (insert_health_event eventID deviceID ''agent''
       (event @ (if ok then ''_succeeded'' else ''_failed'')) (if ok then ''info'' else ''error'') reason payload now)
       (\<lambda>_. tx_return ()))"

definition operation_payload :: "command_row \<Rightarrow> string \<Rightarrow> json_obj" where
  "operation_payload c code =
     [(''command_id'', JStr (cmd_id c)), (''command_type'', JStr (cmd_type c)), (''error_code'', JStr code)]"

section \<open>Deleting and stopping\<close>

definition decode_deleted :: "json_obj \<Rightarrow> bool option" where
  "decode_deleted o' = flag_field o' ''deleted''"

definition reconcileManagementDelete ::
  "(nat \<Rightarrow> (farm_error, string) result) \<Rightarrow> command_row \<Rightarrow> device_row \<Rightarrow> timestamp \<Rightarrow> unit farm_tx" where
  "reconcileManagementDelete newID c x now =
     (let succeeded = (cmd_status c = CommandSucceeded \<and>
             decode_document False decode_deleted (cmd_result c) = Some True);
          code = (if succeeded then [] else failure_code c);
          reason = (if succeeded then ''management delete command removed provider resources''
                    else code @ '': management delete command did not remove provider resources'')
      in tx_bind
        (if succeeded then
           tx_bind (tx_lift (restore_device x)) (\<lambda>a.
           tx_bind (tx_lift (move DeviceDeleted reason now a)) (\<lambda>a.
             update_as_read x (\<lambda>y. y\<lparr>dev_lifecycle := Lifecycle a, dev_health_reason := Some reason,
               dev_stf_serial := None, dev_adb_endpoint := None, dev_appium_endpoint := None, dev_updated_at := now\<rparr>)))
         else quarantine_failed True x reason now (\<lambda>y. y))
        (\<lambda>_. record_outcome newID (dev_id x) succeeded ''device_management_operation'' reason (operation_payload c code) now))"

definition stop_accepted :: "command_row \<Rightarrow> bool" where
  "stop_accepted c \<longleftrightarrow>
     cmd_status c = CommandSucceeded \<and>
     (case command_result c of None \<Rightarrow> False
      | Some r \<Rightarrow> EqualFold (mr_Platform r) ''ios'' \<and> mr_State r = ''stopped'' \<and> 0 < mr_Generation r \<and>
          mr_Serial r \<noteq> [] \<and> mr_AppiumEndpoint r \<noteq> [] \<and> mr_AppiumUDID r \<noteq> [])"

definition stopped_text :: string where
  "stopped_text = ''Simulator '' @ [CHR 0xE5, CHR 0xB7, CHR 0xB2, CHR 0xE5, CHR 0x81, CHR 0x9C, CHR 0xE6, CHR 0xAD, CHR 0xA2]"

definition stop_failed_text :: string where
  "stop_failed_text = [CHR 0xEF, CHR 0xBC, CHR 0x9A, CHR 0xE5, CHR 0x81, CHR 0x9C, CHR 0xE6, CHR 0xAD, CHR 0xA2] @ '' Simulator '' @ [CHR 0xE5, CHR 0xA4, CHR 0xB1, CHR 0xE8, CHR 0xB4, CHR 0xA5]"

definition reconcileManagementStop ::
  "(nat \<Rightarrow> (farm_error, string) result) \<Rightarrow> command_row \<Rightarrow> device_row \<Rightarrow> timestamp \<Rightarrow> unit farm_tx" where
  "reconcileManagementStop newID c x now =
     (let succeeded = stop_accepted c;
          code = (if succeeded then [] else failure_code c);
          reason = (if succeeded then stopped_text else code @ stop_failed_text);
          event = record_outcome newID (dev_id x) succeeded ''device_management_operation'' reason (operation_payload c code) now
      in if succeeded then
           tx_bind (tx_lift (restore_device x)) (\<lambda>a.
           tx_bind (tx_lift (set_health HealthUnknown reason now a)) (\<lambda>a.
             if Lifecycle a \<noteq> DeviceStopped then tx_return ()
             else tx_bind (update_as_read x (\<lambda>y. y\<lparr>dev_health := Health a, dev_health_reason := Some reason,
                      dev_failures := 0, dev_last_seen_at := Some now, dev_updated_at := now\<rparr>)) (\<lambda>_. event)))
         else tx_bind (quarantine_failed False x reason now (\<lambda>y. y)) (\<lambda>_. event))"

section \<open>Starting, restarting, creating and rebuilding\<close>

text \<open>
  The device after a command that made it healthy; \<open>None\<close> where the lifecycle is none that a start
  leads out of, and the code returns without a change.
\<close>

definition started_device :: "string \<Rightarrow> timestamp \<Rightarrow> Device \<Rightarrow> (farm_error, Device option) result" where
  "started_device reason now a =
     result_bind (set_health HealthHealthy reason now a) (\<lambda>a.
     result_bind (if Lifecycle a \<in> {DeviceStopped, DeviceProvisioning} then move DeviceBooting reason now a else Inr a) (\<lambda>a.
       if Lifecycle a \<noteq> DeviceBooting then Inr None
       else result_bind (move DeviceReady reason now a) (\<lambda>a. Inr (Some a))))"

text \<open>A new Android device stays unhealthy until STF has seen it.\<close>

definition awaits_stf :: "command_row \<Rightarrow> management_result \<Rightarrow> bool" where
  "awaits_stf c r \<longleftrightarrow> cmd_type c \<in> {''create'', ''rebuild''} \<and> \<not> EqualFold (mr_Platform r) ''ios''"

definition completed_text :: "command_row \<Rightarrow> string" where
  "completed_text c =
     [CHR 0xE8, CHR 0xAE, CHR 0xBE, CHR 0xE5, CHR 0xA4, CHR 0x87, CHR 0xE7, CHR 0xAE, CHR 0xA1,
       CHR 0xE7, CHR 0x90, CHR 0x86, CHR 0xE5, CHR 0x91, CHR 0xBD, CHR 0xE4, CHR 0xBB, CHR 0xA4,
       CHR 0xE6, CHR 0x89, CHR 0xA7, CHR 0xE8, CHR 0xA1, CHR 0x8C, CHR 0xE5, CHR 0xAE, CHR 0x8C,
       CHR 0xE6, CHR 0x88, CHR 0x90, CHR 0xEF, CHR 0xBC, CHR 0x9A] @ cmd_type c"

definition not_healthy_text :: "command_row \<Rightarrow> string \<Rightarrow> string" where
  "not_healthy_text c code =
     code @ [CHR 0xEF, CHR 0xBC, CHR 0x9A, CHR 0xE8, CHR 0xAE, CHR 0xBE, CHR 0xE5, CHR 0xA4, CHR 0x87,
       CHR 0xE7, CHR 0xAE, CHR 0xA1, CHR 0xE7, CHR 0x90, CHR 0x86, CHR 0xE5, CHR 0x91, CHR 0xBD,
       CHR 0xE4, CHR 0xBB, CHR 0xA4, CHR 0xE6, CHR 0x9C, CHR 0xAA, CHR 0xE4, CHR 0xBA, CHR 0xA7,
       CHR 0xE7, CHR 0x94, CHR 0x9F, CHR 0xE5, CHR 0x81, CHR 0xA5, CHR 0xE5, CHR 0xBA, CHR 0xB7,
       CHR 0xE8, CHR 0xAE, CHR 0xBE, CHR 0xE5, CHR 0xA4, CHR 0x87, CHR 0xEF, CHR 0xBC, CHR 0x88] @
     cmd_type c @ [CHR 0xEF, CHR 0xBC, CHR 0x89]"

definition finish_start ::
  "(nat \<Rightarrow> (farm_error, string) result) \<Rightarrow> command_row \<Rightarrow> management_result \<Rightarrow> device_row \<Rightarrow> timestamp \<Rightarrow> unit farm_tx" where
  "finish_start newID c r x now =
     tx_bind (tx_lift (restore_device x)) (\<lambda>a.
     tx_bind (tx_lift (started_device (completed_text c) now a)) (\<lambda>started.
       case started of None \<Rightarrow> tx_return ()
       | Some a \<Rightarrow>
           tx_bind (tx_lift (if awaits_stf c r then set_health HealthUnhealthy STFReadinessStabilizationReason now a
                             else Inr a)) (\<lambda>a.
           tx_bind (update_as_read x (\<lambda>y. connected_row r
                (if mr_ADBEndpoint r = [] then None else Some (mr_ADBEndpoint r))
                (if awaits_stf c r then Some STFReadinessStabilizationReason else None) now a
                (y\<lparr>dev_provider_ref := (if mr_ProviderID r = [] then dev_provider_ref y else mr_ProviderID r)\<rparr>)))
             (\<lambda>_. record_outcome newID (dev_id x) True ''device_management_operation'' (completed_text c)
                    (operation_payload c []) now))))"

definition reconcile_start ::
  "(nat \<Rightarrow> (farm_error, string) result) \<Rightarrow> command_row \<Rightarrow> device_row \<Rightarrow> timestamp \<Rightarrow> unit farm_tx" where
  "reconcile_start newID c x now =
     (case if cmd_status c = CommandSucceeded then valid_result c else None of
        Some r \<Rightarrow> finish_start newID c r x now
      | None \<Rightarrow>
          tx_bind (quarantine_failed False x (not_healthy_text c (failure_code c)) now (\<lambda>y. y)) (\<lambda>_.
            record_outcome newID (dev_id x) False ''device_management_operation'' (not_healthy_text c (failure_code c))
              (operation_payload c (failure_code c)) now))"

section \<open>Changing the image or the runtime profile\<close>

text \<open>
  Both kinds end in one of three ways: the target was applied, the command failed but the previous
  state was restored, or neither left a healthy device.
\<close>

definition update_code :: "command_row \<Rightarrow> bool \<Rightarrow> string \<Rightarrow> string" where
  "update_code c applied fallback =
     (let code = (case cmd_error_code c of None \<Rightarrow> [] | Some e \<Rightarrow> e)
      in if code = [] \<and> \<not> applied then fallback else code)"

definition update_reason :: "bool \<Rightarrow> bool \<Rightarrow> string \<Rightarrow> string \<Rightarrow> string \<Rightarrow> string \<Rightarrow> string" where
  "update_reason applied restored code done_text restored_text lost_text =
     (if \<not> applied \<and> \<not> restored then code @ lost_text else if restored then code @ restored_text else done_text)"

text \<open>The device ready again but unhealthy until STF has seen it; \<open>None\<close> where nothing is changed.\<close>

definition stabilizing :: "timestamp \<Rightarrow> Device option \<Rightarrow> (farm_error, Device option) result" where
  "stabilizing now a =
     (case a of None \<Rightarrow> Inr None
      | Some d \<Rightarrow> result_bind (set_health HealthUnhealthy STFReadinessStabilizationReason now d) (\<lambda>d. Inr (Some d)))"

definition profiled_device :: "string \<Rightarrow> timestamp \<Rightarrow> Device \<Rightarrow> (farm_error, Device option) result" where
  "profiled_device reason now a =
     result_bind (set_health HealthHealthy reason now a) (\<lambda>a.
     result_bind (if Lifecycle a = DeviceQuarantined then move DeviceProvisioning reason now a else Inr a) (\<lambda>a.
     result_bind (if Lifecycle a = DeviceProvisioning then move DeviceBooting reason now a else Inr a) (\<lambda>a.
     result_bind
       (if Lifecycle a = DeviceBooting then result_bind (move DeviceReady reason now a) (\<lambda>a. Inr (Some a))
        else if Lifecycle a = DeviceReady then Inr (Some a) else Inr None)
       (stabilizing now))))"

definition reimaged_device :: "string \<Rightarrow> timestamp \<Rightarrow> Device \<Rightarrow> (farm_error, Device option) result" where
  "reimaged_device reason now a =
     result_bind (set_health HealthHealthy reason now a) (\<lambda>a.
     result_bind (if Lifecycle a = DeviceProvisioning then move DeviceBooting reason now a else Inr a) (\<lambda>a.
     result_bind
       (if Lifecycle a = DeviceBooting then result_bind (move DeviceReady reason now a) (\<lambda>a. Inr (Some a)) else Inr None)
       (stabilizing now)))"

definition back_in_service :: "management_result \<Rightarrow> timestamp \<Rightarrow> Device \<Rightarrow> device_row \<Rightarrow> device_row" where
  "back_in_service r now a =
     connected_row r (Some (mr_ADBEndpoint r)) (Some STFReadinessStabilizationReason) now a"

text \<open>\<open>json.Marshal\<close> of a missing map is \<open>null\<close>, which the CHECK on the profile of a device refuses.\<close>

definition required_map :: "json_obj option \<Rightarrow> json_obj farm_tx" where
  "required_map v = (case v of None \<Rightarrow> tx_fail (SqlError ''23514'') | Some o' \<Rightarrow> tx_return o')"

definition profile_failed :: "string \<Rightarrow> device_row \<Rightarrow> device_row" where
  "profile_failed reason y =
     y\<lparr>dev_pending_profile := None, dev_profile_update_status := ''failed'', dev_profile_update_error := Some reason\<rparr>"

definition profile_applied :: "json_obj \<Rightarrow> device_row \<Rightarrow> device_row" where
  "profile_applied profile y =
     y\<lparr>dev_profile_override := Some profile, dev_pending_profile := None, dev_profile_update_status := ''idle'',
       dev_profile_update_error := None\<rparr>"

definition reimage_failed :: "string \<Rightarrow> device_row \<Rightarrow> device_row" where
  "reimage_failed reason y =
     y\<lparr>dev_pending_image_id := None, dev_pending_profile := None, dev_reimage_status := ''failed'',
       dev_reimage_error := Some reason\<rparr>"

definition reimage_applied :: "string \<Rightarrow> json_obj \<Rightarrow> json_obj \<Rightarrow> device_row \<Rightarrow> device_row" where
  "reimage_applied imageID profile caps y =
     y\<lparr>dev_image_id := Some imageID, dev_profile_override := Some profile, dev_pending_image_id := None,
       dev_pending_profile := None, dev_reimage_status := ''idle'', dev_reimage_error := None,
       dev_capabilities := obj_merge (dev_capabilities y) caps\<rparr>"

definition update_restored :: "command_row \<Rightarrow> bool" where
  "update_restored c \<longleftrightarrow>
     cmd_status c = CommandFailed \<and> (case valid_result c of None \<Rightarrow> False | Some r \<Rightarrow> mr_RollbackRestored r)"

definition update_applied :: "(management_result \<Rightarrow> bool) \<Rightarrow> command_row \<Rightarrow> bool" where
  "update_applied flag c \<longleftrightarrow>
     cmd_status c = CommandSucceeded \<and> (case valid_result c of None \<Rightarrow> False | Some r \<Rightarrow> flag r)"

definition update_result :: "(management_result \<Rightarrow> bool) \<Rightarrow> command_row \<Rightarrow> management_result option" where
  "update_result flag c = (if update_applied flag c \<or> update_restored c then valid_result c else None)"

definition reconcileManagementRuntimeProfileUpdate ::
  "(nat \<Rightarrow> (farm_error, string) result) \<Rightarrow> command_row \<Rightarrow> device_row \<Rightarrow> timestamp \<Rightarrow> unit farm_tx" where
  "reconcileManagementRuntimeProfileUpdate newID c x now =
     (let applied = update_applied mr_ProfileApplied c;
          code = update_code c applied ''RUNTIME_PROFILE_UPDATE_FAILED'';
          reason = update_reason applied (update_restored c) code ''management runtime profile update applied''
            '': target failed; previous runtime profile was restored''
            '': target and previous runtime profile restore did not produce a healthy device'';
          event = record_outcome newID (dev_id x) applied ''device_runtime_profile_update'' reason
            [(''command_id'', JStr (cmd_id c)), (''command_type'', JStr (cmd_type c)), (''error_code'', JStr code),
             (''rollback_restored'', JBool (update_restored c))] now
      in case update_result mr_ProfileApplied c of
           None \<Rightarrow> tx_bind (quarantine_failed True x reason now (profile_failed reason)) (\<lambda>_. event)
         | Some r \<Rightarrow>
             tx_bind (tx_lift (restore_device x)) (\<lambda>a.
             tx_bind (tx_lift (profiled_device reason now a)) (\<lambda>a.
               case a of None \<Rightarrow> tx_return ()
               | Some a \<Rightarrow>
                   tx_bind
                     (if applied then tx_bind (required_map (mapValue (cmd_payload c) ''runtime_profile''))
                        (\<lambda>profile. update_as_read x (\<lambda>y. back_in_service r now a (profile_applied profile y)))
                      else update_as_read x (\<lambda>y. back_in_service r now a (profile_failed reason y)))
                     (\<lambda>_. event))))"

text \<open>The foreign key from a device to its image.\<close>

definition image_exists :: "string \<Rightarrow> unit farm_tx" where
  "image_exists imageID db =
     (if list_ex (\<lambda>i. img_id i = imageID) (images db) then Inr ((), db) else Inl (SqlError ''23503''))"

definition write_reimaged ::
  "command_row \<Rightarrow> management_result \<Rightarrow> device_row \<Rightarrow> timestamp \<Rightarrow> Device \<Rightarrow> unit farm_tx" where
  "write_reimaged c r x now a =
     tx_bind (required_map (mapValue (cmd_payload c) ''runtime_profile'')) (\<lambda>profile.
     tx_bind (image_exists (commandPayloadString (cmd_payload c) ''image_id'')) (\<lambda>_.
       update_as_read x (\<lambda>y. back_in_service r now a
         (reimage_applied (commandPayloadString (cmd_payload c) ''image_id'') profile
           (case mapValue (cmd_payload c) ''capabilities'' of None \<Rightarrow> [] | Some caps \<Rightarrow> caps) y))))"

definition reconcileManagementReimage ::
  "(nat \<Rightarrow> (farm_error, string) result) \<Rightarrow> command_row \<Rightarrow> device_row \<Rightarrow> timestamp \<Rightarrow> unit farm_tx" where
  "reconcileManagementReimage newID c x now =
     (let applied = update_applied mr_ReimageApplied c;
          code = update_code c applied ''REIMAGE_COMMAND_FAILED'';
          reason = update_reason applied (update_restored c) code ''management reimage applied target image''
            '': target failed; previous image was restored''
            '': target and previous image restore did not produce a healthy device'';
          event = record_outcome newID (dev_id x) applied ''device_reimage'' reason
            [(''command_id'', JStr (cmd_id c)), (''command_type'', JStr (cmd_type c)), (''error_code'', JStr code),
             (''rollback_restored'', JBool (update_restored c)),
             (''target_image_id'', JStr (commandPayloadString (cmd_payload c) ''image_id''))] now
      in case update_result mr_ReimageApplied c of
           None \<Rightarrow> tx_bind (quarantine_failed False x reason now (reimage_failed reason)) (\<lambda>_. event)
         | Some r \<Rightarrow>
             tx_bind (tx_lift (restore_device x)) (\<lambda>a.
             tx_bind (tx_lift (reimaged_device reason now a)) (\<lambda>a.
               case a of None \<Rightarrow> tx_return ()
               | Some a \<Rightarrow>
                   tx_bind (if applied then write_reimaged c r x now a
                            else update_as_read x (\<lambda>y. back_in_service r now a (reimage_failed reason y)))
                     (\<lambda>_. event))))"

section \<open>Reconciling a finished command\<close>

definition expected_state :: "command_row \<Rightarrow> device_lifecycle_status" where
  "expected_state c = lifecycle_of (commandPayloadString (cmd_payload c) ''operation_state'')"

definition operation_kind :: "command_row \<Rightarrow> string" where
  "operation_kind c = commandPayloadString (cmd_payload c) ''operation_kind''"

text \<open>The device is still where the operation put it, or has moved on in a way the code expects.\<close>

definition operation_current :: "command_row \<Rightarrow> device_row \<Rightarrow> bool" where
  "operation_current c x \<longleftrightarrow>
     dev_lifecycle x = expected_state c \<or>
     (cmd_type c = ''rebuild'' \<and> expected_state c = DeviceProvisioning \<and> dev_lifecycle x = DeviceBooting) \<or>
     (operation_kind c = ''runtime_profile_update'' \<and> expected_state c = DeviceProvisioning \<and>
        dev_lifecycle x \<in> {DeviceBooting, DeviceReady, DeviceQuarantined})"

definition reconcile_device ::
  "(nat \<Rightarrow> (farm_error, string) result) \<Rightarrow> command_row \<Rightarrow> device_row \<Rightarrow> timestamp \<Rightarrow> unit farm_tx" where
  "reconcile_device newID c x now db =
     (if cmd_type c = ''delete'' then reconcileManagementDelete newID c x now db
      else if operation_kind c = ''reimage'' then reconcileManagementReimage newID c x now db
      else if operation_kind c = ''runtime_profile_update'' then reconcileManagementRuntimeProfileUpdate newID c x now db
      else if cmd_type c = ''stop'' then reconcileManagementStop newID c x now db
      else reconcile_start newID c x now db)"

definition command_device :: "command_row \<Rightarrow> device_row \<Rightarrow> bool" where
  "command_device c d \<longleftrightarrow>
     dev_id d = commandPayloadString (cmd_payload c) ''device_id'' \<and> dev_host_id d = cmd_host_id c \<and>
     dev_provider_ref d = commandPayloadString (cmd_payload c) ''provider_ref''"

definition reconcile_management :: "(nat \<Rightarrow> (farm_error, string) result) \<Rightarrow> command_row \<Rightarrow> unit farm_tx" where
  "reconcile_management newID c db =
     (if unfinished c \<or>
         commandPayloadString (cmd_payload c) ''operation_source'' \<notin> {''management'', ''self_healing''} then Inr ((), db)
      else if length (commandPayloadString (cmd_payload c) ''device_id'') < 16 \<or>
         commandPayloadString (cmd_payload c) ''provider_ref'' = [] \<or>
         commandPayloadString (cmd_payload c) ''operation_state'' = [] then Inl ErrInvalidArgument
      else case find_row (command_device c) (devices db) of
        None \<Rightarrow> Inr ((), db)
      | Some x \<Rightarrow>
          if \<not> operation_current c x then Inr ((), db)
          else tx_bind (tx_read ClockNow) (reconcile_device newID c x) db)"

definition reconcileManagementOperation ::
  "(nat \<Rightarrow> (farm_error, string) result) \<Rightarrow> (json_obj \<Rightarrow> string) \<Rightarrow> command_row \<Rightarrow> unit farm_tx" where
  "reconcileManagementOperation newID fingerprint c db =
     tx_bind (ReconcileCommand newID fingerprint c) (\<lambda>_. reconcile_management newID c) db"

section \<open>Operations of the service\<close>

text \<open>The connection pool commits a single statement by itself.\<close>

definition viewed :: "(farm_error, command_row) result \<times> farm_db \<Rightarrow> (farm_error, command_view) result \<times> farm_db" where
  "viewed r = (result_bind (fst r) toCommand, snd r)"

definition translated_by :: "(farm_error \<Rightarrow> farm_error) \<Rightarrow> (farm_error, 'a) result \<times> farm_db \<Rightarrow> (farm_error, 'a) result \<times> farm_db" where
  "translated_by f r = ((case fst r of Inl e \<Rightarrow> Inl (f e) | Inr a \<Rightarrow> Inr a), snd r)"

definition command_Create ::
  "(farm_error, string) result \<Rightarrow> string \<Rightarrow> string \<Rightarrow> json_obj \<Rightarrow> int \<Rightarrow> string \<Rightarrow> farm_db \<Rightarrow>
   (farm_error, command_view) result \<times> farm_db" where
  "command_Create newID hostID commandType payload maxAttempts key db =
     (if length hostID < 16 \<or> \<not> validCommandType commandType \<or> maxAttempts < 1 \<or> length key < 8
      then (Inl ErrInvalidArgument, db)
      else case newID of Inl e \<Rightarrow> (Inl e, db)
      | Inr ident \<Rightarrow>
          viewed (translated_by translate (run_tx (Command_Repository.Create
            \<lparr>ccp_ID = ident, ccp_HostID = hostID, ccp_CommandType = commandType, ccp_Payload = RedactMap payload,
             ccp_MaxAttempts = maxAttempts, ccp_IdempotencyKey = key\<rparr>) db)))"

text \<open>
  One poll of the queue: commands are taken until there is none or the limit is reached.  \<open>locked i\<close>
  are the rows that other agents hold at the i-th statement.
\<close>

fun claim_round ::
  "(nat \<Rightarrow> (farm_error, string) result) \<Rightarrow> (nat \<Rightarrow> string list) \<Rightarrow> string \<Rightarrow> duration \<Rightarrow> nat \<Rightarrow> nat \<Rightarrow> farm_db \<Rightarrow>
   (farm_error, command_view list) result \<times> farm_db" where
  "claim_round newID locked hostID lease i 0 db = (Inr [], db)"
| "claim_round newID locked hostID lease i (Suc n) db =
     (case newID i of Inl e \<Rightarrow> (Inl e, db)
      | Inr token \<Rightarrow>
          (case run_tx (ClaimNext (locked i) hostID token lease) db of
             (Inl e, db') \<Rightarrow> if e = RepoErrNotFound then (Inr [], db') else (Inl e, db')
           | (Inr c, db') \<Rightarrow>
               (case toCommand c of Inl e \<Rightarrow> (Inl e, db')
                | Inr v \<Rightarrow>
                    (case claim_round newID locked hostID lease (Suc i) n db' of
                       (Inl e, db'') \<Rightarrow> (Inl e, db'')
                     | (Inr vs, db'') \<Rightarrow> (Inr (v # vs), db'')))))"

text \<open>
  The polls of one request.  Each poll comes with its identifiers, its locked rows, whether the deadline
  has passed after it, whether the request is cancelled while it waits for the next one, and what the
  other components do meanwhile; \<open>None\<close> when the polls given do not suffice.
\<close>

record poll =
  po_newID :: "nat \<Rightarrow> (farm_error, string) result"
  po_locked :: "nat \<Rightarrow> string list"
  po_deadline :: bool
  po_cancelled :: bool
  po_meanwhile :: "farm_db \<Rightarrow> farm_db"

fun claim_polls ::
  "poll list \<Rightarrow> string \<Rightarrow> claim_input \<Rightarrow> farm_db \<Rightarrow> ((farm_error, command_view list) result \<times> farm_db) option" where
  "claim_polls [] hostID input db = None"
| "claim_polls (p # ps) hostID input db =
     (case claim_round (po_newID p) (po_locked p) hostID (cl_LeaseSeconds input * second) 0 (nat (cl_MaxCommands input)) db of
        (Inl e, db') \<Rightarrow> Some (Inl e, db')
      | (Inr vs, db') \<Rightarrow>
          if vs \<noteq> [] \<or> cl_WaitSeconds input = 0 \<or> po_deadline p then Some (Inr vs, db')
          else if po_cancelled p then Some (Inl ContextCanceled, db')
          else claim_polls ps hostID input (po_meanwhile p db'))"

definition command_Claim ::
  "poll list \<Rightarrow> string \<Rightarrow> claim_input \<Rightarrow> farm_db \<Rightarrow> ((farm_error, command_view list) result \<times> farm_db) option" where
  "command_Claim polls hostID input db =
     (if length hostID < 16 \<or> cl_LeaseSeconds input < 5 \<or> 300 < cl_LeaseSeconds input \<or> cl_MaxCommands input < 1 \<or>
         20 < cl_MaxCommands input \<or> cl_WaitSeconds input < 0 \<or> 30 < cl_WaitSeconds input
      then Some (Inl ErrInvalidArgument, db) else claim_polls polls hostID input db)"

definition retry_requested :: "completion_input \<Rightarrow> bool" where
  "retry_requested input = (case co_Error input of None \<Rightarrow> False | Some e \<Rightarrow> ce_Retryable e)"

definition command_status_of :: "string \<Rightarrow> command_status" where
  "command_status_of = status_of command_string
     [CommandPending, CommandLeased, CommandSucceeded, CommandFailed, CommandTimedOut, CommandCanceled] CommandOther"

definition completion_code :: "completion_input \<Rightarrow> (farm_error, string option) result" where
  "completion_code input =
     (case co_Error input of None \<Rightarrow> Inr None
      | Some e \<Rightarrow>
          if TrimSpace (ce_Code e) = [] then Inr None
          else if errorCodePattern (TrimSpace (ce_Code e)) then Inr (Some (TrimSpace (ce_Code e)))
          else Inl ErrInvalidArgument)"

definition completion_tx ::
  "(nat \<Rightarrow> (farm_error, string) result) \<Rightarrow> (json_obj \<Rightarrow> string) \<Rightarrow> string \<Rightarrow> completion_input \<Rightarrow> string option \<Rightarrow>
   command_row farm_tx" where
  "completion_tx newID fingerprint ident input code =
     tx_bind (Command_Repository.Complete ident (co_LeaseToken input) (co_Attempt input)
        (command_status_of (co_Status input)) (JObj (RedactMap (co_Result input))) code (retry_requested input)) (\<lambda>c.
     tx_bind (reconcileManagementOperation newID fingerprint c) (\<lambda>_. tx_return c))"

text \<open>\<open>wall\<close> is the clock of the process.\<close>

definition command_Complete ::
  "(nat \<Rightarrow> (farm_error, string) result) \<Rightarrow> (json_obj \<Rightarrow> string) \<Rightarrow> timestamp \<Rightarrow> string \<Rightarrow> completion_input \<Rightarrow> farm_db \<Rightarrow>
   (farm_error, command_view) result \<times> farm_db" where
  "command_Complete newID fingerprint wall ident input db =
     (if length ident < 16 \<or> length (co_LeaseToken input) < 16 \<or> co_Attempt input < 1 \<or>
         co_Status input \<notin> {''succeeded'', ''failed'', ''timed_out''} then (Inl ErrInvalidArgument, db)
      else
        let target = (if command_status_of (co_Status input) = CommandFailed \<and> retry_requested input
                      then CommandPending else command_status_of (co_Status input))
        in case result_bind (lift_domain (check_transition (RestoreCommand ident CommandLeased) target
                     ''agent command completion'' wall)) (\<lambda>_. completion_code input) of
             Inl e \<Rightarrow> (Inl e, db)
           | Inr code \<Rightarrow> viewed (translated_by translate (run_tx (completion_tx newID fingerprint ident input code) db)))"

definition command_Extend ::
  "string \<Rightarrow> extension_input \<Rightarrow> farm_db \<Rightarrow> (farm_error, command_view) result \<times> farm_db" where
  "command_Extend ident input db =
     (if length ident < 16 \<or> length (le_LeaseToken input) < 16 \<or> le_Attempt input < 1 \<or>
         le_LeaseSeconds input < 5 \<or> 300 < le_LeaseSeconds input then (Inl ErrInvalidArgument, db)
      else viewed (translated_by translate (run_tx (ExtendLease ident (le_LeaseToken input) (le_Attempt input)
             (le_LeaseSeconds input * second)) db)))"

definition recovery_tx ::
  "(nat \<Rightarrow> (farm_error, string) result) \<Rightarrow> (json_obj \<Rightarrow> string) \<Rightarrow> string list \<Rightarrow> command_row farm_tx" where
  "recovery_tx newID fingerprint locked =
     tx_bind (RecoverExpiredLease locked) (\<lambda>c.
     tx_bind (reconcileManagementOperation newID fingerprint c) (\<lambda>_. tx_return c))"

definition RecoverExpiredOnce ::
  "(nat \<Rightarrow> (farm_error, string) result) \<Rightarrow> (json_obj \<Rightarrow> string) \<Rightarrow> string list \<Rightarrow> farm_db \<Rightarrow>
   (farm_error, command_view) result \<times> farm_db" where
  "RecoverExpiredOnce newID fingerprint locked db =
     viewed (translated_by (\<lambda>e. if e = RepoErrNotFound then ErrNoCommand else e)
       (run_tx (recovery_tx newID fingerprint locked) db))"

end
