(* ===== verification/Command_Effects.thy ===== *)
theory Command_Effects
  imports Tx_Relations Host_Commands
begin

text \<open>
  What the end of a host command does: it respects the leases, a device becomes ready only by a result
  that shows a healthy device, and the recovery of expired leases comes to an end.
\<close>

section \<open>The image catalogue\<close>

locale catalogue_writes = tx_relation R for R :: "farm_db \<Rightarrow> farm_db \<Rightarrow> bool" +
  assumes preparation: "relates R (update_preparation ident f)"
    and entry: "relates R (upsert_entry ident i)"
    and image: "relates R (upsert_image row)"
    and queued: "relates R (Command_Repository.Create p)"
begin

lemma failed: "relates R (failPreparation ident code)"
  by (simp add: failPreparation_def preparation)

lemma synced: "relates R (reconcileSync newID c)"
  unfolding reconcileSync_def sync_entry_def
  by (cases "decode_document [] (\<lambda>o'. decode_field o' ''entries'' [] (decode_list (decode_object decode_item))) (cmd_result c)")
    (auto intro!: rules entry)

lemma built: "relates R (accept_build newID c job out p)"
proof -
  let ?m = "\<lambda>e key. tx_bind (tx_lift (newID 0)) (\<lambda>commandID. tx_bind (Command_Repository.Create \<lparr>ccp_ID = commandID,
      ccp_HostID = cmd_host_id c, ccp_CommandType = ''validate_image'',
      ccp_Payload = validation_payload commandID job e p out, ccp_MaxAttempts = 3,
      ccp_IdempotencyKey = key\<rparr>) (\<lambda>created. update_preparation (prep_id job)
        (\<lambda>x. (with_build out x)\<lparr>prep_validation_command_id := Some (cmd_id created), prep_status := ''validating''\<rparr>)))"
  have m: "relates R (?m e key)" for e key by (intro rules preparation queued)
  show ?thesis
    by (rule relatesI) (auto simp: accept_build_def split: option.splits dest: relatesD [OF m] relatesD [OF preparation]
        simp del: tx_bind_Inr)
qed

lemma prepared: "relates R (reconcilePreparation newID c)"
  by (rule relatesI) (auto simp: reconcilePreparation_def Let_def refl split: option.splits if_splits
      dest: relatesD [OF failed] relatesD [OF built])

lemma validated: "relates R (reconcileValidation newID fingerprint c)"
proof -
  let ?m = "\<lambda>row job. tx_bind (tx_lift (newID 0)) (\<lambda>ident. tx_bind (upsert_image (row ident)) (\<lambda>imageID.
      update_preparation (prep_id job)
        (\<lambda>x. x\<lparr>prep_image_id := Some imageID, prep_status := ''cached'', prep_error_code := None\<rparr>)))"
  have m: "relates R (?m row job)" for row job by (intro rules preparation image)
  show ?thesis
    by (rule relatesI) (auto simp: reconcileValidation_def refl split: option.splits if_splits
        dest: relatesD [OF failed] relatesD [OF m] simp del: tx_bind_Inr)
qed

lemma reconciled: "relates R (ReconcileCommand newID fingerprint c)"
  unfolding ReconcileCommand_def by (intro rules synced prepared validated)

end

interpretation catalogue_core: catalogue_writes same_core
proof unfold_locales
  show "relates same_core (update_preparation ident f)" for ident f
    by (rule relatesI) (auto simp: update_preparation_def Let_def same_core_def split: if_splits)
  show "relates same_core (upsert_entry ident i)" for ident i
    by (rule relatesI) (auto simp: upsert_entry_def Let_def same_core_def split: if_splits)
  show "relates same_core (upsert_image row)" for row
    by (rule relatesI) (auto simp: upsert_image_def Let_def same_core_def split: if_splits option.splits)
qed (rule Create_same_core)

interpretation catalogue_lease: catalogue_writes no_new_lease
proof unfold_locales
  show "relates no_new_lease (update_preparation ident f)" for ident f
    by (rule relatesI) (auto simp: update_preparation_def Let_def no_new_lease_def leased_commands_def split: if_splits)
  show "relates no_new_lease (upsert_entry ident i)" for ident i
    by (rule relatesI) (auto simp: upsert_entry_def Let_def no_new_lease_def leased_commands_def split: if_splits)
  show "relates no_new_lease (upsert_image row)" for row
    by (rule relatesI) (auto simp: upsert_image_def Let_def no_new_lease_def leased_commands_def split: if_splits option.splits)
qed (rule Create_no_lease)

text \<open>The catalogue satisfies the contract of the other components.\<close>

interpretation catalogue: respects_holds "ReconcileCommand newID fingerprint c" for newID fingerprint c
proof unfold_locales
  fix db a db'
  assume inv: "farm_inv db" and t: "ReconcileCommand newID fingerprint c db = Inr (a, db')"
  from relatesD [OF catalogue_core.reconciled t] show "other_components db db'"
    by (auto simp: same_core_def intro: other_same [OF inv])
qed

section \<open>The device of a management command\<close>

locale device_writes = tx_relation R for R :: "farm_db \<Rightarrow> farm_db \<Rightarrow> bool" +
  fixes x :: device_row
  assumes as_read: "(\<And>y. dev_id (f y) = dev_id y) \<Longrightarrow> relates R (update_as_read x f)"
    and event: "relates R (insert_health_event i d s t v q p now)"
begin

lemma outcome: "relates R (record_outcome newID d ok e q p now)"
  unfolding record_outcome_def by (intro rules event)

lemma quarantined: "(\<And>y. dev_id (g y) = dev_id y) \<Longrightarrow> relates R (quarantine_failed skip x q now g)"
  unfolding quarantine_failed_def by (intro rules as_read) (simp add: failed_row_def)

lemma required: "relates R (required_map v)"
  unfolding required_map_def by (intro rules)

lemma exists_image: "relates R (image_exists i)"
  by (rule relatesI) (auto simp: image_exists_def refl split: if_splits)

lemmas steps = rules as_read outcome quarantined required exists_image

lemma deleted: "relates R (reconcileManagementDelete newID c x now)"
  unfolding reconcileManagementDelete_def Let_def by (intro steps) simp_all

lemma stopped: "relates R (reconcileManagementStop newID c x now)"
  unfolding reconcileManagementStop_def Let_def by (intro steps) simp_all

lemma started: "relates R (reconcile_start newID c x now)"
  unfolding reconcile_start_def finish_start_def by (intro steps) (simp_all add: connected_row_def)

lemmas row_defs = connected_row_def back_in_service_def profile_applied_def profile_failed_def
  reimage_failed_def reimage_applied_def

lemma profiled: "relates R (reconcileManagementRuntimeProfileUpdate newID c x now)"
  unfolding reconcileManagementRuntimeProfileUpdate_def Let_def
  by (intro steps) (simp_all add: row_defs)

lemma reimaged: "relates R (reconcileManagementReimage newID c x now)"
  unfolding reconcileManagementReimage_def write_reimaged_def Let_def
  by (intro steps) (simp_all add: row_defs)

lemma device: "relates R (reconcile_device newID c x now)"
  by (rule relatesI) (auto simp: reconcile_device_def split: if_splits
      dest: relatesD [OF deleted] relatesD [OF stopped] relatesD [OF started] relatesD [OF profiled] relatesD [OF reimaged])

end

interpretation spared_device: device_writes "spares (dev_id x)" x for x
proof unfold_locales
  fix f :: "device_row \<Rightarrow> device_row"
  assume "\<And>y. dev_id (f y) = dev_id y"
  then show "relates (spares (dev_id x)) (update_as_read x f)"
    unfolding update_as_read_def by (intro spared.rules write_devices_spares) simp
qed (rule same_core_spares [OF write_health_event_core])

interpretation unleased_device: device_writes no_new_lease x for x
  by unfold_locales (auto simp: update_as_read_def intro: no_lease.rules write_devices_no_lease insert_health_event_no_lease)

section \<open>The command itself\<close>

lemma returned_command:
  assumes "tx_bind (update_commands P f) (returning_row e) db = Inr (c, db')"
  obtains k where "k \<in> set (commands db)" and "P k" and "c = f k"
    and "db' = db\<lparr>commands := update_where P f (commands db)\<rparr>"
proof -
  from assms obtain cs where "c # cs = map f (filter P (commands db))"
    "db' = db\<lparr>commands := update_where P f (commands db)\<rparr>"
    by (auto simp: update_commands_Inr)
  with that show ?thesis by (auto elim!: map_filter_ConsD)
qed

text \<open>The row that is finished keeps what the command asks for.\<close>

definition same_request :: "command_row \<Rightarrow> command_row \<Rightarrow> bool" where
  "same_request c k \<longleftrightarrow>
     cmd_id c = cmd_id k \<and> cmd_payload c = cmd_payload k \<and> cmd_type c = cmd_type k \<and> cmd_host_id c = cmd_host_id k"

lemma Complete_row:
  assumes "Command_Repository.Complete ident token n st res code retry db = Inr (c, db1)"
  shows "(\<exists>k\<in>set (commands db). same_request c k) \<and> cmd_result c = Some res \<and>
    (cmd_status c = st \<or> cmd_status c = CommandPending) \<and> same_core db db1"
  using assms unfolding Complete_def by (elim returned_command) (auto simp: same_request_def same_core_def)

lemma fewer_leased:
  assumes "k \<in> set cs" and "P k" and "cmd_status k = CommandLeased"
    and "\<And>c. P c \<Longrightarrow> cmd_status (f c) \<noteq> CommandLeased"
  shows "length (filter (\<lambda>c. cmd_status c = CommandLeased) (update_where P f cs))
    < length (filter (\<lambda>c. cmd_status c = CommandLeased) cs)"
  using assms(1)
proof (induction cs)
  case (Cons c cs)
  have le: "length (filter (\<lambda>c. cmd_status c = CommandLeased) (update_where P f cs))
    \<le> length (filter (\<lambda>c. cmd_status c = CommandLeased) cs)" for cs
    using assms(4) by (induction cs) (auto simp: update_where_def)
  from Cons show ?case
    using assms(2-4) le [of cs] by (auto simp: update_where_def le_imp_less_Suc intro: less_SucI)
qed simp

lemma RecoverExpiredLease_row:
  assumes "RecoverExpiredLease locked db = Inr (c, db1)"
  shows "(\<exists>k\<in>set (commands db). same_request c k) \<and> same_core db db1 \<and> leased_commands db1 < leased_commands db"
proof -
  let ?f = "\<lambda>c. let retry = cmd_attempts c < cmd_max_attempts c
      in c\<lparr>cmd_status := (if retry then CommandPending else CommandTimedOut),
           cmd_lease_token := None, cmd_lease_expires_at := None,
           cmd_error_code := (if retry then None else Some ''COMMAND_ATTEMPTS_EXHAUSTED''),
           cmd_completed_at := (if retry then None else Some (db_clock db)), cmd_updated_at := db_clock db\<rparr>"
  obtain q where q: "q \<in> set (commands db)" "lease_lapsed db q"
    and t: "tx_bind (update_commands (\<lambda>c. cmd_id c = cmd_id q) ?f) (returning_row RepoErrNotFound) db = Inr (c, db1)"
    using assms unfolding RecoverExpiredLease_def by (auto split: option.splits dest: first_by_SomeD simp del: tx_bind_Inr)
  from t obtain k where k: "k \<in> set (commands db)" "c = ?f k"
    and db1: "db1 = db\<lparr>commands := update_where (\<lambda>c. cmd_id c = cmd_id q) ?f (commands db)\<rparr>"
    by (rule returned_command)
  have "cmd_status q = CommandLeased" using q(2) by (simp add: lease_lapsed_def)
  then have "leased_commands db1 < leased_commands db"
    unfolding leased_commands_def db1
    using fewer_leased [OF q(1), of "\<lambda>c. cmd_id c = cmd_id q" ?f] by (simp add: Let_def)
  moreover have "same_request c k" by (simp add: k(2) same_request_def Let_def)
  ultimately show ?thesis using k(1) by (auto simp: db1 same_core_def)
qed

lemma reconcileManagementOperation_eq:
  "reconcileManagementOperation newID fingerprint c =
     tx_bind (ReconcileCommand newID fingerprint c) (\<lambda>_. reconcile_management newID c)"
  by (rule ext) (rule reconcileManagementOperation_def)

section \<open>The leases\<close>

text \<open>
  What the leases need of a command: the state it expects of its device is none that a reservation
  gives, and a change of the runtime profile finds its device free when it finds it quarantined.
\<close>

definition spares_leases :: "farm_db \<Rightarrow> command_row \<Rightarrow> bool" where
  "spares_leases db c \<longleftrightarrow>
     expected_state c \<notin> {DeviceReserved, DeviceBusy, DeviceQuarantined} \<and>
     (if operation_kind c = ''runtime_profile_update''
      then list_all (\<lambda>x. if command_device c x \<and> dev_lifecycle x = DeviceQuarantined then unheld (dev_id x) db else True)
             (devices db)
      else True)"

lemma reconcile_management_others:
  assumes "farm_inv db" and "spares_leases db c" and "reconcile_management newID c db = Inr (u, db')"
  shows "other_components db db'"
proof (cases "find_row (command_device c) (devices db)")
  case None
  then show ?thesis using assms(3) other_refl [OF assms(1)]
    by (auto simp: reconcile_management_def simp del: find_row_None split: if_splits)
next
  case (Some x)
  then have x: "x \<in> set (devices db)" "command_device c x" by (auto dest: find_row_SomeD)
  show ?thesis
  proof (cases "operation_current c x")
    case False
    then show ?thesis
      using assms(3) other_refl [OF assms(1)] Some by (auto simp: reconcile_management_def split: if_splits)
  next
    case True
    have "unheld (dev_id x) db"
    proof (cases "dev_lifecycle x = DeviceQuarantined")
      case True
      with \<open>operation_current c x\<close> assms(2) x show ?thesis
        by (auto simp: operation_current_def spares_leases_def list_all_iff)
    next
      case False
      with True assms(2) have "dev_lifecycle x \<notin> {DeviceReserved, DeviceBusy, DeviceQuarantined}"
        by (auto simp: operation_current_def spares_leases_def)
      then show ?thesis by (rule free_lifecycle_unheld [OF assms(1) x(1)])
    qed
    moreover have "spares (dev_id x) db db'" if "tx_bind (tx_read ClockNow) (reconcile_device newID c x) db = Inr (u, db')"
      using relatesD [OF spared.bind [OF spared.read spared_device.device] that] .
    ultimately show ?thesis
      using assms(1,3) Some True other_refl [OF assms(1)]
      by (auto simp: reconcile_management_def spares_def simp del: tx_bind_Inr split: if_splits)
  qed
qed

lemma spares_leases_request:
  "same_request c k \<Longrightarrow> same_core db db1 \<Longrightarrow> spares_leases db1 c = spares_leases db k"
  by (simp add: same_request_def same_core_def spares_leases_def expected_state_def operation_kind_def
      command_device_def unheld_def)

lemma finished_others:
  assumes "farm_inv db" and "same_core db db1" and "same_request c k" and "spares_leases db k"
    and "reconcileManagementOperation newID fingerprint c db1 = Inr (u, db')"
  shows "other_components db db'"
proof -
  from assms(5) obtain v db2 where t: "ReconcileCommand newID fingerprint c db1 = Inr (v, db2)"
    "reconcile_management newID c db2 = Inr (u, db')"
    unfolding reconcileManagementOperation_eq by (elim tx_bind_InrE)
  have s: "same_core db db2" using assms(2) relatesD [OF catalogue_core.reconciled t(1)] core.trans by blast
  have inv: "farm_inv db2" using s assms(1) same_core_inv by simp
  have "spares_leases db2 c" using spares_leases_request [OF assms(3) s] assms(4) by simp
  with t(2) inv have "other_components db2 db'" by (blast intro: reconcile_management_others)
  moreover have "other_components db db2"
    using s by (intro other_same [OF assms(1)]) (simp_all add: same_core_def)
  ultimately show ?thesis by (blast intro: other_trans)
qed

lemma viewed_Inr:
  "viewed (translated_by f (run_tx m db)) = (Inr v, db') \<Longrightarrow> \<exists>c. m db = Inr (c, db')"
  by (cases "m db") (auto simp: viewed_def translated_by_def run_tx_def)

lemma command_Complete_Inr:
  assumes "command_Complete newID fingerprint wall ident input db = (Inr v, db')"
  obtains code c where "completion_tx newID fingerprint ident input code db = Inr (c, db')"
    and "co_Status input \<in> {''succeeded'', ''failed'', ''timed_out''}"
  using assms unfolding command_Complete_def Let_def
  by (auto split: if_splits sum.splits simp del: result_bind_Inr_iff dest!: viewed_Inr)

lemma RecoverExpiredOnce_Inr:
  assumes "RecoverExpiredOnce newID fingerprint locked db = (Inr v, db')"
  obtains c where "recovery_tx newID fingerprint locked db = Inr (c, db')"
  using assms unfolding RecoverExpiredOnce_def by (blast dest: viewed_Inr)


text \<open>A device that is being created, and the agent that reports it running.\<close>

definition provision_command :: command_row where
  "provision_command =
     \<lparr>cmd_id = ''cmd_0123456789ab'', cmd_host_id = ''host_0123456789a'', cmd_type = ''create'',
      cmd_payload = [(''device_id'', JStr ''dev_0123456789ab''), (''operation_source'', JStr ''management''),
        (''operation_state'', JStr ''provisioning''), (''provider_ref'', JStr ''emulator-01'')],
      cmd_status = CommandLeased, cmd_lease_token = Some ''token_0123456789'', cmd_lease_expires_at = Some (2000 * second),
      cmd_attempts = 1, cmd_max_attempts = 3, cmd_key = ''create-emulator-01'', cmd_result = None, cmd_error_code = None,
      cmd_created_at = 50, cmd_updated_at = 50, cmd_completed_at = None\<rparr>"

definition provision_farm :: farm_db where
  "provision_farm = (farm_with [])
     \<lparr>devices := [farm_device\<lparr>dev_lifecycle := DeviceProvisioning, dev_health := HealthUnknown\<rparr>],
      commands := [provision_command]\<rparr>"

definition running_report :: completion_input where
  "running_report =
     \<lparr>co_LeaseToken = ''token_0123456789'', co_Attempt = 1, co_Status = ''succeeded'',
      co_Result = [(''connection'', JObj [(''adb_endpoint'', JStr ''a''),
          (''appium_endpoint'', JStr ''p''), (''appium_udid'', JStr ''u''), (''serial'', JStr ''s'')]),
        (''generation'', JNum 1),
        (''health'', JObj [(''adb_online'', JBool True), (''appium_healthy'', JBool True),
          (''boot_completed'', JBool True), (''online'', JBool True)])],
      co_Error = None\<rparr>"

lemma provision_reached: "farm_step\<^sup>*\<^sup>* (farm_with []) provision_farm"
proof -
  have "other_components (farm_with []) provision_farm"
    by (simp add: other_components_def provision_farm_def farm_device_def identifierPattern_def is_word_byte_def byte_def)
  then show ?thesis by (blast intro: step_others)
qed

lemma provision_completed:
  "(case command_Complete (\<lambda>_. Inr ''event_0123456789'') (\<lambda>_. []) 1 ''cmd_0123456789ab'' running_report provision_farm of
      (Inr v, db') \<Rightarrow> map (\<lambda>d. (dev_id d, dev_lifecycle d, dev_health d)) (devices db') =
          [(''dev_0123456789ab'', DeviceReady, HealthUnhealthy)]
    | _ \<Rightarrow> False)"
  by code_simp

lemma provision_run:
  obtains v db' where "command_Complete (\<lambda>_. Inr ''event_0123456789'') (\<lambda>_. []) 1 ''cmd_0123456789ab'' running_report
      provision_farm = (Inr v, db')"
    and "map (\<lambda>d. (dev_id d, dev_lifecycle d, dev_health d)) (devices db') =
          [(''dev_0123456789ab'', DeviceReady, HealthUnhealthy)]"
  using provision_completed by (auto split: prod.splits sum.splits)


section \<open>Becoming ready\<close>

definition shows_health :: "command_row \<Rightarrow> bool" where
  "shows_health c \<longleftrightarrow>
     (case valid_result c of None \<Rightarrow> False
      | Some r \<Rightarrow> cmd_status c = CommandSucceeded \<or> cmd_status c = CommandFailed \<and> mr_RollbackRestored r)"

lemma as_read_no_ready:
  assumes "\<And>y. dev_id (f y) = dev_id y" and "\<And>y. dev_lifecycle (f y) \<noteq> DeviceReady \<or> dev_lifecycle (f y) = dev_lifecycle y"
  shows "relates no_new_ready (update_as_read x f)"
  unfolding update_as_read_def using assms(2)
  by (intro no_ready.rules write_devices_no_ready assms(1)) metis

lemma outcome_no_ready: "relates no_new_ready (record_outcome newID d ok e q p now)"
  unfolding record_outcome_def by (intro no_ready.rules same_core_no_ready [OF write_health_event_core])

lemma failed_device_quarantined: "failed_device skip q now a = Inr b \<Longrightarrow> Lifecycle b = DeviceQuarantined"
  by (auto simp: failed_device_def dest: move_done split: if_splits)

lemma quarantine_no_ready:
  assumes "\<And>y. dev_id (g y) = dev_id y" and "\<And>y. dev_lifecycle (g y) = dev_lifecycle y"
  shows "relates no_new_ready (quarantine_failed skip x q now g)"
  unfolding quarantine_failed_def
proof (intro relates_bind_lift as_read_no_ready disjI1)
  fix a b y
  assume "failed_device skip q now a = Inr b"
  then show "dev_lifecycle (g (failed_row q now b y)) \<noteq> DeviceReady"
    by (simp add: assms(2) failed_row_def failed_device_quarantined)
qed (simp add: assms(1) failed_row_def)

lemma delete_no_ready: "relates no_new_ready (reconcileManagementDelete newID c x now)"
  unfolding reconcileManagementDelete_def Let_def
  by (intro no_ready.bind relates_if relates_bind_lift outcome_no_ready quarantine_no_ready as_read_no_ready)
    (auto dest: move_done)

lemma stop_no_ready: "relates no_new_ready (reconcileManagementStop newID c x now)"
  unfolding reconcileManagementStop_def Let_def
  by (intro no_ready.rules outcome_no_ready quarantine_no_ready as_read_no_ready) simp_all

lemma device_no_ready:
  assumes "\<not> shows_health c"
  shows "relates no_new_ready (reconcile_device newID c x now)"
proof -
  have s: "(if cmd_status c = CommandSucceeded then valid_result c else None) = None"
    using assms by (auto simp: shows_health_def split: option.splits)
  have u: "update_result flag c = None" for flag
    using assms by (auto simp: shows_health_def update_result_def update_applied_def update_restored_def split: option.splits)
  have "relates no_new_ready (reconcile_start newID c x now)"
    unfolding reconcile_start_def s option.simps
    by (intro no_ready.bind outcome_no_ready quarantine_no_ready) simp_all
  note start = relatesD [OF this]
  have "relates no_new_ready (reconcileManagementRuntimeProfileUpdate newID c x now)"
    unfolding reconcileManagementRuntimeProfileUpdate_def Let_def u option.simps
    by (intro no_ready.bind outcome_no_ready quarantine_no_ready) (simp_all add: profile_failed_def)
  note profile = relatesD [OF this]
  have "relates no_new_ready (reconcileManagementReimage newID c x now)"
    unfolding reconcileManagementReimage_def Let_def u option.simps
    by (intro no_ready.bind outcome_no_ready quarantine_no_ready) (simp_all add: reimage_failed_def)
  note reimage = relatesD [OF this]
  show ?thesis
    by (rule relatesI) (auto simp: reconcile_device_def split: if_splits dest: start profile reimage
        relatesD [OF delete_no_ready] relatesD [OF stop_no_ready])
qed

lemma operation_no_ready:
  assumes "\<not> shows_health c"
  shows "relates no_new_ready (reconcileManagementOperation newID fingerprint c)"
proof -
  have "relates no_new_ready (reconcile_management newID c)"
  proof (rule relatesI)
    fix db u db'
    assume r: "reconcile_management newID c db = Inr (u, db')"
    have "no_new_ready db db'" if "tx_bind (tx_read ClockNow) (reconcile_device newID c x) db = Inr (u, db')" for x
      using relatesD [OF no_ready.bind [OF no_ready.read device_no_ready [OF assms]] that] .
    with r show "no_new_ready db db'"
      by (auto simp: reconcile_management_def no_ready.refl simp del: tx_bind_Inr split: if_splits option.splits)
  qed
  then show ?thesis
    unfolding reconcileManagementOperation_eq
    by (intro no_ready.bind same_core_no_ready [OF catalogue_core.reconciled])
qed

text \<open>
  C34.  Completing a command makes a device ready only when the reported result shows a healthy device
  with its connection, and either the command succeeded, or it failed and the agent restored the
  previous state of the device.
\<close>

theorem ready_by_valid_result:
  assumes "command_Complete newID fingerprint wall ident input db = (Inr v, db')"
    and "d' \<in> set (devices db')" and "dev_lifecycle d' = DeviceReady"
    and "\<forall>d\<in>set (devices db). dev_id d = dev_id d' \<longrightarrow> dev_lifecycle d \<noteq> DeviceReady"
  shows "\<exists>r. decode_document zero_result decode_management (Some (JObj (RedactMap (co_Result input)))) = Some r \<and>
    validManagementOperationResult r \<and>
    (co_Status input = ''succeeded'' \<or> co_Status input = ''failed'' \<and> mr_RollbackRestored r)"
proof -
  from assms(1) obtain code c db1 where st: "co_Status input \<in> {''succeeded'', ''failed'', ''timed_out''}"
    and t: "Command_Repository.Complete ident (co_LeaseToken input) (co_Attempt input)
        (command_status_of (co_Status input)) (JObj (RedactMap (co_Result input))) code (retry_requested input) db = Inr (c, db1)"
      "reconcileManagementOperation newID fingerprint c db1 = Inr ((), db')"
    by (rule command_Complete_Inr) (auto simp: completion_tx_def)
  note c = Complete_row [OF t(1)]
  have "shows_health c"
  proof (rule ccontr)
    assume "\<not> shows_health c"
    from relatesD [OF operation_no_ready [OF this] t(2)] c assms(2-4) show False
      by (auto simp: no_new_ready_def same_core_def list_all_iff list_ex_iff)
  qed
  then obtain r where r: "valid_result c = Some r"
    "cmd_status c = CommandSucceeded \<or> cmd_status c = CommandFailed \<and> mr_RollbackRestored r"
    by (auto simp: shows_health_def split: option.splits)
  have "command_status_of ''succeeded'' = CommandSucceeded" "command_status_of ''failed'' = CommandFailed"
    "command_status_of ''timed_out'' = CommandTimedOut"
    by code_simp+
  with r c st show ?thesis
    by (auto simp: valid_result_def command_result_def split: option.splits if_splits)
qed

theorem ready_by_valid_result_witness:
  "\<exists>r. decode_document zero_result decode_management (Some (JObj (RedactMap (co_Result running_report)))) = Some r \<and>
    validManagementOperationResult r"
proof (rule provision_run)
  fix v db'
  assume h: "command_Complete (\<lambda>_. Inr ''event_0123456789'') (\<lambda>_. []) 1 ''cmd_0123456789ab'' running_report
      provision_farm = (Inr v, db')"
    "map (\<lambda>d. (dev_id d, dev_lifecycle d, dev_health d)) (devices db') =
          [(''dev_0123456789ab'', DeviceReady, HealthUnhealthy)]"
  from h(2) obtain d' where d': "d' \<in> set (devices db')" "dev_lifecycle d' = DeviceReady" by auto
  show ?thesis
    using ready_by_valid_result [OF h(1) d'] by (auto simp: provision_farm_def)
qed

section \<open>The recovery loop\<close>

lemma management_no_lease: "relates no_new_lease (reconcile_management newID c)"
proof (rule relatesI)
  fix db u db'
  assume r: "reconcile_management newID c db = Inr (u, db')"
  have "no_new_lease db db'" if "tx_bind (tx_read ClockNow) (reconcile_device newID c x) db = Inr (u, db')" for x
    using relatesD [OF no_lease.bind [OF no_lease.read unleased_device.device] that] .
  with r show "no_new_lease db db'"
    by (auto simp: reconcile_management_def no_lease.refl simp del: tx_bind_Inr split: if_splits option.splits)
qed

lemma recovery_shrinks:
  assumes "RecoverExpiredOnce newID fingerprint locked db = (Inr v, db')"
  shows "leased_commands db' < leased_commands db"
  using assms
proof (rule RecoverExpiredOnce_Inr)
  fix c
  assume "recovery_tx newID fingerprint locked db = Inr (c, db')"
  then obtain db1 u where t: "RecoverExpiredLease locked db = Inr (c, db1)"
    "reconcileManagementOperation newID fingerprint c db1 = Inr (u, db')"
    by (auto simp: recovery_tx_def)
  have "relates no_new_lease (reconcileManagementOperation newID fingerprint c)"
    unfolding reconcileManagementOperation_eq by (intro no_lease.bind catalogue_lease.reconciled management_no_lease)
  from relatesD [OF this t(2)] RecoverExpiredLease_row [OF t(1)] show ?thesis by (simp add: no_new_lease_def)
qed

text \<open>One turn of \<open>RunLeaseRecovery\<close>; the identifiers and the locked rows may differ from call to call.\<close>

definition recovery_turn ::
  "(farm_db \<Rightarrow> nat \<Rightarrow> (farm_error, string) result) \<Rightarrow> (json_obj \<Rightarrow> string) \<Rightarrow> (farm_db \<Rightarrow> string list) \<Rightarrow> nat \<Rightarrow> farm_db \<Rightarrow>
   (farm_error \<times> farm_db) option" where
  "recovery_turn newID fingerprint locked fuel db =
     drain fuel (\<lambda>s. RecoverExpiredOnce (newID s) fingerprint (locked s) s) db"

interpretation recovery: drain_loop
  "\<lambda>s. RecoverExpiredOnce (newID s) fingerprint (locked s) s" "\<lambda>_. True" leased_commands
  for newID fingerprint locked
  by unfold_locales (simp, metis prod.collapse recovery_shrinks)

text \<open>
  C35.  A turn of the lease recovery ends: it makes at most one call more than there are leased
  commands, whatever the ended commands do to their devices and to the catalogue.
\<close>

theorem recovery_turn_ends:
  "\<exists>e db'. recovery_turn newID fingerprint locked (Suc (leased_commands db)) db = Some (e, db')"
  unfolding recovery_turn_def by (rule recovery.drain_ends) simp_all

end
