(* ===== verification/Reconciler.thy ===== *)
theory Reconciler
  imports Device_Statements Scheduler Providers
begin

text \<open>
  \<open>internal/reconcile/service.go\<close>: the loop that compares what the database says of each device with
  what its host, its provider and STF say.  It records health events, counts consecutive failures,
  quarantines, recovers, and queues restarts.  The provider, STF, the process clock and the generator
  of identifiers are fields of \<open>reconcile_env\<close>, the first argument of each being the position of the
  device in the round; \<open>re_meanwhile\<close> is what other transactions do before that device.
\<close>

section \<open>Inputs\<close>

record event_input =
  ei_Source :: string
  ei_EventType :: string
  ei_Severity :: string
  ei_Reason :: string
  ei_ObservedAt :: timestamp
  ei_Payload :: "json_obj option"
  ei_ForceQuarantine :: bool
  ei_SuppressQuarantine :: bool
  ei_SuppressFailureCount :: bool

record device_state =
  ds_ID :: string
  ds_HostID :: string
  ds_Platform :: string
  ds_ProviderRef :: string
  ds_Serial :: string
  ds_Lifecycle :: device_lifecycle_status
  ds_Health :: health_status
  ds_HealthReason :: string
  ds_AssignmentTarget :: string
  ds_ConsecutiveFailures :: int
  ds_HostStatus :: host_status
  ds_OperationInFlight :: bool
  ds_DeletionInFlight :: bool
  ds_LatestProvisionedAt :: "timestamp option"
  ds_STFFailureStartedAt :: "timestamp option"
  ds_HostFailureStartedAt :: "timestamp option"

record reconcile_result =
  rr_HostsMarkedOffline :: int
  rr_DevicesChecked :: int
  rr_EventsRecorded :: int
  rr_DevicesQuarantined :: int
  rr_DevicesRecovered :: int
  rr_RestartsQueued :: int

definition zero_round :: reconcile_result where
  "zero_round = \<lparr>rr_HostsMarkedOffline = 0, rr_DevicesChecked = 0, rr_EventsRecorded = 0,
     rr_DevicesQuarantined = 0, rr_DevicesRecovered = 0, rr_RestartsQueued = 0\<rparr>"

text \<open>What \<open>InspectHealth\<close> answers: the health, or the code of the error with its text.\<close>

datatype inspection = Inspected provider_health | InspectFailed string string

record reconcile_env =
  re_inspect :: "(nat \<Rightarrow> string \<Rightarrow> inspection) option"
  re_visible :: "(nat \<Rightarrow> string \<Rightarrow> (string, bool) result) option"
  re_visibilityGrace :: duration
  re_hostRecoveryGrace :: duration
  re_failureThreshold :: int
  re_newID :: "nat \<Rightarrow> nat \<Rightarrow> (farm_error, string) result"
  re_wall :: "nat \<Rightarrow> timestamp"
  re_meanwhile :: "nat \<Rightarrow> farm_db \<Rightarrow> farm_db"

definition new_reconciler :: "reconcile_env \<Rightarrow> reconcile_env" where
  "new_reconciler env =
     env\<lparr>re_failureThreshold := (if re_failureThreshold env < 1 then 3 else re_failureThreshold env),
         re_visibilityGrace := max 0 (re_visibilityGrace env),
         re_hostRecoveryGrace := max 0 (re_hostRecoveryGrace env)\<rparr>"

definition validEvent :: "string \<Rightarrow> event_input \<Rightarrow> bool" where
  "validEvent deviceID input \<longleftrightarrow>
     16 \<le> length deviceID \<and> TrimSpace (ei_EventType input) \<noteq> [] \<and> TrimSpace (ei_Reason input) \<noteq> [] \<and>
     \<not> is_zero_time (ei_ObservedAt input) \<and>
     ei_Source input \<in> {''agent'', ''provider'', ''adb'', ''appium'', ''stf'', ''reconciler''} \<and>
     ei_Severity input \<in> {''info'', ''warning'', ''error'', ''critical''}"

definition healthOutcome :: "device_state \<Rightarrow> event_input \<Rightarrow> health_status \<times> int" where
  "healthOutcome d input =
     (let failures = (if ei_SuppressFailureCount input then ds_ConsecutiveFailures d
                      else ds_ConsecutiveFailures d + 1)
      in if ei_Severity input = ''info'' then
           (if ei_EventType input = ''health_recovered'' then (HealthHealthy, 0)
            else (ds_Health d, ds_ConsecutiveFailures d))
         else if ei_Severity input = ''warning'' then (HealthDegraded, failures)
         else (HealthUnhealthy, failures))"

section \<open>Reading devices\<close>

definition reason_text :: "device_row \<Rightarrow> string" where
  "reason_text x = (case dev_health_reason x of None \<Rightarrow> [] | Some s \<Rightarrow> s)"

text \<open>\<open>lockDevice\<close>, with the columns it leaves out at their zero values, and \<open>getDevice\<close>.\<close>

definition locked_state :: "farm_db \<Rightarrow> device_row \<Rightarrow> host_row \<Rightarrow> device_state" where
  "locked_state db x h =
     \<lparr>ds_ID = dev_id x, ds_HostID = dev_host_id x, ds_Platform = [], ds_ProviderRef = dev_provider_ref x,
      ds_Serial = dev_serial x, ds_Lifecycle = dev_lifecycle x, ds_Health = dev_health x,
      ds_HealthReason = reason_text x, ds_AssignmentTarget = assignment_target db (dev_id x),
      ds_ConsecutiveFailures = dev_failures x, ds_HostStatus = host_status h, ds_OperationInFlight = False,
      ds_DeletionInFlight = False, ds_LatestProvisionedAt = None, ds_STFFailureStartedAt = None,
      ds_HostFailureStartedAt = None\<rparr>"

definition lockDevice :: "string \<Rightarrow> farm_db \<Rightarrow> (farm_error, device_row \<times> device_state) result" where
  "lockDevice deviceID db =
     (case find_row (\<lambda>x. dev_id x = deviceID) (devices db) of
        None \<Rightarrow> Inl ErrNotFound
      | Some x \<Rightarrow> (case host_of db x of None \<Rightarrow> Inl ErrNotFound | Some h \<Rightarrow> Inr (x, locked_state db x h)))"

definition getDevice :: "string \<Rightarrow> farm_db \<Rightarrow> (farm_error, device_state) result" where
  "getDevice deviceID db =
     result_bind (lockDevice deviceID db)
       (\<lambda>xd. Inr ((snd xd)\<lparr>ds_HealthReason := [], ds_AssignmentTarget := []\<rparr>))"

definition least_time :: "timestamp list \<Rightarrow> timestamp option" where
  "least_time ts = (if ts = [] then None else Some (Min (set ts)))"

definition latest_time :: "timestamp list \<Rightarrow> timestamp option" where
  "latest_time ts = (if ts = [] then None else Some (Max (set ts)))"

definition present :: "'a option list \<Rightarrow> 'a list" where
  "present xs = map the (filter (\<lambda>x. x \<noteq> None) xs)"

definition stf_outage_start :: "farm_db \<Rightarrow> device_row \<Rightarrow> timestamp option" where
  "stf_outage_start db x =
     least_time (map he_observed_at (take (nat (dev_failures x))
       (rev (sort_key he_created_at
         (filter (\<lambda>e. he_device_id e = dev_id x \<and> he_event_type e = ''stf_not_visible'') (health_events db))))))"

definition host_outage_start :: "host_row \<Rightarrow> timestamp option" where
  "host_outage_start h =
     (case host_failure_started_at h of
        Some t \<Rightarrow> Some t
      | None \<Rightarrow> if host_status h = HostOnline then None
                else case host_last_heartbeat_at h of Some t \<Rightarrow> Some t | None \<Rightarrow> Some (host_updated_at h))"

definition listed_state :: "farm_db \<Rightarrow> device_row \<Rightarrow> host_row \<Rightarrow> device_state" where
  "listed_state db x h =
     (locked_state db x h)
       \<lparr>ds_Platform := dev_platform x,
        ds_OperationInFlight := list_ex (\<lambda>c. command_on (dev_id x) c \<and>
          cmd_type c \<in> {''create'', ''rebuild'', ''reimage'', ''restart'', ''start''} \<and> unfinished c) (commands db),
        ds_DeletionInFlight := list_ex (\<lambda>c. command_on (dev_id x) c \<and> cmd_type c = ''delete'' \<and> unfinished c) (commands db),
        ds_LatestProvisionedAt := latest_time (present (map cmd_completed_at (filter (\<lambda>c. command_on (dev_id x) c \<and>
          cmd_type c \<in> {''create'', ''rebuild''} \<and> cmd_status c = CommandSucceeded) (commands db)))),
        ds_STFFailureStartedAt := stf_outage_start db x,
        ds_HostFailureStartedAt := host_outage_start h\<rparr>"

definition listDevices :: "farm_db \<Rightarrow> device_state list" where
  "listDevices db =
     concat (map (\<lambda>x. case host_of db x of None \<Rightarrow> [] | Some h \<Rightarrow> [listed_state db x h])
       (sort_key (\<lambda>x. (dev_created_at x, dev_id x)) (devices db)))"

section \<open>Reporting an event\<close>

text \<open>Out of a quarantine: through a boot to ready, and on to what an open reservation expects.\<close>

definition recoverDeviceLifecycle :: "string \<Rightarrow> string \<Rightarrow> timestamp \<Rightarrow> Device \<Rightarrow> (farm_error, Device) result" where
  "recoverDeviceLifecycle target reason now d =
     result_bind (move_all [DeviceProvisioning, DeviceBooting, DeviceReady] reason now d) (\<lambda>d.
     result_bind (if target \<in> {''reserved'', ''busy''} then move DeviceReserved reason now d else Inr d) (\<lambda>d.
       if target = ''busy'' then move DeviceBusy reason now d else Inr d))"

definition report_recovers :: "device_row \<Rightarrow> device_state \<Rightarrow> event_input \<Rightarrow> bool" where
  "report_recovers x d input \<longleftrightarrow>
     ei_EventType input = ''health_recovered'' \<and> fst (healthOutcome d input) = HealthHealthy \<and>
     dev_lifecycle x = DeviceQuarantined \<and> IsSystemRecoverableHealthReason (ds_HealthReason d)"

definition quarantine_due :: "int \<Rightarrow> device_state \<Rightarrow> event_input \<Rightarrow> bool" where
  "quarantine_due threshold d input \<longleftrightarrow>
     ei_ForceQuarantine input \<or> (\<not> ei_SuppressQuarantine input \<and> threshold \<le> snd (healthOutcome d input))"

definition reported_device ::
  "int \<Rightarrow> device_row \<Rightarrow> device_state \<Rightarrow> event_input \<Rightarrow> timestamp \<Rightarrow> (farm_error, Device) result" where
  "reported_device threshold x d input now =
     result_bind (restore_device x) (\<lambda>a.
     result_bind (set_health (fst (healthOutcome d input)) (ei_Reason input) now a) (\<lambda>a.
     result_bind (if report_recovers x d input
                  then recoverDeviceLifecycle (ds_AssignmentTarget d) (ei_Reason input) now a else Inr a) (\<lambda>a.
       if quarantine_due threshold d input \<and> Lifecycle a \<noteq> DeviceQuarantined
       then move DeviceQuarantined (ei_Reason input) now a else Inr a)))"

definition event_row :: "event_input \<Rightarrow> int \<Rightarrow> Device \<Rightarrow> timestamp \<Rightarrow> device_row \<Rightarrow> device_row" where
  "event_row input failures a now y =
     y\<lparr>dev_lifecycle := Lifecycle a, dev_health := Health a, dev_health_reason := Some (ei_Reason input),
       dev_failures := failures,
       dev_last_seen_at := (if Health a = HealthHealthy then Some now else dev_last_seen_at y),
       dev_updated_at := now\<rparr>"

definition report_tx :: "int \<Rightarrow> string \<Rightarrow> string \<Rightarrow> event_input \<Rightarrow> health_event_row farm_tx" where
  "report_tx threshold ident deviceID input =
     tx_bind (tx_read (lockDevice deviceID)) (\<lambda>xd.
     tx_bind (tx_read ClockNow) (\<lambda>now.
     tx_bind (tx_lift (reported_device threshold (fst xd) (snd xd) input now)) (\<lambda>a.
     tx_bind (write_devices (\<lambda>y. dev_id y = dev_id (fst xd))
       (event_row input (snd (healthOutcome (snd xd) input)) a now)) (\<lambda>_.
       insert_health_event ident (dev_id (fst xd)) (ei_Source input) (ei_EventType input) (ei_Severity input)
         (ei_Reason input) (case ei_Payload input of None \<Rightarrow> [] | Some p \<Rightarrow> p) (ei_ObservedAt input)))))"

definition redacted :: "event_input \<Rightarrow> event_input" where
  "redacted input =
     input\<lparr>ei_Reason := RedactText (ei_Reason input),
           ei_Payload := Some (RedactMap (case ei_Payload input of None \<Rightarrow> [] | Some p \<Rightarrow> p))\<rparr>"

definition Report ::
  "int \<Rightarrow> (nat \<Rightarrow> (farm_error, string) result) \<Rightarrow> string \<Rightarrow> event_input \<Rightarrow> farm_db \<Rightarrow>
   (farm_error, health_event_row) result \<times> farm_db" where
  "Report threshold newID deviceID input db =
     (if \<not> validEvent deviceID input then (Inl ErrInvalidArgument, db)
      else case newID 0 of
        Inl e \<Rightarrow> (Inl e, db)
      | Inr ident \<Rightarrow> run_tx (report_tx threshold ident deviceID (redacted input)) db)"

section \<open>Queueing restarts\<close>

definition self_restart :: "string \<Rightarrow> command_row \<Rightarrow> bool" where
  "self_restart deviceID c \<longleftrightarrow>
     command_on deviceID c \<and> arrow_text (cmd_payload c) ''operation_source'' = Some ''self_healing'' \<and>
     cmd_type c = ''restart''"

definition last_seen :: "device_row \<Rightarrow> timestamp" where
  "last_seen x = (case dev_last_seen_at x of None \<Rightarrow> dev_created_at x | Some t \<Rightarrow> t)"

definition restart_over :: "command_row \<Rightarrow> timestamp" where
  "restart_over c = (case cmd_completed_at c of None \<Rightarrow> cmd_updated_at c | Some t \<Rightarrow> t)"

text \<open>An operator has released the device from quarantine after the command was created.\<close>

definition released_since :: "farm_db \<Rightarrow> string \<Rightarrow> timestamp \<Rightarrow> bool" where
  "released_since db deviceID t \<longleftrightarrow>
     list_ex (\<lambda>a. aud_resource_type a = ''device'' \<and> aud_resource_id a = deviceID \<and>
       aud_action a = ''unquarantine_device'' \<and> t < aud_created_at a) (audits db)"

definition last_self_restart :: "farm_db \<Rightarrow> string \<Rightarrow> command_row option" where
  "last_self_restart db deviceID =
     last_by (\<lambda>c. (cmd_created_at c, cmd_id c))
       (\<lambda>c. self_restart deviceID c \<and> cmd_status c \<in> {CommandSucceeded, CommandFailed, CommandTimedOut})
       (commands db)"

text \<open>The incident that the last restart was for is not over.\<close>

definition same_incident :: "farm_db \<Rightarrow> device_row \<Rightarrow> bool" where
  "same_incident db x \<longleftrightarrow>
     (case last_self_restart db (dev_id x) of
        None \<Rightarrow> False
      | Some c \<Rightarrow> last_seen x \<le> restart_over c \<and> \<not> released_since db (dev_id x) (cmd_created_at c))"

definition managed_android :: "farm_db \<Rightarrow> string \<Rightarrow> bool" where
  "managed_android db deviceID \<longleftrightarrow>
     list_ex (\<lambda>m. pd_device_id m = deviceID \<and> pd_enabled m \<and>
       list_ex (\<lambda>p. pool_id p = pd_pool_id m \<and> pool_platform p = ''android'' \<and> pool_status p = PoolActive \<and>
         0 < pool_total_target p) (pools db)) (pool_devices db)"

definition nobody_uses :: "farm_db \<Rightarrow> string \<Rightarrow> bool" where
  "nobody_uses db deviceID \<longleftrightarrow>
     \<not> list_ex (\<lambda>r. rsv_device_id r = Some deviceID \<and>
          rsv_status r \<in> {ReservationPending, ReservationActive}) (reservations db) \<and>
     \<not> list_ex (\<lambda>s. ses_device_id s = deviceID \<and>
          ses_status s \<in> {SessionStarting, SessionActive, SessionClosing}) (sessions db) \<and>
     \<not> list_ex (\<lambda>c. command_on deviceID c \<and> unfinished c) (commands db)"

definition restart_candidate :: "bool \<Rightarrow> farm_db \<Rightarrow> string \<Rightarrow> device_row \<Rightarrow> bool" where
  "restart_candidate allowStopped db deviceID x \<longleftrightarrow>
     dev_id x = deviceID \<and>
     (dev_lifecycle x = DeviceQuarantined \<or> allowStopped \<and> dev_lifecycle x = DeviceStopped) \<and>
     (case host_of db x of None \<Rightarrow> False | Some h \<Rightarrow> host_status h = HostOnline \<and> \<not> host_draining h) \<and>
     managed_android db deviceID \<and> nobody_uses db deviceID \<and> \<not> same_incident db x"

text \<open>The last stop, start or restart that an operator ordered and that succeeded.\<close>

definition latest_management_action :: "farm_db \<Rightarrow> string \<Rightarrow> string" where
  "latest_management_action db deviceID =
     (case last_by (\<lambda>c. (case cmd_completed_at c of None \<Rightarrow> (0 :: int, 0 :: int) | Some t \<Rightarrow> (1, t), cmd_id c))
             (\<lambda>c. command_on deviceID c \<and> arrow_text (cmd_payload c) ''operation_source'' = Some ''management'' \<and>
                cmd_type c \<in> {''stop'', ''start'', ''restart''} \<and> cmd_status c = CommandSucceeded) (commands db) of
        None \<Rightarrow> [] | Some c \<Rightarrow> cmd_type c)"

definition restart_wanted :: "bool \<Rightarrow> string \<Rightarrow> device_row \<Rightarrow> bool" where
  "restart_wanted allowStopped action x \<longleftrightarrow>
     dev_platform x = ''android'' \<and>
     (dev_lifecycle x = DeviceQuarantined \<longrightarrow>
        reason_text x = AgentReportedUnhealthyReason \<or> IsSTFFailureReason (reason_text x)) \<and>
     (dev_lifecycle x = DeviceStopped \<longrightarrow> allowStopped \<and> action \<noteq> ''stop'')"

definition unhealthy_restart_text :: string where
  "unhealthy_restart_text =
     [CHR 0xE7, CHR 0xB3, CHR 0xBB, CHR 0xE7, CHR 0xBB, CHR 0x9F, CHR 0xE5, CHR 0x81, CHR 0xA5, CHR
      0xE5, CHR 0xBA, CHR 0xB7, CHR 0xE6, CHR 0xA3, CHR 0x80, CHR 0xE6, CHR 0x9F, CHR 0xA5, CHR
      0xE6, CHR 0x8C, CHR 0x81, CHR 0xE7, CHR 0xBB, CHR 0xAD, CHR 0xE5, CHR 0xA4, CHR 0xB1, CHR
      0xE8, CHR 0xB4, CHR 0xA5, CHR 0xEF, CHR 0xBC, CHR 0x8C, CHR 0xE9, CHR 0x9D, CHR 0x9E, CHR
      0xE7, CHR 0xA0, CHR 0xB4, CHR 0xE5, CHR 0x9D, CHR 0x8F, CHR 0xE9, CHR 0x87, CHR 0x8D, CHR
      0xE5, CHR 0x90, CHR 0xAF, CHR 0xE5, CHR 0x8E, CHR 0x9F, CHR 0xE8, CHR 0xAE, CHR 0xBE, CHR
      0xE5, CHR 0xA4, CHR 0x87]"

definition stopped_restart_text :: string where
  "stopped_restart_text =
     [CHR 0xE6, CHR 0xB4, CHR 0xBB, CHR 0xE5, CHR 0x8A, CHR 0xA8, CHR 0xE8, CHR 0xAE, CHR 0xBE, CHR
      0xE5, CHR 0xA4, CHR 0x87, CHR 0xE6, CHR 0xB1, CHR 0xA0, CHR 0xE4, CHR 0xB8, CHR 0xAD, CHR
      0xE7, CHR 0x9A, CHR 0x84] @ '' Android '' @ [CHR 0xE6, CHR 0xA8, CHR 0xA1, CHR 0xE6, CHR 0x8B,
      CHR 0x9F, CHR 0xE5, CHR 0x99, CHR 0xA8, CHR 0xE6, CHR 0x84, CHR 0x8F, CHR 0xE5, CHR 0xA4, CHR
      0x96, CHR 0xE5, CHR 0x81, CHR 0x9C, CHR 0xE6, CHR 0xAD, CHR 0xA2, CHR 0xEF, CHR 0xBC, CHR
      0x8C, CHR 0xE7, CHR 0xB3, CHR 0xBB, CHR 0xE7, CHR 0xBB, CHR 0x9F, CHR 0xE8, CHR 0x87, CHR
      0xAA, CHR 0xE5, CHR 0x8A, CHR 0xA8, CHR 0xE9, CHR 0x9D, CHR 0x9E, CHR 0xE7, CHR 0xA0, CHR
      0xB4, CHR 0xE5, CHR 0x9D, CHR 0x8F, CHR 0xE9, CHR 0x87, CHR 0x8D, CHR 0xE5, CHR 0x90, CHR
      0xAF, CHR 0xE5, CHR 0x8E, CHR 0x9F, CHR 0xE8, CHR 0xAE, CHR 0xBE, CHR 0xE5, CHR 0xA4, CHR
      0x87]"

definition restart_reason :: "device_row \<Rightarrow> string" where
  "restart_reason x = (if dev_lifecycle x = DeviceStopped then stopped_restart_text else unhealthy_restart_text)"

definition restarted_device :: "device_row \<Rightarrow> timestamp \<Rightarrow> (farm_error, Device) result" where
  "restarted_device x now =
     result_bind (restore_device x) (\<lambda>a.
     result_bind (set_health HealthUnknown (restart_reason x) now a) (\<lambda>a.
       move (if dev_lifecycle x = DeviceStopped then DeviceBooting else DeviceProvisioning) (restart_reason x) now a))"

definition self_heal_key :: "string \<Rightarrow> string" where
  "self_heal_key commandID = ''self-heal-restart-'' @ commandID"

definition restart_params :: "string \<Rightarrow> device_row \<Rightarrow> Device \<Rightarrow> json_obj \<Rightarrow> create_command_params" where
  "restart_params commandID x a profile =
     \<lparr>ccp_ID = commandID, ccp_HostID = dev_host_id x, ccp_CommandType = ''restart'',
      ccp_Payload =
        [(''device_id'', JStr (dev_id x)), (''host_id'', JStr (dev_host_id x)),
         (''operation_source'', JStr ''self_healing''),
         (''operation_state'', JStr (device_lifecycle_string (Lifecycle a))),
         (''previous_reason'', JStr (reason_text x)), (''provider_ref'', JStr (dev_provider_ref x)),
         (''runtime_profile'', JObj profile)],
      ccp_MaxAttempts = 3, ccp_IdempotencyKey = self_heal_key commandID\<rparr>"

definition restarted_row :: "string \<Rightarrow> Device \<Rightarrow> timestamp \<Rightarrow> device_row \<Rightarrow> device_row" where
  "restarted_row reason a now y =
     y\<lparr>dev_lifecycle := Lifecycle a, dev_health := Health a, dev_health_reason := Some reason, dev_updated_at := now\<rparr>"

definition restart_statements ::
  "(nat \<Rightarrow> (farm_error, string) result) \<Rightarrow> device_row \<Rightarrow> json_obj \<Rightarrow> bool farm_tx" where
  "restart_statements newID x profile =
     tx_bind (tx_read ClockNow) (\<lambda>now.
     tx_bind (tx_lift (restarted_device x now)) (\<lambda>a.
     tx_bind (tx_lift (newID 0)) (\<lambda>commandID.
     tx_bind (insert_command (restart_params commandID x a profile)) (\<lambda>_.
     tx_bind (update_as_read x (restarted_row (restart_reason x) a now)) (\<lambda>_.
     tx_bind (tx_lift (newID 1)) (\<lambda>eventID.
     tx_bind (insert_health_event eventID (dev_id x) ''reconciler'' ''self_healing_restart_queued'' ''warning''
       (restart_reason x)
       [(''command_id'', JStr commandID), (''previous_reason'', JStr (reason_text x))] now) (\<lambda>_.
     tx_bind (tx_lift (newID 2)) (\<lambda>auditID.
     tx_bind (insert_audit_row ''device'' auditID ''system'' ''system'' ''restart_device_self_healing'' (dev_id x) (self_heal_key commandID)
       (restart_reason x)) (\<lambda>_.
       tx_return True)))))))))"

definition queueRestart :: "(nat \<Rightarrow> (farm_error, string) result) \<Rightarrow> bool \<Rightarrow> string \<Rightarrow> bool farm_tx" where
  "queueRestart newID allowStopped deviceID db =
     (case find_row (restart_candidate allowStopped db deviceID) (devices db) of
        None \<Rightarrow> Inr (False, db)
      | Some x \<Rightarrow>
          if \<not> restart_wanted allowStopped (latest_management_action db deviceID) x then Inr (False, db)
          else restart_statements newID x (effective_profile db x) db)"

text \<open>\<open>queueSelfHealingRestart\<close> and \<open>queueUnexpectedStoppedRestart\<close>.\<close>

definition queue_restart ::
  "reconcile_env \<Rightarrow> nat \<Rightarrow> bool \<Rightarrow> string \<Rightarrow> farm_db \<Rightarrow> (farm_error, bool) result \<times> farm_db" where
  "queue_restart env i allowStopped deviceID db = run_tx (queueRestart (re_newID env i) allowStopped deviceID) db"

section \<open>Hosts whose heartbeat is late\<close>

definition heartbeat_late :: "duration \<Rightarrow> farm_db \<Rightarrow> host_row \<Rightarrow> bool" where
  "heartbeat_late hostTimeout db h \<longleftrightarrow>
     host_status h = HostOnline \<and>
     (case host_last_heartbeat_at h of None \<Rightarrow> host_created_at h | Some t \<Rightarrow> t)
       < db_clock db - trunc_div hostTimeout second * second"

definition offline_tx :: "duration \<Rightarrow> string \<Rightarrow> nat farm_tx" where
  "offline_tx hostTimeout hostID db =
     (case find_row (\<lambda>h. host_id h = hostID \<and> heartbeat_late hostTimeout db h) (hosts db) of
        None \<Rightarrow> Inr (0, db)
      | Some h \<Rightarrow>
          tx_bind (tx_read ClockNow) (\<lambda>now.
          tx_bind (tx_lift (lift_domain (check_transition (RestoreHost hostID (host_status h)) HostOffline
            ''host heartbeat timed out'' now))) (\<lambda>_.
            write_hosts (\<lambda>y. host_id y = hostID \<and> host_status y = host_status h)
              (\<lambda>y. y\<lparr>host_status := HostOffline, host_draining := False, host_updated_at := now\<rparr>))) db)"

fun mark_offline :: "duration \<Rightarrow> string list \<Rightarrow> nat \<Rightarrow> farm_db \<Rightarrow> (farm_error, nat) result \<times> farm_db" where
  "mark_offline hostTimeout [] count db = (Inr count, db)"
| "mark_offline hostTimeout (h # hs) count db =
     (case run_tx (offline_tx hostTimeout h) db of
        (Inl e, db') \<Rightarrow> (Inl e, db')
      | (Inr n, db') \<Rightarrow> mark_offline hostTimeout hs (count + n) db')"

definition markStaleHostsOffline :: "duration \<Rightarrow> farm_db \<Rightarrow> (farm_error, nat) result \<times> farm_db" where
  "markStaleHostsOffline hostTimeout db =
     mark_offline hostTimeout (sort (map host_id (filter (heartbeat_late hostTimeout db) (hosts db)))) 0 db"

section \<open>The observation of a device\<close>

definition schedulableLifecycle :: "device_lifecycle_status \<Rightarrow> bool" where
  "schedulableLifecycle l \<longleftrightarrow> l \<in> {DeviceBooting, DeviceReady, DeviceReserved, DeviceBusy}"

definition inside_grace :: "duration \<Rightarrow> timestamp \<Rightarrow> timestamp \<Rightarrow> bool" where
  "inside_grace grace started observed \<longleftrightarrow> 0 \<le> observed - started \<and> observed - started < grace"

definition withinVisibilityGrace :: "reconcile_env \<Rightarrow> device_state \<Rightarrow> timestamp \<Rightarrow> bool" where
  "withinVisibilityGrace env d observed \<longleftrightarrow>
     0 < re_visibilityGrace env \<and>
     (case ds_LatestProvisionedAt d of None \<Rightarrow> False | Some t \<Rightarrow> inside_grace (re_visibilityGrace env) t observed)"

definition withinSTFOutageGrace :: "reconcile_env \<Rightarrow> device_state \<Rightarrow> timestamp \<Rightarrow> bool" where
  "withinSTFOutageGrace env d observed \<longleftrightarrow>
     0 < re_visibilityGrace env \<and>
     inside_grace (re_visibilityGrace env)
       (case ds_STFFailureStartedAt d of None \<Rightarrow> observed | Some t \<Rightarrow> t) observed"

definition withinHostRecoveryGrace :: "reconcile_env \<Rightarrow> device_state \<Rightarrow> timestamp \<Rightarrow> bool" where
  "withinHostRecoveryGrace env d observed \<longleftrightarrow>
     0 < re_hostRecoveryGrace env \<and>
     (case ds_HostFailureStartedAt d of None \<Rightarrow> False | Some t \<Rightarrow> inside_grace (re_hostRecoveryGrace env) t observed)"

definition observed_event :: "timestamp \<Rightarrow> string \<Rightarrow> string \<Rightarrow> string \<Rightarrow> event_input" where
  "observed_event t eventType severity reason =
     \<lparr>ei_Source = ''reconciler'', ei_EventType = eventType, ei_Severity = severity, ei_Reason = reason,
      ei_ObservedAt = t, ei_Payload = Some [], ei_ForceQuarantine = False, ei_SuppressQuarantine = False,
      ei_SuppressFailureCount = False\<rparr>"

definition suppressed :: "event_input \<Rightarrow> event_input" where
  "suppressed input = input\<lparr>ei_SuppressFailureCount := True, ei_SuppressQuarantine := True\<rparr>"

definition stabilizing_text :: string where
  "stabilizing_text =
     [CHR 0xE7, CHR 0xAE, CHR 0xA1, CHR 0xE7, CHR 0x90, CHR 0x86, CHR 0xE5, CHR 0x91, CHR 0xBD, CHR
      0xE4, CHR 0xBB, CHR 0xA4, CHR 0xE6, CHR 0x89, CHR 0xA7, CHR 0xE8, CHR 0xA1, CHR 0x8C, CHR
      0xE4, CHR 0xB8, CHR 0xAD, CHR 0xEF, CHR 0xBC, CHR 0x8C, CHR 0xE5, CHR 0x81, CHR 0xA5, CHR
      0xE5, CHR 0xBA, CHR 0xB7, CHR 0xE8, CHR 0xA7, CHR 0x82, CHR 0xE6, CHR 0xB5, CHR 0x8B, CHR
      0xE4, CHR 0xB8, CHR 0x8D, CHR 0xE8, CHR 0xAE, CHR 0xA1, CHR 0xE5, CHR 0x85, CHR 0xA5, CHR
      0xE5, CHR 0xA4, CHR 0xB1, CHR 0xE8, CHR 0xB4, CHR 0xA5]"

text \<open>What STF says of a device: the event of a device that is not visible, or \<open>ok\<close>.\<close>

definition stf_event :: "(string, bool) result \<Rightarrow> timestamp \<Rightarrow> event_input \<Rightarrow> event_input" where
  "stf_event answer t ok =
     (case answer of
        Inl e \<Rightarrow> observed_event t ''stf_not_visible'' ''error'' e
      | Inr False \<Rightarrow> observed_event t ''stf_not_visible'' ''error'' ''device is not visible through STF''
      | Inr True \<Rightarrow> ok)"

definition provider_event ::
  "reconcile_env \<Rightarrow> nat \<Rightarrow> device_state \<Rightarrow> timestamp \<Rightarrow> (nat \<Rightarrow> string \<Rightarrow> inspection) \<Rightarrow> event_input" where
  "provider_event env i d t inspect =
     (case inspect i (ds_ProviderRef d) of
        InspectFailed code e \<Rightarrow>
          if code = ''PROVIDER_DEVICE_NOT_FOUND''
          then (observed_event t ''provider_device_missing'' ''critical'' e)\<lparr>ei_ForceQuarantine := True\<rparr>
          else observed_event t ''provider_health_failed'' ''error'' e
      | Inspected h \<Rightarrow>
          if \<not> Health_Ready h
          then observed_event t ''provider_not_ready'' ''error'' ''provider device is not fully ready''
          else (let ok = observed_event t ''health_recovered'' ''info'' ''provider, ADB, boot and Appium checks passed''
                in case re_visible env of None \<Rightarrow> ok | Some visible \<Rightarrow> stf_event (visible i (ds_Serial d)) t ok))"

definition agent_event :: "device_state \<Rightarrow> timestamp \<Rightarrow> event_input" where
  "agent_event d t =
     (if ds_Platform d = ''ios''
      then suppressed (observed_event t ''ios_automation_stabilizing'' ''warning'' AgentReportedUnhealthyReason)
      else observed_event t ''agent_reported_unhealthy'' ''error'' AgentReportedUnhealthyReason)"

definition usesAndroidHealthChain :: "device_state \<Rightarrow> bool" where
  "usesAndroidHealthChain d \<longleftrightarrow> ds_Platform d = [] \<or> ds_Platform d = ''android''"

text \<open>The event of a device that no operation occupies; \<open>None\<close> is the silent \<open>continue\<close>.\<close>

definition observe_device :: "reconcile_env \<Rightarrow> nat \<Rightarrow> device_state \<Rightarrow> timestamp \<Rightarrow> event_input option" where
  "observe_device env i d t =
     (let chain = usesAndroidHealthChain d; stf = (re_visible env \<noteq> None) in
      if ds_HostStatus d \<noteq> HostOnline then
        (let event = observed_event t ''host_unavailable'' ''warning'' HostUnavailableReason
         in if withinHostRecoveryGrace env d t
            then (if ds_HostStatus d = HostOffline then None else Some (suppressed event)) else Some event)
      else if chain \<and> stf \<and> schedulableLifecycle (ds_Lifecycle d) \<and> withinVisibilityGrace env d t then
        Some (suppressed (observed_event t ''stf_stabilizing'' ''error'' STFReadinessStabilizationReason))
      else if chain \<and> re_inspect env \<noteq> None then Some (provider_event env i d t (the (re_inspect env)))
      else if chain \<and> stf \<and> schedulableLifecycle (ds_Lifecycle d) \<and>
              (ds_Health d = HealthHealthy \<or> IsSTFFailureReason (ds_HealthReason d)) then
        (let answer = the (re_visible env) i (ds_Serial d)
         in if answer = Inr True \<and> ds_Health d = HealthHealthy \<and> ds_ConsecutiveFailures d = 0 then None
            else Some (stf_event answer t (observed_event t ''health_recovered'' ''info'' ''STF visibility recovered'')))
      else if ds_Health d \<noteq> HealthHealthy \<and> schedulableLifecycle (ds_Lifecycle d) then Some (agent_event d t)
      else None)"

definition with_grace :: "reconcile_env \<Rightarrow> device_state \<Rightarrow> event_input \<Rightarrow> event_input" where
  "with_grace env d input =
     (if ei_EventType input = ''stf_not_visible'' then
        (if withinVisibilityGrace env d (ei_ObservedAt input) then suppressed input
         else if withinSTFOutageGrace env d (ei_ObservedAt input) then input\<lparr>ei_SuppressQuarantine := True\<rparr>
         else input)
      else input)"

definition recentlyRecorded :: "farm_db \<Rightarrow> string \<Rightarrow> event_input \<Rightarrow> bool" where
  "recentlyRecorded db deviceID input \<longleftrightarrow>
     list_ex (\<lambda>e. he_device_id e = deviceID \<and> he_event_type e = ei_EventType input \<and>
       he_reason e = ei_Reason input \<and> db_clock db - 60 * second \<le> he_observed_at e) (health_events db)"

section \<open>A round\<close>

text \<open>
  One device of a round: the error that ends the round, the counters, and the database.
\<close>

type_synonym round = "farm_error option \<times> reconcile_result \<times> farm_db"

definition restart_step :: "reconcile_env \<Rightarrow> nat \<Rightarrow> bool \<Rightarrow> device_state \<Rightarrow> reconcile_result \<Rightarrow> farm_db \<Rightarrow> round" where
  "restart_step env i allowStopped d res db =
     (case queue_restart env i allowStopped (ds_ID d) db of
        (Inl e, db') \<Rightarrow> (Some e, res, db')
      | (Inr queued, db') \<Rightarrow>
          (None, if queued then res\<lparr>rr_RestartsQueued := rr_RestartsQueued res + 1\<rparr> else res, db'))"

definition report_step ::
  "reconcile_env \<Rightarrow> nat \<Rightarrow> device_state \<Rightarrow> event_input \<Rightarrow> reconcile_result \<Rightarrow> farm_db \<Rightarrow> round" where
  "report_step env i d input res db =
     (case Report (re_failureThreshold env) (re_newID env i) (ds_ID d) input db of
        (Inl e, db') \<Rightarrow> (Some e, res, db')
      | (Inr _, db') \<Rightarrow> (None, res\<lparr>rr_EventsRecorded := rr_EventsRecorded res + 1\<rparr>, db'))"

definition counted_quarantine :: "device_state \<Rightarrow> round \<Rightarrow> round" where
  "counted_quarantine d r =
     (case r of
        (Some e, res, db) \<Rightarrow> (Some e, res, db)
      | (None, res, db) \<Rightarrow>
          if ds_Lifecycle d = DeviceQuarantined then (None, res, db)
          else case getDevice (ds_ID d) db of
            Inl e \<Rightarrow> (Some e, res, db)
          | Inr u \<Rightarrow> (None, if ds_Lifecycle u = DeviceQuarantined
                          then res\<lparr>rr_DevicesQuarantined := rr_DevicesQuarantined res + 1\<rparr> else res, db))"

definition quarantined_step :: "reconcile_env \<Rightarrow> nat \<Rightarrow> device_state \<Rightarrow> reconcile_result \<Rightarrow> farm_db \<Rightarrow> round" where
  "quarantined_step env i d res db =
     (if ds_Platform d \<noteq> ''android'' \<or> \<not> IsSystemRecoverableHealthReason (ds_HealthReason d) then (None, res, db)
      else if IsSTFFailureReason (ds_HealthReason d) \<and>
              (case re_visible env of None \<Rightarrow> False | Some visible \<Rightarrow> visible i (ds_Serial d) = Inr True) then
        (case report_step env i d (observed_event (re_wall env i) ''health_recovered'' ''info'' ''STF visibility recovered'')
                res db of
           (Some e, res', db') \<Rightarrow> (Some e, res, db')
         | (None, res', db') \<Rightarrow>
             (None, res'\<lparr>rr_DevicesChecked := rr_DevicesChecked res' + 1,
                         rr_DevicesRecovered := rr_DevicesRecovered res' + 1\<rparr>, db'))
      else restart_step env i False d res db)"

definition observed_step :: "reconcile_env \<Rightarrow> nat \<Rightarrow> device_state \<Rightarrow> reconcile_result \<Rightarrow> farm_db \<Rightarrow> round" where
  "observed_step env i d res db =
     (if ds_OperationInFlight d then
        (let input = suppressed (observed_event (re_wall env i) ''operation_stabilizing'' ''warning'' stabilizing_text)
         in if recentlyRecorded db (ds_ID d) input then (None, res, db) else report_step env i d input res db)
      else case observe_device env i d (re_wall env i) of
        None \<Rightarrow> (None, res, db)
      | Some event \<Rightarrow>
          (let input = with_grace env d event
           in if ei_SuppressFailureCount input \<and> ei_SuppressQuarantine input \<and> recentlyRecorded db (ds_ID d) input
              then (None, res, db)
              else counted_quarantine d (report_step env i d input res db)))"

definition device_step :: "reconcile_env \<Rightarrow> nat \<Rightarrow> device_state \<Rightarrow> reconcile_result \<Rightarrow> farm_db \<Rightarrow> round" where
  "device_step env i d res db =
     (if ds_Lifecycle d \<in> {DeviceDeleted, DeviceRecycling} then (None, res, db)
      else if ds_Lifecycle d = DeviceStopped \<and> ds_Platform d = ''android'' \<and> ds_HostStatus d = HostOnline \<and>
              \<not> ds_OperationInFlight d \<and> \<not> ds_DeletionInFlight d then restart_step env i True d res db
      else if ds_Lifecycle d = DeviceQuarantined then quarantined_step env i d res db
      else if ds_OperationInFlight d \<and> ds_Lifecycle d \<in> {DeviceProvisioning, DeviceBooting} then (None, res, db)
      else if ds_DeletionInFlight d then (None, res, db)
      else observed_step env i d (res\<lparr>rr_DevicesChecked := rr_DevicesChecked res + 1\<rparr>) db)"

fun device_steps :: "reconcile_env \<Rightarrow> nat \<Rightarrow> device_state list \<Rightarrow> reconcile_result \<Rightarrow> farm_db \<Rightarrow> round" where
  "device_steps env i [] res db = (None, res, db)"
| "device_steps env i (d # rest) res db =
     (case device_step env i d res (re_meanwhile env i db) of
        (Some e, res', db') \<Rightarrow> (Some e, res', db')
      | (None, res', db') \<Rightarrow> device_steps env (Suc i) rest res' db')"

definition Reconcile_RunOnce :: "reconcile_env \<Rightarrow> duration \<Rightarrow> farm_db \<Rightarrow> round" where
  "Reconcile_RunOnce env hostTimeout db =
     (if hostTimeout \<le> 0 then (Some ErrInvalidArgument, zero_round, db)
      else case markStaleHostsOffline hostTimeout db of
        (Inl e, db') \<Rightarrow> (Some e, zero_round, db')
      | (Inr n, db') \<Rightarrow>
          device_steps env 0 (listDevices db') (zero_round\<lparr>rr_HostsMarkedOffline := int n\<rparr>) db')"

end
