(* ===== verification/Management_Devices.thy ===== *)
theory Management_Devices
  imports Host_Commands Capacity Audit_Actor
begin

text \<open>
  The device operations of an operator, \<open>internal/management/service.go\<close> over
  \<open>internal/management/postgres/store.go\<close>: quarantine and its release, restart, start and stop of a
  simulator, rebuild, reimage, change of the runtime profile, deletion and renaming.  An operation
  reads the device, decides, and queues a host command in one transaction, which checks again that the
  device is as it was read.  The reads and the transaction of a call see the same database here; what
  happens in between is covered by stating the facts of \<open>QueueDeviceOperation\<close> for every operation
  value.  Identifiers, SHA-256 in hex, the process clock and \<open>time.Parse\<close> are arguments.
\<close>

record management_env =
  mg_newID :: "nat \<Rightarrow> (farm_error, string) result"
  mg_hash :: "string \<Rightarrow> string"
  mg_wall :: timestamp
  mg_parse_time :: "string \<Rightarrow> timestamp"

section \<open>Errors and audit\<close>

text \<open>\<open>normalize\<close>: SQLSTATEs as errors of the package.\<close>

definition normalized :: "farm_error \<Rightarrow> farm_error" where
  "normalized e =
     (if e = SqlError ''23505'' then ErrConflict
      else if e = SqlError ''23503'' then ErrNotFound
      else if e \<in> {SqlError ''23514'', SqlError ''23502'', SqlError ''22P02''} then ErrInvalidArgument else e)"

definition require :: "bool \<Rightarrow> farm_error \<Rightarrow> (farm_error, unit) result" where
  "require b e = (if b then Inr () else Inl e)"

lemma require_Inr [simp]: "require b e = Inr u \<longleftrightarrow> b"
  by (simp add: require_def)

record device_audit =
  da_ID :: string
  da_ActorType :: string
  da_ActorID :: string
  da_Action :: string
  da_RequestID :: string
  da_Reason :: string
  da_DestructiveApproved :: bool

definition validAuditIdentity :: "string \<Rightarrow> bool" where
  "validAuditIdentity v \<longleftrightarrow>
     (let t = TrimSpace v in t \<noteq> [] \<and> RuneCountInString t \<le> 128 \<and> \<not> Contains t \<and>
        list_all (\<lambda>r. \<not> IsControl r) (runes t))"

definition validDeviceName :: "string \<Rightarrow> bool" where
  "validDeviceName v \<longleftrightarrow>
     2 \<le> RuneCountInString v \<and> RuneCountInString v \<le> 40 \<and> \<not> Contains v \<and> list_all (\<lambda>r. \<not> IsControl r) (runes v)"

definition validReason :: "string \<Rightarrow> bool" where
  "validReason reason \<longleftrightarrow>
     (let t = TrimSpace reason in 3 \<le> length t \<and> length t \<le> 500 \<and> \<not> Contains t)"

definition deviceAudit ::
  "management_env \<Rightarrow> Actor \<Rightarrow> string \<Rightarrow> string \<Rightarrow> string \<Rightarrow> (farm_error, device_audit) result" where
  "deviceAudit env actor requestID action reason =
     result_bind (require (Valid actor \<and> validAuditIdentity (ac_ID actor) \<and> validAuditIdentity requestID \<and>
         validReason reason) ErrInvalidArgument) (\<lambda>_.
     result_bind (mg_newID env 0) (\<lambda>ident.
       Inr \<lparr>da_ID = ident, da_ActorType = ac_Type actor, da_ActorID = TrimSpace (ac_ID actor), da_Action = action,
            da_RequestID = TrimSpace requestID, da_Reason = TrimSpace reason, da_DestructiveApproved = False\<rparr>))"

definition write_audit :: "string \<Rightarrow> device_audit \<Rightarrow> string \<Rightarrow> unit farm_tx" where
  "write_audit resourceType a resourceID =
     insert_audit_row resourceType (da_ID a) (da_ActorType a) (da_ActorID a) (da_Action a) resourceID
       (da_RequestID a) (RedactText (da_Reason a))"

section \<open>The store\<close>

definition store_GetDevice :: "string \<Rightarrow> farm_db \<Rightarrow> (farm_error, device_row) result" where
  "store_GetDevice ident db =
     (case find_row (\<lambda>x. dev_id x = ident) (devices db) of None \<Rightarrow> Inl ErrNotFound | Some x \<Rightarrow> Inr x)"

definition store_GetImage :: "string \<Rightarrow> farm_db \<Rightarrow> (farm_error, image_row) result" where
  "store_GetImage ident db =
     (case find_row (\<lambda>x. img_id x = ident) (images db) of None \<Rightarrow> Inl ErrNotFound | Some x \<Rightarrow> Inr x)"

definition IsDevicePoolBase :: "string \<Rightarrow> farm_db \<Rightarrow> bool" where
  "IsDevicePoolBase ident db \<longleftrightarrow> list_ex (\<lambda>p. pool_base_device_id p = Some ident) (pools db)"

text \<open>\<open>device\<close> is the row that was read with its new state.\<close>

definition UpdateDeviceState ::
  "device_row \<Rightarrow> device_lifecycle_status \<Rightarrow> health_status \<Rightarrow> device_audit \<Rightarrow> device_row farm_tx" where
  "UpdateDeviceState device oldLifecycle oldHealth a db =
     tx_bind (write_devices
       (\<lambda>y. dev_id y = dev_id device \<and> dev_lifecycle y = oldLifecycle \<and> dev_health y = oldHealth)
       (\<lambda>y. y\<lparr>dev_lifecycle := dev_lifecycle device, dev_health := dev_health device,
              dev_health_reason := dev_health_reason device,
              dev_failures := (if dev_lifecycle device = DeviceProvisioning \<and> dev_health device = HealthUnknown
                               then 0 else dev_failures y),
              dev_updated_at := db_clock db\<rparr>)) (\<lambda>n.
     tx_bind (tx_guard (n = 1) ErrConflict) (\<lambda>_.
     tx_bind (tx_read (store_GetDevice (dev_id device))) (\<lambda>value.
     tx_bind (write_audit ''device'' a (dev_id device)) (\<lambda>_. tx_return value)))) db"

text \<open>\<open>char_length(btrim(name)) BETWEEN 2 AND 40\<close>; \<open>btrim\<close> takes off spaces only.\<close>

definition btrim :: "string \<Rightarrow> string" where
  "btrim s = rev (dropWhile (\<lambda>c. c = CHR '' '') (rev (dropWhile (\<lambda>c. c = CHR '' '') s)))"

definition ck_device_name :: "string \<Rightarrow> bool" where
  "ck_device_name name \<longleftrightarrow> 2 \<le> RuneCountInString (btrim name) \<and> RuneCountInString (btrim name) \<le> 40"

definition store_UpdateDeviceName :: "string \<Rightarrow> string \<Rightarrow> device_audit \<Rightarrow> device_row farm_tx" where
  "store_UpdateDeviceName ident name a db =
     tx_bind (tx_guard (ck_device_name name \<or> find_row (\<lambda>y. dev_id y = ident) (devices db) = None) (SqlError ''23514'')) (\<lambda>_.
     tx_bind (write_devices (\<lambda>y. dev_id y = ident) (\<lambda>y. y\<lparr>dev_name := name, dev_updated_at := db_clock db\<rparr>)) (\<lambda>_.
     tx_bind (tx_read (store_GetDevice ident)) (\<lambda>value.
     tx_bind (write_audit ''device'' a ident) (\<lambda>_. tx_return value)))) db"

record device_operation =
  do_CommandID :: string
  do_CommandType :: string
  do_IdempotencyKey :: string
  do_Payload :: json_obj
  do_MaxAttempts :: int
  do_Device :: device_row
  do_ExpectedLifecycle :: device_lifecycle_status
  do_ExpectedHealth :: health_status
  do_Audit :: device_audit
  do_RequireNoActiveReservation :: bool
  do_RequireNoActiveCommand :: bool
  do_DisableMemberships :: bool
  do_ReducePoolTargets :: bool
  do_Reimage :: bool
  do_RuntimeProfileUpdate :: bool
  do_PendingImageID :: string
  do_PendingRuntimeProfile :: json_obj

text \<open>The device, when the command is a replay of one that was queued before.\<close>

definition ReplayDeviceOperation ::
  "device_row \<Rightarrow> string \<Rightarrow> string \<Rightarrow> string \<Rightarrow> farm_db \<Rightarrow> (farm_error, device_row option) result" where
  "ReplayDeviceOperation x key commandType requestHash db =
     (case find_row (\<lambda>c. cmd_host_id c = dev_host_id x \<and> cmd_key c = key) (commands db) of
        None \<Rightarrow> Inr None
      | Some c \<Rightarrow>
          if cmd_type c \<noteq> commandType \<or> obj_get (cmd_payload c) ''device_id'' \<noteq> Some (JStr (dev_id x)) \<or>
             obj_get (cmd_payload c) ''request_hash'' \<noteq> Some (JStr requestHash) then Inl ErrConflict
          else result_bind (store_GetDevice (dev_id x) db) (\<lambda>y. Inr (Some y)))"

definition as_expected :: "device_operation \<Rightarrow> device_row \<Rightarrow> bool" where
  "as_expected p y \<longleftrightarrow>
     dev_id y = dev_id (do_Device p) \<and> dev_host_id y = dev_host_id (do_Device p) \<and>
     dev_provider_ref y = dev_provider_ref (do_Device p) \<and> dev_lifecycle y = do_ExpectedLifecycle p \<and>
     dev_health y = do_ExpectedHealth p"

definition operation_blocked :: "device_operation \<Rightarrow> farm_db \<Rightarrow> bool" where
  "operation_blocked p db \<longleftrightarrow>
     find_row (as_expected p) (devices db) = None \<or>
     (do_RequireNoActiveCommand p \<and> list_ex (\<lambda>c. command_on (dev_id (do_Device p)) c \<and> unfinished c) (commands db)) \<or>
     (do_RequireNoActiveReservation p \<and> list_ex (\<lambda>r. rsv_device_id r = Some (dev_id (do_Device p)) \<and>
        rsv_status r \<in> {ReservationPending, ReservationActive}) (reservations db))"

definition pending_change :: "device_operation \<Rightarrow> timestamp \<Rightarrow> unit farm_tx" where
  "pending_change p now =
     tx_bind
       (if do_Reimage p then
          tx_bind (write_devices (\<lambda>y. dev_id y = dev_id (do_Device p))
            (\<lambda>y. y\<lparr>dev_pending_image_id := Some (do_PendingImageID p),
                   dev_pending_profile := Some (do_PendingRuntimeProfile p),
                   dev_reimage_status := ''pending'', dev_reimage_error := None, dev_updated_at := now\<rparr>))
            (\<lambda>_. tx_return ())
        else tx_return ()) (\<lambda>_.
       if do_RuntimeProfileUpdate p then
         tx_bind (write_devices (\<lambda>y. dev_id y = dev_id (do_Device p))
           (\<lambda>y. y\<lparr>dev_pending_image_id := None, dev_pending_profile := Some (do_PendingRuntimeProfile p),
                  dev_profile_update_status := ''pending'', dev_profile_update_error := None, dev_updated_at := now\<rparr>))
           (\<lambda>_. tx_return ())
       else tx_return ())"

definition disable_memberships :: "string \<Rightarrow> unit farm_tx" where
  "disable_memberships deviceID db =
     Inr ((), db\<lparr>pool_devices := update_where (\<lambda>m. pd_device_id m = deviceID \<and> pd_enabled m)
       (\<lambda>m. m\<lparr>pd_enabled := False\<rparr>) (pool_devices db)\<rparr>)"

definition reduced_pool :: "timestamp \<Rightarrow> pool_row \<Rightarrow> pool_row" where
  "reduced_pool now p =
     (let target = max 0 (pool_total_target p - 1)
      in p\<lparr>pool_total_target := target, pool_min_ready := min (pool_min_ready p) target,
           pool_max_concurrency := max 1 (min (pool_max_concurrency p) target), pool_updated_at := now\<rparr>)"

definition reduce_targets :: "string \<Rightarrow> unit farm_tx" where
  "reduce_targets deviceID db =
     tx_bind (write_pools (\<lambda>p. list_ex (\<lambda>m. pd_pool_id m = pool_id p \<and> pd_device_id m = deviceID) (pool_devices db))
       (reduced_pool (db_clock db))) (\<lambda>_. tx_return ()) db"

definition operation_params :: "device_operation \<Rightarrow> create_command_params" where
  "operation_params p =
     \<lparr>ccp_ID = do_CommandID p, ccp_HostID = dev_host_id (do_Device p), ccp_CommandType = do_CommandType p,
      ccp_Payload = RedactMap (do_Payload p), ccp_MaxAttempts = do_MaxAttempts p,
      ccp_IdempotencyKey = do_IdempotencyKey p\<rparr>"

definition operated_row :: "device_operation \<Rightarrow> timestamp \<Rightarrow> device_row \<Rightarrow> device_row" where
  "operated_row p now y =
     y\<lparr>dev_lifecycle := dev_lifecycle (do_Device p), dev_health := dev_health (do_Device p),
       dev_health_reason := dev_health_reason (do_Device p), dev_updated_at := now\<rparr>"

definition queue_statements :: "device_operation \<Rightarrow> command_row \<Rightarrow> timestamp \<Rightarrow> device_row farm_tx" where
  "queue_statements p record now =
     tx_bind (write_devices (as_expected p) (operated_row p now)) (\<lambda>n.
     tx_bind (tx_guard (n = 1) ErrConflict) (\<lambda>_.
     tx_bind (pending_change p now) (\<lambda>_.
     tx_bind (tx_read (store_GetDevice (dev_id (do_Device p)))) (\<lambda>value.
     tx_bind (if do_DisableMemberships p then disable_memberships (dev_id (do_Device p)) else tx_return ()) (\<lambda>_.
     tx_bind (if do_ReducePoolTargets p then reduce_targets (dev_id (do_Device p)) else tx_return ()) (\<lambda>_.
     tx_bind (write_audit ''device'' (do_Audit p) (dev_id (do_Device p))) (\<lambda>_. tx_return value)))))))"

definition created_command :: "device_operation \<Rightarrow> command_row farm_tx" where
  "created_command p db =
     (case Command_Repository.Create (operation_params p) db of
        Inl e \<Rightarrow> Inl (if e = RepoErrIdempotencyConflict then ErrConflict else e)
      | Inr r \<Rightarrow> Inr r)"

definition queue_tx :: "device_operation \<Rightarrow> device_row farm_tx" where
  "queue_tx p db =
     (case find_row (\<lambda>c. cmd_host_id c = dev_host_id (do_Device p) \<and> cmd_key c = do_IdempotencyKey p) (commands db) of
        Some c \<Rightarrow>
          if cmd_type c \<noteq> do_CommandType p \<or>
             obj_get (cmd_payload c) ''request_hash'' \<noteq> obj_get (do_Payload p) ''request_hash'' then Inl ErrConflict
          else tx_read (store_GetDevice (dev_id (do_Device p))) db
      | None \<Rightarrow>
          if operation_blocked p db then Inl ErrConflict
          else tx_bind (created_command p) (\<lambda>record.
            if cmd_id record \<noteq> do_CommandID p then tx_read (store_GetDevice (dev_id (do_Device p)))
            else queue_statements p record (db_clock db)) db)"

definition QueueDeviceOperation :: "device_operation \<Rightarrow> farm_db \<Rightarrow> (farm_error, device_row) result \<times> farm_db" where
  "QueueDeviceOperation p db =
     (if do_CommandID p = [] \<or> do_CommandType p = [] \<or> do_IdempotencyKey p = [] \<or> do_MaxAttempts p < 1 \<or>
         dev_id (do_Device p) = [] \<or> dev_host_id (do_Device p) = [] then (Inl ErrInvalidArgument, db)
      else translated_by normalized (run_tx (queue_tx p) db))"

section \<open>Capacity for a changed device\<close>

definition pending_payloads :: "farm_db \<Rightarrow> string \<Rightarrow> string \<Rightarrow> json_obj list" where
  "pending_payloads db hostID deviceID =
     map cmd_payload (filter (\<lambda>c. cmd_host_id c = hostID \<and> unfinished c \<and>
       cmd_type c \<in> {''create'', ''rebuild'', ''validate_image''} \<and>
       (case arrow_text (cmd_payload c) ''device_id'' of None \<Rightarrow> [] | Some d \<Rightarrow> d) \<noteq> deviceID) (commands db))"

definition image_cached :: "farm_db \<Rightarrow> string \<Rightarrow> string \<Rightarrow> bool" where
  "image_cached db hostID imageID \<longleftrightarrow>
     list_ex (\<lambda>d. dev_host_id d = hostID \<and> dev_image_id d = Some imageID \<and> dev_lifecycle d \<noteq> DeviceDeleted) (devices db) \<or>
     list_ex (\<lambda>c. cmd_host_id c = hostID \<and> cmd_type c = ''validate_image'' \<and> cmd_status c = CommandSucceeded \<and>
       arrow_text (cmd_payload c) ''image_id'' = Some imageID) (commands db)"

text \<open>The unfinished commands as an allocation; \<open>None\<close> when a profile among them is invalid.\<close>

fun pending_allocation :: "json_obj list \<Rightarrow> Allocation \<Rightarrow> Allocation option" where
  "pending_allocation [] a = Some a"
| "pending_allocation (payload # rest) a =
     (case Parse (case mapValue payload ''runtime_profile'' of None \<Rightarrow> [] | Some o' \<Rightarrow> o') of
        None \<Rightarrow> None
      | Some p \<Rightarrow> pending_allocation rest
          \<lparr>al_CPUCores = float_add (al_CPUCores a) (pf_ContainerCPUCores p),
           al_MemoryMB = wrap64 (al_MemoryMB a + pf_ContainerMemoryMB p),
           al_DiskMB = wrap64 (al_DiskMB a + wrap64 (pf_DataDiskMB p + pf_ImageDiskMB p)),
           al_Slots = wrap64 (al_Slots a + 1)\<rparr>)"

definition max_float :: "float64 \<Rightarrow> float64 \<Rightarrow> float64" where
  "max_float left right = (if float_less right left then left else right)"

definition without_device :: "json_obj \<Rightarrow> Profile \<Rightarrow> Allocation" where
  "without_device used current =
     \<lparr>al_CPUCores = max_float (Fin 0) (float_sub (cap_number (obj_get used ''cpu_cores'')) (pf_ContainerCPUCores current)),
      al_MemoryMB = max 0 (wrap64 (trunc_int (cap_number (obj_get used ''memory_mb'')) - pf_ContainerMemoryMB current)),
      al_DiskMB = max 0 (wrap64 (trunc_int (cap_number (obj_get used ''data_disk_mb'')) - pf_DataDiskMB current)),
      al_Slots = max 0 (wrap64 (trunc_int (cap_number (obj_get used ''device_slots'')) - 1))\<rparr>"

definition freed_host :: "cap_host \<Rightarrow> Profile \<Rightarrow> cap_host" where
  "freed_host h current =
     h\<lparr>ch_MemoryAvailableMB := min (ch_MemoryTotalMB h) (wrap64 (ch_MemoryAvailableMB h + pf_ContainerMemoryMB current)),
       ch_DiskAvailableMB := min (ch_DiskTotalMB h) (wrap64 (ch_DiskAvailableMB h + pf_DataDiskMB current))\<rparr>"

text \<open>
  \<open>CheckDeviceReplacementCapacity\<close>.  A profile that was parsed has memory, so \<open>Evaluate\<close> does not
  divide by zero; its \<open>None\<close> is mapped to an error all the same.
\<close>

definition fits_anyway :: cap_result where
  "fits_anyway = \<lparr>cr_Fits = True, cr_Additional = 1, cr_Limiting = [], cr_Shortfall = [], cr_AvailableCPU = Fin 0,
     cr_AvailableMemoryMB = 0, cr_AvailableDiskMB = 0\<rparr>"

definition stale :: "timestamp \<Rightarrow> timestamp \<Rightarrow> bool" where
  "stale wall t \<longleftrightarrow> 30 * second < wall - t"

definition CheckDeviceReplacementCapacity ::
  "management_env \<Rightarrow> device_row \<Rightarrow> Profile \<Rightarrow> Profile \<Rightarrow> string \<Rightarrow> farm_db \<Rightarrow> (farm_error, cap_result) result" where
  "CheckDeviceReplacementCapacity env x current target imageID db =
     (case host_of db x of
        None \<Rightarrow> Inl ErrNotFound
      | Some h \<Rightarrow>
          if host_status h \<noteq> HostOnline \<or> host_draining h \<or>
             (case host_last_heartbeat_at h of None \<Rightarrow> True | Some t \<Rightarrow> stale (mg_wall env) t)
          then Inl ErrHostUnavailable
          else case HostFromMap (mg_parse_time env) (host_capacity h) of
            (Some ch, True) \<Rightarrow>
              if is_zero_time (ch_CollectedAt ch) \<or> stale (mg_wall env) (ch_CollectedAt ch) then Inl ErrHostUnavailable
              else (case pending_allocation (pending_payloads db (host_id h) (dev_id x)) no_allocation of
                  None \<Rightarrow> Inl ErrInvalidArgument
                | Some pending \<Rightarrow>
                    (case Evaluate (freed_host ch current) (without_device (host_used_capacity h) current) pending target
                            (image_cached db (host_id h) imageID) of
                       None \<Rightarrow> Inl JsonError | Some r \<Rightarrow> Inr r))
          | _ \<Rightarrow> Inr fits_anyway)"

section \<open>Plans\<close>

text \<open>What a call decides: the device of a replay, a call that needs nothing, or an operation to queue.\<close>

datatype plan = Replayed device_row | Unchanged device_row | Queued device_operation

definition run_plan :: "(farm_error, plan) result \<Rightarrow> farm_db \<Rightarrow> (farm_error, device_row) result \<times> farm_db" where
  "run_plan r db =
     (case r of
        Inl e \<Rightarrow> (Inl e, db)
      | Inr (Replayed x) \<Rightarrow> (Inr x, db)
      | Inr (Unchanged x) \<Rightarrow> (Inr x, db)
      | Inr (Queued p) \<Rightarrow> QueueDeviceOperation p db)"

definition zero_char :: char where
  "zero_char = CHR 0x00"

text \<open>The first 16 bytes of the digest are 32 digits.\<close>

definition operationCommandKey :: "management_env \<Rightarrow> string \<Rightarrow> string \<Rightarrow> string \<Rightarrow> string" where
  "operationCommandKey env action actorID idempotencyKey =
     ''management-'' @ take 32 (mg_hash env
       (TrimSpace actorID @ [zero_char] @ action @ [zero_char] @ TrimSpace idempotencyKey))"

definition operationRequestHash :: "management_env \<Rightarrow> string \<Rightarrow> string \<Rightarrow> string \<Rightarrow> string" where
  "operationRequestHash env action deviceID reason =
     mg_hash env (action @ [zero_char] @ TrimSpace deviceID @ [zero_char] @ TrimSpace reason)"

definition operationStructuredRequestHash :: "management_env \<Rightarrow> string \<Rightarrow> string \<Rightarrow> json \<Rightarrow> string" where
  "operationStructuredRequestHash env action deviceID v =
     mg_hash env (action @ [zero_char] @ TrimSpace deviceID @ [zero_char] @ json_print v)"

definition replay_or ::
  "device_row \<Rightarrow> string \<Rightarrow> string \<Rightarrow> string \<Rightarrow> farm_db \<Rightarrow> (farm_error, plan) result \<Rightarrow> (farm_error, plan) result" where
  "replay_or x key commandType requestHash db rest =
     result_bind (ReplayDeviceOperation x key commandType requestHash db)
       (\<lambda>r. case r of Some y \<Rightarrow> Inr (Replayed y) | None \<Rightarrow> rest)"

definition refused_from :: "string \<Rightarrow> device_row \<Rightarrow> string \<Rightarrow> farm_error" where
  "refused_from ident x target = DomainErr (ErrInvalidTransition
     \<lparr>te_Resource = ''device'', te_ID = ident, te_Field = ''lifecycle_status'',
      te_From = device_lifecycle_string (dev_lifecycle x), te_To = target\<rparr>)"

definition idle_lifecycle :: "device_row \<Rightarrow> bool" where
  "idle_lifecycle x \<longleftrightarrow> dev_lifecycle x \<in> {DeviceReady, DeviceStopped, DeviceQuarantined}"

text \<open>The aggregate after \<open>UpdateHealth(unknown)\<close> and one transition, written back to the device that was read.\<close>

definition moved_device ::
  "management_env \<Rightarrow> device_lifecycle_status \<Rightarrow> string \<Rightarrow> device_row \<Rightarrow> (farm_error, device_row) result" where
  "moved_device env target reason x =
     result_bind (restore_device x) (\<lambda>a.
     result_bind (set_health HealthUnknown reason (mg_wall env) a) (\<lambda>a.
     result_bind (move target reason (mg_wall env) a) (\<lambda>a.
       Inr (x\<lparr>dev_lifecycle := Lifecycle a, dev_health := Health a\<rparr>))))"

definition base_payload :: "device_row \<Rightarrow> device_lifecycle_status \<Rightarrow> string \<Rightarrow> json_obj" where
  "base_payload x state requestHash =
     [(''device_id'', JStr (dev_id x)), (''host_id'', JStr (dev_host_id x)),
      (''operation_source'', JStr ''management''), (''operation_state'', JStr (device_lifecycle_string state)),
      (''provider_ref'', JStr (dev_provider_ref x)), (''request_hash'', JStr requestHash)]"

text \<open>
  An operation on \<open>x\<close> as read that leaves \<open>y\<close>; \<open>exclusive\<close> sets \<open>RequireNoActiveReservation\<close> and
  \<open>RequireNoActiveCommand\<close>, which every call but the restart does.
\<close>

definition operation_on ::
  "string \<Rightarrow> string \<Rightarrow> string \<Rightarrow> int \<Rightarrow> json_obj \<Rightarrow> device_row \<Rightarrow> device_row \<Rightarrow> device_audit \<Rightarrow> bool \<Rightarrow> device_operation" where
  "operation_on commandID commandType key attempts payload x y a exclusive =
     \<lparr>do_CommandID = commandID, do_CommandType = commandType, do_IdempotencyKey = key, do_Payload = payload,
      do_MaxAttempts = attempts, do_Device = y, do_ExpectedLifecycle = dev_lifecycle x,
      do_ExpectedHealth = dev_health x, do_Audit = a, do_RequireNoActiveReservation = exclusive,
      do_RequireNoActiveCommand = exclusive, do_DisableMemberships = False, do_ReducePoolTargets = False,
      do_Reimage = False, do_RuntimeProfileUpdate = False, do_PendingImageID = [], do_PendingRuntimeProfile = []\<rparr>"

definition valid_call :: "string \<Rightarrow> string \<Rightarrow> bool" where
  "valid_call reason key \<longleftrightarrow> TrimSpace reason \<noteq> [] \<and> 8 \<le> length (TrimSpace key)"

section \<open>Restart, start and stop\<close>

definition restart_target :: "device_row \<Rightarrow> device_lifecycle_status" where
  "restart_target x =
     (if dev_lifecycle x = DeviceQuarantined then DeviceProvisioning
      else if dev_lifecycle x = DeviceStopped then DeviceBooting else DeviceStopped)"

definition restartDevice ::
  "management_env \<Rightarrow> string \<Rightarrow> string \<Rightarrow> string \<Rightarrow> device_audit \<Rightarrow> farm_db \<Rightarrow> (farm_error, plan) result" where
  "restartDevice env ident reason key a db =
     result_bind (require (valid_call reason key) ErrInvalidArgument) (\<lambda>_.
     result_bind (store_GetDevice ident db) (\<lambda>x.
     let commandKey = operationCommandKey env ''restart'' (da_ActorID a) key;
         requestHash = operationRequestHash env ''restart'' (dev_id x) reason
     in replay_or x commandKey ''restart'' requestHash db (
     result_bind (require (idle_lifecycle x) (refused_from ident x ''restart'')) (\<lambda>_.
     result_bind (moved_device env (restart_target x) reason x) (\<lambda>y.
     result_bind (mg_newID env 1) (\<lambda>commandID.
       Inr (Queued (operation_on commandID ''restart'' commandKey 3
         (base_payload x (dev_lifecycle y) requestHash @ [(''runtime_profile'', JObj (effective_profile db x))])
         x y a False))))))))"

definition wanted_from :: "string \<Rightarrow> device_lifecycle_status" where
  "wanted_from operation = (if operation = ''stop'' then DeviceReady else DeviceStopped)"

definition simulator_target :: "string \<Rightarrow> device_lifecycle_status" where
  "simulator_target operation = (if operation = ''stop'' then DeviceStopped else DeviceBooting)"

definition managed_simulator :: "device_row \<Rightarrow> bool" where
  "managed_simulator x \<longleftrightarrow>
     dev_platform x = ''ios'' \<and> dev_kind x = ''simulator'' \<and> dev_provider_type x = ''appium_device_farm_ios'' \<and>
     obj_get (dev_capabilities x) ''allowlisted'' = Some (JBool True)"

definition text_pointer :: "string \<Rightarrow> string option" where
  "text_pointer v = (if TrimSpace v = [] then None else Some v)"

definition iosSimulatorLifecycle ::
  "management_env \<Rightarrow> string \<Rightarrow> string \<Rightarrow> string \<Rightarrow> string \<Rightarrow> device_audit \<Rightarrow> farm_db \<Rightarrow> (farm_error, plan) result" where
  "iosSimulatorLifecycle env ident reason key operation a db =
     result_bind (require (valid_call reason key \<and> operation \<in> {''start'', ''stop''}) ErrInvalidArgument) (\<lambda>_.
     result_bind (store_GetDevice ident db) (\<lambda>x.
     result_bind (require (managed_simulator x) ErrInvalidArgument) (\<lambda>_.
     let commandKey = operationCommandKey env operation (da_ActorID a) key;
         requestHash = operationRequestHash env operation (dev_id x) reason
     in replay_or x commandKey operation requestHash db (
     result_bind (require (dev_lifecycle x = wanted_from operation)
       (refused_from ident x (device_lifecycle_string (simulator_target operation)))) (\<lambda>_.
     result_bind (moved_device env (simulator_target operation) reason x) (\<lambda>y.
     result_bind (mg_newID env 1) (\<lambda>commandID.
       Inr (Queued (operation_on commandID operation commandKey 3 (base_payload x (dev_lifecycle y) requestHash)
         x (y\<lparr>dev_health_reason := text_pointer reason\<rparr>) a True)))))))))"

section \<open>Rebuild\<close>

definition image_text :: "image_row \<Rightarrow> string" where
  "image_text i = (case img_docker_image i of None \<Rightarrow> [] | Some r \<Rightarrow> r)"

definition rebuild_payload :: "farm_db \<Rightarrow> device_row \<Rightarrow> json_obj \<Rightarrow> (farm_error, json_obj) result" where
  "rebuild_payload db x base =
     (let payload = obj_put ''capabilities'' (JObj (dev_capabilities x)) base
      in case dev_image_id x of
        None \<Rightarrow> Inr payload
      | Some imageID \<Rightarrow>
          result_bind (store_GetImage imageID db) (\<lambda>i.
          result_bind (require (ValidRuntimeImageReference (image_text i)) ErrImageUnavailable) (\<lambda>_.
            case Parse (effective_profile db x) of
              None \<Rightarrow> Inl ErrInvalidArgument
            | Some profile \<Rightarrow> Inr (obj_put ''runtime_profile'' (JObj (Profile_Map profile))
                (obj_put ''docker_digest'' (JStr (img_docker_digest i))
                (obj_put ''docker_image'' (JStr (image_text i))
                (obj_put ''image_id'' (JStr imageID) payload)))))))"

definition rebuildDevice ::
  "management_env \<Rightarrow> string \<Rightarrow> string \<Rightarrow> string \<Rightarrow> device_audit \<Rightarrow> farm_db \<Rightarrow> (farm_error, plan) result" where
  "rebuildDevice env ident reason key a db =
     result_bind (require (valid_call reason key) ErrInvalidArgument) (\<lambda>_.
     result_bind (store_GetDevice ident db) (\<lambda>x.
     let commandKey = operationCommandKey env ''rebuild'' (da_ActorID a) key;
         requestHash = operationRequestHash env ''rebuild'' (dev_id x) reason
     in replay_or x commandKey ''rebuild'' requestHash db (
     result_bind (require (idle_lifecycle x) (refused_from ident x (device_lifecycle_string DeviceProvisioning))) (\<lambda>_.
     result_bind (moved_device env DeviceProvisioning reason x) (\<lambda>y.
     result_bind (mg_newID env 1) (\<lambda>commandID.
     result_bind (rebuild_payload db x (base_payload x (dev_lifecycle y) requestHash)) (\<lambda>payload.
       Inr (Queued (operation_on commandID ''rebuild'' commandKey 3 payload x y a True)))))))))"

section \<open>Reimage and runtime profile\<close>

record reimage_input =
  ri_ImageID :: string
  ri_RuntimeProfile :: "json_obj option"
  ri_Reason :: string

definition reimage_json :: "reimage_input \<Rightarrow> json" where
  "reimage_json input =
     JObj [(''image_id'', JStr (ri_ImageID input)),
           (''runtime_profile'', case ri_RuntimeProfile input of None \<Rightarrow> JNull | Some o' \<Rightarrow> JObj o'),
           (''reason'', JStr (ri_Reason input))]"

text \<open>\<open>reimageCapabilities\<close>: the selected hardware identity, with what will be built.\<close>

definition reimageCapabilities :: "json_obj \<Rightarrow> image_row \<Rightarrow> Profile \<Rightarrow> json_obj" where
  "reimageCapabilities current i profile =
     obj_put ''resolution'' (JStr (resolution_text profile))
       (obj_put ''abi'' (JStr (img_abi i))
       (obj_put ''apiLevel'' (JNum (img_api_level i))
       (obj_put ''platformName'' (JStr ''Android'')
       (fold (\<lambda>m o'. obj_put (fst m) (snd m) o') (Profile_Map profile) current))))"

definition rollback_image :: "image_row \<Rightarrow> Profile \<Rightarrow> json_obj \<Rightarrow> json_obj" where
  "rollback_image i profile capabilities =
     [(''capabilities'', JObj capabilities), (''docker_digest'', JStr (img_docker_digest i)),
      (''docker_image'', JStr (image_text i)), (''image_id'', JStr (img_id i)),
      (''runtime_profile'', JObj (Profile_Map profile))]"

definition parsed :: "json_obj \<Rightarrow> (farm_error, Profile) result" where
  "parsed values = (case Parse values of None \<Rightarrow> Inl ErrInvalidArgument | Some p \<Rightarrow> Inr p)"

definition reimage_payload ::
  "device_row \<Rightarrow> device_row \<Rightarrow> string \<Rightarrow> image_row \<Rightarrow> Profile \<Rightarrow> image_row \<Rightarrow> Profile \<Rightarrow> json_obj" where
  "reimage_payload x y requestHash target targetProfile old currentProfile =
     [(''capabilities'', JObj (reimageCapabilities (dev_capabilities x) target targetProfile)),
      (''device_id'', JStr (dev_id x)), (''docker_digest'', JStr (img_docker_digest target)),
      (''docker_image'', JStr (image_text target)), (''host_id'', JStr (dev_host_id x)),
      (''image_id'', JStr (img_id target)), (''operation_kind'', JStr ''reimage''),
      (''operation_source'', JStr ''management''),
      (''operation_state'', JStr (device_lifecycle_string (dev_lifecycle y))),
      (''provider_ref'', JStr (dev_provider_ref x)), (''request_hash'', JStr requestHash),
      (''rollback'', JObj (rollback_image old currentProfile (dev_capabilities x))),
      (''runtime_profile'', JObj (Profile_Map targetProfile))]"

definition reimageDevice ::
  "management_env \<Rightarrow> string \<Rightarrow> reimage_input \<Rightarrow> string \<Rightarrow> device_audit \<Rightarrow> farm_db \<Rightarrow> (farm_error, plan) result" where
  "reimageDevice env ident input key a db =
     result_bind (require (TrimSpace (ri_ImageID input) \<noteq> [] \<and> 8 \<le> length (TrimSpace key)) ErrInvalidArgument) (\<lambda>_.
     result_bind (parsed (case ri_RuntimeProfile input of None \<Rightarrow> [] | Some o' \<Rightarrow> o')) (\<lambda>targetProfile.
     result_bind (store_GetDevice ident db) (\<lambda>x.
     let requestHash = operationStructuredRequestHash env ''reimage'' (dev_id x) (reimage_json input);
         commandKey = operationCommandKey env ''reimage'' (da_ActorID a) key
     in replay_or x commandKey ''rebuild'' requestHash db (
     result_bind (require (dev_kind x = ''emulator'' \<and> dev_provider_type x = ''docker_emulator'') ErrInvalidArgument) (\<lambda>_.
     result_bind (require (idle_lifecycle x) (refused_from ident x (device_lifecycle_string DeviceProvisioning))) (\<lambda>_.
     result_bind (store_GetImage (TrimSpace (ri_ImageID input)) db) (\<lambda>target.
     result_bind (require (img_status target = ImageReady \<and> ValidRuntimeImageReference (image_text target))
       ErrImageUnavailable) (\<lambda>_.
     result_bind (parsed (effective_profile db x)) (\<lambda>currentProfile.
     result_bind (CheckDeviceReplacementCapacity env x currentProfile targetProfile (img_id target) db) (\<lambda>room.
     result_bind (require (cr_Fits room) ErrInsufficientHostResources) (\<lambda>_.
     result_bind (case dev_image_id x of None \<Rightarrow> Inl ErrInvalidArgument | Some i \<Rightarrow> store_GetImage i db) (\<lambda>old.
     result_bind (moved_device env DeviceProvisioning (ri_Reason input) x) (\<lambda>y.
     result_bind (mg_newID env 1) (\<lambda>commandID.
       Inr (Queued ((operation_on commandID ''rebuild'' commandKey 1
         (reimage_payload x y requestHash target targetProfile old currentProfile) x y a True)
         \<lparr>do_Reimage := True, do_PendingImageID := img_id target,
          do_PendingRuntimeProfile := Profile_Map targetProfile\<rparr>))))))))))))))))"

record profile_update_input =
  pu_ContainerCPUCores :: float64
  pu_ContainerMemoryMB :: int
  pu_GuestCPUCores :: int
  pu_GuestMemoryMB :: int
  pu_Reason :: string

definition profile_update_json :: "profile_update_input \<Rightarrow> json" where
  "profile_update_json input =
     JObj [(''container_cpu_cores'', float_json (pu_ContainerCPUCores input)),
           (''container_memory_mb'', JNum (pu_ContainerMemoryMB input)),
           (''guest_cpu_cores'', JNum (pu_GuestCPUCores input)), (''guest_memory_mb'', JNum (pu_GuestMemoryMB input)),
           (''reason'', JStr (pu_Reason input))]"

definition changed_profile :: "profile_update_input \<Rightarrow> Profile \<Rightarrow> json_obj" where
  "changed_profile input current =
     obj_put ''guest_memory_mb'' (JNum (pu_GuestMemoryMB input))
       (obj_put ''guest_cpu_cores'' (JNum (pu_GuestCPUCores input))
       (obj_put ''container_memory_mb'' (JNum (pu_ContainerMemoryMB input))
       (obj_put ''container_cpu_cores'' (float_json (pu_ContainerCPUCores input)) (Profile_Map current))))"

definition updatable :: "device_row \<Rightarrow> bool" where
  "updatable x \<longleftrightarrow>
     dev_platform x = ''android'' \<and> dev_kind x = ''emulator'' \<and> dev_provider_type x = ''docker_emulator'' \<and>
     dev_image_id x \<noteq> None"

definition profile_payload :: "device_row \<Rightarrow> device_row \<Rightarrow> string \<Rightarrow> Profile \<Rightarrow> Profile \<Rightarrow> json_obj" where
  "profile_payload x y requestHash target current =
     [(''device_id'', JStr (dev_id x)), (''host_id'', JStr (dev_host_id x)),
      (''operation_kind'', JStr ''runtime_profile_update''), (''operation_source'', JStr ''management''),
      (''operation_state'', JStr (device_lifecycle_string (dev_lifecycle y))),
      (''provider_ref'', JStr (dev_provider_ref x)), (''request_hash'', JStr requestHash),
      (''rollback'', JObj [(''runtime_profile'', JObj (Profile_Map current))]),
      (''runtime_profile'', JObj (Profile_Map target))]"

definition updateProfile ::
  "management_env \<Rightarrow> string \<Rightarrow> profile_update_input \<Rightarrow> string \<Rightarrow> device_audit \<Rightarrow> farm_db \<Rightarrow> (farm_error, plan) result" where
  "updateProfile env ident input key a db =
     result_bind (require (8 \<le> length (TrimSpace key)) ErrInvalidArgument) (\<lambda>_.
     result_bind (store_GetDevice ident db) (\<lambda>x.
     let requestHash = operationStructuredRequestHash env ''runtime_profile_update'' (dev_id x) (profile_update_json input);
         commandKey = operationCommandKey env ''runtime-profile-update'' (da_ActorID a) key
     in replay_or x commandKey ''restart'' requestHash db (
     result_bind (require (updatable x) ErrInvalidArgument) (\<lambda>_.
     result_bind (require (idle_lifecycle x) (refused_from ident x (device_lifecycle_string DeviceProvisioning))) (\<lambda>_.
     result_bind (parsed (effective_profile db x)) (\<lambda>current.
     result_bind (parsed (changed_profile input current)) (\<lambda>target.
     if Profile_Map target = Profile_Map current then Inr (Unchanged x)
     else
     result_bind (CheckDeviceReplacementCapacity env x current target (the (dev_image_id x)) db) (\<lambda>room.
     result_bind (require (cr_Fits room) ErrInsufficientHostResources) (\<lambda>_.
     result_bind (moved_device env DeviceProvisioning (pu_Reason input) x) (\<lambda>y.
     result_bind (mg_newID env 1) (\<lambda>commandID.
       Inr (Queued ((operation_on commandID ''restart'' commandKey 1 (profile_payload x y requestHash target current)
         x y a True)
         \<lparr>do_RuntimeProfileUpdate := True, do_PendingRuntimeProfile := Profile_Map target\<rparr>)))))))))))))"

section \<open>Deletion\<close>

definition deleteDevice ::
  "management_env \<Rightarrow> string \<Rightarrow> string \<Rightarrow> string \<Rightarrow> device_audit \<Rightarrow> farm_db \<Rightarrow> (farm_error, plan) result" where
  "deleteDevice env ident reason key a db =
     result_bind (require (valid_call reason key) ErrInvalidArgument) (\<lambda>_.
     result_bind (store_GetDevice ident db) (\<lambda>x.
     result_bind (require (\<not> IsDevicePoolBase ident db) ErrConflict) (\<lambda>_.
     let commandKey = operationCommandKey env ''delete'' (da_ActorID a) key;
         requestHash = operationRequestHash env ''delete'' (dev_id x) reason
     in replay_or x commandKey ''delete'' requestHash db (
     result_bind (require (idle_lifecycle x) (refused_from ident x (device_lifecycle_string DeviceDeleted))) (\<lambda>_.
     result_bind (mg_newID env 1) (\<lambda>commandID.
       Inr (Queued ((operation_on commandID ''delete'' commandKey 3 (base_payload x (dev_lifecycle x) requestHash)
         x (x\<lparr>dev_health_reason := Some (TrimSpace reason)\<rparr>) a True)
         \<lparr>do_DisableMemberships := True, do_ReducePoolTargets := True\<rparr>))))))))"

section \<open>The audited calls\<close>

definition audited ::
  "management_env \<Rightarrow> Actor \<Rightarrow> string \<Rightarrow> string \<Rightarrow> string \<Rightarrow> (device_audit \<Rightarrow> farm_db \<Rightarrow> (farm_error, plan) result) \<Rightarrow>
   farm_db \<Rightarrow> (farm_error, device_row) result \<times> farm_db" where
  "audited env actor requestID action reason call db =
     run_plan (result_bind (deviceAudit env actor requestID action reason) (\<lambda>a. call a db)) db"

definition RestartDeviceAudited where
  "RestartDeviceAudited env ident reason actor requestID key =
     audited env actor requestID ''restart_device'' reason (restartDevice env ident reason key)"

definition StartDeviceAudited where
  "StartDeviceAudited env ident reason actor requestID key =
     audited env actor requestID ''start_ios_simulator'' reason (iosSimulatorLifecycle env ident reason key ''start'')"

definition StopDeviceAudited where
  "StopDeviceAudited env ident reason actor requestID key =
     audited env actor requestID ''stop_ios_simulator'' reason (iosSimulatorLifecycle env ident reason key ''stop'')"

definition RebuildDeviceAudited where
  "RebuildDeviceAudited env ident reason actor requestID key =
     audited env actor requestID ''rebuild_device'' reason (rebuildDevice env ident reason key)"

definition ReimageDeviceAudited where
  "ReimageDeviceAudited env ident input actor requestID key =
     audited env actor requestID ''reimage_device'' (ri_Reason input) (reimageDevice env ident input key)"

definition UpdateDeviceRuntimeProfileAudited where
  "UpdateDeviceRuntimeProfileAudited env ident input actor requestID key =
     audited env actor requestID ''update_device_runtime_profile'' (pu_Reason input) (updateProfile env ident input key)"

definition DeleteDeviceAudited where
  "DeleteDeviceAudited env ident reason actor requestID key =
     audited env actor requestID ''delete_device'' reason
       (\<lambda>a. deleteDevice env ident reason key (a\<lparr>da_DestructiveApproved := True\<rparr>))"

section \<open>Quarantine and release\<close>

text \<open>\<open>transitionDevice\<close>: the lifecycle moves first, then the health.\<close>

definition transitionDevice ::
  "management_env \<Rightarrow> string \<Rightarrow> device_lifecycle_status \<Rightarrow> health_status \<Rightarrow> string \<Rightarrow> device_audit \<Rightarrow> farm_db \<Rightarrow>
   (farm_error, device_row) result \<times> farm_db" where
  "transitionDevice env ident target health reason a db =
     (case result_bind (require (TrimSpace reason \<noteq> []) ErrInvalidArgument) (\<lambda>_.
           result_bind (store_GetDevice ident db) (\<lambda>x.
           result_bind (restore_device x) (\<lambda>d.
           result_bind (move target reason (mg_wall env) d) (\<lambda>d.
           result_bind (set_health health reason (mg_wall env) d) (\<lambda>d. Inr (x, d)))))) of
        Inl e \<Rightarrow> (Inl e, db)
      | Inr (x, d) \<Rightarrow> translated_by normalized (run_tx
          (UpdateDeviceState (x\<lparr>dev_lifecycle := Lifecycle d, dev_health := Health d\<rparr>)
            (dev_lifecycle x) (dev_health x) a) db))"

definition state_call ::
  "management_env \<Rightarrow> string \<Rightarrow> string \<Rightarrow> device_lifecycle_status \<Rightarrow> health_status \<Rightarrow> string \<Rightarrow> Actor \<Rightarrow> string \<Rightarrow>
   farm_db \<Rightarrow> (farm_error, device_row) result \<times> farm_db" where
  "state_call env ident action target health reason actor requestID db =
     (case deviceAudit env actor requestID action reason of
        Inl e \<Rightarrow> (Inl e, db)
      | Inr a \<Rightarrow> transitionDevice env ident target health reason a db)"

definition QuarantineDeviceAudited where
  "QuarantineDeviceAudited env ident reason actor requestID =
     state_call env ident ''quarantine_device'' DeviceQuarantined HealthUnhealthy reason actor requestID"

definition UnquarantineDeviceAudited where
  "UnquarantineDeviceAudited env ident reason actor requestID =
     state_call env ident ''unquarantine_device'' DeviceProvisioning HealthUnknown reason actor requestID"

definition UpdateDeviceName ::
  "management_env \<Rightarrow> string \<Rightarrow> string \<Rightarrow> Actor \<Rightarrow> string \<Rightarrow> farm_db \<Rightarrow> (farm_error, device_row) result \<times> farm_db" where
  "UpdateDeviceName env ident name actor requestID db =
     (case result_bind (require (validDeviceName (TrimSpace name)) ErrInvalidArgument) (\<lambda>_.
           result_bind (store_GetDevice ident db) (\<lambda>x.
           result_bind (deviceAudit env actor requestID ''update_device_name'' ''device display name updated'') (\<lambda>a.
             Inr (x, a)))) of
        Inl e \<Rightarrow> (Inl e, db)
      | Inr (x, a) \<Rightarrow> translated_by normalized (run_tx (store_UpdateDeviceName (dev_id x) (TrimSpace name) a) db))"

end
