(* ===== verification/Warm_Pool_Devices.thy ===== *)
theory Warm_Pool_Devices
  imports Reconciler Management_Devices Pool_Selector
begin

text \<open>
  The transactions of \<open>internal/warmpool/controller.go\<close> on single devices and images: recycling a used
  device by a rebuild, the validation of images, the choice of a host with room, the creation of a
  device with its command, and the end of a creation.  The n-th identifier that a transaction draws is
  \<open>newID n\<close>; SHA-256 in hex, the process clock and \<open>time.Parse\<close> are in the environment.  Errors that
  the code makes up on the spot are \<open>ErrConflict\<close>, and a column that does not scan is \<open>JsonError\<close>.
\<close>

record warm_env =
  wp_hash :: "string \<Rightarrow> string"
  wp_wall :: timestamp
  wp_parse_time :: "string \<Rightarrow> timestamp"

type_synonym identifiers = "nat \<Rightarrow> (farm_error, string) result"

text \<open>The first 16 bytes of a digest, with a prefix.\<close>

definition hashed_key :: "warm_env \<Rightarrow> string \<Rightarrow> string list \<Rightarrow> string" where
  "hashed_key env prefix parts = prefix @ take 32 (wp_hash env (join_text [zero_char] parts))"

definition plain_command :: "string \<Rightarrow> string \<Rightarrow> string \<Rightarrow> json_obj \<Rightarrow> string \<Rightarrow> create_command_params" where
  "plain_command ident hostID commandType payload key =
     \<lparr>ccp_ID = ident, ccp_HostID = hostID, ccp_CommandType = commandType, ccp_Payload = payload,
      ccp_MaxAttempts = 3, ccp_IdempotencyKey = key\<rparr>"

section \<open>Results of builds\<close>

record rebuild_result =
  rb_Generation :: int
  rb_Serial :: string
  rb_ADBEndpoint :: string
  rb_AppiumEndpoint :: string
  rb_AppiumUDID :: string
  rb_Online :: bool
  rb_ADBOnline :: bool
  rb_BootCompleted :: bool
  rb_AppiumHealthy :: bool

definition zero_rebuild :: rebuild_result where
  "zero_rebuild =
     \<lparr>rb_Generation = 0, rb_Serial = [], rb_ADBEndpoint = [], rb_AppiumEndpoint = [], rb_AppiumUDID = [],
      rb_Online = False, rb_ADBOnline = False, rb_BootCompleted = False, rb_AppiumHealthy = False\<rparr>"

definition decode_rebuild :: "json_obj \<Rightarrow> rebuild_result option" where
  "decode_rebuild o' =
     Option.bind (decode_field o' ''generation'' 0 decode_int) (\<lambda>generation.
     Option.bind (nested_members False o' ''connection'') (\<lambda>connection.
     Option.bind (nested_members False o' ''health'') (\<lambda>health.
     Option.bind (text_field connection ''serial'') (\<lambda>serial.
     Option.bind (text_field connection ''adb_endpoint'') (\<lambda>adb.
     Option.bind (text_field connection ''appium_endpoint'') (\<lambda>appium.
     Option.bind (text_field connection ''appium_udid'') (\<lambda>udid.
     Option.bind (flag_field health ''online'') (\<lambda>online.
     Option.bind (flag_field health ''adb_online'') (\<lambda>adbOnline.
     Option.bind (flag_field health ''boot_completed'') (\<lambda>boot.
     Option.bind (flag_field health ''appium_healthy'') (\<lambda>healthy.
       Some \<lparr>rb_Generation = generation, rb_Serial = serial, rb_ADBEndpoint = adb, rb_AppiumEndpoint = appium,
             rb_AppiumUDID = udid, rb_Online = online, rb_ADBOnline = adbOnline, rb_BootCompleted = boot,
             rb_AppiumHealthy = healthy\<rparr>)))))))))))"

definition validRebuildResult :: "rebuild_result \<Rightarrow> bool" where
  "validRebuildResult v \<longleftrightarrow>
     0 < rb_Generation v \<and> rb_Serial v \<noteq> [] \<and> rb_ADBEndpoint v \<noteq> [] \<and> rb_AppiumEndpoint v \<noteq> [] \<and>
     rb_AppiumUDID v \<noteq> [] \<and> rb_Online v \<and> rb_ADBOnline v \<and> rb_BootCompleted v \<and> rb_AppiumHealthy v"

definition read_rebuild :: "json option \<Rightarrow> rebuild_result option" where
  "read_rebuild result =
     (case decode_document zero_rebuild decode_rebuild result of None \<Rightarrow> None
      | Some v \<Rightarrow> if validRebuildResult v then Some v else None)"

text \<open>A device that a build has made ready waits for STF: its health is not yet good.\<close>

definition built_device ::
  "string \<Rightarrow> string \<Rightarrow> timestamp \<Rightarrow> device_row \<Rightarrow> (farm_error, Device) result" where
  "built_device checked ready now x =
     result_bind (restore_device x) (\<lambda>a.
     result_bind (set_health HealthHealthy checked now a) (\<lambda>a.
     result_bind (if Lifecycle a = DeviceProvisioning then move DeviceBooting ''emulator started'' now a else Inr a) (\<lambda>a.
     result_bind (move DeviceReady ready now a) (\<lambda>a.
       set_health HealthUnhealthy STFReadinessStabilizationReason now a))))"

definition built_row :: "rebuild_result \<Rightarrow> Device \<Rightarrow> timestamp \<Rightarrow> device_row \<Rightarrow> device_row" where
  "built_row v a now y =
     y\<lparr>dev_serial := rb_Serial v, dev_adb_endpoint := Some (rb_ADBEndpoint v),
       dev_appium_endpoint := Some (rb_AppiumEndpoint v),
       dev_capabilities := obj_put ''appiumUdid'' (JStr (rb_AppiumUDID v)) (dev_capabilities y),
       dev_lifecycle := Lifecycle a, dev_health := Health a,
       dev_health_reason := Some STFReadinessStabilizationReason, dev_failures := 0,
       dev_last_seen_at := Some now, dev_updated_at := now\<rparr>"

section \<open>Recycling\<close>

record recycling_device =
  rc_Device :: device_row
  rc_ImageID :: string
  rc_DockerImage :: string
  rc_DockerDigest :: string
  rc_ReservationID :: string
  rc_RuntimeProfile :: Profile
  rc_HostOnline :: bool

definition recycles :: "device_row \<Rightarrow> bool" where
  "recycles x \<longleftrightarrow>
     dev_kind x = ''emulator'' \<and> dev_lifecycle_mode x = ''rebuild'' \<and> dev_lifecycle x = DeviceRecycling"

definition last_closed :: "farm_db \<Rightarrow> string \<Rightarrow> reservation_row option" where
  "last_closed db deviceID =
     last_by (\<lambda>r. (case rsv_released_at r of None \<Rightarrow> rsv_updated_at r | Some t \<Rightarrow> t, rsv_id r))
       (\<lambda>r. rsv_device_id r = Some deviceID \<and>
          rsv_status r \<in> {ReservationReleased, ReservationExpired, ReservationForceReleased}) (reservations db)"

definition image_of :: "farm_db \<Rightarrow> device_row \<Rightarrow> image_row option" where
  "image_of db x = find_row (\<lambda>i. Some (img_id i) = dev_image_id x) (images db)"

definition lockRecyclingDevice :: "string \<Rightarrow> farm_db \<Rightarrow> (farm_error, recycling_device option) result" where
  "lockRecyclingDevice ident db =
     (case find_row (\<lambda>x. dev_id x = ident \<and> recycles x) (devices db) of
        None \<Rightarrow> Inr None
      | Some x \<Rightarrow>
          (case (host_of db x, image_of db x, last_closed db ident) of
             (Some h, Some i, Some r) \<Rightarrow>
               (case img_docker_image i of
                  None \<Rightarrow> Inl JsonError
                | Some docker \<Rightarrow>
                    result_bind (parsed (img_resource_config i)) (\<lambda>profile. Inr (Some
                      \<lparr>rc_Device = x, rc_ImageID = img_id i, rc_DockerImage = docker,
                       rc_DockerDigest = img_docker_digest i, rc_ReservationID = rsv_id r,
                       rc_RuntimeProfile = profile,
                       rc_HostOnline = (host_status h = HostOnline \<and> \<not> host_draining h)\<rparr>)))
           | _ \<Rightarrow> Inr None))"

text \<open>INSERT of a command \<open>ON CONFLICT(host_id,idempotency_key) DO NOTHING\<close>.\<close>

definition insert_command_once :: "create_command_params \<Rightarrow> unit farm_tx" where
  "insert_command_once p db =
     (if \<not> ck_command (pending_command p (db_clock db)) then Inl (SqlError ''23514'')
      else if list_ex (\<lambda>c. cmd_host_id c = ccp_HostID p \<and> cmd_key c = ccp_IdempotencyKey p) (commands db)
      then Inr ((), db)
      else insert_command p db)"

definition recycle_payload :: "recycling_device \<Rightarrow> json_obj" where
  "recycle_payload r =
     [(''capabilities'', JObj (dev_capabilities (rc_Device r))), (''device_id'', JStr (dev_id (rc_Device r))),
      (''docker_digest'', JStr (rc_DockerDigest r)), (''docker_image'', JStr (rc_DockerImage r)),
      (''host_id'', JStr (dev_host_id (rc_Device r))), (''image_id'', JStr (rc_ImageID r)),
      (''provider_ref'', JStr (dev_provider_ref (rc_Device r))), (''reservation_id'', JStr (rc_ReservationID r)),
      (''runtime_profile'', JObj (Profile_Map (rc_RuntimeProfile r)))]"

definition queueRecycleRebuild :: "warm_env \<Rightarrow> identifiers \<Rightarrow> recycling_device \<Rightarrow> unit farm_tx" where
  "queueRecycleRebuild env newID r =
     tx_bind (tx_lift (newID 0)) (\<lambda>commandID.
       insert_command_once (plain_command commandID (dev_host_id (rc_Device r)) ''rebuild'' (recycle_payload r)
         (hashed_key env ''recycle-'' [dev_id (rc_Device r), rc_ReservationID r])))"

definition write_recycling :: "device_row \<Rightarrow> (device_row \<Rightarrow> device_row) \<Rightarrow> nat farm_tx" where
  "write_recycling x f = write_devices (\<lambda>y. dev_id y = dev_id x \<and> dev_lifecycle y = DeviceRecycling) f"

definition completeRecycle :: "recycling_device \<Rightarrow> rebuild_result \<Rightarrow> unit farm_tx" where
  "completeRecycle r v =
     tx_bind (tx_read ClockNow) (\<lambda>now.
     tx_bind (tx_lift (built_device ''rebuild readiness checks passed''
         ''rebuild removed previous run data and passed readiness checks'' now (rc_Device r))) (\<lambda>a.
     tx_bind (write_recycling (rc_Device r) (built_row v a now)) (\<lambda>n.
       tx_guard (n = 1) ErrConflict)))"

definition failRecycle :: "identifiers \<Rightarrow> recycling_device \<Rightarrow> string \<Rightarrow> string \<Rightarrow> unit farm_tx" where
  "failRecycle newID r code reason =
     tx_bind (tx_read ClockNow) (\<lambda>now.
     tx_bind (tx_lift (result_bind (restore_device (rc_Device r)) (failed_device False reason now))) (\<lambda>a.
     tx_bind (write_recycling (rc_Device r) (failed_row (code @ '': '' @ reason) now a)) (\<lambda>_.
     tx_bind (tx_lift (newID 0)) (\<lambda>eventID.
     tx_bind (insert_health_event eventID (dev_id (rc_Device r)) ''reconciler'' ''device_rebuild_failed'' ''error'' reason
       [(''error_code'', JStr code), (''reservation_id'', JStr (rc_ReservationID r))] now) (\<lambda>_. tx_return ())))))"

text \<open>What a turn did, for the counters.\<close>

datatype turn = Nothing_done | Rebuild_queued | Rebuild_completed | Rebuild_failed

definition last_rebuild :: "farm_db \<Rightarrow> recycling_device \<Rightarrow> command_row option" where
  "last_rebuild db r =
     last_by (\<lambda>c. (cmd_created_at c, cmd_id c))
       (\<lambda>c. cmd_type c = ''rebuild'' \<and> command_on (dev_id (rc_Device r)) c \<and>
          arrow_text (cmd_payload c) ''reservation_id'' = Some (rc_ReservationID r)) (commands db)"

definition recycle_step :: "warm_env \<Rightarrow> identifiers \<Rightarrow> recycling_device \<Rightarrow> turn farm_tx" where
  "recycle_step env newID r db =
     (case last_rebuild db r of
        None \<Rightarrow>
          if \<not> rc_HostOnline r then Inr (Nothing_done, db)
          else tx_bind (queueRecycleRebuild env newID r) (\<lambda>_. tx_return Rebuild_queued) db
      | Some c \<Rightarrow>
          if unfinished c then Inr (Nothing_done, db)
          else if cmd_status c = CommandSucceeded then
            (case read_rebuild (cmd_result c) of
               None \<Rightarrow> tx_bind (failRecycle newID r ''REBUILD_RESULT_INVALID''
                   ''rebuild command returned an incomplete readiness snapshot'') (\<lambda>_. tx_return Rebuild_failed) db
             | Some v \<Rightarrow> tx_bind (completeRecycle r v) (\<lambda>_. tx_return Rebuild_completed) db)
          else tx_bind (failRecycle newID r (command_error_code ''REBUILD_FAILED'' c)
                 ''rebuild command exhausted retries'') (\<lambda>_. tx_return Rebuild_failed) db)"

definition recycle_tx :: "warm_env \<Rightarrow> identifiers \<Rightarrow> string \<Rightarrow> turn farm_tx" where
  "recycle_tx env newID ident =
     tx_bind (tx_read (lockRecyclingDevice ident)) (\<lambda>current.
       case current of None \<Rightarrow> tx_return Nothing_done | Some r \<Rightarrow> recycle_step env newID r)"

definition recycling_ids :: "farm_db \<Rightarrow> string list" where
  "recycling_ids db = map dev_id (sort_key (\<lambda>x. (dev_updated_at x, dev_id x)) (filter recycles (devices db)))"

section \<open>Choosing a host\<close>

text \<open>
  The devices of a host with the profile they run, its pending validations, and whether it has the image.
  \<open>slotOccupyingDevicePredicate\<close>: a device counts until it is deleted.
\<close>

definition host_devices :: "farm_db \<Rightarrow> host_row \<Rightarrow> device_row list" where
  "host_devices db h = filter (\<lambda>d. dev_host_id d = host_id h \<and> dev_lifecycle d \<noteq> DeviceDeleted) (devices db)"

definition running_profile :: "device_row \<Rightarrow> json_obj" where
  "running_profile d = (case dev_profile_override d of None \<Rightarrow> dev_capabilities d | Some p \<Rightarrow> p)"

definition pending_validations :: "farm_db \<Rightarrow> host_row \<Rightarrow> json_obj list" where
  "pending_validations db h = map cmd_payload (filter (\<lambda>c. cmd_host_id c = host_id h \<and>
     cmd_type c = ''validate_image'' \<and> unfinished c) (commands db))"

definition image_validated :: "farm_db \<Rightarrow> host_row \<Rightarrow> string \<Rightarrow> bool" where
  "image_validated db h imageID \<longleftrightarrow>
     list_ex (\<lambda>c. cmd_host_id c = host_id h \<and> cmd_type c = ''validate_image'' \<and> cmd_status c = CommandSucceeded \<and>
       arrow_text (cmd_payload c) ''image_id'' = Some imageID) (commands db)"

definition image_usable :: "farm_db \<Rightarrow> host_row \<Rightarrow> string \<Rightarrow> bool" where
  "image_usable db h imageID =
     (case find_row (\<lambda>s. his_host_id s = host_id h \<and> his_image_id s = imageID) (host_image_states db) of
        None \<Rightarrow> True | Some s \<Rightarrow> his_available s)"

fun running_allocation :: "device_row list \<Rightarrow> Allocation \<Rightarrow> Allocation option" where
  "running_allocation [] a = Some a"
| "running_allocation (d # ds) a =
     (case Parse (running_profile d) of
        None \<Rightarrow> None
      | Some p \<Rightarrow> running_allocation ds
          (a\<lparr>al_CPUCores := float_add (al_CPUCores a) (pf_ContainerCPUCores p),
             al_MemoryMB := wrap64 (al_MemoryMB a + pf_ContainerMemoryMB p)\<rparr>))"

definition result_total :: "cap_result \<Rightarrow> int" where
  "result_total r = fold (\<lambda>s t. wrap64 (t + snd s)) (cr_Shortfall r) 0"

definition betterCapacityResult :: "cap_result option \<Rightarrow> cap_result \<Rightarrow> cap_result option" where
  "betterCapacityResult current candidate =
     (case current of
        None \<Rightarrow> Some candidate
      | Some c \<Rightarrow>
          if length (cr_Shortfall candidate) < length (cr_Shortfall c) \<or>
             length (cr_Shortfall candidate) = length (cr_Shortfall c) \<and> result_total candidate < result_total c
          then Some candidate else Some c)"

definition zero_capacity :: cap_result where
  "zero_capacity = \<lparr>cr_Fits = False, cr_Additional = 0, cr_Limiting = [], cr_Shortfall = [], cr_AvailableCPU = Fin 0,
     cr_AvailableMemoryMB = 0, cr_AvailableDiskMB = 0\<rparr>"

definition short_of :: "string \<Rightarrow> cap_result" where
  "short_of what = zero_capacity\<lparr>cr_Limiting := what, cr_Shortfall := [(what, 1)]\<rparr>"

definition jsonInt :: "json_obj \<Rightarrow> string \<Rightarrow> int" where
  "jsonInt values key = trunc_int (cap_number (obj_get values key))"

text \<open>
  The verdict on one host: it is passed over, taken, or refused with what it is short of.  A profile that
  was parsed has memory, so \<open>Evaluate\<close> gives a result.
\<close>

datatype verdict = Passed_over | Taken | Refused cap_result

definition static_verdict :: "farm_db \<Rightarrow> host_row \<Rightarrow> verdict" where
  "static_verdict db h =
     (if max (int (length (host_devices db h))) (jsonInt (host_used_capacity h) ''device_slots'') +
         int (length (pending_validations db h)) < jsonInt (host_capacity h) ''device_slots''
      then Taken else Refused (short_of ''device_slots''))"

definition dynamic_verdict :: "warm_env \<Rightarrow> string \<Rightarrow> Profile \<Rightarrow> farm_db \<Rightarrow> host_row \<Rightarrow> cap_host \<Rightarrow> verdict" where
  "dynamic_verdict env imageID requested db h ch =
     (if (case host_last_heartbeat_at h of None \<Rightarrow> True | Some t \<Rightarrow> stale (wp_wall env) t) \<or>
         is_zero_time (ch_CollectedAt ch) \<or> stale (wp_wall env) (ch_CollectedAt ch) then Passed_over
      else case (running_allocation (host_devices db h) (no_allocation\<lparr>al_Slots := int (length (host_devices db h))\<rparr>),
                 pending_allocation (pending_validations db h) no_allocation) of
        (Some existing, Some pending) \<Rightarrow>
          (case Evaluate ch existing pending requested
                  (image_validated db h imageID \<or> list_ex (\<lambda>d. dev_image_id d = Some imageID) (host_devices db h)) of
             None \<Rightarrow> Passed_over
           | Some r \<Rightarrow> if cr_Fits r then Taken else Refused r)
      | _ \<Rightarrow> Passed_over)"

definition host_verdict :: "warm_env \<Rightarrow> string \<Rightarrow> Profile \<Rightarrow> farm_db \<Rightarrow> host_row \<Rightarrow> verdict" where
  "host_verdict env imageID requested db h =
     (case HostFromMap (wp_parse_time env) (host_capacity h) of
        (Some ch, True) \<Rightarrow> dynamic_verdict env imageID requested db h ch
      | _ \<Rightarrow> static_verdict db h)"

fun pick_host ::
  "(host_row \<Rightarrow> verdict) \<Rightarrow> (host_row \<Rightarrow> bool) \<Rightarrow> host_row list \<Rightarrow> bool \<Rightarrow> cap_result option \<Rightarrow> (cap_result, string) result" where
  "pick_host judge blocked [] missing best =
     Inl (if missing then short_of ''image'' else case best of None \<Rightarrow> zero_capacity | Some r \<Rightarrow> r)"
| "pick_host judge blocked (h # hs) missing best =
     (if blocked h then pick_host judge blocked hs True best
      else case judge h of
        Taken \<Rightarrow> Inr (host_id h)
      | Passed_over \<Rightarrow> pick_host judge blocked hs missing best
      | Refused r \<Rightarrow> pick_host judge blocked hs missing (betterCapacityResult best r))"

text \<open>\<open>locked\<close> are the hosts that other transactions hold; \<open>Inl\<close> is \<open>CapacityUnavailableError\<close>.\<close>

definition build_hosts :: "string list \<Rightarrow> farm_db \<Rightarrow> host_row list" where
  "build_hosts locked db = sort_key host_id (filter (\<lambda>h. host_status h = HostOnline \<and> \<not> host_draining h \<and>
     host_type h \<in> {''docker_emulator'', ''hybrid''} \<and> host_id h \<notin> set locked) (hosts db))"

definition lockHostCapacity ::
  "warm_env \<Rightarrow> string list \<Rightarrow> string \<Rightarrow> Profile \<Rightarrow> bool \<Rightarrow> farm_db \<Rightarrow> (cap_result, string) result" where
  "lockHostCapacity env locked imageID requested respectImageState db =
     pick_host (host_verdict env imageID requested db)
       (\<lambda>h. respectImageState \<and> \<not> image_usable db h imageID) (build_hosts locked db) False None"

section \<open>Validating images\<close>

definition write_images :: "(image_row \<Rightarrow> bool) \<Rightarrow> (image_row \<Rightarrow> image_row) \<Rightarrow> nat farm_tx" where
  "write_images P f db =
     (if \<not> list_all ck_image (map f (filter P (images db))) then Inl (SqlError ''23514'')
      else Inr (length (filter P (images db)), db\<lparr>images := update_where P f (images db)\<rparr>))"

definition transitionImage :: "image_row \<Rightarrow> image_status \<Rightarrow> string option \<Rightarrow> unit farm_tx" where
  "transitionImage i to validationError =
     tx_bind (tx_read ClockNow) (\<lambda>now.
     tx_bind (tx_lift (lift_domain (check_transition (RestoreImage (img_id i) (img_status i)) to
                ''image validation command completed'' now))) (\<lambda>_.
     tx_bind (write_images (\<lambda>j. img_id j = img_id i \<and> img_status j = img_status i)
                (\<lambda>j. j\<lparr>img_status := to, img_validation_error := validationError, img_updated_at := now\<rparr>)) (\<lambda>n.
       tx_guard (n = 1) ErrConflict)))"

definition forget_missing :: "string \<Rightarrow> string \<Rightarrow> unit farm_tx" where
  "forget_missing hostID imageID db =
     Inr ((), db\<lparr>host_image_states := filter (\<lambda>s. \<not> (his_host_id s = hostID \<and> his_image_id s = imageID \<and>
       \<not> his_available s)) (host_image_states db)\<rparr>)"

definition decode_image_validation :: "json_obj \<Rightarrow> (bool \<times> bool) option" where
  "decode_image_validation o' =
     Option.bind (flag_field o' ''digest_verified'') (\<lambda>verified.
     Option.bind (flag_field o' ''ready'') (\<lambda>ready. Some (verified, ready)))"

definition last_validation :: "farm_db \<Rightarrow> image_row \<Rightarrow> command_row option" where
  "last_validation db i =
     last_by (\<lambda>c. (cmd_created_at c, cmd_id c))
       (\<lambda>c. cmd_type c = ''validate_image'' \<and> arrow_text (cmd_payload c) ''image_id'' = Some (img_id i) \<and>
          img_updated_at i \<le> cmd_created_at c) (commands db)"

text \<open>\<open>validations\<close>: queued, completed, failed.\<close>

datatype validation = Validation_none | Validation_queued | Validation_completed | Validation_failed

definition validation_request :: "image_row \<Rightarrow> string \<Rightarrow> string \<Rightarrow> Profile \<Rightarrow> json_obj" where
  "validation_request i docker commandID profile =
     [(''capabilities'', JObj (obj_merge (image_capabilities i) (img_resource_config i))),
      (''device_id'', JStr (''validation-'' @ commandID)), (''docker_digest'', JStr (img_docker_digest i)),
      (''docker_image'', JStr docker), (''image_id'', JStr (img_id i)),
      (''provider_ref'', JStr (''validation-'' @ commandID)), (''runtime_profile'', JObj (Profile_Map profile))]"

definition queue_validation ::
  "warm_env \<Rightarrow> identifiers \<Rightarrow> string list \<Rightarrow> image_row \<Rightarrow> string \<Rightarrow> validation farm_tx" where
  "queue_validation env newID locked i docker db =
     (case Parse (img_resource_config i) of
        None \<Rightarrow> Inl ErrInvalidArgument
      | Some profile \<Rightarrow>
          (case lockHostCapacity env locked (img_id i) profile False db of
             Inl _ \<Rightarrow> Inr (Validation_none, db)
           | Inr hostID \<Rightarrow>
               tx_bind (tx_lift (newID 0)) (\<lambda>commandID.
               tx_bind (insert_command (plain_command commandID hostID ''validate_image''
                 (validation_request i docker commandID profile) (''validate-'' @ commandID))) (\<lambda>_.
                 tx_return Validation_queued)) db))"

definition finish_validation :: "image_row \<Rightarrow> command_row \<Rightarrow> validation farm_tx" where
  "finish_validation i c =
     (if cmd_status c = CommandSucceeded then
        (if decode_document (False, False) decode_image_validation (cmd_result c) = Some (True, True) then
           tx_bind (transitionImage i ImageReady None) (\<lambda>_.
           tx_bind (forget_missing (cmd_host_id c) (img_id i)) (\<lambda>_. tx_return Validation_completed))
         else tx_bind (transitionImage i ImageFailed (Some ''image validation returned an incomplete result''))
           (\<lambda>_. tx_return Validation_failed))
      else tx_bind (transitionImage i ImageFailed (Some (command_error_code ''IMAGE_VALIDATION_FAILED'' c)))
        (\<lambda>_. tx_return Validation_failed))"

definition reconcileImageValidation ::
  "warm_env \<Rightarrow> identifiers \<Rightarrow> string list \<Rightarrow> string \<Rightarrow> validation farm_tx" where
  "reconcileImageValidation env newID locked imageID db =
     (case find_row (\<lambda>i. img_id i = imageID) (images db) of
        None \<Rightarrow> Inr (Validation_none, db)
      | Some i \<Rightarrow>
          (case img_docker_image i of
             None \<Rightarrow> Inl JsonError
           | Some docker \<Rightarrow>
               if img_status i \<noteq> ImageValidating then Inr (Validation_none, db)
               else (case last_validation db i of
                   None \<Rightarrow> queue_validation env newID locked i docker db
                 | Some c \<Rightarrow> if unfinished c then Inr (Validation_none, db) else finish_validation i c db)))"

definition validating_ids :: "farm_db \<Rightarrow> string list" where
  "validating_ids db = map img_id (sort_key (\<lambda>i. (img_created_at i, img_id i))
     (filter (\<lambda>i. img_status i = ImageValidating) (images db)))"

end
