(* ===== verification/Warm_Pool.thy ===== *)
theory Warm_Pool
  imports Warm_Pool_Devices
begin

text \<open>
  The pools of \<open>internal/warmpool/controller.go\<close>: creating devices for pending requests and for the
  ready minimum of a pool, removing those beyond its target and those that failed, settling the removals
  when the agent has answered, and the round \<open>RunOnce\<close>.  The order of the demand groups (jsonb order),
  the jobs of the catalogue and the iOS scaler are parameters of a round.
\<close>

section \<open>Counters\<close>

record warm_result =
  wr_Configurations :: nat
  wr_ValidationsQueued :: nat
  wr_ValidationsCompleted :: nat
  wr_ValidationsFailed :: nat
  wr_RebuildsQueued :: nat
  wr_RebuildsCompleted :: nat
  wr_RebuildsFailed :: nat
  wr_DevicesCreated :: nat
  wr_DevicesReady :: nat
  wr_DevicesFailed :: nat
  wr_DeletesQueued :: nat
  wr_DeletesCompleted :: nat
  wr_DeletesFailed :: nat
  wr_CapacityMisses :: nat
  wr_BackoffSkips :: nat

definition no_counts :: warm_result where
  "no_counts =
     \<lparr>wr_Configurations = 0, wr_ValidationsQueued = 0, wr_ValidationsCompleted = 0, wr_ValidationsFailed = 0,
      wr_RebuildsQueued = 0, wr_RebuildsCompleted = 0, wr_RebuildsFailed = 0, wr_DevicesCreated = 0,
      wr_DevicesReady = 0, wr_DevicesFailed = 0, wr_DeletesQueued = 0, wr_DeletesCompleted = 0,
      wr_DeletesFailed = 0, wr_CapacityMisses = 0, wr_BackoffSkips = 0\<rparr>"

definition add_counts :: "warm_result \<Rightarrow> warm_result \<Rightarrow> warm_result" where
  "add_counts a b =
     \<lparr>wr_Configurations = wr_Configurations a + wr_Configurations b,
      wr_ValidationsQueued = wr_ValidationsQueued a + wr_ValidationsQueued b,
      wr_ValidationsCompleted = wr_ValidationsCompleted a + wr_ValidationsCompleted b,
      wr_ValidationsFailed = wr_ValidationsFailed a + wr_ValidationsFailed b,
      wr_RebuildsQueued = wr_RebuildsQueued a + wr_RebuildsQueued b,
      wr_RebuildsCompleted = wr_RebuildsCompleted a + wr_RebuildsCompleted b,
      wr_RebuildsFailed = wr_RebuildsFailed a + wr_RebuildsFailed b,
      wr_DevicesCreated = wr_DevicesCreated a + wr_DevicesCreated b,
      wr_DevicesReady = wr_DevicesReady a + wr_DevicesReady b,
      wr_DevicesFailed = wr_DevicesFailed a + wr_DevicesFailed b,
      wr_DeletesQueued = wr_DeletesQueued a + wr_DeletesQueued b,
      wr_DeletesCompleted = wr_DeletesCompleted a + wr_DeletesCompleted b,
      wr_DeletesFailed = wr_DeletesFailed a + wr_DeletesFailed b,
      wr_CapacityMisses = wr_CapacityMisses a + wr_CapacityMisses b,
      wr_BackoffSkips = wr_BackoffSkips a + wr_BackoffSkips b\<rparr>"

section \<open>Creating a device\<close>

definition android_name :: "string \<Rightarrow> string" where
  "android_name deviceID =
     ''Android'' @ [CHR 0xE8, CHR 0xAE, CHR 0xBE, CHR 0xE5, CHR 0xA4, CHR 0x87] @ ''-'' @
     drop (length deviceID - 6) deviceID"

definition new_emulator :: "string \<Rightarrow> string \<Rightarrow> string \<Rightarrow> json_obj \<Rightarrow> Profile \<Rightarrow> timestamp \<Rightarrow> device_row" where
  "new_emulator deviceID hostID imageID capabilities profile now =
     \<lparr>dev_id = deviceID, dev_name = android_name deviceID, dev_host_id = hostID, dev_platform = ''android'',
      dev_kind = ''emulator'', dev_provider_type = ''docker_emulator'', dev_provider_ref = ''emulator-'' @ deviceID,
      dev_image_id = Some imageID, dev_lifecycle_mode = ''clean'', dev_lifecycle = DeviceProvisioning,
      dev_health = HealthUnknown, dev_health_reason = None, dev_failures = 0, dev_last_seen_at = None,
      dev_serial = ''pending-'' @ deviceID, dev_stf_serial = None, dev_adb_endpoint = None,
      dev_appium_endpoint = None, dev_capabilities = capabilities, dev_profile_override = Some (Profile_Map profile),
      dev_pending_image_id = None, dev_pending_profile = None, dev_reimage_status = ''idle'', dev_reimage_error = None,
      dev_profile_update_status = ''idle'', dev_profile_update_error = None,
      dev_created_at = now, dev_updated_at = now\<rparr>"

definition insert_device :: "device_row \<Rightarrow> unit farm_tx" where
  "insert_device x db =
     (if \<not> (ck_device x \<and> identifierPattern (dev_id x) \<and> ck_device_name (dev_name x)) then Inl (SqlError ''23514'')
      else if list_ex (\<lambda>y. dev_id y = dev_id x) (devices db) \<or> \<not> uq_devices (devices db @ [x]) then Inl (SqlError ''23505'')
      else if host_of db x = None \<or> image_of db x = None then Inl (SqlError ''23503'')
      else Inr ((), db\<lparr>devices := devices db @ [x]\<rparr>))"

text \<open>A membership, with the trigger that compares the platforms.\<close>

definition insert_membership :: "string \<Rightarrow> string \<Rightarrow> unit farm_tx" where
  "insert_membership poolID deviceID db =
     (if map pool_platform (filter (\<lambda>p. pool_id p = poolID) (pools db)) \<noteq>
         map dev_platform (filter (\<lambda>d. dev_id d = deviceID) (devices db)) then Inl (SqlError ''23514'')
      else if list_ex (\<lambda>m. pd_pool_id m = poolID \<and> pd_device_id m = deviceID) (pool_devices db) then Inl (SqlError ''23505'')
      else Inr ((), db\<lparr>pool_devices := pool_devices db @
        [\<lparr>pd_pool_id = poolID, pd_device_id = deviceID, pd_enabled = True, pd_created_at = db_clock db\<rparr>]\<rparr>))"

definition poolPlatformOrDefault :: "farm_db \<Rightarrow> string \<Rightarrow> string" where
  "poolPlatformOrDefault db poolID =
     (case find_row (\<lambda>p. pool_id p = poolID) (pools db) of
        None \<Rightarrow> ''android'' | Some p \<Rightarrow> if pool_platform p = [] then ''android'' else pool_platform p)"

text \<open>The pool is named after the address of its host.\<close>

definition named_for :: "string \<Rightarrow> pool_row \<Rightarrow> bool" where
  "named_for address p \<longleftrightarrow>
     pool_name p = (if pool_platform p = ''ios'' then ''iOS - '' @ address else ''android-'' @ address)"

definition resolvePoolForHost :: "string \<Rightarrow> string \<Rightarrow> farm_db \<Rightarrow> string option" where
  "resolvePoolForHost hostID platform db =
     (case Option.bind (find_row (\<lambda>h. host_id h = hostID) (hosts db)) host_address of
        None \<Rightarrow> None
      | Some address \<Rightarrow> map_option pool_id (first_by pool_created_at
          (\<lambda>p. named_for address p \<and> pool_platform p = platform \<and> pool_status p = PoolActive) (pools db)))"

definition attributed_pool :: "string \<Rightarrow> string \<Rightarrow> farm_db \<Rightarrow> string" where
  "attributed_pool poolID hostID db =
     (case resolvePoolForHost hostID (poolPlatformOrDefault db poolID) db of None \<Rightarrow> poolID | Some p \<Rightarrow> p)"

definition create_payload ::
  "string \<Rightarrow> string \<Rightarrow> string \<Rightarrow> string \<Rightarrow> string \<Rightarrow> json_obj \<Rightarrow> Profile \<Rightarrow> string \<Rightarrow> json_obj" where
  "create_payload deviceID poolID imageID docker digest capabilities profile provisioningKey =
     [(''capabilities'', JObj capabilities), (''device_id'', JStr deviceID), (''docker_digest'', JStr digest),
      (''docker_image'', JStr docker), (''image_id'', JStr imageID), (''pool_id'', JStr poolID),
      (''provider_ref'', JStr (''emulator-'' @ deviceID))] @
     (if provisioningKey = [] then [] else [(''provisioning_key'', JStr provisioningKey)]) @
     [(''runtime_profile'', JObj (Profile_Map profile))]"

definition createDeviceCommand ::
  "warm_env \<Rightarrow> identifiers \<Rightarrow> string \<Rightarrow> string \<Rightarrow> string \<Rightarrow> string \<Rightarrow> string \<Rightarrow> json_obj \<Rightarrow> Profile \<Rightarrow> string \<Rightarrow>
   (string \<times> string \<times> string) farm_tx" where
  "createDeviceCommand env newID poolID imageID docker digest hostID capabilities profile provisioningKey =
     tx_bind (tx_lift (newID 0)) (\<lambda>deviceID.
     tx_bind (tx_lift (newID 1)) (\<lambda>commandID.
     tx_bind (tx_read ClockNow) (\<lambda>now.
     tx_bind (insert_device (new_emulator deviceID hostID imageID capabilities profile now)) (\<lambda>_.
     tx_bind (tx_read (\<lambda>db. Inr (attributed_pool poolID hostID db))) (\<lambda>attributed.
     tx_bind (insert_membership attributed deviceID) (\<lambda>_.
     tx_bind (insert_command (plain_command commandID hostID ''create''
         (create_payload deviceID attributed imageID docker digest capabilities profile provisioningKey)
         (if provisioningKey = [] then hashed_key env ''warm-'' [attributed, imageID, deviceID]
          else hashed_key env ''provision-'' [provisioningKey]))) (\<lambda>_.
       tx_return (deviceID, commandID, attributed))))))))"

section \<open>Finished creations\<close>

definition member_of :: "farm_db \<Rightarrow> string \<Rightarrow> device_row \<Rightarrow> bool" where
  "member_of db poolID d \<longleftrightarrow>
     list_ex (\<lambda>m. pd_pool_id m = poolID \<and> pd_device_id m = dev_id d \<and> pd_enabled m) (pool_devices db)"

definition successful_create :: "farm_db \<Rightarrow> string \<Rightarrow> command_row option" where
  "successful_create db deviceID =
     last_by (\<lambda>c. (case cmd_completed_at c of None \<Rightarrow> (1 :: int, 0 :: int) | Some t \<Rightarrow> (0, t), cmd_id c))
       (\<lambda>c. cmd_type c = ''create'' \<and> command_on deviceID c \<and> cmd_status c = CommandSucceeded) (commands db)"

definition created_devices :: "farm_db \<Rightarrow> string \<Rightarrow> (device_row \<times> command_row) list" where
  "created_devices db poolID =
     concat (map (\<lambda>d. case successful_create db (dev_id d) of None \<Rightarrow> [] | Some c \<Rightarrow> [(d, c)])
       (filter (\<lambda>d. member_of db poolID d \<and> dev_lifecycle d \<in> {DeviceProvisioning, DeviceBooting} \<and>
          \<not> list_ex (\<lambda>c. command_on (dev_id d) c \<and> cmd_type c = ''rebuild'' \<and> unfinished c) (commands db)) (devices db)))"

definition write_device :: "device_row \<Rightarrow> (device_row \<Rightarrow> device_row) \<Rightarrow> unit farm_tx" where
  "write_device x f = tx_bind (write_devices (\<lambda>y. dev_id y = dev_id x) f) (\<lambda>_. tx_return ())"

definition incomplete_text :: string where
  "incomplete_text = ''create command returned an incomplete readiness snapshot''"

definition quarantineCreateResult :: "device_row \<Rightarrow> unit farm_tx" where
  "quarantineCreateResult x =
     tx_bind (tx_read ClockNow) (\<lambda>now.
     tx_bind (tx_lift (result_bind (restore_device x) (failed_device False incomplete_text now))) (\<lambda>a.
       write_device x (failed_row ''CREATE_RESULT_INVALID'' now a)))"

definition complete_create :: "device_row \<times> command_row \<Rightarrow> unit farm_tx" where
  "complete_create dc =
     (case read_rebuild (cmd_result (snd dc)) of
        None \<Rightarrow> quarantineCreateResult (fst dc)
      | Some v \<Rightarrow>
          tx_bind (tx_read ClockNow) (\<lambda>now.
          tx_bind (tx_lift (built_device ''create readiness checks passed'' ''create readiness checks passed'' now (fst dc))) (\<lambda>a.
            write_device (fst dc) (built_row v a now))))"

definition completeSuccessfulCreates :: "string \<Rightarrow> (nat \<times> nat) farm_tx" where
  "completeSuccessfulCreates poolID =
     tx_bind (tx_read (\<lambda>db. Inr (created_devices db poolID))) (\<lambda>values.
     tx_bind (tx_each (\<lambda>_. complete_create) 0 values) (\<lambda>_.
       tx_return (length (filter (\<lambda>dc. read_rebuild (cmd_result (snd dc)) \<noteq> None) values),
                  length (filter (\<lambda>dc. read_rebuild (cmd_result (snd dc)) = None) values))))"

section \<open>Removing devices\<close>

definition failedCreateCleanupSource :: string where
  "failedCreateCleanupSource = ''warm_pool_failed_create_cleanup''"

definition quarantinedCleanupSource :: string where
  "quarantinedCleanupSource = ''warm_pool_quarantined_cleanup''"

definition scaleDownSource :: string where
  "scaleDownSource = ''warm_pool_scale_down''"

definition optional_image :: "string option \<Rightarrow> json_obj" where
  "optional_image i = (case i of None \<Rightarrow> [] | Some imageID \<Rightarrow> [(''image_id'', JStr imageID)])"

text \<open>The payload of a removal; \<open>target\<close> is \<open>target_instances\<close> of a scale-down.\<close>

definition delete_payload :: "string \<Rightarrow> string \<Rightarrow> device_row \<Rightarrow> int option \<Rightarrow> json_obj" where
  "delete_payload source poolID x target =
     [(''device_id'', JStr (dev_id x)), (''device_kind'', JStr (dev_kind x))] @ optional_image (dev_image_id x) @
     [(''operation_source'', JStr source), (''platform'', JStr (dev_platform x)), (''pool_id'', JStr poolID),
      (''provider_ref'', JStr (dev_provider_ref x)), (''provider_type'', JStr (dev_provider_type x))] @
     (case target of None \<Rightarrow> [] | Some n \<Rightarrow> [(''target_instances'', JNum n)])"

definition cleaning :: "farm_db \<Rightarrow> string set \<Rightarrow> string \<Rightarrow> bool" where
  "cleaning db sources deviceID \<longleftrightarrow>
     list_ex (\<lambda>c. cmd_type c = ''delete'' \<and> command_on deviceID c \<and> unfinished c \<and>
       (case arrow_text (cmd_payload c) ''operation_source'' of None \<Rightarrow> False | Some s \<Rightarrow> s \<in> sources)) (commands db)"

definition pool_emulator :: "device_row \<Rightarrow> bool" where
  "pool_emulator d \<longleftrightarrow> dev_kind d = ''emulator'' \<and> dev_provider_type d = ''docker_emulator''"

definition quarantined_devices :: "farm_db \<Rightarrow> string \<Rightarrow> device_row list" where
  "quarantined_devices db poolID =
     filter (\<lambda>d. member_of db poolID d \<and> dev_platform d = ''android'' \<and> pool_emulator d \<and>
       dev_lifecycle d = DeviceQuarantined \<and> dev_health d \<in> {HealthUnhealthy, HealthDegraded} \<and>
       nobody_uses db (dev_id d) \<and>
       \<not> cleaning db {failedCreateCleanupSource, quarantinedCleanupSource} (dev_id d)) (devices db)"

definition clean_quarantined :: "identifiers \<Rightarrow> string \<Rightarrow> nat \<Rightarrow> device_row \<Rightarrow> unit farm_tx" where
  "clean_quarantined newID poolID j x =
     tx_bind (tx_lift (newID j)) (\<lambda>commandID.
       insert_command (plain_command commandID (dev_host_id x) ''delete''
         (delete_payload quarantinedCleanupSource poolID x None) (''quarantined-cleanup-'' @ commandID)))"

definition queueQuarantinedCleanup :: "identifiers \<Rightarrow> string \<Rightarrow> nat farm_tx" where
  "queueQuarantinedCleanup newID poolID =
     tx_bind (tx_read (\<lambda>db. Inr (quarantined_devices db poolID))) (\<lambda>ds.
     tx_bind (tx_each (clean_quarantined newID poolID) 0 ds) (\<lambda>_. tx_return (length ds)))"

definition create_ended :: "farm_db \<Rightarrow> command_status set \<Rightarrow> string \<Rightarrow> bool" where
  "create_ended db statuses deviceID \<longleftrightarrow>
     list_ex (\<lambda>c. cmd_type c = ''create'' \<and> command_on deviceID c \<and> cmd_status c \<in> statuses) (commands db)"

definition failed_creates :: "farm_db \<Rightarrow> string \<Rightarrow> device_row list" where
  "failed_creates db poolID =
     filter (\<lambda>d. member_of db poolID d \<and> dev_lifecycle d \<in> {DeviceProvisioning, DeviceQuarantined} \<and>
       has_prefix (dev_serial d) ''pending-'' \<and> dev_adb_endpoint d = None \<and> dev_appium_endpoint d = None \<and>
       dev_last_seen_at d = None \<and> create_ended db {CommandFailed, CommandTimedOut} (dev_id d) \<and>
       \<not> create_ended db {CommandSucceeded} (dev_id d) \<and>
       \<not> cleaning db {failedCreateCleanupSource} (dev_id d)) (devices db)"

definition cleanup_text :: string where
  "cleanup_text = ''emulator create failed; cleanup queued''"

definition android_emulator :: "device_row \<Rightarrow> device_row" where
  "android_emulator x = x\<lparr>dev_platform := ''android'', dev_kind := ''emulator'', dev_provider_type := ''docker_emulator''\<rparr>"

definition clean_failed :: "warm_env \<Rightarrow> identifiers \<Rightarrow> string \<Rightarrow> nat \<Rightarrow> device_row \<Rightarrow> unit farm_tx" where
  "clean_failed env newID poolID j x =
     tx_bind (tx_read ClockNow) (\<lambda>now.
     tx_bind (tx_lift (newID (2 * j))) (\<lambda>commandID.
     tx_bind (insert_command (plain_command commandID (dev_host_id x) ''delete''
       (delete_payload failedCreateCleanupSource poolID (android_emulator x) None)
       (hashed_key env ''failed-create-cleanup-'' [poolID, dev_id x]))) (\<lambda>_.
     tx_bind (write_device x (\<lambda>y. y\<lparr>dev_health_reason := Some cleanup_text, dev_updated_at := now\<rparr>)) (\<lambda>_.
     tx_bind (tx_lift (newID (2 * j + 1))) (\<lambda>eventID.
     tx_bind (insert_health_event eventID (dev_id x) ''reconciler'' ''warm_pool_create_failed'' ''error'' cleanup_text
       [(''cleanup_command_id'', JStr commandID)] now) (\<lambda>_. tx_return ()))))))"

definition cleanupFailedCreates :: "warm_env \<Rightarrow> identifiers \<Rightarrow> string \<Rightarrow> nat farm_tx" where
  "cleanupFailedCreates env newID poolID =
     tx_bind (tx_read (\<lambda>db. Inr (failed_creates db poolID))) (\<lambda>ds.
     tx_bind (tx_each (clean_failed env newID poolID) 0 ds) (\<lambda>_. tx_return (length ds)))"

section \<open>Scaling down\<close>

definition scalable :: "string \<Rightarrow> device_row \<Rightarrow> bool" where
  "scalable platform d \<longleftrightarrow>
     dev_platform d = platform \<and>
     (platform = ''android'' \<and> pool_emulator d \<or>
      platform = ''ios'' \<and> dev_kind d = ''simulator'' \<and> dev_provider_type d = ''appium_device_farm_ios'')"

definition shared_elsewhere :: "farm_db \<Rightarrow> string \<Rightarrow> device_row \<Rightarrow> bool" where
  "shared_elsewhere db poolID d \<longleftrightarrow>
     list_ex (\<lambda>m. pd_device_id m = dev_id d \<and> pd_enabled m \<and> pd_pool_id m \<noteq> poolID) (pool_devices db)"

definition spared_base :: "farm_db \<Rightarrow> string \<Rightarrow> int \<Rightarrow> device_row \<Rightarrow> bool" where
  "spared_base db poolID target d \<longleftrightarrow>
     target \<noteq> 0 \<and> list_ex (\<lambda>p. pool_id p = poolID \<and> pool_base_device_id p = Some (dev_id d)) (pools db)"

definition scale_candidate :: "string list \<Rightarrow> farm_db \<Rightarrow> string \<Rightarrow> string \<Rightarrow> int \<Rightarrow> device_row \<Rightarrow> bool" where
  "scale_candidate locked db poolID platform target d \<longleftrightarrow>
     dev_id d \<notin> set locked \<and> host_of db d \<noteq> None \<and> list_ex (\<lambda>p. pool_id p = poolID) (pools db) \<and>
     member_of db poolID d \<and> scalable platform d \<and>
     dev_lifecycle d \<in> {DeviceReady, DeviceStopped, DeviceQuarantined} \<and>
     \<not> spared_base db poolID target d \<and> nobody_uses db (dev_id d) \<and> \<not> shared_elsewhere db poolID d"

definition scale_down_text :: string where
  "scale_down_text = ''automatic scale down queued''"

text \<open>The reason of the audit row.\<close>

definition scale_down_reason :: string where
  "scale_down_reason =
     [CHR 0xE6, CHR 0x8C, CHR 0x89, CHR 0xE8, CHR 0xAE, CHR 0xBE, CHR 0xE5, CHR 0xA4, CHR 0x87, CHR 0xE6,
      CHR 0xB1, CHR 0xA0, CHR 0xE7, CHR 0x9B, CHR 0xAE, CHR 0xE6, CHR 0xA0, CHR 0x87, CHR 0xE8, CHR 0x87,
      CHR 0xAA, CHR 0xE5, CHR 0x8A, CHR 0xA8, CHR 0xE7, CHR 0xBC, CHR 0xA9, CHR 0xE5, CHR 0xAE, CHR 0xB9]"

definition leaving_lifecycle :: "timestamp \<Rightarrow> device_row \<Rightarrow> (farm_error, device_lifecycle_status) result" where
  "leaving_lifecycle now x =
     (if dev_lifecycle x = DeviceReady
      then result_bind (restore_device x) (\<lambda>a. result_bind (move DeviceStopped scale_down_text now a) (\<lambda>a. Inr (Lifecycle a)))
      else Inr (dev_lifecycle x))"

definition drop_base :: "(pool_row \<Rightarrow> bool) \<Rightarrow> timestamp \<Rightarrow> unit farm_tx" where
  "drop_base P now =
     tx_bind (write_pools P (\<lambda>p. p\<lparr>pool_base_device_id := None, pool_updated_at := now\<rparr>)) (\<lambda>_. tx_return ())"

definition scale_down_device ::
  "warm_env \<Rightarrow> identifiers \<Rightarrow> string \<Rightarrow> int \<Rightarrow> nat \<Rightarrow> device_row \<Rightarrow> unit farm_tx" where
  "scale_down_device env newID poolID target j x =
     tx_bind (tx_read ClockNow) (\<lambda>now.
     tx_bind (tx_lift (leaving_lifecycle now x)) (\<lambda>next.
     tx_bind (tx_lift (newID (2 * j))) (\<lambda>commandID.
     tx_bind (insert_command (plain_command commandID (dev_host_id x) ''delete''
       (delete_payload scaleDownSource poolID x (Some target))
       (hashed_key env ''scale-down-'' [poolID, dev_platform x, dev_id x, int_text target]))) (\<lambda>_.
     tx_bind (if target = 0
       then drop_base (\<lambda>p. pool_id p = poolID \<and> pool_base_device_id p = Some (dev_id x)) now else tx_return ()) (\<lambda>_.
     tx_bind (update_as_read x (\<lambda>y. y\<lparr>dev_lifecycle := next, dev_health_reason := Some scale_down_text,
       dev_updated_at := now\<rparr>)) (\<lambda>_.
     tx_bind (tx_lift (newID (2 * j + 1))) (\<lambda>auditID.
       insert_audit_row ''device'' auditID ''system'' ''system'' ''scale_down_device'' (dev_id x)
         (''scale-down-'' @ commandID) scale_down_reason)))))))"

text \<open>
  At most \<open>excess\<close> rounds.  The flags that the code checks again for the selected row repeat conditions of
  the query and do not stop the loop.
\<close>

fun queueScaleDown ::
  "warm_env \<Rightarrow> identifiers \<Rightarrow> string list \<Rightarrow> string \<Rightarrow> string \<Rightarrow> int \<Rightarrow> nat \<Rightarrow> nat \<Rightarrow> nat farm_tx" where
  "queueScaleDown env newID locked poolID platform target queued 0 db = Inr (queued, db)"
| "queueScaleDown env newID locked poolID platform target queued (Suc excess) db =
     (case first_by (\<lambda>d. (dev_created_at d, dev_id d)) (scale_candidate locked db poolID platform target) (devices db) of
        None \<Rightarrow> Inr (queued, db)
      | Some x \<Rightarrow>
          tx_bind (scale_down_device env newID poolID target queued x) (\<lambda>_.
            queueScaleDown env newID locked poolID platform target (Suc queued) excess) db)"

definition live_simulators :: "farm_db \<Rightarrow> string \<Rightarrow> int" where
  "live_simulators db poolID =
     int (length (filter (\<lambda>d. member_of db poolID d \<and> scalable ''ios'' d \<and> dev_lifecycle d \<noteq> DeviceDeleted) (devices db)))"

definition ios_pool :: "pool_row \<Rightarrow> bool" where
  "ios_pool p \<longleftrightarrow> pool_platform p = ''ios'' \<and> pool_status p = PoolActive"

definition ios_scale_down_tx :: "warm_env \<Rightarrow> identifiers \<Rightarrow> string list \<Rightarrow> string \<Rightarrow> nat farm_tx" where
  "ios_scale_down_tx env newID locked poolID db =
     (case find_row (\<lambda>p. pool_id p = poolID \<and> ios_pool p) (pools db) of
        None \<Rightarrow> Inr (0, db)
      | Some p \<Rightarrow>
          queueScaleDown env newID locked poolID ''ios'' (pool_total_target p) 0
            (nat (live_simulators db poolID - pool_total_target p)) db)"

section \<open>Settling removals\<close>

definition removal_sources :: "string set" where
  "removal_sources = {scaleDownSource, failedCreateCleanupSource, quarantinedCleanupSource}"

definition unsettled :: "command_row \<Rightarrow> bool" where
  "unsettled c \<longleftrightarrow>
     cmd_type c = ''delete'' \<and>
     (case arrow_text (cmd_payload c) ''operation_source'' of None \<Rightarrow> False | Some s \<Rightarrow> s \<in> removal_sources) \<and>
     arrow_text (cmd_payload c) ''scale_down_reconciled'' \<noteq> Some ''true''"

definition last_removal :: "farm_db \<Rightarrow> string \<Rightarrow> command_row option" where
  "last_removal db deviceID =
     last_by (\<lambda>c. (cmd_created_at c, cmd_id c)) (\<lambda>c. unsettled c \<and> command_on deviceID c) (commands db)"

definition decode_removed :: "json_obj \<Rightarrow> bool option" where
  "decode_removed o' = flag_field o' ''deleted''"

definition removal_confirmed :: "command_row \<Rightarrow> bool" where
  "removal_confirmed c \<longleftrightarrow>
     cmd_status c = CommandSucceeded \<and> decode_document False decode_removed (cmd_result c) = Some True"

definition removal_source :: "command_row \<Rightarrow> string" where
  "removal_source c = (case arrow_text (cmd_payload c) ''operation_source'' of None \<Rightarrow> [] | Some s \<Rightarrow> s)"

text \<open>Event type and reason of a removal that is done.\<close>

definition removed_event :: "command_row \<Rightarrow> string \<times> string" where
  "removed_event c =
     (if removal_source c = failedCreateCleanupSource
      then (''warm_pool_failed_create_cleanup_completed'', ''failed create cleanup removed provider resources'')
      else if removal_source c = quarantinedCleanupSource
      then (''warm_pool_quarantined_cleanup_completed'', ''quarantined emulator resources removed'')
      else (''warm_pool_scale_down_completed'', ''automatic scale down removed emulator resources''))"

definition update_jobs :: "(job_row \<Rightarrow> bool) \<Rightarrow> (job_row \<Rightarrow> job_row) \<Rightarrow> unit farm_tx" where
  "update_jobs P f db = Inr ((), db\<lparr>jobs := update_where P f (jobs db)\<rparr>)"

text \<open>The pool of the creation that failed, when it was asked for with a key.\<close>

definition provisioned_pool :: "farm_db \<Rightarrow> string \<Rightarrow> string option" where
  "provisioned_pool db deviceID =
     (case last_by cmd_created_at (\<lambda>c. cmd_type c = ''create'' \<and> command_on deviceID c \<and>
             obj_has (cmd_payload c) ''provisioning_key'') (commands db) of
        None \<Rightarrow> None | Some c \<Rightarrow> arrow_text (cmd_payload c) ''pool_id'')"

definition give_up_creation :: "string \<Rightarrow> timestamp \<Rightarrow> unit farm_tx" where
  "give_up_creation deviceID now =
     tx_bind (update_jobs (\<lambda>j. job_device_id j = Some deviceID \<and> job_status j \<notin> {''ready'', ''failed''})
       (\<lambda>j. j\<lparr>job_status := ''failed'', job_error_stage := Some ''device_creation'',
              job_error_code := Some ''EMULATOR_CREATE_FAILED'', job_updated_at := now\<rparr>)) (\<lambda>_.
     tx_bind (tx_read (\<lambda>db. Inr (provisioned_pool db deviceID))) (\<lambda>poolID.
     tx_bind (write_pools (\<lambda>p. Some (pool_id p) = poolID)
       (\<lambda>p. p\<lparr>pool_total_target := max (pool_total_target p - 1) 0, pool_updated_at := now\<rparr>)) (\<lambda>_. tx_return ())))"

definition deleted_device :: "string \<Rightarrow> timestamp \<Rightarrow> device_row \<Rightarrow> (farm_error, Device) result" where
  "deleted_device reason now x =
     result_bind (restore_device x) (\<lambda>a. if Lifecycle a = DeviceDeleted then Inr a else move DeviceDeleted reason now a)"

definition removed_row :: "string \<Rightarrow> timestamp \<Rightarrow> device_row \<Rightarrow> device_row" where
  "removed_row reason now y =
     y\<lparr>dev_lifecycle := DeviceDeleted, dev_health_reason := Some reason, dev_adb_endpoint := None,
       dev_appium_endpoint := None, dev_stf_serial := None, dev_updated_at := now\<rparr>"

definition remove_device :: "command_row \<Rightarrow> device_row \<Rightarrow> timestamp \<Rightarrow> unit farm_tx" where
  "remove_device c x now =
     tx_bind (tx_lift (deleted_device (snd (removed_event c)) now x)) (\<lambda>_.
     tx_bind (write_device x (removed_row (snd (removed_event c)) now)) (\<lambda>_.
     tx_bind (disable_memberships (dev_id x)) (\<lambda>_.
     tx_bind (drop_base (\<lambda>p. pool_base_device_id p = Some (dev_id x)) now) (\<lambda>_.
       if removal_source c = failedCreateCleanupSource then give_up_creation (dev_id x) now else tx_return ()))))"

definition removal_failed_text :: "command_row \<Rightarrow> string" where
  "removal_failed_text c =
     command_error_code ''EMULATOR_DELETE_FAILED'' c @ '': automatic scale down could not remove emulator resources''"

definition keep_device :: "command_row \<Rightarrow> device_row \<Rightarrow> timestamp \<Rightarrow> unit farm_tx" where
  "keep_device c x now =
     tx_bind (tx_lift (result_bind (restore_device x) (failed_device True (removal_failed_text c) now))) (\<lambda>a.
       write_device x (failed_row (removal_failed_text c) now a))"

definition mark_settled :: "command_row \<Rightarrow> unit farm_tx" where
  "mark_settled c db =
     Inr ((), db\<lparr>commands := update_where (\<lambda>d. cmd_id d = cmd_id c)
       (\<lambda>d. d\<lparr>cmd_payload := obj_put ''scale_down_reconciled'' (JBool True) (cmd_payload d),
              cmd_updated_at := db_clock db\<rparr>) (commands db)\<rparr>)"

definition settled_event :: "command_row \<Rightarrow> string \<times> string \<times> string" where
  "settled_event c =
     (if removal_confirmed c then (fst (removed_event c), ''info'', snd (removed_event c))
      else (if removal_source c = failedCreateCleanupSource then ''warm_pool_failed_create_cleanup_failed''
            else ''warm_pool_scale_down_failed'', ''error'', removal_failed_text c))"

text \<open>The answer is whether a device was removed, and \<open>None\<close> when there was nothing to settle.\<close>

definition settle_removal :: "identifiers \<Rightarrow> command_row \<Rightarrow> device_row \<Rightarrow> bool option farm_tx" where
  "settle_removal newID c x =
     tx_bind (tx_read ClockNow) (\<lambda>now.
     tx_bind (if removal_confirmed c then remove_device c x now else keep_device c x now) (\<lambda>_.
     tx_bind (tx_lift (newID 0)) (\<lambda>eventID.
     tx_bind (insert_health_event eventID (dev_id x) ''reconciler'' (fst (settled_event c)) (fst (snd (settled_event c)))
       (snd (snd (settled_event c))) [(''command_id'', JStr (cmd_id c))] now) (\<lambda>_.
     tx_bind (mark_settled c) (\<lambda>_. tx_return (Some (removal_confirmed c)))))))"

definition settle_tx :: "identifiers \<Rightarrow> string \<Rightarrow> bool option farm_tx" where
  "settle_tx newID deviceID db =
     (case last_removal db deviceID of
        None \<Rightarrow> Inr (None, db)
      | Some c \<Rightarrow>
          if unfinished c then Inr (None, db)
          else (case find_row (\<lambda>x. dev_id x = deviceID) (devices db) of
                  None \<Rightarrow> Inr (None, db)
                | Some x \<Rightarrow> settle_removal newID c x db))"

text \<open>A removal without a device fails the query, because NULL does not scan.\<close>

definition removals :: "farm_db \<Rightarrow> (farm_error, string list) result" where
  "removals db =
     (let ids = map (\<lambda>c. arrow_text (cmd_payload c) ''device_id'') (filter (\<lambda>c. unsettled c \<and>
           cmd_status c \<in> {CommandSucceeded, CommandFailed, CommandTimedOut, CommandCanceled}) (commands db))
      in if None \<in> set ids then Inl JsonError else Inr (sort (remdups (map the ids))))"

section \<open>What a pool is built from\<close>

text \<open>The image of a pool, that of its base device first, when it is enabled for the pool and ready.\<close>

definition pool_image_id :: "farm_db \<Rightarrow> pool_row \<Rightarrow> string option" where
  "pool_image_id db p =
     (case Option.bind (live_base db p) dev_image_id of None \<Rightarrow> pool_default_image_id p | Some i \<Rightarrow> Some i)"

definition pool_image :: "farm_db \<Rightarrow> pool_row \<Rightarrow> image_row option" where
  "pool_image db p =
     find_row (\<lambda>i. Some (img_id i) = pool_image_id db p \<and> img_status i = ImageReady \<and>
       list_ex (\<lambda>pi. pi_pool_id pi = pool_id p \<and> pi_image_id pi = img_id i \<and> pi_enabled pi) (pool_images db)) (images db)"

definition android_pool :: "pool_row \<Rightarrow> bool" where
  "android_pool p \<longleftrightarrow> pool_platform p = ''android'' \<and> pool_status p = PoolActive"

definition base_capabilities :: "farm_db \<Rightarrow> pool_row \<Rightarrow> json_obj" where
  "base_capabilities db p = (case live_base db p of None \<Rightarrow> [] | Some b \<Rightarrow> dev_capabilities b)"

text \<open>The capabilities of a new device: those of the base device, filled in from the image.\<close>

definition build_capabilities :: "farm_db \<Rightarrow> pool_row \<Rightarrow> image_row \<Rightarrow> json_obj" where
  "build_capabilities db p i = obj_merge (image_capabilities i) (base_capabilities db p)"

definition build_profile :: "farm_db \<Rightarrow> pool_row \<Rightarrow> image_row \<Rightarrow> json_obj" where
  "build_profile db p i =
     (case Option.bind (live_base db p) dev_profile_override of None \<Rightarrow> img_resource_config i | Some o' \<Rightarrow> o')"

definition docker_of :: "image_row \<Rightarrow> (farm_error, string) result" where
  "docker_of i = (case img_docker_image i of None \<Rightarrow> Inl JsonError | Some d \<Rightarrow> Inr d)"

text \<open>One device of the pool, on a host with room; \<open>False\<close> when there is no such host.\<close>

definition build_one ::
  "warm_env \<Rightarrow> identifiers \<Rightarrow> string list \<Rightarrow> string \<Rightarrow> image_row \<Rightarrow> string \<Rightarrow> json_obj \<Rightarrow> Profile \<Rightarrow> bool farm_tx" where
  "build_one env newID locked poolID i docker capabilities profile db =
     (case lockHostCapacity env locked (img_id i) profile True db of
        Inl _ \<Rightarrow> Inr (False, db)
      | Inr hostID \<Rightarrow>
          tx_bind (createDeviceCommand env newID poolID (img_id i) docker (img_docker_digest i) hostID capabilities profile [])
            (\<lambda>_. tx_return True) db)"

section \<open>Demand\<close>

definition open_demand :: "reservation_row \<Rightarrow> bool" where
  "open_demand r \<longleftrightarrow>
     rsv_status r = ReservationPending \<and> \<not> obj_has (rsv_capabilities r) ''_device_farm_target_device_id'' \<and>
     (\<not> obj_has (rsv_capabilities r) ''platformName'' \<or>
      (case arrow_text (rsv_capabilities r) ''platformName'' of None \<Rightarrow> False | Some t \<Rightarrow> ToLower t = ''android''))"

definition demanded :: "farm_db \<Rightarrow> json_obj list" where
  "demanded db = map (\<lambda>r. device_schedulable_capabilities (rsv_capabilities r)) (filter open_demand (reservations db))"

definition in_flight :: "farm_db \<Rightarrow> json_obj \<Rightarrow> int" where
  "in_flight db caps =
     int (length (filter (\<lambda>d. dev_lifecycle d \<in> {DeviceProvisioning, DeviceBooting, DeviceReady} \<and>
       dev_platform d = ''android'' \<and> pool_emulator d \<and> obj_contains (dev_capabilities d) caps) (devices db)))"

definition deficit :: "farm_db \<Rightarrow> json_obj \<Rightarrow> nat" where
  "deficit db caps = nat (int (length (filter (\<lambda>c. c = caps) (demanded db))) - in_flight db caps)"

definition demand_groups :: "(json_obj list \<Rightarrow> json_obj list) \<Rightarrow> farm_db \<Rightarrow> (json_obj \<times> nat) list" where
  "demand_groups order db =
     filter (\<lambda>g. 0 < snd g) (map (\<lambda>caps. (caps, deficit db caps)) (order (remdups (demanded db))))"

definition pool_full :: "farm_db \<Rightarrow> pool_row \<Rightarrow> bool" where
  "pool_full db p \<longleftrightarrow>
     0 < pool_max_concurrency p \<and>
     pool_max_concurrency p \<le> int (length (filter (\<lambda>d. member_of db (pool_id p) d \<and> dev_lifecycle d \<noteq> DeviceDeleted) (devices db)))"

definition demand_pool :: "farm_db \<Rightarrow> json_obj \<Rightarrow> pool_row option" where
  "demand_pool db caps =
     first_by pool_id (\<lambda>p. android_pool p \<and> \<not> pool_full db p \<and>
       (case pool_image db p of None \<Rightarrow> False | Some i \<Rightarrow> obj_contains (build_capabilities db p i) caps)) (pools db)"

text \<open>The identifiers of the n-th device that a transaction creates.\<close>

definition ids_of :: "identifiers \<Rightarrow> nat \<Rightarrow> identifiers" where
  "ids_of newID n m = newID (2 * n + m)"

definition build_from :: "warm_env \<Rightarrow> identifiers \<Rightarrow> string list \<Rightarrow> pool_row \<Rightarrow> image_row \<Rightarrow> bool farm_tx" where
  "build_from env newID locked p i =
     tx_bind (tx_lift (docker_of i)) (\<lambda>docker.
     tx_bind (tx_read (\<lambda>db. parsed (build_profile db p i))) (\<lambda>profile.
     tx_bind (tx_read (\<lambda>db. Inr (build_capabilities db p i))) (\<lambda>capabilities.
       build_one env newID locked (pool_id p) i docker capabilities profile)))"

text \<open>At most \<open>deficit\<close> devices for a group; how many have been created, and whether there was a miss.\<close>

fun serve_group ::
  "warm_env \<Rightarrow> identifiers \<Rightarrow> string list \<Rightarrow> json_obj \<Rightarrow> nat \<Rightarrow> nat \<Rightarrow> (nat \<times> nat) farm_tx" where
  "serve_group env newID locked caps n 0 db = Inr ((n, 0), db)"
| "serve_group env newID locked caps n (Suc remaining) db =
     (case demand_pool db caps of
        None \<Rightarrow> Inr ((n, 1), db)
      | Some p \<Rightarrow>
          (case pool_image db p of
             None \<Rightarrow> Inr ((n, 1), db)
           | Some i \<Rightarrow>
               tx_bind (build_from env (ids_of newID n) locked p i) (\<lambda>built.
                 if built then serve_group env newID locked caps (Suc n) remaining else tx_return (n, 1)) db))"

fun serve_groups ::
  "warm_env \<Rightarrow> identifiers \<Rightarrow> string list \<Rightarrow> nat \<Rightarrow> nat \<Rightarrow> (json_obj \<times> nat) list \<Rightarrow> (nat \<times> nat) farm_tx" where
  "serve_groups env newID locked n misses [] = tx_return (n, misses)"
| "serve_groups env newID locked n misses (g # gs) =
     tx_bind (serve_group env newID locked (fst g) n (snd g)) (\<lambda>r.
       serve_groups env newID locked (fst r) (misses + snd r) gs)"

definition reconcileAndroidDemand ::
  "warm_env \<Rightarrow> identifiers \<Rightarrow> string list \<Rightarrow> (json_obj list \<Rightarrow> json_obj list) \<Rightarrow> (nat \<times> nat) farm_tx" where
  "reconcileAndroidDemand env newID locked order =
     tx_bind (tx_read (\<lambda>db. Inr (demand_groups order db))) (\<lambda>groups. serve_groups env newID locked 0 0 groups)"

section \<open>The fixed baseline of a pool\<close>

definition failed_recently :: "farm_db \<Rightarrow> string \<Rightarrow> timestamp list" where
  "failed_recently db poolID =
     concat (map (\<lambda>c. concat (map (\<lambda>d. case cmd_completed_at c of
           Some t \<Rightarrow> if command_on (dev_id d) c \<and> member_of db poolID d \<and> dev_lifecycle d \<noteq> DeviceDeleted \<and>
                        cmd_type c = ''create'' \<and> cmd_status c \<in> {CommandFailed, CommandTimedOut} \<and>
                        db_clock db - 3600 * second < t then [t] else []
         | None \<Rightarrow> []) (devices db))) (commands db))"

definition creationBackoff :: "farm_db \<Rightarrow> string \<Rightarrow> bool" where
  "creationBackoff db poolID =
     (case latest_time (failed_recently db poolID) of
        None \<Rightarrow> False
      | Some t \<Rightarrow> db_clock db < t + 30 * second * 2 ^ (min (length (failed_recently db poolID) - 1) 4))"

definition count_members :: "farm_db \<Rightarrow> string \<Rightarrow> (device_row \<Rightarrow> bool) \<Rightarrow> int" where
  "count_members db poolID P = int (length (filter (\<lambda>d. member_of db poolID d \<and> pool_emulator d \<and> P d) (devices db)))"

definition ready_or_creating :: "farm_db \<Rightarrow> string \<Rightarrow> int" where
  "ready_or_creating db poolID =
     count_members db poolID (\<lambda>d. host_of db d \<noteq> None \<and> dev_lifecycle d \<in> {DeviceProvisioning, DeviceBooting, DeviceReady})"

definition active_instances :: "farm_db \<Rightarrow> string \<Rightarrow> int" where
  "active_instances db poolID =
     count_members db poolID (\<lambda>d. host_of db d \<noteq> None \<and> dev_lifecycle d \<noteq> DeviceDeleted)"

definition leaving_instances :: "farm_db \<Rightarrow> string \<Rightarrow> int" where
  "leaving_instances db poolID =
     count_members db poolID (\<lambda>d. list_ex (\<lambda>c. cmd_type c = ''delete'' \<and> command_on (dev_id d) c \<and> unfinished c) (commands db))"

definition effective_active :: "farm_db \<Rightarrow> string \<Rightarrow> int" where
  "effective_active db poolID = active_instances db poolID - leaving_instances db poolID"

definition keep_instances :: "farm_db \<Rightarrow> pool_row \<Rightarrow> int" where
  "keep_instances db p =
     (let demandKeep = count_members db (pool_id p) (\<lambda>d. dev_lifecycle d \<in> {DeviceBusy, DeviceReserved}) +
            min (ready_or_creating db (pool_id p)) (int (length (filter open_demand (reservations db))))
      in max (pool_total_target p)
           (if 0 < pool_max_concurrency p then min demandKeep (pool_max_concurrency p) else demandKeep))"

definition missing_instances :: "farm_db \<Rightarrow> pool_row \<Rightarrow> int" where
  "missing_instances db p =
     min (max (pool_min_ready p - ready_or_creating db (pool_id p)) 0)
       (keep_instances db p - effective_active db (pool_id p))"

fun build_missing ::
  "warm_env \<Rightarrow> identifiers \<Rightarrow> string list \<Rightarrow> string \<Rightarrow> image_row \<Rightarrow> string \<Rightarrow> json_obj \<Rightarrow> Profile \<Rightarrow> nat \<Rightarrow> nat \<Rightarrow> (nat \<times> nat) farm_tx" where
  "build_missing env newID locked poolID i docker capabilities profile n 0 = tx_return (n, 0)"
| "build_missing env newID locked poolID i docker capabilities profile n (Suc missing) =
     tx_bind (build_one env (ids_of newID n) locked poolID i docker capabilities profile) (\<lambda>built.
       if built then build_missing env newID locked poolID i docker capabilities profile (Suc n) missing
       else tx_return (n, 1))"

text \<open>The image, its reference, the capabilities and the profile are those read at the start.\<close>

definition balance_pool ::
  "warm_env \<Rightarrow> identifiers \<Rightarrow> string list \<Rightarrow> string list \<Rightarrow> pool_row \<Rightarrow> image_row \<Rightarrow> string \<Rightarrow> json_obj \<Rightarrow> json_obj \<Rightarrow> warm_result farm_tx" where
  "balance_pool env newID lockedHosts lockedDevices p i docker capabilities profile db =
     (if keep_instances db p < effective_active db (pool_id p) then
        tx_bind (queueScaleDown env newID lockedDevices (pool_id p) ''android'' (keep_instances db p) 0
            (nat (effective_active db (pool_id p) - keep_instances db p)))
          (\<lambda>queued. tx_return (no_counts\<lparr>wr_DeletesQueued := queued\<rparr>)) db
      else if missing_instances db p \<le> 0 then Inr (no_counts, db)
      else if creationBackoff db (pool_id p) then Inr (no_counts\<lparr>wr_BackoffSkips := 1\<rparr>, db)
      else tx_bind (tx_lift (parsed profile)) (\<lambda>parsedProfile.
           tx_bind (build_missing env newID lockedHosts (pool_id p) i docker capabilities parsedProfile 0
             (nat (missing_instances db p)))
             (\<lambda>r. tx_return (no_counts\<lparr>wr_DevicesCreated := fst r, wr_CapacityMisses := snd r\<rparr>))) db)"

text \<open>
  \<open>creationBackoff\<close> reads before the counts; nothing is written in between.
\<close>

definition maintain_pool ::
  "warm_env \<Rightarrow> identifiers \<Rightarrow> string list \<Rightarrow> string list \<Rightarrow> pool_row \<Rightarrow> image_row \<Rightarrow> string \<Rightarrow> json_obj \<Rightarrow> json_obj \<Rightarrow> warm_result farm_tx" where
  "maintain_pool env newID lockedHosts lockedDevices p i docker capabilities profile =
     tx_bind (completeSuccessfulCreates (pool_id p)) (\<lambda>done.
     let base = no_counts\<lparr>wr_DevicesReady := fst done, wr_DevicesFailed := snd done\<rparr>
     in tx_bind (queueQuarantinedCleanup newID (pool_id p)) (\<lambda>cleaned.
        if 0 < cleaned then tx_return (base\<lparr>wr_DeletesQueued := cleaned\<rparr>)
        else tx_bind (cleanupFailedCreates env newID (pool_id p)) (\<lambda>failed.
          if 0 < failed then tx_return (base\<lparr>wr_DevicesFailed := snd done + failed, wr_DeletesQueued := failed\<rparr>)
          else tx_bind (balance_pool env newID lockedHosts lockedDevices p i docker capabilities profile)
            (\<lambda>r. tx_return (add_counts base r)))))"

definition reconcile_pool ::
  "warm_env \<Rightarrow> identifiers \<Rightarrow> string list \<Rightarrow> string list \<Rightarrow> string \<Rightarrow> string \<Rightarrow> warm_result farm_tx" where
  "reconcile_pool env newID lockedHosts lockedDevices poolID imageID db =
     (case find_row (\<lambda>p. pool_id p = poolID \<and> android_pool p) (pools db) of
        None \<Rightarrow> Inr (no_counts, db)
      | Some p \<Rightarrow>
          (case pool_image db p of
             None \<Rightarrow> Inr (no_counts, db)
           | Some i \<Rightarrow>
               if img_id i \<noteq> imageID then Inr (no_counts, db)
               else tx_bind (tx_lift (docker_of i)) (\<lambda>docker.
                 maintain_pool env newID lockedHosts lockedDevices p i docker (build_capabilities db p i)
                   (build_profile db p i)) db))"

section \<open>What creations say about images\<close>

text \<open>An observation: host, image, the error that says the image is not there, and its time.\<close>

type_synonym observation = "string \<times> string \<times> string option \<times> timestamp"

definition image_error_codes :: "string set" where
  "image_error_codes = {''IMAGE_DIGEST_MISMATCH'', ''IMAGE_NOT_FOUND''}"

definition observations :: "farm_db \<Rightarrow> (command_row \<Rightarrow> (string option \<times> timestamp) option) \<Rightarrow> observation list" where
  "observations db outcome =
     concat (map (\<lambda>c. case outcome c of
         Some (e, t) \<Rightarrow>
           if cmd_type c = ''create'' \<and> db_clock db - 300 * second \<le> t
           then concat (map (\<lambda>d. case dev_image_id d of
                  Some i \<Rightarrow> if command_on (dev_id d) c then [(dev_host_id d, i, e, t)] else []
                | None \<Rightarrow> []) (devices db)) else []
       | None \<Rightarrow> []) (commands db))"

definition success_outcome :: "command_row \<Rightarrow> (string option \<times> timestamp) option" where
  "success_outcome c =
     (if cmd_status c = CommandSucceeded then map_option (\<lambda>t. (None, t)) (cmd_completed_at c) else None)"

definition failure_outcome :: "command_row \<Rightarrow> (string option \<times> timestamp) option" where
  "failure_outcome c =
     (if cmd_status c \<in> {CommandFailed, CommandTimedOut} \<and>
         (case cmd_error_code c of None \<Rightarrow> False | Some e \<Rightarrow> e \<in> image_error_codes)
      then Some (cmd_error_code c, restart_over c) else None)"

text \<open>
  \<open>INSERT ... SELECT ... ON CONFLICT (host_id,image_id) DO UPDATE ... WHERE observed_at < EXCLUDED.observed_at\<close>.
  A row that the statement has already written fails it with a cardinality violation (SQLSTATE 21000).
\<close>

fun merge_observations ::
  "observation list \<Rightarrow> (string \<times> string) list \<Rightarrow> host_image_state_row list \<Rightarrow> (farm_error, host_image_state_row list) result" where
  "merge_observations [] written t = Inr t"
| "merge_observations ((h, i, e, seen) # os) written t =
     (let row = \<lparr>his_host_id = h, his_image_id = i, his_available = (e = None), his_error_code = e, his_observed_at = seen\<rparr>;
          same = (\<lambda>s. his_host_id s = h \<and> his_image_id s = i)
      in if (h, i) \<in> set written then Inl (SqlError ''21000'')
         else case find_row same t of
           None \<Rightarrow> merge_observations os ((h, i) # written) (t @ [row])
         | Some s \<Rightarrow>
             if his_observed_at s < seen then merge_observations os ((h, i) # written) (update_where same (\<lambda>_. row) t)
             else merge_observations os written t)"

definition record_observations :: "(command_row \<Rightarrow> (string option \<times> timestamp) option) \<Rightarrow> unit farm_tx" where
  "record_observations outcome db =
     (case merge_observations (observations db outcome) [] (host_image_states db) of
        Inl e \<Rightarrow> Inl e | Inr t \<Rightarrow> Inr ((), db\<lparr>host_image_states := t\<rparr>))"

definition recordHostImageOutcomes :: "unit farm_tx" where
  "recordHostImageOutcomes =
     tx_bind (record_observations success_outcome) (\<lambda>_. record_observations failure_outcome)"

section \<open>The round\<close>

record warm_round =
  wm_env :: warm_env
  wm_newID :: "nat \<Rightarrow> nat \<Rightarrow> identifiers"
  wm_lockedHosts :: "string list"
  wm_lockedDevices :: "string list"
  wm_order :: "json_obj list \<Rightarrow> json_obj list"
  wm_jobs :: "farm_db \<Rightarrow> (farm_error, unit) result \<times> farm_db"
  wm_scaler :: "farm_db \<Rightarrow> (farm_error, nat \<times> nat) result \<times> farm_db"

text \<open>A sequence of transactions ends at the first error; its counters are then not used.\<close>

type_synonym warm_step = "farm_db \<Rightarrow> (farm_error, warm_result) result \<times> farm_db"

definition warm_then :: "warm_step \<Rightarrow> warm_step \<Rightarrow> warm_step" where
  "warm_then m n db =
     (case m db of
        (Inl e, db1) \<Rightarrow> (Inl e, db1)
      | (Inr a, db1) \<Rightarrow>
          (case n db1 of (Inl e, db2) \<Rightarrow> (Inl e, db2) | (Inr b, db2) \<Rightarrow> (Inr (add_counts a b), db2)))"

definition warm_run :: "'a farm_tx \<Rightarrow> ('a \<Rightarrow> warm_result) \<Rightarrow> warm_step" where
  "warm_run t tally db = (case run_tx t db of (Inl e, db1) \<Rightarrow> (Inl e, db1) | (Inr a, db1) \<Rightarrow> (Inr (tally a), db1))"

fun warm_each :: "(nat \<Rightarrow> 'x \<Rightarrow> warm_step) \<Rightarrow> nat \<Rightarrow> 'x list \<Rightarrow> warm_step" where
  "warm_each f i [] db = (Inr no_counts, db)"
| "warm_each f i (x # xs) db = warm_then (f i x) (warm_each f (Suc i) xs) db"

definition count_turn :: "turn \<Rightarrow> warm_result" where
  "count_turn t =
     (case t of
        Nothing_done \<Rightarrow> no_counts
      | Rebuild_queued \<Rightarrow> no_counts\<lparr>wr_RebuildsQueued := 1\<rparr>
      | Rebuild_completed \<Rightarrow> no_counts\<lparr>wr_RebuildsCompleted := 1\<rparr>
      | Rebuild_failed \<Rightarrow> no_counts\<lparr>wr_RebuildsFailed := 1\<rparr>)"

definition count_removal :: "bool option \<Rightarrow> warm_result" where
  "count_removal r =
     (case r of None \<Rightarrow> no_counts | Some True \<Rightarrow> no_counts\<lparr>wr_DeletesCompleted := 1\<rparr>
      | Some False \<Rightarrow> no_counts\<lparr>wr_DeletesFailed := 1\<rparr>)"

definition count_validation :: "validation \<Rightarrow> warm_result" where
  "count_validation v =
     (case v of
        Validation_none \<Rightarrow> no_counts
      | Validation_queued \<Rightarrow> no_counts\<lparr>wr_ValidationsQueued := 1\<rparr>
      | Validation_completed \<Rightarrow> no_counts\<lparr>wr_ValidationsCompleted := 1\<rparr>
      | Validation_failed \<Rightarrow> no_counts\<lparr>wr_ValidationsFailed := 1\<rparr>)"

definition reconcileRecyclingDevices :: "warm_round \<Rightarrow> warm_step" where
  "reconcileRecyclingDevices w db =
     warm_each (\<lambda>i ident. warm_run (recycle_tx (wm_env w) (wm_newID w 0 i) ident) count_turn) 0 (recycling_ids db) db"

definition reconcileScaleDownDeletes :: "warm_round \<Rightarrow> warm_step" where
  "reconcileScaleDownDeletes w db =
     (case removals db of
        Inl e \<Rightarrow> (Inl e, db)
      | Inr ids \<Rightarrow> warm_each (\<lambda>i ident. warm_run (settle_tx (wm_newID w 1 i) ident) count_removal) 0 ids db)"

definition reconcileImageValidations :: "warm_round \<Rightarrow> warm_step" where
  "reconcileImageValidations w db =
     warm_each (\<lambda>i ident. warm_run (reconcileImageValidation (wm_env w) (wm_newID w 2 i) (wm_lockedHosts w) ident)
       count_validation) 0 (validating_ids db) db"

definition reconcileIOSScaleDown :: "warm_round \<Rightarrow> warm_step" where
  "reconcileIOSScaleDown w db =
     (let ids = map pool_id (sort_key pool_id (filter ios_pool (pools db)))
      in warm_then (\<lambda>db. (Inr (no_counts\<lparr>wr_Configurations := length ids\<rparr>), db))
           (warm_each (\<lambda>i ident. warm_run (ios_scale_down_tx (wm_env w) (wm_newID w 3 i) (wm_lockedDevices w) ident)
             (\<lambda>n. no_counts\<lparr>wr_DeletesQueued := n\<rparr>)) 0 ids) db)"

text \<open>The configured pools, with their image.\<close>

definition configurations :: "farm_db \<Rightarrow> (string \<times> string) list" where
  "configurations db =
     concat (map (\<lambda>p. case pool_image db p of None \<Rightarrow> [] | Some i \<Rightarrow> [(pool_id p, img_id i)])
       (sort_key pool_id (filter android_pool (pools db))))"

definition outside_step :: "(farm_db \<Rightarrow> (farm_error, 'a) result \<times> farm_db) \<Rightarrow> ('a \<Rightarrow> warm_result) \<Rightarrow> warm_step" where
  "outside_step m tally db =
     (case m db of (Inl e, db1) \<Rightarrow> (Inl e, db1) | (Inr a, db1) \<Rightarrow> (Inr (tally a), db1))"

text \<open>The demand of all pools is served first, then every pool is brought to its baseline.\<close>

definition android_round :: "warm_round \<Rightarrow> warm_step" where
  "android_round w db =
     warm_then (warm_run (reconcileAndroidDemand (wm_env w) (wm_newID w 4 0) (wm_lockedHosts w) (wm_order w))
         (\<lambda>r. no_counts\<lparr>wr_DevicesCreated := fst r, wr_CapacityMisses := snd r\<rparr>))
       (warm_each (\<lambda>i key. warm_run (reconcile_pool (wm_env w) (wm_newID w 5 i) (wm_lockedHosts w) (wm_lockedDevices w)
         (fst key) (snd key)) (\<lambda>r. r)) 0 (configurations db)) db"

definition warm_head :: "warm_round \<Rightarrow> warm_step" where
  "warm_head w =
     warm_then (reconcileRecyclingDevices w)
     (warm_then (reconcileScaleDownDeletes w)
     (warm_then (reconcileImageValidations w)
     (warm_then (outside_step (wm_jobs w) (\<lambda>_. no_counts))
     (warm_then (reconcileIOSScaleDown w)
     (warm_then (outside_step (wm_scaler w) (\<lambda>r. no_counts\<lparr>wr_DevicesCreated := fst r, wr_CapacityMisses := snd r\<rparr>))
       (warm_run recordHostImageOutcomes (\<lambda>_. no_counts)))))))"

text \<open>\<open>Configurations\<close> ends as the number of configured pools, over what the iOS pools have added.\<close>

definition Warm_RunOnce :: "warm_round \<Rightarrow> warm_step" where
  "Warm_RunOnce w db =
     (case warm_head w db of
        (Inl e, db1) \<Rightarrow> (Inl e, db1)
      | (Inr a, db1) \<Rightarrow>
          (case android_round w db1 of
             (Inl e, db2) \<Rightarrow> (Inl e, db2)
           | (Inr b, db2) \<Rightarrow> (Inr ((add_counts a b)\<lparr>wr_Configurations := length (configurations db1)\<rparr>), db2)))"

end
