(* ===== verification/Reconciler_Effects.thy ===== *)
theory Reconciler_Effects
  imports Reconciler Tx_Relations
begin

text \<open>
  What the reconciler does: it respects the leases, it quarantines a device exactly when an event
  forces it or the failures reach the threshold, and it restarts a device once per incident.
\<close>

section \<open>The leases\<close>

lemma recoverDeviceLifecycle_Inr:
  assumes "recoverDeviceLifecycle target reason now a = Inr b"
  shows "Lifecycle b = (if target = ''busy'' then DeviceBusy
    else if target = ''reserved'' then DeviceReserved else DeviceReady)" "Health b = Health a"
  using assms by (auto simp: recoverDeviceLifecycle_def dest!: move_done split: if_splits)

lemma reported_device_Inr:
  assumes "reported_device threshold x d input now = Inr a"
  shows "Lifecycle a =
      (if quarantine_due threshold d input then DeviceQuarantined
       else if report_recovers x d input
            then (if ds_AssignmentTarget d = ''busy'' then DeviceBusy
                  else if ds_AssignmentTarget d = ''reserved'' then DeviceReserved else DeviceReady)
       else dev_lifecycle x)"
    "Health a = fst (healthOutcome d input)"
proof -
  from assms obtain a0 a1 a2 where a0: "restore_device x = Inr a0"
    and a1: "set_health (fst (healthOutcome d input)) (ei_Reason input) now a0 = Inr a1"
    and a2: "(if report_recovers x d input
      then recoverDeviceLifecycle (ds_AssignmentTarget d) (ei_Reason input) now a1 else Inr a1) = Inr a2"
    and a: "(if quarantine_due threshold d input \<and> Lifecycle a2 \<noteq> DeviceQuarantined
       then move DeviceQuarantined (ei_Reason input) now a2 else Inr a2) = Inr a"
    unfolding reported_device_def result_bind_Inr_iff by blast
  note h = set_health_done [OF a1] restore_device_Inr(1) [OF a0]
  have "Lifecycle a2 = (if report_recovers x d input
            then (if ds_AssignmentTarget d = ''busy'' then DeviceBusy
                  else if ds_AssignmentTarget d = ''reserved'' then DeviceReserved else DeviceReady)
       else dev_lifecycle x) \<and> Health a2 = fst (healthOutcome d input)"
    using a2 h recoverDeviceLifecycle_Inr by (auto split: if_splits)
  with a show "Lifecycle a =
      (if quarantine_due threshold d input then DeviceQuarantined
       else if report_recovers x d input
            then (if ds_AssignmentTarget d = ''busy'' then DeviceBusy
                  else if ds_AssignmentTarget d = ''reserved'' then DeviceReserved else DeviceReady)
       else dev_lifecycle x)"
    "Health a = fst (healthOutcome d input)"
    by (auto dest!: move_done split: if_splits)
qed

lemma lockDevice_Inr:
  "lockDevice k db = Inr (x, d) \<Longrightarrow>
   x \<in> set (devices db) \<and> dev_id x = k \<and> find_row (\<lambda>x. dev_id x = k) (devices db) = Some x \<and>
   (\<exists>h. d = locked_state db x h)"
  by (auto simp: lockDevice_def dest!: find_row_SomeD split: option.splits)

lemma event_row_sel [simp]:
  "dev_id (event_row input n a now y) = dev_id y"
  "dev_lifecycle (event_row input n a now y) = Lifecycle a"
  "dev_health (event_row input n a now y) = Health a"
  "dev_failures (event_row input n a now y) = n"
  "dev_health_reason (event_row input n a now y) = Some (ei_Reason input)"
  by (simp_all add: event_row_def)

lemma report_tx_Inr:
  assumes "report_tx threshold ident k input db = Inr (e, db')"
  obtains x d h a t where "find_row (\<lambda>x. dev_id x = k) (devices db) = Some x" "x \<in> set (devices db)" "dev_id x = k"
    and "d = locked_state db x h" and "reported_device threshold x d input (db_clock db) = Inr a"
    and "write_devices (\<lambda>y. dev_id y = dev_id x) (event_row input (snd (healthOutcome d input)) a (db_clock db)) db
      = Inr t"
    and "same_core (snd t) db'"
proof -
  from assms obtain x d a n db1 where
    l: "lockDevice k db = Inr (x, d)" and a: "reported_device threshold x d input (db_clock db) = Inr a"
    and w: "write_devices (\<lambda>y. dev_id y = dev_id x) (event_row input (snd (healthOutcome d input)) a (db_clock db)) db
      = Inr (n, db1)"
    and e: "insert_health_event ident (dev_id x) (ei_Source input) (ei_EventType input) (ei_Severity input)
         (ei_Reason input) (case ei_Payload input of None \<Rightarrow> [] | Some p \<Rightarrow> p) (ei_ObservedAt input) db1 = Inr (e, db')"
    by (auto simp: report_tx_def ClockNow_def)
  from lockDevice_Inr [OF l] obtain h where "d = locked_state db x h" by blast
  with lockDevice_Inr [OF l] a w relatesD [OF write_health_event_core e] show thesis
    by (intro that [of x d h a "(n, db1)"]) simp_all
qed

lemma report_respects:
  assumes "farm_inv db" and "report_tx threshold ident k input db = Inr (e, db')"
  shows "other_components db db'"
  using assms(2)
proof (rule report_tx_Inr)
  fix x d h a t
  assume x: "find_row (\<lambda>x. dev_id x = k) (devices db) = Some x" "x \<in> set (devices db)" "dev_id x = k"
    and d: "d = locked_state db x h" and a: "reported_device threshold x d input (db_clock db) = Inr a"
    and w: "write_devices (\<lambda>y. dev_id y = dev_id x) (event_row input (snd (healthOutcome d input)) a (db_clock db)) db
      = Inr t"
    and s: "same_core (snd t) db'"
  obtain n db1 where t: "t = (n, db1)" by (cases t)
  have o: "other_components db db1"
  proof (rule other_write [OF w [unfolded t] assms(1) x(2)])
    fix r
    assume r: "r \<in> set (reservations db)" "holds r" "rsv_device_id r = Some (dev_id x)"
      "held_lifecycle (rsv_status r) (dev_lifecycle x)"
    have "ds_AssignmentTarget d = (if rsv_status r = ReservationActive then ''busy'' else ''reserved'')"
      using assignment_of_holder [OF assms(1) r(1-3)] by (simp add: d locked_state_def)
    with r(4) reported_device_Inr(1) [OF a]
    show "held_lifecycle (rsv_status r) (dev_lifecycle (event_row input (snd (healthOutcome d input)) a (db_clock db) x))"
      by (auto simp: held_lifecycle_def split: if_splits)
  qed simp
  have "other_components db1 db'"
    using s other_components_inv [OF assms(1) o] by (intro other_same) (simp_all add: t same_core_def)
  with o show ?thesis by (rule other_trans)
qed

interpretation reporting: respects_holds "report_tx threshold ident k input" for threshold ident k input
  by unfold_locales (rule report_respects)

lemma insert_command_core: "relates same_core (insert_command p)"
  by (rule relatesI) (auto simp: insert_command_def Let_def same_core_def split: if_splits)

lemma restart_statements_spares: "relates (spares (dev_id x)) (restart_statements newID x profile)"
  unfolding restart_statements_def
  by (intro spared.rules same_core_spares [OF insert_command_core] same_core_spares [OF write_health_event_core]
      same_core_spares [OF insert_audit_core] update_as_read_spares) (simp add: restarted_row_def)

lemma queueRestart_Inr:
  assumes "queueRestart newID allow k db = Inr (q, db')"
  obtains "q = False" "db' = db"
  | x where "x \<in> set (devices db)" "restart_candidate allow db k x"
    "restart_wanted allow (latest_management_action db k) x"
    "restart_statements newID x (effective_profile db x) db = Inr (q, db')"
  using assms by (auto simp: queueRestart_def simp del: find_row_None split: option.splits if_splits dest: find_row_SomeD)

lemma nobody_uses_unheld: "nobody_uses db k \<Longrightarrow> unheld k db"
  by (auto simp: nobody_uses_def unheld_def list_all_iff list_ex_iff holds_def)

interpretation restarting: respects_holds "queueRestart newID allow k" for newID allow k
proof unfold_locales
  fix db q db'
  assume inv: "farm_inv db" and t: "queueRestart newID allow k db = Inr (q, db')"
  from t show "other_components db db'"
  proof (cases rule: queueRestart_Inr)
    case 1
    with other_refl [OF inv] show ?thesis by simp
  next
    case (2 x)
    from 2(2) have "unheld (dev_id x) db" using nobody_uses_unheld by (auto simp: restart_candidate_def)
    with relatesD [OF restart_statements_spares 2(4)] inv show ?thesis by (simp add: spares_def)
  qed
qed

interpretation ageing: respects_holds "offline_tx timeout h" for timeout h
proof unfold_locales
  fix db n db'
  assume "farm_inv db" and "offline_tx timeout h db = Inr (n, db')"
  then show "other_components db db'"
    by (auto simp: offline_tx_def write_hosts_Inr simp del: find_row_None split: option.splits
        intro!: other_same other_refl)
qed

text \<open>The database that a round leaves.\<close>

definition round_db :: "round \<Rightarrow> farm_db" where
  "round_db r = snd (snd r)"

text \<open>A property of databases that the transactions of the reconciler keep holds along a round.\<close>

locale kept_by_round =
  fixes K :: "farm_db \<Rightarrow> bool"
  assumes report_tx: "K db \<Longrightarrow> K (snd (run_tx (report_tx threshold ident k input) db))"
    and restart_tx: "K db \<Longrightarrow> K (snd (run_tx (queueRestart newID allow k) db))"
    and offline_tx: "K db \<Longrightarrow> K (snd (run_tx (offline_tx timeout h) db))"
begin

lemma report: "K db \<Longrightarrow> K (snd (Report threshold newID k input db))"
  using report_tx by (auto simp: Report_def split: sum.splits)

lemma report_step: "K db \<Longrightarrow> K (round_db (report_step env i d input res db))"
  using report [of db "re_failureThreshold env" "re_newID env i" "ds_ID d" input]
  by (auto simp: report_step_def round_db_def split: prod.splits sum.splits)

lemma restart_step: "K db \<Longrightarrow> K (round_db (restart_step env i allow d res db))"
  using restart_tx [of db "re_newID env i" allow "ds_ID d"]
  by (auto simp: restart_step_def queue_restart_def round_db_def simp del: run_tx_Inl run_tx_Inr
      split: prod.splits sum.splits)

lemma counted: "K (round_db r) \<Longrightarrow> K (round_db (counted_quarantine d r))"
  by (auto simp: counted_quarantine_def round_db_def split: prod.splits sum.splits option.splits)

lemma observed: "K db \<Longrightarrow> K (round_db (observed_step env i d res db))"
  using report_step counted
  by (auto simp: observed_step_def Let_def split: option.splits) (simp_all add: round_db_def)

lemma quarantined: "K db \<Longrightarrow> K (round_db (quarantined_step env i d res db))"
  using report_step [of db env i d "observed_event (re_wall env i) ''health_recovered'' ''info'' ''STF visibility recovered''" res]
    restart_step
  by (auto simp: quarantined_step_def round_db_def split: option.splits prod.splits)

lemma device: "K db \<Longrightarrow> K (round_db (device_step env i d res db))"
  using observed quarantined restart_step by (auto simp: device_step_def) (simp_all add: round_db_def)

lemma devices:
  assumes "\<And>j db. K db \<Longrightarrow> K (re_meanwhile env j db)" and "K db"
  shows "K (round_db (device_steps env i ds res db))"
  using assms(2)
proof (induction ds arbitrary: i res db)
  case Nil
  then show ?case by (simp add: round_db_def)
next
  case (Cons d ds)
  from device [OF assms(1) [OF Cons.prems], of env i d res i] Cons.IH show ?case
    by (auto simp: round_db_def split: prod.splits option.splits)
qed

lemma hosts: "K db \<Longrightarrow> K (snd (mark_offline timeout hs n db))"
proof (induction hs arbitrary: n db)
  case (Cons h hs)
  from offline_tx [OF Cons.prems, of timeout h] Cons.IH show ?case
    by (auto simp del: run_tx_Inl run_tx_Inr split: prod.splits sum.splits)
qed simp

lemma marked: "K db \<Longrightarrow> K (snd (markStaleHostsOffline timeout db))"
  unfolding markStaleHostsOffline_def by (rule hosts)

lemma round:
  assumes "\<And>j db. K db \<Longrightarrow> K (re_meanwhile env j db)" and "K db"
  shows "K (round_db (Reconcile_RunOnce env timeout db))"
proof (cases "markStaleHostsOffline timeout db")
  case (Pair r db1)
  with marked [OF assms(2), of timeout] have "K db1" by simp
  then show ?thesis
    using assms(2) devices [OF assms(1)] Pair
    by (auto simp: Reconcile_RunOnce_def split: sum.splits) (simp_all add: round_db_def)
qed

end

text \<open>The states that the system reaches from \<open>s\<close>, when \<open>s\<close> is a start.\<close>

definition reached :: "farm_db \<Rightarrow> farm_db \<Rightarrow> bool" where
  "reached s db \<longleftrightarrow> farm_start s \<and> farm_step\<^sup>*\<^sup>* s db"

interpretation reaching: kept_by_round "reached s" for s
  by unfold_locales (auto simp: reached_def intro: reporting.run_reachable restarting.run_reachable ageing.run_reachable)

text \<open>
  C36.  A round of the reconciler respects the leases: if what the other components do between its
  steps leads to reachable states, then so does the round, with every device it reports, recovers,
  quarantines or restarts; so the reservations stay exclusive and paired with their devices and
  sessions (C13, C14).
\<close>

theorem reconciler_respects_leases:
  assumes "farm_start s" and "farm_step\<^sup>*\<^sup>* s db"
    and "\<And>i t. farm_step\<^sup>*\<^sup>* s t \<Longrightarrow> farm_step\<^sup>*\<^sup>* s (re_meanwhile env i t)"
    and "Reconcile_RunOnce env timeout db = (e, res, db')"
  shows "farm_step\<^sup>*\<^sup>* s db' \<and> farm_inv db'"
proof -
  have "reached s (round_db (Reconcile_RunOnce env timeout db))"
    by (rule reaching.round) (simp_all add: reached_def assms(1-3))
  then show ?thesis using run_inv [OF assms(1)] by (simp add: assms(4) round_db_def reached_def)
qed

section \<open>Quarantine by failures\<close>

lemma redacted_sel [simp]:
  "ei_EventType (redacted input) = ei_EventType input" "ei_Severity (redacted input) = ei_Severity input"
  "ei_ForceQuarantine (redacted input) = ei_ForceQuarantine input"
  "ei_SuppressQuarantine (redacted input) = ei_SuppressQuarantine input"
  "ei_SuppressFailureCount (redacted input) = ei_SuppressFailureCount input"
  by (simp_all add: redacted_def)

text \<open>The consecutive failures of a device after an event.\<close>

definition failures_after :: "device_row \<Rightarrow> event_input \<Rightarrow> int" where
  "failures_after x input =
     (if ei_Severity input = ''info''
      then (if ei_EventType input = ''health_recovered'' then 0 else dev_failures x)
      else if ei_SuppressFailureCount input then dev_failures x else dev_failures x + 1)"

lemma healthOutcome_failures: "snd (healthOutcome (locked_state db x h) (redacted input)) = failures_after x input"
  by (simp add: healthOutcome_def failures_after_def locked_state_def Let_def)

text \<open>
  C37.  A stored event counts: the failures restart at 0 with a recovery, grow by one with any other
  event that is not informative, unless the caller suppresses the count.  A device that is not
  quarantined becomes so exactly when the event forces it, or when the failures have reached the
  threshold and the caller does not suppress it; otherwise its lifecycle stays.  A quarantined device
  leaves quarantine only by a recovery event, when the reason it has is one the system recovers from by
  itself, and is then healthy.
\<close>

theorem report_quarantines_exactly:
  assumes "Report threshold newID k input db = (Inr e, db')"
    and "find_row (\<lambda>x. dev_id x = k) (devices db) = Some x"
  shows "\<exists>x'\<in>set (devices db'). dev_id x' = k \<and> dev_failures x' = failures_after x input \<and>
     (dev_lifecycle x \<noteq> DeviceQuarantined \<longrightarrow>
        (dev_lifecycle x' = DeviceQuarantined \<longleftrightarrow>
           ei_ForceQuarantine input \<or> (\<not> ei_SuppressQuarantine input \<and> threshold \<le> failures_after x input)) \<and>
        (dev_lifecycle x' \<noteq> DeviceQuarantined \<longrightarrow> dev_lifecycle x' = dev_lifecycle x)) \<and>
     (dev_lifecycle x = DeviceQuarantined \<longrightarrow> dev_lifecycle x' \<noteq> DeviceQuarantined \<longrightarrow>
        ei_EventType input = ''health_recovered'' \<and> ei_Severity input = ''info'' \<and>
        IsSystemRecoverableHealthReason (reason_text x) \<and> dev_health x' = HealthHealthy)"
proof -
  from assms(1) obtain ident where t: "report_tx threshold ident k (redacted input) db = Inr (e, db')"
    by (auto simp: Report_def split: if_splits sum.splits)
  from t show ?thesis
  proof (rule report_tx_Inr)
    fix y d h a w
    assume y: "find_row (\<lambda>x. dev_id x = k) (devices db) = Some y" "y \<in> set (devices db)" "dev_id y = k"
      and d: "d = locked_state db y h" and a: "reported_device threshold y d (redacted input) (db_clock db) = Inr a"
      and w: "write_devices (\<lambda>z. dev_id z = dev_id y)
        (event_row (redacted input) (snd (healthOutcome d (redacted input))) a (db_clock db)) db = Inr w"
      and s: "same_core (snd w) db'"
    have yx: "y = x" using y(1) assms(2) by simp
    let ?f = "event_row (redacted input) (failures_after x input) a (db_clock db)"
    have "devices db' = update_where (\<lambda>z. dev_id z = dev_id y) ?f (devices db)"
      using w s by (cases w) (simp add: write_devices_Inr same_core_def d yx healthOutcome_failures)
    then have mem: "?f x \<in> set (devices db')" using y(2) by (auto simp: set_update_where yx)
    have due: "quarantine_due threshold d (redacted input) \<longleftrightarrow>
        ei_ForceQuarantine input \<or> (\<not> ei_SuppressQuarantine input \<and> threshold \<le> failures_after x input)"
      by (simp add: quarantine_due_def d yx healthOutcome_failures)
    have rec: "report_recovers y d (redacted input) \<Longrightarrow> dev_lifecycle x = DeviceQuarantined \<and>
        ei_EventType input = ''health_recovered'' \<and> ei_Severity input = ''info'' \<and>
        IsSystemRecoverableHealthReason (reason_text x) \<and> Health a = HealthHealthy"
      using reported_device_Inr(2) [OF a]
      by (auto simp: report_recovers_def healthOutcome_def d yx locked_state_def Let_def split: if_splits)
    show ?thesis
      by (intro bexI [OF _ mem]) (use reported_device_Inr(1) [OF a] rec y(3) due yx in \<open>auto split: if_splits\<close>)
  qed
qed

section \<open>One restart per incident\<close>

definition self_restarts :: "string \<Rightarrow> farm_db \<Rightarrow> (string \<times> timestamp) list" where
  "self_restarts k db = map (\<lambda>c. (cmd_id c, cmd_created_at c)) (filter (self_restart k) (commands db))"

lemma self_restart_params: "self_restart (dev_id x) (pending_command (restart_params i x a p) now)"
  by (simp add: self_restart_def command_on_def restart_params_def pending_command_def arrow_text_def obj_get_def)

lemma restart_statements_commands:
  assumes "restart_statements newID x profile db = Inr (q, db')"
  shows "(\<exists>i a. commands db' = commands db @ [pending_command (restart_params i x a profile) (db_clock db)]) \<and>
    (\<exists>u. audits db' = audits db @ [u] \<and> aud_action u = ''restart_device_self_healing'')"
  using assms
  by (auto simp: restart_statements_def insert_command_def update_as_read_def write_devices_Inr insert_audit_row_def
      Let_def split: if_splits dest!: insert_health_event_Inr) blast


section \<open>Concrete rounds\<close>

definition sample_reconciler :: reconcile_env where
  "sample_reconciler =
     \<lparr>re_inspect = None, re_visible = Some (\<lambda>_ _. Inr True), re_visibilityGrace = 0, re_hostRecoveryGrace = 0,
      re_failureThreshold = 3,
      re_newID = (\<lambda>i n. Inr (if n = 0 then ''new_0123456789ab'' else if n = 1 then ''evt_0123456789ab''
        else ''aud_0123456789ab'')),
      re_wall = (\<lambda>_. 1000 * second), re_meanwhile = (\<lambda>_ db. db)\<rparr>"

lemma leased_reached:
  assumes "l \<in> {DeviceBusy, DeviceQuarantined}"
  shows "farm_step\<^sup>*\<^sup>* (farm_with []) (leased_farm (leased_device l h reason))"
proof -
  have "other_components (leased_farm (leased_device DeviceBusy HealthHealthy None)) (leased_farm (leased_device l h reason))"
    using assms by (auto simp: other_components_def leased_farm_def leased_device_def farm_device_def
        farm_pending_def identifierPattern_def is_word_byte_def byte_def)
  then show ?thesis
    using active_reached unfolding active_farm_explicit by (meson rtranclp.rtrancl_into_rtrancl step_others)
qed

definition stf_farm :: farm_db where
  "stf_farm = leased_farm (leased_device DeviceQuarantined HealthUnhealthy (Some ''device is not visible through STF''))"

lemma stf_round:
  "(case Reconcile_RunOnce sample_reconciler (2000 * second) stf_farm of
      (e, res, db) \<Rightarrow> e = None \<and> rr_DevicesRecovered res = 1 \<and> map dev_lifecycle (devices db) = [DeviceBusy])"
  by code_simp

theorem reconciler_respects_leases_witness:
  "\<exists>res db'. Reconcile_RunOnce sample_reconciler (2000 * second) stf_farm = (None, res, db') \<and>
     map dev_lifecycle (devices db') = [DeviceBusy] \<and> farm_step\<^sup>*\<^sup>* (farm_with []) db'"
proof -
  obtain res db' where r: "Reconcile_RunOnce sample_reconciler (2000 * second) stf_farm = (None, res, db')"
    and b: "map dev_lifecycle (devices db') = [DeviceBusy]"
    using stf_round by (auto split: prod.splits)
  have start: "farm_step\<^sup>*\<^sup>* (farm_with []) stf_farm" unfolding stf_farm_def by (rule leased_reached) simp
  have "farm_step\<^sup>*\<^sup>* (farm_with []) db'"
    using reconciler_respects_leases [OF sample_start start _ r] by (simp add: sample_reconciler_def)
  with r b show ?thesis by (intro exI [of _ res] exI [of _ db'] conjI)
qed

definition failing_farm :: farm_db where
  "failing_farm = (farm_with [])\<lparr>devices := [farm_device\<lparr>dev_failures := 2\<rparr>]\<rparr>"

definition failing_event :: event_input where
  "failing_event = observed_event (1000 * second) ''provider_not_ready'' ''error'' ''provider device is not fully ready''"

lemma failing_report:
  "(case Report 3 (re_newID sample_reconciler 0) ''dev_0123456789ab'' failing_event failing_farm of
      (Inr e, db) \<Rightarrow> True | _ \<Rightarrow> False)"
  by code_simp

theorem report_quarantines_exactly_witness:
  "\<exists>e db'. Report 3 (re_newID sample_reconciler 0) ''dev_0123456789ab'' failing_event failing_farm = (Inr e, db') \<and>
     (\<exists>x\<in>set (devices db'). dev_lifecycle x = DeviceQuarantined \<and> dev_failures x = 3)"
proof -
  obtain e db' where r: "Report 3 (re_newID sample_reconciler 0) ''dev_0123456789ab'' failing_event failing_farm = (Inr e, db')"
    using failing_report by (auto split: prod.splits sum.splits)
  have "find_row (\<lambda>x. dev_id x = ''dev_0123456789ab'') (devices failing_farm) = Some (farm_device\<lparr>dev_failures := 2\<rparr>)"
    by (simp add: failing_farm_def farm_device_def)
  from report_quarantines_exactly [OF r this]
  have "\<exists>x\<in>set (devices db'). dev_lifecycle x = DeviceQuarantined \<and> dev_failures x = 3"
    by (auto simp: failing_event_def observed_event_def failures_after_def farm_device_def)
  with r show ?thesis by blast
qed

definition incident_farm :: farm_db where
  "incident_farm = (farm_with [])\<lparr>devices := [leased_device DeviceQuarantined HealthUnhealthy (Some AgentReportedUnhealthyReason)]\<rparr>"

definition restarted_farm :: farm_db where
  "restarted_farm = (case queueRestart (re_newID sample_reconciler 0) False ''dev_0123456789ab'' incident_farm of
     Inr (True, db) \<Rightarrow> db | _ \<Rightarrow> incident_farm)"

text \<open>The restart has failed, and the device is in quarantine again.\<close>

definition relapsed_farm :: farm_db where
  "relapsed_farm = restarted_farm
     \<lparr>commands := map (\<lambda>c. c\<lparr>cmd_status := CommandFailed, cmd_completed_at := Some (2000 * second)\<rparr>) (commands restarted_farm),
      devices := devices incident_farm, db_clock := 3000 * second\<rparr>"

lemma incident_queue:
  "(case queueRestart (re_newID sample_reconciler 0) False ''dev_0123456789ab'' incident_farm of
     Inr (True, db) \<Rightarrow> True | _ \<Rightarrow> False)"
  by code_simp


section \<open>Two weaknesses\<close>

text \<open>
  An event on a device that an operator has quarantined replaces the reason of the quarantine.  After an
  event whose reason is one the system recovers from, the next round lifts the quarantine.
\<close>

definition broken_farm :: farm_db where
  "broken_farm = (farm_with [])\<lparr>devices := [leased_device DeviceQuarantined HealthUnhealthy (Some ''broken screen'')]\<rparr>"

definition stf_report :: event_input where
  "stf_report = (observed_event (1000 * second) ''stf_probe'' ''error'' ''STF did not list the device'')\<lparr>ei_Source := ''stf''\<rparr>"

lemma quarantine_reason_replaced:
  "(case Reconcile_RunOnce sample_reconciler (2000 * second) broken_farm of
      (e, res, db) \<Rightarrow> e = None \<and> map dev_lifecycle (devices db) = [DeviceQuarantined])"
  "(case Report 3 (\<lambda>_. Inr ''rep_0123456789ab'') ''dev_0123456789ab'' stf_report broken_farm of
      (Inr _, db) \<Rightarrow>
        (case Reconcile_RunOnce sample_reconciler (2000 * second) db of
           (e, res, db) \<Rightarrow> e = None \<and> map dev_lifecycle (devices db) = [DeviceReady])
    | _ \<Rightarrow> False)"
  by code_simp+

text \<open>
  A device that the round wants to recover may have lost its serial to a newer device, since the unique
  index leaves quarantined devices out.  Its update then fails, and the round ends there, before the
  devices that come later in the order of creation.
\<close>

definition reused_farm :: farm_db where
  "reused_farm = (farm_with [])
     \<lparr>devices := [leased_device DeviceQuarantined HealthUnhealthy (Some ''device is not visible through STF''),
        (leased_device DeviceReady HealthUnhealthy None)\<lparr>dev_id := ''dev_newer_012345'', dev_provider_ref := ''emulator-02'',
          dev_created_at := 30\<rparr>]\<rparr>"

lemma recovery_conflict_ends_round:
  "(case Reconcile_RunOnce sample_reconciler (2000 * second) reused_farm of
      (e, res, db) \<Rightarrow> e = Some (SqlError ''23505'') \<and> rr_DevicesChecked res = 0)"
  by code_simp

end
