(* ===== verification/Management_Effects.thy ===== *)
theory Management_Effects
  imports Management_Devices Reconciler_Effects Heartbeat_Effects
begin

text \<open>
  What the device operations of an operator do: one that takes effect found the device as it was read
  and queues one command; all but the restart and the release of a quarantine respect the leases.
\<close>

section \<open>The statements\<close>

lemma write_audit_core: "relates same_core (write_audit t a k)"
  unfolding write_audit_def by (rule insert_audit_core)

lemma disable_memberships_core: "relates same_core (disable_memberships k)"
  by (rule relatesI) (auto simp: disable_memberships_def same_core_def)

lemma reduce_targets_core: "relates same_core (reduce_targets k)"
  by (rule relatesI) (auto simp: reduce_targets_def write_pools_Inr same_core_def)

lemma created_command_core: "relates same_core (created_command p)"
  by (rule relatesI) (auto simp: created_command_def split: sum.splits dest: relatesD [OF Create_same_core])

lemma pending_change_spares: "relates (spares (dev_id (do_Device p))) (pending_change p now)"
  unfolding pending_change_def by (intro spared.rules write_devices_spares) simp_all

lemma queue_statements_spares: "relates (spares (dev_id (do_Device p))) (queue_statements p cmd now)"
  unfolding queue_statements_def
  by (intro spared.rules write_devices_spares pending_change_spares same_core_spares [OF write_audit_core]
      same_core_spares [OF disable_memberships_core] same_core_spares [OF reduce_targets_core])
    (auto simp: as_expected_def operated_row_def)

text \<open>The key of the command is free when the operation is not a replay, so the command is a new one.\<close>

lemma created_command_new:
  assumes "created_command p db = Inr (cmd, db1)"
    and "find_row (\<lambda>c. cmd_host_id c = dev_host_id (do_Device p) \<and> cmd_key c = do_IdempotencyKey p) (commands db) = None"
  shows "cmd = pending_command (operation_params p) (db_clock db)" "db1 = db\<lparr>commands := commands db @ [cmd]\<rparr>"
  using assms
  by (auto simp: created_command_def Command_Repository.Create_def operation_params_def Let_def
      simp del: find_row_None split: sum.splits if_splits option.splits)

lemma queue_tx_Inr:
  assumes "queue_tx p db = Inr (x, db')"
  obtains "db' = db" "x \<in> set (devices db)" "dev_id x = dev_id (do_Device p)"
  | cmd db1 where "\<not> operation_blocked p db" "created_command p db = Inr (cmd, db1)"
    "cmd = pending_command (operation_params p) (db_clock db)" "db1 = db\<lparr>commands := commands db @ [cmd]\<rparr>"
    "queue_statements p cmd (db_clock db) db1 = Inr (x, db')"
proof (cases "find_row (\<lambda>c. cmd_host_id c = dev_host_id (do_Device p) \<and> cmd_key c = do_IdempotencyKey p) (commands db)")
  case None
  with assms obtain cmd db1 where "\<not> operation_blocked p db" and c: "created_command p db = Inr (cmd, db1)"
    and q: "(if cmd_id cmd \<noteq> do_CommandID p then tx_read (store_GetDevice (dev_id (do_Device p)))
       else queue_statements p cmd (db_clock db)) db1 = Inr (x, db')"
    unfolding queue_tx_def by (auto simp del: find_row_None split: if_splits)
  moreover have "cmd_id cmd = do_CommandID p"
    by (simp add: created_command_new(1) [OF c None] pending_command_def operation_params_def)
  ultimately show ?thesis using created_command_new [OF c None] that(2) by simp
next
  case (Some c)
  with assms that(1) show ?thesis
    unfolding queue_tx_def
    by (auto simp: store_GetDevice_def split: if_splits option.splits dest: find_row_SomeD)
qed

lemma unblocked_unheld:
  "\<not> operation_blocked p db \<Longrightarrow> do_RequireNoActiveReservation p \<Longrightarrow> unheld (dev_id (do_Device p)) db"
  by (auto simp: operation_blocked_def unheld_def list_all_iff list_ex_iff holds_def)

text \<open>The statements after the command is created work on one device and leave the tables of the leases.\<close>

definition works_on :: "string \<Rightarrow> farm_db \<Rightarrow> farm_db \<Rightarrow> bool" where
  "works_on k db db' \<longleftrightarrow>
     reservations db' = reservations db \<and> sessions db' = sessions db \<and> commands db' = commands db \<and>
     map dev_id (devices db') = map dev_id (devices db) \<and>
     filter (\<lambda>y. dev_id y \<noteq> k) (devices db') = filter (\<lambda>y. dev_id y \<noteq> k) (devices db)"

interpretation working: tx_relation "works_on k" for k
  by unfold_locales (simp_all add: works_on_def)

lemma filter_update_where:
  "(\<And>y. P y \<Longrightarrow> \<not> Q y) \<Longrightarrow> (\<And>y. P y \<Longrightarrow> \<not> Q (f y)) \<Longrightarrow> filter Q (update_where P f t) = filter Q t"
  by (induction t) (auto simp: update_where_def)

lemma write_devices_works:
  "(\<And>y. P y \<Longrightarrow> dev_id y = k) \<Longrightarrow> (\<And>y. dev_id (f y) = dev_id y) \<Longrightarrow> relates (works_on k) (write_devices P f)"
  by (rule relatesI) (auto simp: write_devices_Inr works_on_def filter_update_where, auto simp: update_where_def)

lemma write_audit_works: "relates (works_on k) (write_audit t a i)"
  by (rule relatesI) (auto simp: write_audit_def insert_audit_row_def Let_def works_on_def split: if_splits)

lemma disable_memberships_works: "relates (works_on k) (disable_memberships i)"
  by (rule relatesI) (auto simp: disable_memberships_def works_on_def)

lemma reduce_targets_works: "relates (works_on k) (reduce_targets i)"
  by (rule relatesI) (auto simp: reduce_targets_def write_pools_Inr works_on_def)

lemma queue_statements_works: "relates (works_on (dev_id (do_Device p))) (queue_statements p cmd now)"
  unfolding queue_statements_def pending_change_def
  by (intro working.rules write_devices_works write_audit_works disable_memberships_works reduce_targets_works)
    (auto simp: as_expected_def operated_row_def)

text \<open>A pending image or profile does not change the state of a device.\<close>

definition states_kept :: "farm_db \<Rightarrow> farm_db \<Rightarrow> bool" where
  "states_kept db db' \<longleftrightarrow>
     map (\<lambda>y. (dev_id y, dev_lifecycle y, dev_health y)) (devices db') =
     map (\<lambda>y. (dev_id y, dev_lifecycle y, dev_health y)) (devices db)"

interpretation stated: tx_relation states_kept
  by unfold_locales (simp_all add: states_kept_def)

lemma write_devices_states:
  "(\<And>y. dev_id (f y) = dev_id y \<and> dev_lifecycle (f y) = dev_lifecycle y \<and> dev_health (f y) = dev_health y) \<Longrightarrow>
   relates states_kept (write_devices P f)"
  by (rule relatesI) (auto simp: write_devices_Inr states_kept_def update_where_def)

lemma pending_change_states: "relates states_kept (pending_change p now)"
  unfolding pending_change_def by (intro stated.rules write_devices_states) simp_all

lemma queue_statements_exact:
  assumes ids: "distinct (map dev_id (devices db))" and t: "queue_statements p cmd now db = Inr (x, db')"
  shows "x \<in> set (devices db')" "dev_id x = dev_id (do_Device p)"
    "dev_lifecycle x = dev_lifecycle (do_Device p)" "dev_health x = dev_health (do_Device p)"
proof -
  let ?k = "dev_id (do_Device p)"
  let ?state = "\<lambda>y. (dev_id y, dev_lifecycle y, dev_health y)"
  obtain db1 u db2 where w: "write_devices (as_expected p) (operated_row p now) db = Inr (1, db1)"
    and c: "pending_change p now db1 = Inr (u, db2)" and g: "store_GetDevice ?k db2 = Inr x" and s: "same_core db2 db'"
  proof -
    from t obtain db1 u db2 db3 u1 db4 u2 where st:
      "write_devices (as_expected p) (operated_row p now) db = Inr (1, db1)"
      "pending_change p now db1 = Inr (u, db2)" "store_GetDevice ?k db2 = Inr x"
      "(if do_DisableMemberships p then disable_memberships ?k else tx_return ()) db2 = Inr (u1, db3)"
      "(if do_ReducePoolTargets p then reduce_targets ?k else tx_return ()) db3 = Inr (u2, db4)"
      "write_audit ''device'' (do_Audit p) ?k db4 = Inr ((), db')"
      unfolding queue_statements_def by (auto split: if_splits)
    have "relates same_core (if do_DisableMemberships p then disable_memberships ?k else tx_return ())"
      by (intro core.rules disable_memberships_core)
    from this st(4) have "same_core db2 db3" by (rule relatesD)
    moreover have "relates same_core (if do_ReducePoolTargets p then reduce_targets ?k else tx_return ())"
      by (intro core.rules reduce_targets_core)
    from this st(5) have "same_core db3 db4" by (rule relatesD)
    moreover have "same_core db4 db'" by (rule relatesD [OF write_audit_core st(6)])
    ultimately have s: "same_core db2 db'" using core.trans by blast
    show ?thesis by (rule that [OF st(1-3) s])
  qed
  from w have one: "length (filter (as_expected p) (devices db)) = 1" by (simp add: write_devices_Inr)
  obtain y where y: "y \<in> set (devices db)" "as_expected p y" by (rule length_filter_eq_one [OF one])
  have x: "x \<in> set (devices db2)" "dev_id x = ?k"
    using g by (auto simp: store_GetDevice_def split: option.splits dest: find_row_SomeD)
  have k: "dev_id y = ?k" using y(2) by (simp add: as_expected_def)
  have y1: "operated_row p now y \<in> set (devices db1)" using w y by (simp add: write_devices_Inr set_update_where)
  have m: "map ?state (devices db2) = map ?state (devices db1)"
    using relatesD [OF pending_change_states c] by (simp add: states_kept_def)
  have "?state x \<in> ?state ` set (devices db2)" using x(1) by (rule imageI)
  then have "?state x \<in> ?state ` set (devices db1)" using arg_cong [OF m, of set] by (simp only: set_map)
  then obtain z where z: "?state x = ?state z" "z \<in> set (devices db1)" by (rule imageE)
  have "map dev_id (devices db1) = map dev_id (devices db)"
    using w by (auto simp: write_devices_Inr update_where_def operated_row_def)
  then have d: "distinct (map dev_id (devices db1))" using ids by (simp only:)
  have e: "dev_id z = dev_id (operated_row p now y)" using z(1) x(2) k by (simp add: operated_row_def)
  have "z = operated_row p now y" by (rule distinct_map_same [OF d z(2) y1 e])
  then have "dev_lifecycle z = dev_lifecycle (do_Device p)" "dev_health z = dev_health (do_Device p)"
    by (simp_all add: operated_row_def)
  then show "dev_lifecycle x = dev_lifecycle (do_Device p)" "dev_health x = dev_health (do_Device p)"
    using z(1) by simp_all
  show "x \<in> set (devices db')" "dev_id x = ?k" using x s by (simp_all add: same_core_def)
qed

lemma same_core_others: "farm_inv db \<Longrightarrow> same_core db db' \<Longrightarrow> other_components db db'"
  by (intro other_same) (simp_all add: same_core_def)

lemma queue_tx_others:
  assumes inv: "farm_inv db" and free: "do_RequireNoActiveReservation p \<or> unheld (dev_id (do_Device p)) db"
    and t: "queue_tx p db = Inr (x, db')"
  shows "other_components db db'"
  using t
proof (cases rule: queue_tx_Inr)
  case 1
  then show ?thesis using other_refl [OF inv] by simp
next
  case (2 cmd db1)
  have u: "unheld (dev_id (do_Device p)) db" using free unblocked_unheld [OF 2(1)] by blast
  have c: "same_core db db1" by (rule relatesD [OF created_command_core 2(2)])
  then have "reservations db1 = reservations db" by (simp add: same_core_def)
  then have "unheld (dev_id (do_Device p)) db1" using u unfolding unheld_def by (simp only:)
  moreover have "farm_inv db1" using same_core_inv [OF c] inv by (simp only:)
  ultimately have "other_components db1 db'"
    using relatesD [OF queue_statements_spares 2(5)] by (simp only: spares_def)
  with same_core_others [OF inv c] show ?thesis using other_trans by blast
qed

text \<open>An operation that insists on a device without reservations satisfies the contract.\<close>

interpretation exclusive_operation:
  respects_holds "queue_tx (p\<lparr>do_RequireNoActiveReservation := True\<rparr>)" for p
  by unfold_locales (rule queue_tx_others, auto)

lemma translated_db: "snd (translated_by f (run_tx m db)) = snd (run_tx m db)"
  by (auto simp: translated_by_def split: prod.splits sum.splits)

lemma translated_by_Inl: "translated_by f (run_tx m db) = (Inl e, db') \<Longrightarrow> db' = db"
  by (cases "m db") (auto simp: translated_by_def run_tx_def)

lemma translated_by_Inr: "translated_by f (run_tx m db) = (Inr x, db') \<Longrightarrow> m db = Inr (x, db')"
  by (cases "m db") (auto simp: translated_by_def run_tx_def)

lemma run_tx_others:
  assumes "farm_inv db" and "\<And>x db'. m db = Inr (x, db') \<Longrightarrow> other_components db db'"
  shows "other_components db (snd (run_tx m db))"
  using assms other_refl by (cases "m db") (auto simp: run_tx_def)

lemma QueueDeviceOperation_others:
  assumes "farm_inv db" and "do_RequireNoActiveReservation p \<or> unheld (dev_id (do_Device p)) db"
  shows "other_components db (snd (QueueDeviceOperation p db))"
proof -
  have "other_components db (snd (run_tx (queue_tx p) db))"
    by (rule run_tx_others [OF assms(1)]) (rule queue_tx_others [OF assms])
  then show ?thesis using other_refl [OF assms(1)] by (simp add: QueueDeviceOperation_def translated_db)
qed

section \<open>The plans\<close>

lemma run_plan_others:
  assumes "farm_inv db"
    and "\<And>p. r = Inr (Queued p) \<Longrightarrow> do_RequireNoActiveReservation p \<or> unheld (dev_id (do_Device p)) db"
  shows "other_components db (snd (run_plan r db))"
  using other_refl [OF assms(1)] QueueDeviceOperation_others [OF assms(1) assms(2)]
  by (auto simp: run_plan_def split: sum.splits plan.splits)

definition exclusive_plan :: "(farm_error, plan) result \<Rightarrow> bool" where
  "exclusive_plan r \<longleftrightarrow> (\<forall>p. r = Inr (Queued p) \<longrightarrow> do_RequireNoActiveReservation p)"

lemma exclusive_bind: "(\<And>a. r = Inr a \<Longrightarrow> exclusive_plan (f a)) \<Longrightarrow> exclusive_plan (result_bind r f)"
  by (auto simp: exclusive_plan_def)

lemma exclusive_replay: "exclusive_plan r \<Longrightarrow> exclusive_plan (replay_or x key ty h db r)"
  by (auto simp: exclusive_plan_def replay_or_def split: option.splits)

lemma exclusive_if: "exclusive_plan r \<Longrightarrow> exclusive_plan q \<Longrightarrow> exclusive_plan (if b then r else q)"
  by simp

lemma exclusive_queued: "do_RequireNoActiveReservation p \<Longrightarrow> exclusive_plan (Inr (Queued p))"
  by (simp add: exclusive_plan_def)

lemma exclusive_unchanged: "exclusive_plan (Inr (Unchanged x))"
  by (simp add: exclusive_plan_def)

lemmas exclusive_rules = exclusive_bind exclusive_replay exclusive_if exclusive_queued exclusive_unchanged

lemma exclusive_plans:
  "exclusive_plan (iosSimulatorLifecycle env k reason key operation a db)"
  "exclusive_plan (rebuildDevice env k reason key a db)"
  "exclusive_plan (reimageDevice env k img key a db)"
  "exclusive_plan (updateProfile env k profile key a db)"
  "exclusive_plan (deleteDevice env k reason key a db)"
  by (simp_all only: iosSimulatorLifecycle_def rebuildDevice_def reimageDevice_def updateProfile_def deleteDevice_def Let_def)
    (intro exclusive_rules; simp add: operation_on_def)+

lemma audited_others:
  assumes "farm_inv db" and "\<And>a. exclusive_plan (call a db)"
  shows "other_components db (snd (audited env actor requestID action reason call db))"
  unfolding audited_def using assms(2)
  by (intro run_plan_others [OF assms(1)]) (auto simp: exclusive_plan_def)

lemma restart_operation:
  "restartDevice env k reason key a db = Inr (Queued p) \<Longrightarrow> dev_id (do_Device p) = k"
  by (auto simp: restartDevice_def Let_def replay_or_def moved_device_def operation_on_def store_GetDevice_def
      split: option.splits dest: find_row_SomeD)

lemma restart_others:
  assumes "farm_inv db" and "unheld k db"
  shows "other_components db (snd (RestartDeviceAudited env k reason actor requestID key db))"
  unfolding RestartDeviceAudited_def audited_def using restart_operation assms(2)
  by (intro run_plan_others [OF assms(1)]) auto

section \<open>Quarantine and release\<close>

lemma UpdateDeviceState_spares: "relates (spares (dev_id x)) (UpdateDeviceState x l h a)"
proof (rule relatesI)
  fix db v db'
  assume t: "UpdateDeviceState x l h a db = Inr (v, db')"
  have w: "relates (spares (dev_id x)) (write_devices
       (\<lambda>y. dev_id y = dev_id x \<and> dev_lifecycle y = l \<and> dev_health y = h)
       (\<lambda>y. y\<lparr>dev_lifecycle := dev_lifecycle x, dev_health := dev_health x, dev_health_reason := dev_health_reason x,
              dev_failures := (if dev_lifecycle x = DeviceProvisioning \<and> dev_health x = HealthUnknown
                               then 0 else dev_failures y), dev_updated_at := db_clock db\<rparr>))"
    by (rule write_devices_spares) simp_all
  show "spares (dev_id x) db db'"
    using t relatesD [OF same_core_spares [OF write_audit_core]] relatesD [OF w] spared.trans
    unfolding UpdateDeviceState_def by (auto elim!: tx_bind_InrE simp del: tx_bind_Inr) blast
qed

lemma update_where_keyed:
  assumes "distinct (map k t)" and "y \<in> set t" and "P y" and "\<And>z. P z \<Longrightarrow> k z = k y"
  shows "update_where P f t = update_where (\<lambda>z. k z = k y) f t"
  unfolding update_where_def
proof (rule map_cong [OF refl])
  fix z assume z: "z \<in> set t"
  have "P z \<longleftrightarrow> k z = k y"
    using distinct_map_same [OF assms(1) z assms(2)] assms(3) assms(4) [of z] by blast
  then show "(if P z then f z else z) = (if k z = k y then f z else z)" by simp
qed

lemma UpdateDeviceState_quarantine:
  assumes inv: "farm_inv db" and "dev_lifecycle x = DeviceQuarantined"
    and t: "UpdateDeviceState x l h a db = Inr (v, db')"
  shows "other_components db db'"
proof -
  let ?P = "\<lambda>y. dev_id y = dev_id x \<and> dev_lifecycle y = l \<and> dev_health y = h"
  let ?f = "\<lambda>y. y\<lparr>dev_lifecycle := dev_lifecycle x, dev_health := dev_health x, dev_health_reason := dev_health_reason x,
              dev_failures := (if dev_lifecycle x = DeviceProvisioning \<and> dev_health x = HealthUnknown
                               then 0 else dev_failures y), dev_updated_at := db_clock db\<rparr>"
  have "\<exists>db1. write_devices ?P ?f db = Inr (1, db1) \<and> same_core db1 db'"
    using t unfolding UpdateDeviceState_def
    by (auto elim!: tx_bind_InrE simp: tx_guard_def simp del: tx_bind_Inr split: if_splits
        dest!: relatesD [OF write_audit_core])
  then obtain db1 where w: "write_devices ?P ?f db = Inr (1, db1)" and s: "same_core db1 db'" by blast
  from w have "length (filter ?P (devices db)) = 1" by (simp add: write_devices_Inr)
  then obtain y where y: "y \<in> set (devices db)" "?P y" by (rule length_filter_eq_one)
  have ids: "distinct (map dev_id (devices db))" using other_refl [OF inv] by (simp add: other_components_def)
  have db1: "db1 = db\<lparr>devices := update_where (\<lambda>z. dev_id z = dev_id y) ?f (devices db)\<rparr>"
    using w update_where_keyed [OF ids y(1), of ?P ?f] y(2) by (simp add: write_devices_Inr)
  have o: "other_components db db1"
    by (rule other_update [OF inv y(1) db1]) (simp_all add: assms(2) held_lifecycle_def)
  have "other_components db1 db'" by (rule same_core_others [OF other_components_inv [OF inv o] s])
  with o show ?thesis by (rule other_trans)
qed

lemma transitionDevice_cases:
  obtains e where "transitionDevice env k target health reason a db = (Inl e, db)"
  | x d where "dev_id x = k" "Lifecycle d = target"
    "transitionDevice env k target health reason a db = translated_by normalized (run_tx
       (UpdateDeviceState (x\<lparr>dev_lifecycle := Lifecycle d, dev_health := Health d\<rparr>) (dev_lifecycle x) (dev_health x) a) db)"
proof (cases "result_bind (require (TrimSpace reason \<noteq> []) ErrInvalidArgument) (\<lambda>_.
           result_bind (store_GetDevice k db) (\<lambda>x.
           result_bind (restore_device x) (\<lambda>d.
           result_bind (move target reason (mg_wall env) d) (\<lambda>d.
           result_bind (set_health health reason (mg_wall env) d) (\<lambda>d. Inr (x, d))))))")
  case (Inl e)
  with that(1) show ?thesis by (simp add: transitionDevice_def)
next
  case (Inr xd)
  obtain x d where xd: "xd = (x, d)" by (cases xd)
  from Inr xd have "dev_id x = k" "Lifecycle d = target"
    by (auto simp: store_GetDevice_def split: option.splits dest: find_row_SomeD move_done set_health_done)
  then show ?thesis by (rule that(2)) (simp only: transitionDevice_def Inr xd sum.case prod.case)
qed

lemma state_call_others:
  assumes inv: "farm_inv db" and free: "target = DeviceQuarantined \<or> unheld k db"
  shows "other_components db (snd (state_call env k action target health reason actor rid db))"
proof (cases "deviceAudit env actor rid action reason")
  case (Inl e)
  with other_refl [OF inv] show ?thesis by (simp add: state_call_def)
next
  case (Inr a)
  show ?thesis
  proof (cases rule: transitionDevice_cases [of env k target health reason a db])
    case (1 e)
    with Inr other_refl [OF inv] show ?thesis by (simp add: state_call_def)
  next
    case (2 x d)
    let ?x = "x\<lparr>dev_lifecycle := Lifecycle d, dev_health := Health d\<rparr>"
    have "other_components db db'"
      if t: "UpdateDeviceState ?x (dev_lifecycle x) (dev_health x) a db = Inr (v, db')" for v db'
    proof (cases "target = DeviceQuarantined")
      case True
      with UpdateDeviceState_quarantine [OF inv _ t] 2(2) show ?thesis by simp
    next
      case False
      with relatesD [OF UpdateDeviceState_spares t] 2(1) inv free show ?thesis by (simp add: spares_def)
    qed
    then have "other_components db (snd (run_tx (UpdateDeviceState ?x (dev_lifecycle x) (dev_health x) a) db))"
      by (rule run_tx_others [OF inv])
    with Inr 2(3) show ?thesis by (simp add: state_call_def translated_db)
  qed
qed

section \<open>The properties\<close>

text \<open>
  C39.  The device operations of an operator respect the leases, whatever they return: quarantine,
  rebuild, reimage, change of the runtime profile, deletion, start and stop in every case, and restart
  and release from quarantine when no open reservation holds the device.  The state after the call is
  a reachable state of the lease system.
\<close>

theorem management_respects_leases:
  assumes "farm_start s" and "farm_step\<^sup>*\<^sup>* s db"
    and "(r, db') \<in>
      {QuarantineDeviceAudited env k reason actor rid db, RebuildDeviceAudited env k reason actor rid key db,
       ReimageDeviceAudited env k img actor rid key db, UpdateDeviceRuntimeProfileAudited env k profile actor rid key db,
       DeleteDeviceAudited env k reason actor rid key db, StartDeviceAudited env k reason actor rid key db,
       StopDeviceAudited env k reason actor rid key db} \<or>
     (unheld k db \<and> (r, db') \<in>
      {RestartDeviceAudited env k reason actor rid key db, UnquarantineDeviceAudited env k reason actor rid db})"
  shows "farm_step\<^sup>*\<^sup>* s db'"
proof -
  have inv: "farm_inv db" by (rule run_inv [OF assms(1,2)])
  have "other_components db (snd (r, db'))"
    using assms(3)
    by (auto simp: QuarantineDeviceAudited_def RebuildDeviceAudited_def ReimageDeviceAudited_def
        UpdateDeviceRuntimeProfileAudited_def DeleteDeviceAudited_def StartDeviceAudited_def StopDeviceAudited_def
        UnquarantineDeviceAudited_def simp del: snd_conv
        intro!: audited_others [OF inv] state_call_others [OF inv] restart_others [OF inv] exclusive_plans)
  then have "other_components db db'" by simp
  with assms(2) show ?thesis by (meson rtranclp.rtrancl_into_rtrancl step_others)
qed

definition sample_management :: management_env where
  "sample_management =
     \<lparr>mg_newID = (\<lambda>n. Inr (if n = 0 then ''audit_0123456789'' else ''cmd_0123456789ab'')),
      mg_hash = (\<lambda>_. replicate 64 (CHR ''a'')), mg_wall = 1000 * second, mg_parse_time = (\<lambda>_. 0)\<rparr>"

definition busy_farm :: farm_db where
  "busy_farm = leased_farm (leased_device DeviceBusy HealthHealthy None)"

lemma busy_quarantine:
  "(case QuarantineDeviceAudited sample_management ''dev_0123456789ab'' ''broken screen'' (Service ''operator'') ''req-1'' busy_farm of
      (Inr x, db) \<Rightarrow> map dev_lifecycle (devices db) = [DeviceQuarantined] | _ \<Rightarrow> False)"
  by code_simp

theorem management_respects_leases_witness:
  "\<exists>x db'. QuarantineDeviceAudited sample_management ''dev_0123456789ab'' ''broken screen'' (Service ''operator'') ''req-1''
       busy_farm = (Inr x, db') \<and> map dev_lifecycle (devices db') = [DeviceQuarantined] \<and>
     farm_step\<^sup>*\<^sup>* (farm_with []) db'"
proof -
  obtain x db' where q: "QuarantineDeviceAudited sample_management ''dev_0123456789ab'' ''broken screen'' (Service ''operator'')
       ''req-1'' busy_farm = (Inr x, db')" and l: "map dev_lifecycle (devices db') = [DeviceQuarantined]"
    using busy_quarantine by (auto split: prod.splits sum.splits)
  have start: "farm_step\<^sup>*\<^sup>* (farm_with []) busy_farm" unfolding busy_farm_def by (rule leased_reached) simp
  have "farm_step\<^sup>*\<^sup>* (farm_with []) db'"
    by (rule management_respects_leases [OF sample_start start, of "Inr x" db' sample_management "''dev_0123456789ab''"
        "''broken screen''" "Service ''operator''" "''req-1''"]) (simp add: q [symmetric])
  with q l show ?thesis by (intro exI [of _ x] exI [of _ db'] conjI)
qed

text \<open>
  C40.  A queued operation that succeeds either is a replay and changes nothing, or it found the device
  as it was read, with no unfinished command and no open reservation if it insists on that, and then
  it appends exactly its command, pending and with its secrets removed, gives the device its new state and leaves the
  reservations and the sessions alone.  An operation that fails changes nothing.
\<close>

theorem queued_operation_exact:
  assumes "distinct (map dev_id (devices db))" and "QueueDeviceOperation p db = (r, db')"
  shows "(\<forall>e. r = Inl e \<longrightarrow> db' = db) \<and>
    (\<forall>x. r = Inr x \<longrightarrow> db' = db \<or>
      ((\<exists>y\<in>set (devices db). as_expected p y) \<and>
       (do_RequireNoActiveCommand p \<longrightarrow>
          \<not> list_ex (\<lambda>c. command_on (dev_id (do_Device p)) c \<and> unfinished c) (commands db)) \<and>
       (do_RequireNoActiveReservation p \<longrightarrow> unheld (dev_id (do_Device p)) db) \<and>
       commands db' = commands db @ [pending_command (operation_params p) (db_clock db)] \<and>
       x \<in> set (devices db') \<and> dev_id x = dev_id (do_Device p) \<and>
       dev_lifecycle x = dev_lifecycle (do_Device p) \<and> dev_health x = dev_health (do_Device p) \<and>
       filter (\<lambda>y. dev_id y \<noteq> dev_id x) (devices db') = filter (\<lambda>y. dev_id y \<noteq> dev_id x) (devices db) \<and>
       reservations db' = reservations db \<and> sessions db' = sessions db))"
proof (cases r)
  case (Inl e)
  with assms(2) show ?thesis
    by (auto simp: QueueDeviceOperation_def split: if_splits dest: translated_by_Inl)
next
  case (Inr x)
  with assms(2) have q: "queue_tx p db = Inr (x, db')"
    by (auto simp: QueueDeviceOperation_def split: if_splits dest: translated_by_Inr)
  then show ?thesis
  proof (cases rule: queue_tx_Inr)
    case 1
    with Inr show ?thesis by simp
  next
    case (2 cmd db1)
    have ids: "distinct (map dev_id (devices db1))" using assms(1) by (simp add: 2(4))
    note w = queue_statements_exact [OF ids 2(5)] relatesD [OF queue_statements_works 2(5)]
    have "(\<exists>y\<in>set (devices db). as_expected p y) \<and> (do_RequireNoActiveCommand p \<longrightarrow>
        \<not> list_ex (\<lambda>c. command_on (dev_id (do_Device p)) c \<and> unfinished c) (commands db))"
      using 2(1) by (auto simp: operation_blocked_def)
    with w unblocked_unheld [OF 2(1)] Inr 2(3) show ?thesis by (simp add: 2(4) works_on_def)
  qed
qed

definition sample_stop :: device_operation where
  "sample_stop = operation_on ''cmd_0123456789ab'' ''restart'' ''management-0123456789'' 3
     (base_payload farm_device DeviceStopped ''0123'') farm_device (farm_device\<lparr>dev_lifecycle := DeviceStopped\<rparr>)
     \<lparr>da_ID = ''audit_0123456789'', da_ActorType = ''service'', da_ActorID = ''operator'', da_Action = ''restart_device'',
      da_RequestID = ''req-1'', da_Reason = ''stuck'', da_DestructiveApproved = False\<rparr> True"

lemma stop_queued: "(case QueueDeviceOperation sample_stop (farm_with []) of (Inr x, db) \<Rightarrow> db \<noteq> farm_with [] | _ \<Rightarrow> False)"
  by code_simp

theorem queued_operation_exact_witness:
  "\<exists>x db'. QueueDeviceOperation sample_stop (farm_with []) = (Inr x, db') \<and> dev_lifecycle x = DeviceStopped \<and>
     map cmd_id (commands db') = [''cmd_0123456789ab'']"
proof -
  obtain x db' where q: "QueueDeviceOperation sample_stop (farm_with []) = (Inr x, db')" and n: "db' \<noteq> farm_with []"
    using stop_queued by (auto split: prod.splits sum.splits)
  from queued_operation_exact [OF _ q] n have "dev_lifecycle x = dev_lifecycle (do_Device sample_stop)"
    "commands db' = commands (farm_with []) @ [pending_command (operation_params sample_stop) (db_clock (farm_with []))]"
    by simp_all
  with q show ?thesis
    by (intro exI [of _ x] exI [of _ db'])
      (simp add: sample_stop_def operation_on_def operation_params_def pending_command_def)
qed

section \<open>Two weaknesses\<close>

text \<open>
  A restart and a release from quarantine do not ask for reservations.  A leased device that was
  quarantined is released, the next heartbeat makes it ready, and the scheduler gives it to a second
  reservation while the first one is active.
\<close>

definition waiting_farm :: farm_db where
  "waiting_farm = (let db = leased_farm (leased_device DeviceQuarantined HealthUnhealthy (Some ''broken screen''))
     in db\<lparr>reservations := reservations db @ [farm_pending ''rsv_second_01234'' (1000 * second) []]\<rparr>)"

definition released_farm :: farm_db where
  "released_farm = snd (UnquarantineDeviceAudited sample_management ''dev_0123456789ab'' ''fixed'' (Service ''operator'') ''req-2''
     waiting_farm)"

definition ready_again_farm :: farm_db where
  "ready_again_farm = snd (Heartbeat (\<lambda>_. Inl ErrIDGeneration) (\<lambda>_. None) ''host_0123456789a'' (sample_heartbeat []) released_farm)"

lemma released_device_held_twice:
  "(case reserve_tx [] [] ready_again_farm of
      Inr (_, db) \<Rightarrow> map rsv_device_id (filter holds (reservations db)) =
        [Some ''dev_0123456789ab'', Some ''dev_0123456789ab'']
    | _ \<Rightarrow> False)"
  by code_simp

text \<open>
  The quarantine of an operator keeps the old health reason of the device.  When that is one the system
  recovers from, the next round of the reconciler lifts the quarantine.
\<close>

definition flaky_farm :: farm_db where
  "flaky_farm = (farm_with [])\<lparr>devices := [leased_device DeviceReady HealthHealthy (Some ''STF visibility recovered'')]\<rparr>"

lemma operator_quarantine_lifted:
  "(case QuarantineDeviceAudited sample_management ''dev_0123456789ab'' ''broken screen'' (Service ''operator'') ''req-1'' flaky_farm of
      (Inr x, db) \<Rightarrow> dev_lifecycle x = DeviceQuarantined \<and>
        (case Reconcile_RunOnce sample_reconciler (2000 * second) db of
           (e, _, db) \<Rightarrow> e = None \<and> map dev_lifecycle (devices db) = [DeviceReady])
    | _ \<Rightarrow> False)"
  by code_simp

end
