(* ===== verification/Warm_Pool_Effects.thy ===== *)
theory Warm_Pool_Effects
  imports Warm_Pool Management_Effects
begin

text \<open>
  What the transactions of the warm pool do: they respect the leases, and a scale-down removes only
  devices that nobody uses, at most as many as asked for, and keeps them in the pool until the agent
  has confirmed the removal.
\<close>

section \<open>The contract as a relation\<close>

definition lawful :: "farm_db \<Rightarrow> farm_db \<Rightarrow> bool" where
  "lawful db db' \<longleftrightarrow> (farm_inv db \<longrightarrow> other_components db db')"

interpretation lawful: tx_relation lawful
proof unfold_locales
  show "lawful s s" for s by (simp add: lawful_def other_refl)
  show "lawful s t \<Longrightarrow> lawful t u \<Longrightarrow> lawful s u" for s t u
    using other_components_inv other_trans unfolding lawful_def by blast
qed

lemma same_core_lawful: "relates same_core m \<Longrightarrow> relates lawful m"
  by (auto simp: relates_def lawful_def intro: same_core_others)

text \<open>A transaction that spares a device, after a read that finds the device free.\<close>

lemma spares_lawful: "spares k db db' \<Longrightarrow> (farm_inv db \<Longrightarrow> unheld k db) \<Longrightarrow> lawful db db'"
  by (simp add: spares_def lawful_def)

lemma lawful_unheld: "lawful db db' \<Longrightarrow> farm_inv db \<Longrightarrow> unheld k db \<Longrightarrow> unheld k db'"
  by (simp add: lawful_def unheld_def other_components_def)

text \<open>An update that keeps identifier and lifecycle.\<close>

lemma write_devices_lawful:
  assumes "\<And>y. dev_id (f y) = dev_id y" and "\<And>y. dev_lifecycle (f y) = dev_lifecycle y"
  shows "relates lawful (write_devices P f)"
proof (rule relatesI)
  fix db n db'
  assume "write_devices P f db = Inr (n, db')"
  then have db': "db' = db\<lparr>devices := update_where P f (devices db)\<rparr>" by (simp add: write_devices_Inr)
  show "lawful db db'"
    unfolding lawful_def
  proof
    assume inv: "farm_inv db"
    note o = other_refl [OF inv, unfolded other_components_def]
    have ids: "map dev_id (devices db') = map dev_id (devices db)" using assms(1) by (simp add: db' update_where_def)
    have held: "\<exists>e\<in>set (devices db'). dev_id e = dev_id y \<and> dev_lifecycle e = dev_lifecycle y"
      if "y \<in> set (devices db)" for y
      using that assms by (cases "P y") (auto simp: db' set_update_where)
    have "distinct (map dev_id (devices db'))" using o ids by simp
    moreover have "list_all (\<lambda>d. identifierPattern (dev_id d)) (devices db')"
      using o arg_cong [OF ids, of "list_all identifierPattern"] by (simp add: list_all_iff)
    moreover have "list_all (\<lambda>r. list_all (\<lambda>d. holds r \<and> rsv_device_id r = Some (dev_id d) \<and>
            held_lifecycle (rsv_status r) (dev_lifecycle d) \<longrightarrow>
          list_ex (\<lambda>d'. dev_id d' = dev_id d \<and> held_lifecycle (rsv_status r) (dev_lifecycle d')) (devices db'))
        (devices db)) (reservations db)"
      unfolding list_all_iff list_ex_iff using held by (metis (no_types, lifting))
    ultimately show "other_components db db'" by (simp add: other_components_def db')
  qed
qed

lemma write_device_lawful:
  "(\<And>y. dev_id (f y) = dev_id y) \<Longrightarrow> (\<And>y. dev_lifecycle (f y) = dev_lifecycle y) \<Longrightarrow> relates lawful (write_device x f)"
  unfolding write_device_def by (intro lawful.rules write_devices_lawful)

lemma write_device_spares: "(\<And>y. dev_id (f y) = dev_id y) \<Longrightarrow> relates (spares (dev_id x)) (write_device x f)"
  unfolding write_device_def by (intro spared.rules write_devices_spares) simp_all

section \<open>Statements on other tables\<close>

lemma insert_command_once_core: "relates same_core (insert_command_once p)"
  by (rule relatesI) (auto simp: insert_command_once_def core.refl split: if_splits dest: relatesD [OF insert_command_core])

lemma write_images_core: "relates same_core (write_images P f)"
  by (rule relatesI) (auto simp: write_images_def same_core_def split: if_splits)

lemma forget_missing_core: "relates same_core (forget_missing h i)"
  by (rule relatesI) (auto simp: forget_missing_def same_core_def)

lemma insert_membership_core: "relates same_core (insert_membership p d)"
  by (rule relatesI) (auto simp: insert_membership_def same_core_def split: if_splits)

lemma drop_base_core: "relates same_core (drop_base P now)"
  by (rule relatesI) (auto simp: drop_base_def write_pools_Inr same_core_def)

lemma update_jobs_core: "relates same_core (update_jobs P f)"
  by (rule relatesI) (auto simp: update_jobs_def same_core_def)

lemma write_pools_core: "relates same_core (write_pools P f)"
  by (rule relatesI) (auto simp: write_pools_Inr same_core_def)

lemma mark_settled_core: "relates same_core (mark_settled c)"
  by (rule relatesI) (auto simp: mark_settled_def same_core_def)

lemma record_observations_core: "relates same_core (record_observations f)"
  by (rule relatesI) (auto simp: record_observations_def same_core_def split: sum.splits)

lemmas core_statements = core.rules insert_command_core insert_command_once_core write_images_core forget_missing_core
  insert_membership_core drop_base_core update_jobs_core write_pools_core mark_settled_core record_observations_core
  write_health_event_core insert_audit_core disable_memberships_core

lemma outcomes_core: "relates same_core recordHostImageOutcomes"
  unfolding recordHostImageOutcomes_def by (intro core_statements)

lemma transitionImage_core: "relates same_core (transitionImage i to e)"
  unfolding transitionImage_def by (intro core_statements)

lemma finish_validation_core: "relates same_core (finish_validation i c)"
  unfolding finish_validation_def by (intro core_statements transitionImage_core)

lemma queue_validation_core: "relates same_core (queue_validation env newID locked i docker)"
proof -
  have m: "relates same_core (tx_bind (tx_lift (newID 0)) (\<lambda>commandID.
      tx_bind (insert_command (plain_command commandID hostID ''validate_image''
        (validation_request i docker commandID profile) (key commandID))) (\<lambda>_. tx_return Validation_queued)))"
    for hostID profile key
    by (intro core_statements)
  show ?thesis
    by (rule relatesI) (auto simp: queue_validation_def core.refl split: option.splits sum.splits
        dest: relatesD [OF m] simp del: tx_bind_Inr)
qed

lemma validation_core: "relates same_core (reconcileImageValidation env newID locked imageID)"
  by (rule relatesI) (auto simp: reconcileImageValidation_def core.refl split: option.splits if_splits
      dest: relatesD [OF queue_validation_core] relatesD [OF finish_validation_core])

section \<open>Recycling\<close>

lemma recycle_step_spares: "relates (spares (dev_id (rc_Device r))) (recycle_step env newID r)"
proof -
  have w: "relates (spares (dev_id (rc_Device r))) (write_recycling (rc_Device r) f)" if "\<And>y. dev_id (f y) = dev_id y" for f
    unfolding write_recycling_def using that by (intro write_devices_spares) simp_all
  have q: "relates (spares (dev_id (rc_Device r))) (tx_bind (queueRecycleRebuild env newID r) (\<lambda>_. tx_return Rebuild_queued))"
    unfolding queueRecycleRebuild_def by (intro spared.rules same_core_spares [OF insert_command_once_core])
  have c: "relates (spares (dev_id (rc_Device r))) (tx_bind (completeRecycle r v) (\<lambda>_. tx_return Rebuild_completed))" for v
    unfolding completeRecycle_def by (intro spared.rules w) (simp add: built_row_def)
  have f: "relates (spares (dev_id (rc_Device r))) (tx_bind (failRecycle newID r code reason) (\<lambda>_. tx_return Rebuild_failed))"
    for code reason
    unfolding failRecycle_def by (intro spared.rules w same_core_spares [OF write_health_event_core]) (simp add: failed_row_def)
  show ?thesis
    by (rule relatesI) (auto simp: recycle_step_def spared.refl split: option.splits if_splits
        dest: relatesD [OF q] relatesD [OF c] relatesD [OF f] simp del: tx_bind_Inr)
qed

lemma lockRecyclingDevice_Some:
  "lockRecyclingDevice ident db = Inr (Some r) \<Longrightarrow> rc_Device r \<in> set (devices db) \<and> recycles (rc_Device r)"
  by (auto simp: lockRecyclingDevice_def split: option.splits dest: find_row_SomeD)

lemma recycle_lawful: "relates lawful (recycle_tx env newID ident)"
proof (rule relatesI)
  fix db t db'
  assume "recycle_tx env newID ident db = Inr (t, db')"
  then obtain current where l: "lockRecyclingDevice ident db = Inr current"
    and s: "(case current of None \<Rightarrow> tx_return Nothing_done | Some r \<Rightarrow> recycle_step env newID r) db = Inr (t, db')"
    by (auto simp: recycle_tx_def)
  show "lawful db db'"
  proof (cases current)
    case None
    with s show ?thesis by (simp add: lawful.refl)
  next
    case (Some r)
    note r = lockRecyclingDevice_Some [OF l [unfolded Some]]
    have "spares (dev_id (rc_Device r)) db db'" using s Some relatesD [OF recycle_step_spares] by simp
    then show ?thesis
      by (rule spares_lawful) (use r in \<open>auto intro!: free_lifecycle_unheld simp: recycles_def\<close>)
  qed
qed

section \<open>New devices\<close>

lemma insert_device_lawful: "relates lawful (insert_device x)"
proof (rule relatesI)
  fix db u db'
  assume i: "insert_device x db = Inr (u, db')"
  then have db': "db' = db\<lparr>devices := devices db @ [x]\<rparr>" and new: "dev_id x \<notin> dev_id ` set (devices db)"
    and pattern: "identifierPattern (dev_id x)"
    by (auto simp: insert_device_def list_ex_iff split: if_splits)
  show "lawful db db'"
    unfolding lawful_def
  proof
    assume "farm_inv db"
    note o = other_refl [OF this, unfolded other_components_def list_all_iff list_ex_iff]
    from o new pattern show "other_components db db'"
      unfolding other_components_def list_all_iff list_ex_iff by (simp add: db')
  qed
qed

lemma createDeviceCommand_lawful:
  "relates lawful (createDeviceCommand env newID poolID imageID docker digest hostID capabilities profile key)"
  unfolding createDeviceCommand_def
  by (intro lawful.rules insert_device_lawful same_core_lawful [OF insert_membership_core] same_core_lawful [OF insert_command_core])

lemma build_one_lawful: "relates lawful (build_one env newID locked poolID i docker capabilities profile)"
proof -
  have m: "relates lawful (tx_bind (createDeviceCommand env newID poolID (img_id i) docker (img_docker_digest i) hostID capabilities
      profile []) (\<lambda>_. tx_return True))" for hostID
    by (intro lawful.rules createDeviceCommand_lawful)
  show ?thesis
    by (rule relatesI) (auto simp: build_one_def lawful.refl split: sum.splits dest: relatesD [OF m] simp del: tx_bind_Inr)
qed

lemma build_from_lawful: "relates lawful (build_from env newID locked p i)"
  unfolding build_from_def by (intro lawful.rules build_one_lawful)

lemma build_missing_lawful: "relates lawful (build_missing env newID locked poolID i docker capabilities profile n k)"
proof (induction k arbitrary: n)
  case 0
  then show ?case by (simp add: lawful.return)
next
  case (Suc k)
  then show ?case unfolding build_missing.simps by (intro lawful.rules build_one_lawful)
qed

lemma serve_group_lawful: "relates lawful (serve_group env newID locked caps n k)"
proof (induction k arbitrary: n)
  case 0
  then show ?case by (auto simp: relates_def lawful.refl)
next
  case (Suc k)
  have m: "relates lawful (tx_bind (build_from env (ids_of newID n) locked p i) (\<lambda>built.
      if built then serve_group env newID locked caps (Suc n) k else tx_return (n, 1)))" for p i
    by (intro lawful.rules build_from_lawful Suc)
  show ?case
    by (rule relatesI) (auto simp: lawful.refl split: option.splits dest: relatesD [OF m] simp del: tx_bind_Inr)
qed

lemma serve_groups_lawful: "relates lawful (serve_groups env newID locked n m gs)"
proof (induction gs arbitrary: n m)
  case Nil
  then show ?case by (simp add: lawful.return)
next
  case (Cons g gs)
  then show ?case unfolding serve_groups.simps by (intro lawful.rules serve_group_lawful)
qed

lemma demand_lawful: "relates lawful (reconcileAndroidDemand env newID locked order)"
  unfolding reconcileAndroidDemand_def by (intro lawful.rules serve_groups_lawful)

section \<open>Baseline\<close>

text \<open>A loop over devices that nobody holds at its start.\<close>

lemma each_free_lawful:
  assumes "tx_each f i xs db = Inr (u, db')"
    and "farm_inv db \<Longrightarrow> \<forall>x\<in>set xs. unheld (key x) db"
    and "\<And>j x. relates (spares (key x)) (f j x)"
  shows "lawful db db'"
proof -
  have "lawful db db' \<and> (farm_inv db \<longrightarrow> (\<forall>x\<in>set xs. unheld (key x) db'))"
  proof (rule tx_each_relates [where R = "\<lambda>s t. lawful s t \<and> (farm_inv s \<longrightarrow> (\<forall>x\<in>set xs. unheld (key x) t))", OF assms(1)])
    show "lawful db db \<and> (farm_inv db \<longrightarrow> (\<forall>x\<in>set xs. unheld (key x) db))"
      using lawful.refl assms(2) by blast
  next
    fix j x t v t'
    assume r: "lawful db t \<and> (farm_inv db \<longrightarrow> (\<forall>x\<in>set xs. unheld (key x) t))" and x: "x \<in> set xs"
      and t: "f j x t = Inr (v, t')"
    have s: "spares (key x) t t'" by (rule relatesD [OF assms(3) t])
    have "lawful db t'"
      using r x s other_trans other_components_inv unfolding lawful_def spares_def by blast
    moreover have "unheld (key y) t'" if "farm_inv db" "y \<in> set xs" for y
      using assms(2) that lawful_unheld [OF \<open>lawful db t'\<close> that(1)] by blast
    ultimately show "lawful db t' \<and> (farm_inv db \<longrightarrow> (\<forall>x\<in>set xs. unheld (key x) t'))" by blast
  qed
  then show ?thesis by blast
qed

lemma complete_create_spares: "relates (spares (dev_id (fst dc))) (complete_create dc)"
proof -
  have q: "relates (spares (dev_id (fst dc))) (quarantineCreateResult (fst dc))"
    unfolding quarantineCreateResult_def by (intro spared.rules write_device_spares) (simp add: failed_row_def)
  have c: "relates (spares (dev_id (fst dc))) (tx_bind (tx_read ClockNow) (\<lambda>now.
      tx_bind (tx_lift (built_device s t now (fst dc))) (\<lambda>a. write_device (fst dc) (built_row v a now))))" for s t v
    by (intro spared.rules write_device_spares) (simp add: built_row_def)
  show ?thesis unfolding complete_create_def by (rule relates_option) (rule q, rule c)
qed

lemma completeSuccessfulCreates_lawful: "relates lawful (completeSuccessfulCreates poolID)"
proof (rule relatesI)
  fix db r db'
  assume "completeSuccessfulCreates poolID db = Inr (r, db')"
  then have e: "tx_each (\<lambda>_. complete_create) 0 (created_devices db poolID) db = Inr ((), db')"
    by (auto simp: completeSuccessfulCreates_def)
  show "lawful db db'"
  proof (rule each_free_lawful [OF e, where key = "\<lambda>dc. dev_id (fst dc)"])
    assume inv: "farm_inv db"
    have "unheld (dev_id (fst dc)) db" if "dc \<in> set (created_devices db poolID)" for dc
    proof -
      from that have "fst dc \<in> set (devices db)" "dev_lifecycle (fst dc) \<in> {DeviceProvisioning, DeviceBooting}"
        by (auto simp: created_devices_def split: option.splits)
      with free_lifecycle_unheld [OF inv] show ?thesis by auto
    qed
    then show "\<forall>dc\<in>set (created_devices db poolID). unheld (dev_id (fst dc)) db" ..
  qed (rule complete_create_spares)
qed

lemma quarantined_cleanup_lawful: "relates lawful (queueQuarantinedCleanup newID poolID)"
  unfolding queueQuarantinedCleanup_def clean_quarantined_def
  by (rule same_core_lawful) (intro core_statements)

lemma clean_failed_lawful: "relates lawful (clean_failed env newID poolID j x)"
  unfolding clean_failed_def
  by (intro lawful.rules write_device_lawful same_core_lawful [OF insert_command_core] same_core_lawful [OF write_health_event_core])
    simp_all

lemma failed_cleanup_lawful: "relates lawful (cleanupFailedCreates env newID poolID)"
  unfolding cleanupFailedCreates_def by (intro lawful.rules clean_failed_lawful)

lemma unused_unheld: "nobody_uses db k \<Longrightarrow> unheld k db"
  by (auto simp: nobody_uses_def unheld_def list_all_iff list_ex_iff holds_def)

lemma scale_down_device_spares: "relates (spares (dev_id x)) (scale_down_device env newID poolID target j x)"
  unfolding scale_down_device_def
  by (intro spared.rules update_as_read_spares same_core_spares [OF insert_command_core] same_core_spares [OF insert_audit_core]
      same_core_spares [OF drop_base_core]) simp_all

lemma queueScaleDown_lawful: "relates lawful (queueScaleDown env newID locked poolID platform target queued excess)"
proof (induction excess arbitrary: queued)
  case 0
  then show ?case by (auto simp: relates_def lawful.refl)
next
  case (Suc excess)
  show ?case
  proof (rule relatesI)
    fix db n db'
    assume q: "queueScaleDown env newID locked poolID platform target queued (Suc excess) db = Inr (n, db')"
    show "lawful db db'"
    proof (cases "first_by (\<lambda>d. (dev_created_at d, dev_id d)) (scale_candidate locked db poolID platform target) (devices db)")
      case None
      with q show ?thesis by (simp add: lawful.refl)
    next
      case (Some x)
      with q obtain u db1 where s: "scale_down_device env newID poolID target queued x db = Inr (u, db1)"
        and r: "queueScaleDown env newID locked poolID platform target (Suc queued) excess db1 = Inr (n, db')"
        by auto
      have "unheld (dev_id x) db"
        using first_by_SomeD [OF Some] by (auto simp: scale_candidate_def intro: unused_unheld)
      then have "lawful db db1" by (intro spares_lawful [OF relatesD [OF scale_down_device_spares s]])
      with relatesD [OF Suc r] show ?thesis by (blast intro: lawful.trans)
    qed
  qed
qed

lemma ios_scale_down_lawful: "relates lawful (ios_scale_down_tx env newID locked poolID)"
  by (rule relatesI) (auto simp: ios_scale_down_tx_def lawful.refl split: option.splits dest: relatesD [OF queueScaleDown_lawful])

lemma balance_pool_lawful: "relates lawful (balance_pool env newID lh ld p i docker capabilities profile)"
proof -
  have q: "relates lawful (tx_bind (queueScaleDown env newID ld (pool_id p) ''android'' t 0 k)
      (\<lambda>queued. tx_return (no_counts\<lparr>wr_DeletesQueued := queued\<rparr>)))" for t k
    by (intro lawful.rules queueScaleDown_lawful)
  have b: "relates lawful (tx_bind (tx_lift (parsed profile)) (\<lambda>pf. tx_bind (build_missing env newID lh (pool_id p) i docker
      capabilities pf 0 k) (\<lambda>r. tx_return (no_counts\<lparr>wr_DevicesCreated := fst r, wr_CapacityMisses := snd r\<rparr>))))" for k
    by (intro lawful.rules build_missing_lawful)
  show ?thesis
    by (rule relatesI) (auto simp: balance_pool_def lawful.refl split: if_splits dest: relatesD [OF q] relatesD [OF b] simp del: tx_bind_Inr)
qed

lemma reconcile_pool_lawful: "relates lawful (reconcile_pool env newID lh ld poolID imageID)"
proof -
  have m: "relates lawful (tx_bind (tx_lift (docker_of i)) (\<lambda>docker. maintain_pool env newID lh ld p i docker c f))" for p i c f
    unfolding maintain_pool_def Let_def
    by (intro lawful.rules completeSuccessfulCreates_lawful quarantined_cleanup_lawful failed_cleanup_lawful balance_pool_lawful)
  show ?thesis
    by (rule relatesI) (auto simp: reconcile_pool_def lawful.refl split: option.splits if_splits dest: relatesD [OF m] simp del: tx_bind_Inr)
qed

section \<open>Settling removals\<close>

lemma settle_removal_spares: "relates (spares (dev_id x)) (settle_removal newID c x)"
  unfolding settle_removal_def remove_device_def keep_device_def give_up_creation_def
  by (intro spared.rules write_device_spares same_core_spares [OF drop_base_core] same_core_spares [OF update_jobs_core]
      same_core_spares [OF write_pools_core] same_core_spares [OF mark_settled_core] same_core_spares [OF disable_memberships_core]
      same_core_spares [OF write_health_event_core]) (simp_all add: removed_row_def failed_row_def)

lemma settle_lawful:
  assumes "settle_tx newID deviceID db = Inr (r, db')" and "unheld deviceID db"
  shows "lawful db db'"
proof -
  consider "db' = db" | c x where "settle_removal newID c x db = Inr (r, db')" "dev_id x = deviceID"
    using assms(1) by (auto simp: settle_tx_def split: option.splits if_splits dest: find_row_SomeD)
  then show ?thesis
  proof cases
    case 1
    then show ?thesis by (simp add: lawful.refl)
  next
    case (2 c x)
    then show ?thesis using spares_lawful [OF relatesD [OF settle_removal_spares 2(1)]] assms(2) by simp
  qed
qed

text \<open>Every transaction of a round that is lawful leaves a reachable state.\<close>

lemma lawful_reachable:
  assumes "farm_start s" and "farm_step\<^sup>*\<^sup>* s db" and "lawful db db'"
  shows "farm_step\<^sup>*\<^sup>* s db'"
  using assms(2,3) run_inv [OF assms(1,2)] unfolding lawful_def
  by (meson rtranclp.rtrancl_into_rtrancl step_others)

section \<open>The properties\<close>

text \<open>
  C10.  The transactions of the warm pool respect the leases: the turn of a recycled device, the
  validation of an image, the scale-down of an iOS pool, the devices created for the demand, the
  baseline of an Android pool and the observations on images in every case, and the settlement of a
  removal when no open reservation holds the device.  The state after them is a reachable state of the
  lease system.
\<close>

theorem warm_pool_respects_leases:
  assumes "farm_start s" and "farm_step\<^sup>*\<^sup>* s db"
    and "recycle_tx env newID k db = Inr (t, db') \<or>
      reconcileImageValidation env newID lockedHosts k db = Inr (v, db') \<or>
      ios_scale_down_tx env newID lockedDevices k db = Inr (n, db') \<or>
      reconcileAndroidDemand env newID lockedHosts order db = Inr (m, db') \<or>
      reconcile_pool env newID lockedHosts lockedDevices k imageID db = Inr (r, db') \<or>
      recordHostImageOutcomes db = Inr (u, db') \<or>
      (unheld k db \<and> settle_tx newID k db = Inr (q, db'))"
  shows "farm_step\<^sup>*\<^sup>* s db'"
proof (rule lawful_reachable [OF assms(1,2)])
  show "lawful db db'"
    using assms(3) relatesD [OF recycle_lawful] relatesD [OF same_core_lawful [OF validation_core]]
      relatesD [OF ios_scale_down_lawful] relatesD [OF demand_lawful] relatesD [OF reconcile_pool_lawful]
      relatesD [OF same_core_lawful [OF outcomes_core]] settle_lawful
    by (elim disjE conjE) blast+
qed

section \<open>What a scale-down removes\<close>

definition scale_down_command :: "string \<Rightarrow> int \<Rightarrow> command_row \<Rightarrow> device_row \<Rightarrow> bool" where
  "scale_down_command poolID target c x \<longleftrightarrow>
     cmd_type c = ''delete'' \<and> cmd_status c = CommandPending \<and>
     cmd_payload c = delete_payload scaleDownSource poolID x (Some target)"

lemma scale_down_command_on: "scale_down_command poolID target c x \<Longrightarrow> command_on (dev_id x) c \<and> unfinished c"
  by (simp add: scale_down_command_def command_on_def unfinished_def delete_payload_def arrow_text_def obj_get_def)

lemma scale_down_device_Inr:
  assumes "scale_down_device env newID poolID target j x db = Inr (u, db1)"
  obtains c f where "scale_down_command poolID target c x" "commands db1 = commands db @ [c]"
    "devices db1 = update_where (\<lambda>y. dev_id y = dev_id x \<and> dev_lifecycle y = dev_lifecycle x) f (devices db)"
    "\<And>y. dev_id (f y) = dev_id y"
    "pool_devices db1 = pool_devices db" "reservations db1 = reservations db" "sessions db1 = sessions db"
    "hosts db1 = hosts db" "target \<noteq> 0 \<Longrightarrow> pools db1 = pools db" "map pool_id (pools db1) = map pool_id (pools db)"
proof -
  from assms obtain now lc cid db2 db3 db4 v aid where st:
    "leaving_lifecycle now x = Inr lc"
    "insert_command (plain_command cid (dev_host_id x) ''delete'' (delete_payload scaleDownSource poolID x (Some target))
       (hashed_key env ''scale-down-'' [poolID, dev_platform x, dev_id x, int_text target])) db = Inr ((), db2)"
    "(if target = 0 then drop_base (\<lambda>p. pool_id p = poolID \<and> pool_base_device_id p = Some (dev_id x)) now
      else tx_return ()) db2 = Inr (v, db3)"
    "update_as_read x (\<lambda>y. y\<lparr>dev_lifecycle := lc, dev_health_reason := Some scale_down_text, dev_updated_at := now\<rparr>) db3
       = Inr ((), db4)"
    "insert_audit_row ''device'' aid ''system'' ''system'' ''scale_down_device'' (dev_id x) (''scale-down-'' @ cid)
       scale_down_reason db4 = Inr (u, db1)"
    unfolding scale_down_device_def by (auto simp del: append.simps)
  let ?c = "pending_command (plain_command cid (dev_host_id x) ''delete'' (delete_payload scaleDownSource poolID x (Some target))
       (hashed_key env ''scale-down-'' [poolID, dev_platform x, dev_id x, int_text target])) (db_clock db)"
  have c: "scale_down_command poolID target ?c x"
    by (simp add: scale_down_command_def pending_command_def plain_command_def)
  have d2: "db2 = db\<lparr>commands := commands db @ [?c]\<rparr>"
    using st(2) by (auto simp: insert_command_def Let_def split: if_splits)
  have d3: "\<exists>ps. db3 = db2\<lparr>pools := ps\<rparr> \<and> (target \<noteq> 0 \<longrightarrow> ps = pools db2) \<and> map pool_id ps = map pool_id (pools db2)"
    using st(3) by (auto simp: drop_base_def write_pools_Inr update_where_def split: if_splits)
  then obtain ps where d3: "db3 = db2\<lparr>pools := ps\<rparr>" "target \<noteq> 0 \<longrightarrow> ps = pools db2" "map pool_id ps = map pool_id (pools db2)"
    by blast
  have d4: "db4 = db3\<lparr>devices := update_where (\<lambda>y. dev_id y = dev_id x \<and> dev_lifecycle y = dev_lifecycle x)
      (\<lambda>y. y\<lparr>dev_lifecycle := lc, dev_health_reason := Some scale_down_text, dev_updated_at := now\<rparr>) (devices db3)\<rparr>"
    using st(4) by (auto simp: update_as_read_def write_devices_Inr)
  have d1: "\<exists>as. db1 = db4\<lparr>audits := as\<rparr>"
    using st(5) by (auto simp: insert_audit_row_def Let_def split: if_splits)
  show ?thesis
    by (rule that [OF c, of "\<lambda>y. y\<lparr>dev_lifecycle := lc, dev_health_reason := Some scale_down_text, dev_updated_at := now\<rparr>"])
      (use d1 d2 d3 d4 in auto)
qed

lemma candidate_before:
  assumes t: "scale_down_device env newID poolID target j x db = Inr (u, db1)"
    and y: "y \<in> set (devices db1)" "scale_candidate locked db1 poolID platform target y"
  shows "y \<in> set (devices db) \<and> dev_id y \<noteq> dev_id x \<and> scale_candidate locked db poolID platform target y"
  using t
proof (cases rule: scale_down_device_Inr)
  case (1 c f)
  have ids: "list_ex (\<lambda>p. pool_id p = poolID) (pools d) \<longleftrightarrow> list_ex (\<lambda>i. i = poolID) (map pool_id (pools d))" for d
    by (auto simp: list_ex_iff)
  have used: "\<not> nobody_uses db1 (dev_id x)"
    using scale_down_command_on [OF 1(1)] by (auto simp: nobody_uses_def 1(2) list_ex_iff)
  with y(2) have ne: "dev_id y \<noteq> dev_id x" by (auto simp: scale_candidate_def)
  with y(1) 1(3,4) have "y \<in> set (devices db)" by (auto simp: set_update_where)
  moreover have "nobody_uses db1 (dev_id y) \<Longrightarrow> nobody_uses db (dev_id y)"
    by (auto simp: nobody_uses_def 1 list_ex_iff)
  moreover have "list_ex (\<lambda>p. pool_id p = poolID) (pools db1) \<Longrightarrow> list_ex (\<lambda>p. pool_id p = poolID) (pools db)"
    by (simp only: ids 1(10))
  moreover have "spared_base db poolID target y \<Longrightarrow> spared_base db1 poolID target y"
    by (auto simp: spared_base_def 1(9))
  ultimately show ?thesis
    using y(2) ne by (auto simp: scale_candidate_def host_of_def member_of_def shared_elsewhere_def 1(5,8))
qed

lemma queueScaleDown_exact:
  assumes "queueScaleDown env newID locked poolID platform target queued excess db = Inr (n, db')"
  shows "\<exists>xs cs. n = queued + length xs \<and> length xs \<le> excess \<and> distinct (map dev_id xs) \<and>
    (\<forall>x\<in>set xs. x \<in> set (devices db) \<and> scale_candidate locked db poolID platform target x) \<and>
    commands db' = commands db @ cs \<and> list_all2 (scale_down_command poolID target) cs xs \<and>
    pool_devices db' = pool_devices db \<and> reservations db' = reservations db \<and> sessions db' = sessions db"
  using assms
proof (induction excess arbitrary: queued db)
  case 0
  then show ?case by simp
next
  case (Suc excess)
  show ?case
  proof (cases "first_by (\<lambda>d. (dev_created_at d, dev_id d)) (scale_candidate locked db poolID platform target) (devices db)")
    case None
    with Suc.prems show ?thesis by (intro exI [of _ "[]"]) simp
  next
    case (Some x)
    with Suc.prems obtain u db1 where s: "scale_down_device env newID poolID target queued x db = Inr (u, db1)"
      and r: "queueScaleDown env newID locked poolID platform target (Suc queued) excess db1 = Inr (n, db')"
      by auto
    from Suc.IH [OF r] obtain xs cs where i: "n = Suc queued + length xs" "length xs \<le> excess" "distinct (map dev_id xs)"
      "\<forall>y\<in>set xs. y \<in> set (devices db1) \<and> scale_candidate locked db1 poolID platform target y"
      "commands db' = commands db1 @ cs" "list_all2 (scale_down_command poolID target) cs xs"
      "pool_devices db' = pool_devices db1" "reservations db' = reservations db1" "sessions db' = sessions db1"
      by blast
    have x: "x \<in> set (devices db)" "scale_candidate locked db poolID platform target x"
      using first_by_SomeD [OF Some] by simp_all
    have old: "\<forall>y\<in>set xs. y \<in> set (devices db) \<and> dev_id y \<noteq> dev_id x \<and> scale_candidate locked db poolID platform target y"
      using candidate_before [OF s] i(4) by blast
    from s show ?thesis
    proof (cases rule: scale_down_device_Inr)
      case (1 c f)
      show ?thesis
        by (rule exI [of _ "x # xs"], rule exI [of _ "c # cs"]) (use i 1 x old in auto)
    qed
  qed
qed

text \<open>
  C25.  A scale-down queues at most as many removals as asked for, one for each of distinct devices of
  the pool.  None of these is reserved, has an open session or an unfinished command, belongs to another
  pool or is the base of a pool that keeps devices.  The memberships stay, so that a removal that fails
  is found again, and so do the reservations and the sessions.
\<close>

theorem scale_down_unused_only:
  assumes "queueScaleDown env newID locked poolID platform target 0 excess db = Inr (n, db')"
  shows "n \<le> excess \<and> pool_devices db' = pool_devices db \<and> reservations db' = reservations db \<and>
    sessions db' = sessions db \<and>
    (\<exists>xs cs. length xs = n \<and> distinct (map dev_id xs) \<and> commands db' = commands db @ cs \<and>
       list_all2 (scale_down_command poolID target) cs xs \<and>
       (\<forall>x\<in>set xs. x \<in> set (devices db) \<and> member_of db poolID x \<and> nobody_uses db (dev_id x) \<and>
          \<not> shared_elsewhere db poolID x \<and> \<not> spared_base db poolID target x \<and>
          dev_lifecycle x \<in> {DeviceReady, DeviceStopped, DeviceQuarantined}))"
proof -
  from queueScaleDown_exact [OF assms] obtain xs cs where i: "n = 0 + length xs" "length xs \<le> excess" "distinct (map dev_id xs)"
    "\<forall>x\<in>set xs. x \<in> set (devices db) \<and> scale_candidate locked db poolID platform target x"
    "commands db' = commands db @ cs" "list_all2 (scale_down_command poolID target) cs xs"
    "pool_devices db' = pool_devices db" "reservations db' = reservations db" "sessions db' = sessions db"
    by blast
  then show ?thesis
    by (intro conjI exI [of _ xs] exI [of _ cs]) (auto simp: scale_candidate_def)
qed

section \<open>Instances\<close>

definition sample_warm_env :: warm_env where
  "sample_warm_env = \<lparr>wp_hash = (\<lambda>_. replicate 64 (CHR ''a'')), wp_wall = 1000 * second, wp_parse_time = (\<lambda>_. 0)\<rparr>"

text \<open>The first identifier is that of a device, all others are those of commands.\<close>

definition sample_ids :: identifiers where
  "sample_ids n = Inr (if n = 0 then ''dev_new456789abc'' else ''cmd_0123456789ab'')"

text \<open>A pool with an image that wants no devices and has a ready one.\<close>

definition spare_farm :: farm_db where
  "spare_farm =
     (farm_with [])\<lparr>pools := [farm_pool\<lparr>pool_total_target := 0, pool_default_image_id := Some ''image_0123456789a''\<rparr>],
       images := [\<lparr>img_id = ''image_0123456789a'', img_name = ''pixel'', img_docker_image = Some ''farm/pixel'',
         img_docker_digest = ''sha256:'' @ replicate 64 (CHR ''a''), img_api_level = 34, img_abi = ''x86_64'',
         img_resolution = ''1080x1920'', img_resource_config = [], img_status = ImageReady, img_validation_error = None,
         img_created_at = 1, img_updated_at = 1\<rparr>],
       pool_images := [\<lparr>pi_pool_id = ''pool_0123456789a'', pi_image_id = ''image_0123456789a'', pi_enabled = True,
         pi_min_ready = 0, pi_max_instances = 1, pi_created_at = 1, pi_updated_at = 1\<rparr>]\<rparr>"

lemma spare_pool_reconciled:
  "case reconcile_pool sample_warm_env sample_ids [] [] ''pool_0123456789a'' ''image_0123456789a'' spare_farm of
     Inl e \<Rightarrow> False
   | Inr (r, db) \<Rightarrow> wr_DeletesQueued r = 1 \<and> map dev_lifecycle (devices db) = [DeviceStopped]"
  by code_simp

lemma spare_removed:
  "case queueScaleDown sample_warm_env sample_ids [] ''pool_0123456789a'' ''android'' 0 0 1 (farm_with []) of
     Inl e \<Rightarrow> False
   | Inr (n, db) \<Rightarrow> n = 1 \<and> map dev_lifecycle (devices db) = [DeviceStopped]"
  by code_simp

lemma spare_start: "farm_start spare_farm"
  using sample_start by (simp add: farm_start_def spare_farm_def)

theorem warm_pool_respects_leases_witness:
  "\<exists>r db'. reconcile_pool sample_warm_env sample_ids [] [] ''pool_0123456789a'' ''image_0123456789a'' spare_farm = Inr (r, db') \<and>
     map dev_lifecycle (devices db') = [DeviceStopped] \<and> farm_step\<^sup>*\<^sup>* spare_farm db'"
proof -
  obtain r db' where q: "reconcile_pool sample_warm_env sample_ids [] [] ''pool_0123456789a'' ''image_0123456789a'' spare_farm
       = Inr (r, db')" and l: "map dev_lifecycle (devices db') = [DeviceStopped]"
    using spare_pool_reconciled by (auto split: prod.splits sum.splits)
  have "farm_step\<^sup>*\<^sup>* spare_farm db'"
    by (rule warm_pool_respects_leases [OF spare_start rtranclp.rtrancl_refl
          disjI2 [OF disjI2 [OF disjI2 [OF disjI2 [OF disjI1 [OF q]]]]]])
  with q l show ?thesis by (intro exI [of _ r] exI [of _ db'] conjI)
qed

theorem scale_down_unused_only_witness:
  "\<exists>db'. queueScaleDown sample_warm_env sample_ids [] ''pool_0123456789a'' ''android'' 0 0 1 (farm_with []) = Inr (1, db') \<and>
     map dev_lifecycle (devices db') = [DeviceStopped] \<and> pool_devices db' = [farm_member]"
proof -
  obtain db' where q: "queueScaleDown sample_warm_env sample_ids [] ''pool_0123456789a'' ''android'' 0 0 1 (farm_with []) = Inr (1, db')"
    and l: "map dev_lifecycle (devices db') = [DeviceStopped]"
    using spare_removed by (auto split: prod.splits sum.splits simp del: queueScaleDown.simps One_nat_def)
  from scale_down_unused_only [OF q] have "pool_devices db' = [farm_member]" by (elim conjE) (simp only: farm_with_sel)
  with q l show ?thesis by (intro exI [of _ db'] conjI)
qed

section \<open>Three weaknesses\<close>

text \<open>
  Two creations for one host and one image that succeed within five minutes make the observation of
  images fail, because one statement may not write a row twice.
\<close>

definition succeeded_create :: "string \<Rightarrow> timestamp \<Rightarrow> command_row" where
  "succeeded_create ident t =
     \<lparr>cmd_id = ident, cmd_host_id = ''host_0123456789a'', cmd_type = ''create'',
      cmd_payload = [(''device_id'', JStr ''dev_0123456789ab'')], cmd_status = CommandSucceeded,
      cmd_lease_token = None, cmd_lease_expires_at = None, cmd_attempts = 1, cmd_max_attempts = 3, cmd_key = ident,
      cmd_result = None, cmd_error_code = None, cmd_created_at = 900 * second, cmd_updated_at = t, cmd_completed_at = Some t\<rparr>"

lemma two_creations_fail_observation:
  "recordHostImageOutcomes ((farm_with [])\<lparr>
     devices := [farm_device, farm_device\<lparr>dev_id := ''dev_1123456789ab''\<rparr>],
     commands := [succeeded_create ''cmd_0123456789ab'' (990 * second),
       (succeeded_create ''cmd_1123456789ab'' (995 * second))\<lparr>cmd_payload := [(''device_id'', JStr ''dev_1123456789ab'')]\<rparr>]\<rparr>)
     = Inl (SqlError ''21000'')"
  by code_simp

text \<open>
  A creation that is given up lowers the target of its pool, but not the ready minimum, which may not
  be above the target.  The settlement of the removal then fails on every round.
\<close>

lemma give_up_violates_pool:
  "give_up_creation ''dev_0123456789ab'' (1000 * second)
     ((farm_with [])\<lparr>pools := [farm_pool\<lparr>pool_min_ready := 1\<rparr>],
        commands := [(succeeded_create ''cmd_0123456789ab'' (990 * second))\<lparr>
          cmd_payload := [(''device_id'', JStr ''dev_0123456789ab''), (''pool_id'', JStr ''pool_0123456789a''),
            (''provisioning_key'', JStr ''k'')]\<rparr>]\<rparr>)
     = Inl (SqlError ''23514'')"
  by code_simp

text \<open>
  The key of a removal of a given device for a given target does not change, so that a second attempt
  after a failed one violates the uniqueness of the keys.
\<close>

lemma second_removal_fails:
  "case queueScaleDown sample_warm_env sample_ids [] ''pool_0123456789a'' ''android'' 0 0 1 (farm_with []) of
     Inl e \<Rightarrow> False
   | Inr (n, db) \<Rightarrow>
       queueScaleDown sample_warm_env (\<lambda>n. Inr ''cmd_2223456789ab'') [] ''pool_0123456789a'' ''android'' 0 0 1
         (db\<lparr>commands := map (\<lambda>c. c\<lparr>cmd_status := CommandFailed\<rparr>) (commands db)\<rparr>) = Inl (SqlError ''23505'')"
  by code_simp

end
