(* ===== verification/Spec2Isabelle.thy ===== *)
theory Spec2Isabelle
  imports Sweeps Scheduling Command_Repository Audit_Actor Sensitive Paging Capacity
    Heartbeat_Effects Command_Effects Warm_Pool_Effects
begin

text \<open>
  Verification of the control plane of the Alcor device farm (the Go code under \<open>internal/\<close>).

  The program.  Clients ask for a lease on a phone (a reservation).  The reservation service stores the
  request, the scheduler gives it a ready device, the STF server claims that device, and a second
  transaction activates the lease and opens a session.  The reaper expires leases, abandons requests
  and claims that went stale, and disconnects remote sessions.  Host agents fetch commands from a queue
  under leases.  All state is in PostgreSQL; every operation is one or a few transactions.

  Conventions.  A table is a list of records, in the order of insertion, and the database a record of
  tables with the clock of the transaction (Farm_Tables).  A statement or a transaction is a function
  \<open>farm_db \<Rightarrow> error + ('a \<times> farm_db)\<close>; \<open>run_tx\<close> is \<open>WithinTx\<close>, which keeps the old database on
  an error.  A SQL query is its filter, its order and its limit; a predicate that a cast can make fail
  is a \<open>bool option\<close>.  \<open>FOR UPDATE SKIP LOCKED\<close> takes the rows that other transactions hold as an
  argument.  CHECK constraints and unique indexes are conditions of the statement that writes.  Time is
  an \<open>int\<close> of nanoseconds since the epoch and 0 is Go's zero time.  Go's 64-bit arithmetic wraps
  where a caller controls the operands (Paging).  The STF server, the iOS session controller and the
  generator of identifiers are arguments, held in the \<open>_env\<close> records.

  Theories.
    \<^item> Farm_Prelude: results and transactions, finding and updating rows, strings, durations, and the
      locale \<open>step_invariant\<close> (an invariant of a step relation holds along a run).
    \<^item> Domain_Machine (\<open>domain/\<close>): the generic state machine with its event log, the transition
      tables of all resources, and the device with its health.  C1 to C3.
    \<^item> Farm_Json, Farm_Tables, Farm_Samples: JSON values as jsonb stores and compares them, the rows
      and their constraints, and a small concrete farm for the witnesses.
    \<^item> Sensitive (\<open>sensitive/\<close>), Audit_Actor (\<open>audit/actor.go\<close>), Paging (\<open>paging/\<close>,
      \<open>api/pagination.go\<close>, C4 and C5).
    \<^item> Command_Repository (\<open>repository/command.go\<close>): the command queue, with the locale
      \<open>fenced_lease\<close> for a lease that an epoch fences.  C6 to C9.
    \<^item> Reservation_Repository (\<open>repository/reservation.go\<close>): every statement on reservations,
      sessions, devices, pools, operations and audit rows.
    \<^item> Pool_Selector (\<open>reservation/pool_selector.go\<close>): which pools can serve a request, and the
      weighted rotation over them.  C11 and C12.
    \<^item> Scheduler (\<open>scheduler/scheduler.go\<close>), Reservation_Service (\<open>reservation/service.go\<close>),
      Reaper (\<open>reaper/reaper.go\<close>, with the locale \<open>drain_loop\<close> for its loops).
    \<^item> Farm_Invariant, Repository_Effects, Service_Effects: the invariant \<open>farm_inv\<close> of the tables,
      the exact effect of every statement, and its preservation by every transaction.
    \<^item> Farm_System: the step relation \<open>farm_step\<close> of the interleaved transactions of scheduler, service
      and reaper, and what holds in every reachable state.  C13 and C14.
    \<^item> Progress (C15 to C18), Sweeps (C19 and C20), Scheduling (C21 to C23): the operations succeed
      when they should, the reaper's loops end and collect, the scheduler keeps order and limits.

    \<^item> Go_Float: \<open>float64\<close> with its rounding, its conversions and its decimal text.  Runtime_Profile
      (\<open>runtimeprofile/\<close>, C24) and Capacity (\<open>capacity/\<close>, C26 and C27).
    \<^item> Device_Statements: writes of devices, hosts and pools under their constraints, health events, audit
      rows, and the calls on a device aggregate.  Host_Heartbeat (\<open>hostcommand/service.go\<close>, the heartbeat of an
      agent).  Hold_Contract: the locale \<open>respects_holds\<close>, what another component must keep so that the
      leases stay right.  Heartbeat_Effects interprets it on the heartbeat.  C28 to C31.
    \<^item> Go_Decode (typed fields of decoded JSON), Providers (\<open>providers/\<close> with the mock provider, C32),
      Image_Catalog (\<open>imagecatalog/\<close>: what the completion of a catalogue command does).
    \<^item> Tx_Relations: the locale \<open>tx_relation\<close>, which follows a reflexive and transitive relation
      through the binds, branches and loops of a transaction.  Host_Commands (the rest of
      \<open>hostcommand/service.go\<close>: commands of the agents and what their end does to a device) and
      Command_Effects.  C33 to C35.
    \<^item> Reconciler (\<open>reconcile/service.go\<close>: the round over hosts and devices, the stored health events, the
      quarantine after repeated failures, the automatic restarts) and Reconciler_Effects, with the locale
      \<open>kept_by_round\<close> for what every step of a round and every interleaved transaction keeps.  C36 to
      C38, and two weaknesses as closed facts.
    \<^item> Management_Devices (\<open>management/service.go\<close> and \<open>management/postgres/store.go\<close>: the operations of
      an operator on a device, with the transaction that queues them and the capacity check) and
      Management_Effects.  C39 and C40, and two weaknesses as closed facts.
    \<^item> Warm_Pool_Devices, Warm_Pool (\<open>warmpool/controller.go\<close>: recycling, the validation of images, the
      choice of a host, the creation and removal of devices for demand and baseline, and the round
      \<open>RunOnce\<close>) and Warm_Pool_Effects.  C10 and C25, and three weaknesses as closed facts.

  Bounds and fuel.  The loops of the reaper take fuel, and None stands for a loop that has not
  ended; fuel above the number of reservations and of sessions is enough when nothing interferes, since
  each successful call removes a row from the loop's selection (C19).

  Assumptions on the rest of the system.  Transactions are serializable as \<open>farm_step\<close> interleaves
  them; the row locks the code takes are what makes that so.  Other components (agents, warm pool,
  reconciler, management) may change everything except what \<open>other_components\<close> lists: reservations,
  sessions and the lifecycle of a device that a reservation holds, apart from its quarantine.  For the
  heartbeat of the agents this is proved (C28), for the end of their commands under the condition
  \<open>spares_leases\<close> (C33), for the reconciler (C36), for the device operations of the management,
  apart from the restart and the release from quarantine of a device that is held (C39), and for the
  warm pool, whose settlement of a removal needs that no open reservation holds the device (C10).

  Not modelled.  HTTP decoding and routing, logging, metrics, configuration and wiring (I/O and glue);
  the clients of STF and Appium and the Docker and USB providers, which drive external services; the
  agent process and the preparation of images on a device host, which run external tools; the jobs
  of the catalogue and the scaler of the iOS pools (parameters of a round of the warm pool) and the
  management of images, hosts and pools, whose writes are covered by the assumption above; console sign-on and the processes around Xcode, which do not touch the tables of the leases.
\<close>

end
